(* ===== verification/Prelude.thy ===== *)
theory Prelude
  imports Main "HOL-Library.State_Monad" "HOL-Library.Word" "HOL-Library.AList"
    "HOL-Library.Char_ord" "HOL-Library.List_Lexorder" "HOL-Library.Sublist"
begin

text \<open>
  Shared vocabulary of the development: the parts of the Go language and of its standard
  library the sources use (strings as byte lists, \<^verbatim>\<open>strings\<close>, \<^verbatim>\<open>strconv\<close>, \<^verbatim>\<open>fmt\<close>,
  \<^verbatim>\<open>net.SplitHostPort\<close>, \<^verbatim>\<open>sort.Strings\<close>, maps), the error values, and the state monad in
  which the reconcilers are written, with a small weakest-precondition calculus for it.

  A Go string is a byte list, so it is a \<^typ>\<open>string\<close> (\<^typ>\<open>char\<close> is a byte). The case
  conversion and the quoting below agree with Go on ASCII text, which is what the API server
  admits for object names, kinds, labels and condition reasons.
\<close>

named_theorems wp \<open>weakest preconditions of the monadic operations\<close>
named_theorems gostr \<open>evaluation of the string operations\<close>


section \<open>Strings\<close>

definition lower_char :: "char \<Rightarrow> char" where
  "lower_char c =
     (if 65 \<le> (of_char c :: nat) \<and> (of_char c :: nat) \<le> 90
      then char_of ((of_char c :: nat) + 32) else c)"

text \<open>\<^verbatim>\<open>strings.ToLower\<close>.\<close>

definition ToLower :: "string \<Rightarrow> string" where
  "ToLower s = map lower_char s"

text \<open>\<^verbatim>\<open>strings.HasPrefix\<close>, \<^verbatim>\<open>strings.TrimPrefix\<close>, \<^verbatim>\<open>strings.Contains\<close>, \<^verbatim>\<open>strings.Join\<close>.\<close>

definition HasPrefix :: "string \<Rightarrow> string \<Rightarrow> bool" where
  "HasPrefix s p \<longleftrightarrow> take (length p) s = p"

definition TrimPrefix :: "string \<Rightarrow> string \<Rightarrow> string" where
  "TrimPrefix s p = (if HasPrefix s p then drop (length p) s else s)"

fun Contains :: "string \<Rightarrow> string \<Rightarrow> bool" where
  "Contains [] p \<longleftrightarrow> p = []"
| "Contains (c # s) p \<longleftrightarrow> HasPrefix (c # s) p \<or> Contains s p"

fun Join :: "string list \<Rightarrow> string \<Rightarrow> string" where
  "Join [] sep = []"
| "Join [x] sep = x"
| "Join (x # y # ys) sep = x @ sep @ Join (y # ys) sep"

text \<open>
  \<^verbatim>\<open>strings.Index\<close> and \<^verbatim>\<open>LastIndex\<close> for a one-byte needle; Go's -1 is \<^const>\<open>None\<close>.
\<close>

fun IndexByte :: "string \<Rightarrow> char \<Rightarrow> nat option" where
  "IndexByte [] c = None"
| "IndexByte (x # xs) c = (if x = c then Some 0 else map_option Suc (IndexByte xs c))"

definition LastIndexByte :: "string \<Rightarrow> char \<Rightarrow> nat option" where
  "LastIndexByte s c =
     (case IndexByte (rev s) c of None \<Rightarrow> None | Some i \<Rightarrow> Some (length s - Suc i))"

text \<open>Decimal rendering (\<^verbatim>\<open>%d\<close>).\<close>

definition digit :: "nat \<Rightarrow> char" where
  "digit n = char_of (48 + n)"

fun dec_nat :: "nat \<Rightarrow> string" where
  "dec_nat n = (if n < 10 then [digit n] else dec_nat (n div 10) @ [digit (n mod 10)])"

declare dec_nat.simps [simp del]

definition dec_int :: "int \<Rightarrow> string" where
  "dec_int i = (if i < 0 then CHR ''-'' # dec_nat (nat (- i)) else dec_nat (nat i))"

text \<open>Quoting (\<^verbatim>\<open>%q\<close>, \<^verbatim>\<open>strconv.Quote\<close>).\<close>

definition hex_digit :: "nat \<Rightarrow> char" where
  "hex_digit n = char_of (if n < 10 then 48 + n else 87 + n)"

definition quote_char :: "char \<Rightarrow> string" where
  "quote_char c =
     (let n = (of_char c :: nat) in
      if n = 34 \<or> n = 92 then [CHR 0x5C, c]
      else if 32 \<le> n \<and> n < 127 then [c]
      else if n = 7 then [CHR 0x5C, CHR ''a'']
      else if n = 8 then [CHR 0x5C, CHR ''b'']
      else if n = 12 then [CHR 0x5C, CHR ''f'']
      else if n = 10 then [CHR 0x5C, CHR ''n'']
      else if n = 13 then [CHR 0x5C, CHR ''r'']
      else if n = 9 then [CHR 0x5C, CHR ''t'']
      else if n = 11 then [CHR 0x5C, CHR ''v'']
      else [CHR 0x5C, CHR ''x'', hex_digit (n div 16), hex_digit (n mod 16)])"

definition Quote :: "string \<Rightarrow> string" where
  "Quote s = [CHR 0x22] @ concat (map quote_char s) @ [CHR 0x22]"

abbreviation newline :: string where
  "newline \<equiv> [CHR 0x0A]"

text \<open>
  \<^verbatim>\<open>net.SplitHostPort\<close>: the host, or the error. The port starts after the last colon; an
  IPv6 literal is in brackets; a second colon outside brackets is an error.
\<close>

definition SplitHostPort :: "string \<Rightarrow> string + (string \<times> string)" where
  "SplitHostPort hp =
     (case LastIndexByte hp (CHR '':'') of
        None \<Rightarrow> Inl ''missing port in address''
      | Some i \<Rightarrow>
          (let checked = (\<lambda>host j k.
             if IndexByte (drop j hp) (CHR ''['') \<noteq> None then Inl ''unexpected '[' in address''
             else if IndexByte (drop k hp) (CHR '']'') \<noteq> None then Inl ''unexpected ']' in address''
             else Inr (host, drop (Suc i) hp))
           in if hp ! 0 = CHR ''['' then
                (case IndexByte hp (CHR '']'') of
                   None \<Rightarrow> Inl ''missing ']' in address''
                 | Some e \<Rightarrow>
                     if Suc e = length hp then Inl ''missing port in address''
                     else if Suc e = i then checked (drop 1 (take e hp)) 1 (Suc e)
                     else if hp ! Suc e = CHR '':'' then Inl ''too many colons in address''
                     else Inl ''missing port in address'')
              else if IndexByte (take i hp) (CHR '':'') \<noteq> None then Inl ''too many colons in address''
              else checked (take i hp) 0 0))"

lemma lower_char_upper:
  "lower_char (CHR ''A'') = CHR ''a''" "lower_char (CHR ''B'') = CHR ''b''" "lower_char (CHR ''C'') = CHR ''c''"
  "lower_char (CHR ''D'') = CHR ''d''" "lower_char (CHR ''E'') = CHR ''e''" "lower_char (CHR ''F'') = CHR ''f''"
  "lower_char (CHR ''G'') = CHR ''g''" "lower_char (CHR ''H'') = CHR ''h''" "lower_char (CHR ''I'') = CHR ''i''"
  "lower_char (CHR ''J'') = CHR ''j''" "lower_char (CHR ''K'') = CHR ''k''" "lower_char (CHR ''L'') = CHR ''l''"
  "lower_char (CHR ''M'') = CHR ''m''" "lower_char (CHR ''N'') = CHR ''n''" "lower_char (CHR ''O'') = CHR ''o''"
  "lower_char (CHR ''P'') = CHR ''p''" "lower_char (CHR ''Q'') = CHR ''q''" "lower_char (CHR ''R'') = CHR ''r''"
  "lower_char (CHR ''S'') = CHR ''s''" "lower_char (CHR ''T'') = CHR ''t''" "lower_char (CHR ''U'') = CHR ''u''"
  "lower_char (CHR ''V'') = CHR ''v''" "lower_char (CHR ''W'') = CHR ''w''" "lower_char (CHR ''X'') = CHR ''x''"
  "lower_char (CHR ''Y'') = CHR ''y''" "lower_char (CHR ''Z'') = CHR ''z''"
  by (rule of_char_eq_iff [where 'a = nat, THEN iffD1], simp add: lower_char_def)+

lemma lower_char_lower:
  "lower_char (CHR ''a'') = CHR ''a''" "lower_char (CHR ''b'') = CHR ''b''" "lower_char (CHR ''c'') = CHR ''c''" "lower_char (CHR ''d'') = CHR ''d''" "lower_char (CHR ''e'') = CHR ''e''" "lower_char (CHR ''f'') = CHR ''f''" "lower_char (CHR ''g'') = CHR ''g''"
  "lower_char (CHR ''h'') = CHR ''h''" "lower_char (CHR ''i'') = CHR ''i''" "lower_char (CHR ''j'') = CHR ''j''" "lower_char (CHR ''k'') = CHR ''k''" "lower_char (CHR ''l'') = CHR ''l''" "lower_char (CHR ''m'') = CHR ''m''" "lower_char (CHR ''n'') = CHR ''n''"
  "lower_char (CHR ''o'') = CHR ''o''" "lower_char (CHR ''p'') = CHR ''p''" "lower_char (CHR ''q'') = CHR ''q''" "lower_char (CHR ''r'') = CHR ''r''" "lower_char (CHR ''s'') = CHR ''s''" "lower_char (CHR ''t'') = CHR ''t''" "lower_char (CHR ''u'') = CHR ''u''"
  "lower_char (CHR ''v'') = CHR ''v''" "lower_char (CHR ''w'') = CHR ''w''" "lower_char (CHR ''x'') = CHR ''x''" "lower_char (CHR ''y'') = CHR ''y''" "lower_char (CHR ''z'') = CHR ''z''"
  by (simp_all add: lower_char_def)

lemmas lower_letters = lower_char_upper lower_char_lower

lemma digit_eval [simp, gostr]:
  "digit 0 = CHR ''0''" "digit 1 = CHR ''1''" "digit (Suc 0) = CHR ''1''" "digit 2 = CHR ''2''"
  "digit 3 = CHR ''3''" "digit 4 = CHR ''4''" "digit 5 = CHR ''5''" "digit 6 = CHR ''6''"
  "digit 7 = CHR ''7''" "digit 8 = CHR ''8''" "digit 9 = CHR ''9''"
  by code_simp+

lemma lower_char_idem [simp]: "lower_char (lower_char c) = lower_char c"
  by (auto simp: lower_char_def)

lemma ToLower_idem [simp]: "ToLower (ToLower s) = ToLower s"
  by (simp add: ToLower_def comp_def)

lemma ToLower_append [simp]: "ToLower (s @ t) = ToLower s @ ToLower t"
  by (simp add: ToLower_def)

lemma length_ToLower [simp]: "length (ToLower s) = length s"
  by (simp add: ToLower_def)

lemma lower_char_fixed: "lower_char c = c \<longleftrightarrow> \<not> (65 \<le> (of_char c :: nat) \<and> (of_char c :: nat) \<le> 90)"
proof -
  have "char_of ((of_char c :: nat) + 32) \<noteq> c" if "(of_char c :: nat) \<le> 90"
  proof
    assume "char_of ((of_char c :: nat) + 32) = c"
    then have "(of_char (char_of ((of_char c :: nat) + 32) :: char) :: nat) = of_char c" by simp
    with that show False by simp
  qed
  then show ?thesis by (auto simp: lower_char_def)
qed

lemma HasPrefix_append [simp]: "HasPrefix (p @ s) p"
  by (simp add: HasPrefix_def)

lemma HasPrefix_iff: "HasPrefix s p \<longleftrightarrow> (\<exists>r. s = p @ r)"
  by (metis HasPrefix_append HasPrefix_def append_take_drop_id)

lemma TrimPrefix_append [simp]: "TrimPrefix (p @ s) p = s"
  by (simp add: TrimPrefix_def)

lemma Contains_iff: "Contains s p \<longleftrightarrow> (\<exists>a b. s = a @ p @ b)"
proof (induction s)
  case Nil
  then show ?case by auto
next
  case (Cons c s)
  have "(\<exists>a b. c # s = a @ p @ b) \<longleftrightarrow> (\<exists>b. c # s = p @ b) \<or> (\<exists>a b. s = a @ p @ b)"
    (is "?L \<longleftrightarrow> ?R")
  proof
    assume ?L
    then obtain a b where "c # s = a @ p @ b" by blast
    then show ?R by (cases a) auto
  next
    assume ?R
    then show ?L by (metis append.left_neutral append_Cons)
  qed
  with Cons show ?case by (simp add: HasPrefix_iff)
qed

lemma IndexByte_None [simp]: "IndexByte s c = None \<longleftrightarrow> c \<notin> set s"
  by (induction s) auto

lemma IndexByte_append:
  "c \<notin> set s \<Longrightarrow> IndexByte (s @ c # t) c = Some (length s)"
  by (induction s) auto

lemma IndexByte_Some: "IndexByte s c = Some i \<Longrightarrow> i < length s \<and> s ! i = c \<and> c \<notin> set (take i s)"
proof (induction s arbitrary: i)
  case (Cons x xs)
  then show ?case by (cases i) (auto split: if_splits)
qed simp

lemma LastIndexByte_append:
  "c \<notin> set t \<Longrightarrow> LastIndexByte (s @ c # t) c = Some (length s)"
  using IndexByte_append [of c "rev t" "rev s"] by (simp add: LastIndexByte_def)

lemma LastIndexByte_None [simp]: "LastIndexByte s c = None \<longleftrightarrow> c \<notin> set s"
proof -
  have "LastIndexByte s c = None \<longleftrightarrow> IndexByte (rev s) c = None"
    by (simp only: LastIndexByte_def split: option.split) simp
  then show ?thesis by simp
qed

text \<open>Decimal rendering is injective and uses digits and the minus sign only.\<close>

definition dec_value :: "string \<Rightarrow> nat" where
  "dec_value s = foldl (\<lambda>a c. 10 * a + ((of_char c :: nat) - 48)) 0 s"

lemma of_char_digit [simp]: "n < 10 \<Longrightarrow> (of_char (digit n) :: nat) = 48 + n"
  by (simp add: digit_def)

lemma dec_value_dec_nat: "dec_value (dec_nat n) = n"
proof (induction n rule: dec_nat.induct)
  case (1 n)
  then show ?case
    by (subst dec_nat.simps) (auto simp: dec_value_def)
qed

lemma dec_nat_chars: "c \<in> set (dec_nat n) \<Longrightarrow> 48 \<le> (of_char c :: nat) \<and> (of_char c :: nat) \<le> 57"
proof (induction n rule: dec_nat.induct)
  case (1 n)
  have "48 + n mod 10 \<le> 57" by simp
  with 1 show ?case
    by (subst (asm) (2) dec_nat.simps) (auto split: if_splits)
qed

lemma dec_int_chars:
  assumes "c \<in> set (dec_int i)"
  shows "c = CHR ''-'' \<or> 48 \<le> (of_char c :: nat) \<and> (of_char c :: nat) \<le> 57"
  using assms dec_nat_chars by (auto simp: dec_int_def split: if_splits)

lemma dec_int_inj: "dec_int i = dec_int j \<longleftrightarrow> i = j"
proof
  assume eq: "dec_int i = dec_int j"
  have minus: "CHR ''-'' \<notin> set (dec_nat n)" for n
    using dec_nat_chars [of "CHR ''-''" n] by auto
  have nat: "dec_nat m = dec_nat n \<Longrightarrow> m = n" for m n
    by (metis dec_value_dec_nat)
  have "i < 0 \<longleftrightarrow> j < 0"
    using eq minus by (metis dec_int_def list.set_intros(1))
  with eq show "i = j"
    by (auto simp: dec_int_def split: if_splits dest!: nat)
qed simp

text \<open>A key followed by a separator that does not occur in it determines both parts.\<close>

lemma split_at_inj:
  fixes s :: string
  assumes "s @ c # t = s' @ c # t'" and "c \<notin> set s" and "c \<notin> set s'"
  shows "s = s' \<and> t = t'"
proof -
  from assms(2,3) have "length s = length s'"
    using IndexByte_append [of c s t] IndexByte_append [of c s' t'] assms(1) by simp
  with assms(1) show ?thesis by simp
qed

lemma split_at_last_inj:
  fixes s :: string
  assumes "s @ c # t = s' @ c # t'" and "c \<notin> set t" and "c \<notin> set t'"
  shows "s = s' \<and> t = t'"
proof -
  have "rev t @ c # rev s = rev t' @ c # rev s'"
    using arg_cong [OF assms(1), of rev] by simp
  from split_at_inj [OF this] assms(2,3) show ?thesis by simp
qed

text \<open>Text made of lines determines its lines.\<close>

lemma concat_lines_inj:
  fixes xs :: "string list"
  assumes "concat (map (\<lambda>l. l @ [c]) xs) = concat (map (\<lambda>l. l @ [c]) ys)"
    and "\<forall>l\<in>set xs. c \<notin> set l" and "\<forall>l\<in>set ys. c \<notin> set l"
  shows "xs = ys"
  using assms
proof (induction xs arbitrary: ys)
  case Nil
  then show ?case by (cases ys) auto
next
  case (Cons x xs)
  then obtain y ys' where ys: "ys = y # ys'" by (cases ys) auto
  with Cons.prems have "x @ c # concat (map (\<lambda>l. l @ [c]) xs) = y @ c # concat (map (\<lambda>l. l @ [c]) ys')"
    by simp
  from split_at_inj [OF this] Cons.prems ys Cons.IH [of ys'] show ?case by auto
qed


section \<open>Maps and sorting\<close>

text \<open>
  A Go map is an association list with distinct keys; only its lookup function is observable
  to the sources, which never depend on the iteration order (\<^verbatim>\<open>Render\<close> sorts first).
\<close>

type_synonym ('k, 'v) gomap = "('k \<times> 'v) list"

text \<open>Reading a \<^verbatim>\<open>map[string]string\<close> gives the empty string for a missing key.\<close>

definition mapget :: "(string, string) gomap \<Rightarrow> string \<Rightarrow> string" where
  "mapget m k = (case map_of m k of None \<Rightarrow> [] | Some v \<Rightarrow> v)"

lemma map_of_alist_update [simp]: "map_of (AList.update k v m) = (map_of m)(k \<mapsto> v)"
  by (rule update_conv')

lemma map_of_alist_delete [simp]: "map_of (AList.delete k m) = (map_of m)(k := None)"
  by (rule delete_conv')

lemma distinct_alist_delete [simp]:
  "distinct (map fst m) \<Longrightarrow> distinct (map fst (AList.delete k m))"
  by (simp add: distinct_delete)

text \<open>\<^verbatim>\<open>sort.Strings\<close> orders bytewise, which is the order of \<^typ>\<open>string\<close> here.\<close>

lemma sort_cong_set:
  assumes "distinct (xs :: 'a::linorder list)" and "distinct ys" and "set xs = set ys"
  shows "sort xs = sort ys"
  using assms by (metis sorted_list_of_set_sort_remdups distinct_remdups_id)


section \<open>Errors, results and the state monad\<close>

text \<open>
  The errors of the API client, as the sources distinguish them (\<^verbatim>\<open>apierrors.IsNotFound\<close>,
  \<^verbatim>\<open>apierrors.IsAlreadyExists\<close>, anything else), and the errors the code builds from them
  with \<^verbatim>\<open>fmt.Errorf("...: %w", err)\<close>.
\<close>

datatype api_error = NotFound | AlreadyExists | OtherError string

datatype goerror = ApiError api_error | Errorf string goerror | ErrorString string

fun IsNotFound :: "api_error \<Rightarrow> bool" where
  "IsNotFound NotFound = True"
| "IsNotFound _ = False"

fun IsAlreadyExists :: "api_error \<Rightarrow> bool" where
  "IsAlreadyExists AlreadyExists = True"
| "IsAlreadyExists _ = False"

text \<open>\<^verbatim>\<open>ctrl.Result\<close> as the sources use it: only the requeue flag is ever set.\<close>

record Result =
  Requeue :: bool

abbreviation done_result :: Result where
  "done_result \<equiv> \<lparr>Requeue = False\<rparr>"

abbreviation requeue_result :: Result where
  "requeue_result \<equiv> \<lparr>Requeue = True\<rparr>"

abbreviation ret :: "'a \<Rightarrow> ('w, 'a) state" where
  "ret \<equiv> State_Monad.return"

text \<open>
  \<^verbatim>\<open>x, err := m(); if err != nil { h(err) }; k(x)\<close>: run a fallible action, handle its error
  or go on with its value.
\<close>

definition try_state ::
  "('w, 'e + 'a) state \<Rightarrow> ('e \<Rightarrow> ('w, 'b) state) \<Rightarrow> ('a \<Rightarrow> ('w, 'b) state) \<Rightarrow> ('w, 'b) state"
  where "try_state m h k = do { r \<leftarrow> m; case r of Inl e \<Rightarrow> h e | Inr x \<Rightarrow> k x }"

definition wp_of :: "('w, 'a) state \<Rightarrow> ('a \<Rightarrow> 'w \<Rightarrow> bool) \<Rightarrow> 'w \<Rightarrow> bool" where
  "wp_of m Q w = (case run_state m w of (a, w') \<Rightarrow> Q a w')"

lemma wp_return [wp]: "wp_of (ret a) Q w = Q a w"
  by (simp add: wp_of_def)

lemma wp_return_fun [wp]: "wp_of (ret a) Q = Q a"
  by (simp add: fun_eq_iff wp_return)

lemma wp_State [wp]: "wp_of (State f) Q w = (case f w of (a, w') \<Rightarrow> Q a w')"
  by (simp add: wp_of_def)

lemma wp_bind [wp]: "wp_of (State_Monad.bind m f) Q w = wp_of m (\<lambda>a. wp_of (f a) Q) w"
  by (simp add: wp_of_def split: prod.splits)

lemma wp_try [wp]:
  "wp_of (try_state m h k) Q w =
     wp_of m (\<lambda>r w'. case r of Inl e \<Rightarrow> wp_of (h e) Q w' | Inr x \<Rightarrow> wp_of (k x) Q w') w"
  by (auto simp: try_state_def wp_of_def split: prod.splits sum.splits)

lemma wp_if [wp]: "wp_of (if b then m else n) Q w = (if b then wp_of m Q w else wp_of n Q w)"
  by simp

lemma wp_mono:
  assumes "wp_of m P w" and "\<And>a w'. run_state m w = (a, w') \<Longrightarrow> P a w' \<Longrightarrow> Q a w'"
  shows "wp_of m Q w"
  using assms by (auto simp: wp_of_def split: prod.splits)

lemma wp_mono_sum:
  assumes "wp_of m (\<lambda>r w'. case r of Inl e \<Rightarrow> P e w' | Inr x \<Rightarrow> R x w') w"
    and "\<And>e w'. P e w' \<Longrightarrow> Q (Inl e) w'" and "\<And>x w'. R x w' \<Longrightarrow> Q (Inr x) w'"
  shows "wp_of m Q w"
  using assms by (auto simp: wp_of_def split: prod.splits sum.splits)

lemma wp_runD: "wp_of m Q w \<Longrightarrow> run_state m w = (a, w') \<Longrightarrow> Q a w'"
  by (simp add: wp_of_def)

lemma wp_runI: "(\<And>a w'. run_state m w = (a, w') \<Longrightarrow> Q a w') \<Longrightarrow> wp_of m Q w"
  by (simp add: wp_of_def split: prod.splits)

lemma run_try [simp]:
  "run_state (try_state m h k) w =
     (case run_state m w of (Inl e, w') \<Rightarrow> run_state (h e) w' | (Inr x, w') \<Rightarrow> run_state (k x) w')"
  by (auto simp: try_state_def split: prod.splits sum.splits)

end
