(* ===== verification/GoMemory.thy ===== *)
theory GoMemory
  imports Prelude "HOL-Library.AList" "HOL-Library.Monad_Syntax" "HOL-Library.Multiset"
begin

text \<open>Memory of a Go program as the deep copies of src/api/v1alpha1/zz_generated.deepcopy.go use it. A value is
  basic, a pointer, a slice header, a map reference or a struct whose fields hold values; what pointers,
  slices and maps refer to is a cell of the memory, and allocation appends a cell, so the addresses below
  the length of a memory are the old ones. The type of a value is given by a descriptor; \<open>typed\<close> says that
  a value has its type and that everything reachable from it lies in a set of addresses, \<open>content\<close> unfolds
  a value into the tree a reader sees. The combinators are the statement forms the generator writes:
  allocating and filling a pointer, a slice or a map, and a struct whose fields are overwritten one by
  one after the assignment \<open>*out = *in\<close>. A copier is a function that takes the value read at in and gives
  the value written at out; \<open>copies\<close> is the contract each must meet.\<close>


section \<open>Values and memory\<close>

datatype basic = BString string | BInt int | BBool bool

datatype kind = KString | KInt | KBool

datatype val =
    Basic basic
  | Ptr "nat option"
  | Slice "(nat \<times> nat \<times> nat) option"
  | MapRef "nat option"
  | Struct "(string \<times> val) list"

datatype cell = CVal val | CArr "val list" | CMap "(string \<times> val) list"

type_synonym memory = "cell list"

datatype ty = TBasic kind | TPtr ty | TSlice ty | TMap ty | TStruct "(string \<times> ty) list"

datatype tree =
    Leaf basic
  | NoValue
  | Pointee tree
  | Elements "tree list"
  | Entries "string \<Rightarrow> tree option"
  | Fields "(string \<times> tree) list"

fun kind_of :: "basic \<Rightarrow> kind" where
  "kind_of (BString _) = KString"
| "kind_of (BInt _) = KInt"
| "kind_of (BBool _) = KBool"

fun zero_basic :: "kind \<Rightarrow> basic" where
  "zero_basic KString = BString []"
| "zero_basic KInt = BInt 0"
| "zero_basic KBool = BBool False"

fun zero_val :: "ty \<Rightarrow> val" where
  "zero_val (TBasic k) = Basic (zero_basic k)"
| "zero_val (TPtr t) = Ptr None"
| "zero_val (TSlice t) = Slice None"
| "zero_val (TMap t) = MapRef None"
| "zero_val (TStruct fs) = Struct (map (\<lambda>(n, t). (n, zero_val t)) fs)"

fun load_val :: "nat \<Rightarrow> memory \<Rightarrow> val option" where
  "load_val a h = (if a < length h then case h ! a of CVal w \<Rightarrow> Some w | _ \<Rightarrow> None else None)"

fun load_arr :: "nat \<Rightarrow> memory \<Rightarrow> val list option" where
  "load_arr a h = (if a < length h then case h ! a of CArr xs \<Rightarrow> Some xs | _ \<Rightarrow> None else None)"

fun load_map :: "nat \<Rightarrow> memory \<Rightarrow> (string \<times> val) list option" where
  "load_map a h = (if a < length h then case h ! a of CMap kvs \<Rightarrow> Some kvs | _ \<Rightarrow> None else None)"


section \<open>Typed values and their content\<close>

fun typed :: "ty \<Rightarrow> nat set \<Rightarrow> memory \<Rightarrow> val \<Rightarrow> bool" where
  "typed (TBasic k) A h v = (case v of Basic b \<Rightarrow> kind_of b = k | _ \<Rightarrow> False)"
| "typed (TPtr t) A h v = (case v of
     Ptr None \<Rightarrow> True
   | Ptr (Some a) \<Rightarrow> a \<in> A \<and> (case load_val a h of Some w \<Rightarrow> typed t A h w | None \<Rightarrow> False)
   | _ \<Rightarrow> False)"
| "typed (TSlice t) A h v = (case v of
     Slice None \<Rightarrow> True
   | Slice (Some (a, off, n)) \<Rightarrow> a \<in> A \<and> (case load_arr a h of
       Some xs \<Rightarrow> off + n \<le> length xs \<and> list_all (typed t A h) (take n (drop off xs)) | None \<Rightarrow> False)
   | _ \<Rightarrow> False)"
| "typed (TMap t) A h v = (case v of
     MapRef None \<Rightarrow> True
   | MapRef (Some a) \<Rightarrow> a \<in> A \<and> (case load_map a h of
       Some kvs \<Rightarrow> distinct (map fst kvs) \<and> list_all (typed t A h) (map snd kvs) | None \<Rightarrow> False)
   | _ \<Rightarrow> False)"
| "typed (TStruct fs) A h v = (case v of
     Struct vs \<Rightarrow> map fst vs = map fst fs \<and> list_all (\<lambda>(n, t). typed t A h (the (map_of vs n))) fs
   | _ \<Rightarrow> False)"

fun content :: "ty \<Rightarrow> memory \<Rightarrow> val \<Rightarrow> tree" where
  "content (TBasic k) h v = (case v of Basic b \<Rightarrow> Leaf b | _ \<Rightarrow> NoValue)"
| "content (TPtr t) h v = (case v of
     Ptr (Some a) \<Rightarrow> (case load_val a h of Some w \<Rightarrow> Pointee (content t h w) | None \<Rightarrow> NoValue) | _ \<Rightarrow> NoValue)"
| "content (TSlice t) h v = (case v of
     Slice (Some (a, off, n)) \<Rightarrow> (case load_arr a h of
       Some xs \<Rightarrow> Elements (map (content t h) (take n (drop off xs))) | None \<Rightarrow> NoValue)
   | _ \<Rightarrow> NoValue)"
| "content (TMap t) h v = (case v of
     MapRef (Some a) \<Rightarrow> (case load_map a h of
       Some kvs \<Rightarrow> Entries (map_of (map (\<lambda>(k, w). (k, content t h w)) kvs)) | None \<Rightarrow> NoValue)
   | _ \<Rightarrow> NoValue)"
| "content (TStruct fs) h v = (case v of
     Struct vs \<Rightarrow> Fields (map (\<lambda>(n, t). (n, content t h (the (map_of vs n)))) fs) | _ \<Rightarrow> NoValue)"

fun flat :: "ty \<Rightarrow> bool" where
  "flat (TBasic k) = True"
| "flat (TStruct fs) = list_all (\<lambda>(n, t). flat t) fs"
| "flat _ = False"

definition agree :: "nat set \<Rightarrow> memory \<Rightarrow> memory \<Rightarrow> bool" where
  "agree A h h' \<longleftrightarrow> (\<forall>a \<in> A. a < length h \<longrightarrow> a < length h' \<and> h' ! a = h ! a)"

lemma load_agree:
  "agree A h h' \<Longrightarrow> a \<in> A \<Longrightarrow> load_val a h = Some w \<Longrightarrow> load_val a h' = Some w"
  "agree A h h' \<Longrightarrow> a \<in> A \<Longrightarrow> load_arr a h = Some xs \<Longrightarrow> load_arr a h' = Some xs"
  "agree A h h' \<Longrightarrow> a \<in> A \<Longrightarrow> load_map a h = Some kvs \<Longrightarrow> load_map a h' = Some kvs"
  by (auto simp: agree_def split: if_splits)

declare load_val.simps [simp del] load_arr.simps [simp del] load_map.simps [simp del]

text \<open>Cells outside the reachable set do not matter: this is the frame rule all copies rest on.\<close>

lemma typed_frame:
  "typed t A h v \<Longrightarrow> agree A h h' \<Longrightarrow> typed t A h' v \<and> content t h' v = content t h v"
proof (induction t A h v rule: typed.induct)
  case (2 t A h v)
  then show ?case by (auto split: val.splits option.splits dest: load_agree)
next
  case (3 t A h v)
  then show ?case by (fastforce split: val.splits option.splits dest: load_agree simp: list_all_iff)
next
  case (4 t A h v)
  show ?case
  proof (cases "\<exists>a. v = MapRef (Some a)")
    case True
    then obtain a kvs where a: "v = MapRef (Some a)" "a \<in> A" "load_map a h = Some kvs" "distinct (map fst kvs)"
      and ok: "\<forall>w \<in> snd ` set kvs. typed t A h w"
      using "4.prems"(1) by (auto split: option.splits simp: list_all_iff)
    have "\<forall>w \<in> snd ` set kvs. typed t A h' w \<and> content t h' w = content t h w"
      using "4.IH" [of "Some a" a kvs] a ok "4.prems"(2) by auto
    moreover from a(2,3) "4.prems"(2) have "load_map a h' = Some kvs" by (rule load_agree(3) [rotated 1])
    ultimately show ?thesis
      using a by (force simp: list_all_iff intro!: arg_cong [of _ _ map_of])
  qed (use "4.prems" in \<open>auto split: val.splits option.splits\<close>)
next
  case (5 fs A h v)
  then show ?case by (fastforce split: val.splits simp: list_all_iff)
qed (simp split: val.splits)

lemmas typed_agree = typed_frame [THEN conjunct1] and content_agree = typed_frame [THEN conjunct2]

lemma typed_mono: "typed t A h v \<Longrightarrow> A \<subseteq> B \<Longrightarrow> typed t B h v"
  by (induction t A h v rule: typed.induct) (fastforce split: val.splits option.splits simp: list_all_iff)+

lemma typed_flat: "flat t \<Longrightarrow> typed t A h v \<Longrightarrow> typed t B h' v \<and> content t h' v = content t h v"
  by (induction t A h v rule: typed.induct) (fastforce split: val.splits simp: list_all_iff)+



section \<open>Copying statements\<close>

type_synonym copier = "val \<Rightarrow> memory \<Rightarrow> (val \<times> memory) option"

text \<open>\<open>*out = *in\<close>, \<open>out.F = in.F\<close>: the value itself is copied, references included.\<close>

definition assign :: copier where
  "assign v h = Some (v, h)"

text \<open>\<open>out := new(T)\<close>, then the copy into it; a nil pointer stays nil. Nothing else gives None: a value that
  is not a pointer, or one to a missing cell, does not occur in typed memory.\<close>

definition copy_pointer :: "ty \<Rightarrow> copier \<Rightarrow> copier" where
  "copy_pointer t into p h = (case p of
     Ptr None \<Rightarrow> Some (Ptr None, h)
   | Ptr (Some a) \<Rightarrow> do {
       v \<leftarrow> load_val a h;
       (w, h') \<leftarrow> into v (h @ [CVal (zero_val t)]);
       Some (Ptr (Some (length h)), h'[length h := CVal w])
     }
   | _ \<Rightarrow> None)"

text \<open>\<open>if in.F != nil\<close> around a call of a DeepCopy method on the field.\<close>

definition if_not_nil :: "copier \<Rightarrow> copier" where
  "if_not_nil f p h = (if p = Ptr None then Some (p, h) else f p h)"

text \<open>\<open>make([]T, len)\<close> and the loop that copies element by element into it.\<close>

definition set_elem :: "nat \<Rightarrow> nat \<Rightarrow> val \<Rightarrow> memory \<Rightarrow> memory" where
  "set_elem a i w h = (case load_arr a h of Some ys \<Rightarrow> h[a := CArr (ys[i := w])] | None \<Rightarrow> h)"

fun copy_elems :: "copier \<Rightarrow> nat \<Rightarrow> nat \<Rightarrow> val list \<Rightarrow> memory \<Rightarrow> memory option" where
  "copy_elems f a i [] h = Some h"
| "copy_elems f a i (x # xs) h = do {
     (w, h') \<leftarrow> f x h;
     copy_elems f a (Suc i) xs (set_elem a i w h')
   }"

definition copy_slice :: "ty \<Rightarrow> copier \<Rightarrow> copier" where
  "copy_slice t f v h = (case v of
     Slice None \<Rightarrow> Some (v, h)
   | Slice (Some (a, off, n)) \<Rightarrow> do {
       xs \<leftarrow> load_arr a h;
       h' \<leftarrow> copy_elems f (length h) 0 (take n (drop off xs)) (h @ [CArr (replicate n (zero_val t))]);
       Some (Slice (Some (length h, 0, n)), h')
     }
   | _ \<Rightarrow> None)"

text \<open>\<open>make([]T, len)\<close> and the built-in \<open>copy\<close> for elements without references.\<close>

definition copy_bulk :: "ty \<Rightarrow> copier" where
  "copy_bulk t v h = (case v of
     Slice None \<Rightarrow> Some (v, h)
   | Slice (Some (a, off, n)) \<Rightarrow> do {
       xs \<leftarrow> load_arr a h;
       let g = h @ [CArr (replicate n (zero_val t))];
       let k = min n (length (take n (drop off xs)));
       Some (Slice (Some (length h, 0, n)), g[length h := CArr (take k (drop off xs) @ replicate (n - k) (zero_val t))])
     }
   | _ \<Rightarrow> None)"

text \<open>\<open>make(map[string]T, len)\<close> and the loop over the entries, in an order that the runtime chooses.\<close>

definition set_entry :: "nat \<Rightarrow> string \<Rightarrow> val \<Rightarrow> memory \<Rightarrow> memory" where
  "set_entry a k w h = (case load_map a h of Some kvs \<Rightarrow> h[a := CMap (AList.update k w kvs)] | None \<Rightarrow> h)"

fun copy_entries :: "copier \<Rightarrow> nat \<Rightarrow> (string \<times> val) list \<Rightarrow> memory \<Rightarrow> memory option" where
  "copy_entries f a [] h = Some h"
| "copy_entries f a ((k, x) # kvs) h = do {
     (w, h') \<leftarrow> f x h;
     copy_entries f a kvs (set_entry a k w h')
   }"

definition copy_map :: "((string \<times> val) list \<Rightarrow> (string \<times> val) list) \<Rightarrow> copier \<Rightarrow> copier" where
  "copy_map order f v h = (case v of
     MapRef None \<Rightarrow> Some (v, h)
   | MapRef (Some a) \<Rightarrow> do {
       kvs \<leftarrow> load_map a h;
       h' \<leftarrow> copy_entries f (length h) (order kvs) (h @ [CMap []]);
       Some (MapRef (Some (length h)), h')
     }
   | _ \<Rightarrow> None)"

text \<open>\<open>*val.DeepCopy()\<close> on a loop variable: the variable has a cell of its own, the pointer the method
  returns is read back.\<close>

definition through_pointer :: "copier \<Rightarrow> copier" where
  "through_pointer f v h = do {
     (p, h') \<leftarrow> f (Ptr (Some (length h))) (h @ [CVal v]);
     case p of Ptr (Some b) \<Rightarrow> do { w \<leftarrow> load_val b h'; Some (w, h') } | _ \<Rightarrow> None
   }"

text \<open>\<open>*out = *in\<close> on a struct, then one statement per listed field.\<close>

fun copy_fields :: "(string \<times> copier) list \<Rightarrow> (string \<times> val) list \<Rightarrow> (string \<times> val) list \<Rightarrow> memory
    \<Rightarrow> (val \<times> memory) option" where
  "copy_fields [] ins outs h = Some (Struct outs, h)"
| "copy_fields ((n, f) # as) ins outs h = do {
     x \<leftarrow> map_of ins n;
     (w, h') \<leftarrow> f x h;
     copy_fields as ins (AList.update n w outs) h'
   }"

definition copy_struct :: "(string \<times> copier) list \<Rightarrow> copier" where
  "copy_struct as v h = (case v of Struct vs \<Rightarrow> copy_fields as vs vs h | _ \<Rightarrow> None)"

text \<open>An interface value holds a dynamic type beside the value; only an interface without a type is nil.\<close>

datatype iface = NilInterface | Boxed string val

definition deep_copy_object :: "string \<Rightarrow> copier \<Rightarrow> val \<Rightarrow> memory \<Rightarrow> (iface \<times> memory) option" where
  "deep_copy_object T f p h = do {
     (c, h') \<leftarrow> f p h;
     Some (if c \<noteq> Ptr None then Boxed T c else NilInterface, h')
   }"


section \<open>The contract of a copy\<close>

definition copies :: "ty \<Rightarrow> copier \<Rightarrow> bool" where
  "copies t f \<longleftrightarrow> (\<forall>h v. typed t {..<length h} h v \<longrightarrow>
     (\<exists>w h'. f v h = Some (w, h') \<and> agree UNIV h h' \<and> typed t {length h..} h' w \<and> content t h' w = content t h v))"

lemma copiesE:
  assumes "copies t f" and "typed t {..<length h} h v"
  obtains w h' where "f v h = Some (w, h')" "agree UNIV h h'" "typed t {length h..} h' w"
    "content t h' w = content t h v"
  using assms unfolding copies_def by blast

text \<open>What the contract is for: after the copy, whatever is written to the memory that existed before leaves
  the copy alone, and whatever is written to the memory of the copy leaves the original alone.\<close>

lemma copies_independent:
  assumes "copies t f" and "typed t {..<length h} h v"
  shows "\<exists>w h'. f v h = Some (w, h') \<and> content t h' w = content t h v
    \<and> (\<forall>g. agree {length h..} h' g \<longrightarrow> content t g w = content t h v)
    \<and> (\<forall>g. agree {..<length h} h' g \<longrightarrow> content t g v = content t h v)"
proof -
  obtain w h' where w: "f v h = Some (w, h')" "agree UNIV h h'" "typed t {length h..} h' w"
    "content t h' w = content t h v"
    using assms by (rule copiesE)
  have "agree {..<length h} h h'" using w(2) by (simp add: agree_def)
  from typed_frame [OF assms(2) this] have "typed t {..<length h} h' v" "content t h' v = content t h v" by blast+
  with w show ?thesis by (metis content_agree)
qed

named_theorems copy_steps

lemma copies_assign [copy_steps]: "flat t \<Longrightarrow> copies t assign"
  by (auto simp: copies_def assign_def agree_def dest: typed_flat)

lemma load_new [simp]:
  "load_val (length h) (h @ [CVal w]) = Some w"
  "load_arr (length h) (h @ [CArr xs]) = Some xs"
  "load_map (length h) (h @ [CMap kvs]) = Some kvs"
  by (simp_all add: load_val.simps load_arr.simps load_map.simps)

lemma agree_alloc: "agree A h (h @ [c])"
  by (simp add: agree_def nth_append)

lemma agree_UNIV: "agree UNIV h h' \<Longrightarrow> agree A h h'"
  by (simp add: agree_def)

lemma agree_length: "agree UNIV h h' \<Longrightarrow> length h \<le> length h'"
  unfolding agree_def by (metis UNIV_I leI less_irrefl)

lemma agree_trans: "agree A h g \<Longrightarrow> agree A g k \<Longrightarrow> agree A h k"
  by (simp add: agree_def)

lemma agree_store: "a \<notin> A \<Longrightarrow> agree A h (h[a := c])"
  unfolding agree_def by (metis length_list_update nth_list_update_neq)

lemma agree_store_new: "agree UNIV h g \<Longrightarrow> length h \<le> a \<Longrightarrow> agree UNIV h (g[a := c])"
  by (auto simp: agree_def nth_list_update)

lemma typed_extend:
  assumes "typed t {..<length h} h v" and "agree UNIV h g"
  shows "typed t {..<length g} g v \<and> content t g v = content t h v"
  using typed_frame [OF assms(1) agree_UNIV [OF assms(2)]] agree_length [OF assms(2)]
  by (auto elim!: typed_mono)


section \<open>Every statement form keeps the contract\<close>

lemma copies_pointer [copy_steps]:
  assumes "copies t f"
  shows "copies (TPtr t) (copy_pointer t f)"
  unfolding copies_def
proof (intro allI impI)
  fix h p assume p: "typed (TPtr t) {..<length h} h p"
  show "\<exists>q h'. copy_pointer t f p h = Some (q, h') \<and> agree UNIV h h' \<and> typed (TPtr t) {length h..} h' q
      \<and> content (TPtr t) h' q = content (TPtr t) h p"
  proof (cases "p = Ptr None")
    case True
    then show ?thesis by (simp add: copy_pointer_def agree_def)
  next
    case False
    then obtain a v where a: "p = Ptr (Some a)" "load_val a h = Some v" "typed t {..<length h} h v"
      using p by (auto split: val.splits option.splits)
    let ?g = "h @ [CVal (zero_val t)]"
    from a(3) agree_alloc have "typed t {..<length ?g} ?g v" and c: "content t ?g v = content t h v"
      using typed_extend by blast+
    then obtain w h' where w: "f v ?g = Some (w, h')" "agree UNIV ?g h'" "typed t {length ?g..} h' w"
      "content t h' w = content t ?g v"
      using copiesE [OF assms] by blast
    let ?k = "h'[length h := CVal w]"
    have "agree {length ?g..} h' ?k" by (rule agree_store) simp
    from typed_frame [OF w(3) this] have k: "typed t {length h..} ?k w" "content t ?k w = content t h' w"
      by (auto elim: typed_mono)
    have "load_val (length h) ?k = Some w" using agree_length [OF w(2)] by (simp add: load_val.simps)
    moreover have "agree UNIV h ?k"
      by (rule agree_store_new [OF agree_trans [OF agree_alloc w(2)]]) simp
    ultimately show ?thesis using a k w c by (simp add: copy_pointer_def)
  qed
qed

lemma copies_if_not_nil [copy_steps]: "copies (TPtr t) f \<Longrightarrow> copies (TPtr t) (if_not_nil f)"
  unfolding copies_def if_not_nil_def by (auto simp: agree_def)

lemma copies_through_pointer [copy_steps]:
  assumes "copies (TPtr t) f"
  shows "copies t (through_pointer f)"
  unfolding copies_def
proof (intro allI impI)
  fix h v assume v: "typed t {..<length h} h v"
  let ?g = "h @ [CVal v]" and ?p = "Ptr (Some (length h))"
  from v agree_alloc have g: "typed t {..<length ?g} ?g v" "content t ?g v = content t h v"
    using typed_extend by blast+
  then have "typed (TPtr t) {..<length ?g} ?g ?p" by simp
  then obtain q h' where q: "f ?p ?g = Some (q, h')" "agree UNIV ?g h'" "typed (TPtr t) {length ?g..} h' q"
    "content (TPtr t) h' q = content (TPtr t) ?g ?p"
    using copiesE [OF assms] by blast
  from q(4) obtain b w where b: "q = Ptr (Some b)" "load_val b h' = Some w" "content t h' w = content t h v"
    using g by (auto split: val.splits option.splits)
  moreover have "typed t {length h..} h' w" using q(3) b by (auto elim: typed_mono)
  moreover have "agree UNIV h h'" using agree_trans [OF agree_alloc q(2)] .
  ultimately show "\<exists>w h'. through_pointer f v h = Some (w, h') \<and> agree UNIV h h' \<and> typed t {length h..} h' w
      \<and> content t h' w = content t h v"
    using q(1) by (simp add: through_pointer_def)
qed

lemma copy_elems_fills:
  assumes "copies t f" and "list_all (typed t {..<length h0} h0) xs" and "agree UNIV h0 h"
    and "load_arr (length h0) h = Some ys" and "length ys = i + length xs"
    and "list_all (typed t {Suc (length h0)..} h) (take i ys)"
  shows "\<exists>h' zs. copy_elems f (length h0) i xs h = Some h' \<and> agree UNIV h0 h' \<and> load_arr (length h0) h' = Some zs
    \<and> list_all (typed t {Suc (length h0)..} h') zs
    \<and> map (content t h') zs = map (content t h) (take i ys) @ map (content t h0) xs"
  using assms(2-)
proof (induction xs arbitrary: i ys h)
  case Nil
  then show ?case by simp
next
  case (Cons x xs)
  let ?l = "length h0"
  have l: "?l < length h" using Cons.prems(3) by (simp add: load_arr.simps split: if_splits)
  from Cons.prems(1,2) have "typed t {..<length h} h x" and x: "content t h x = content t h0 x"
    using typed_extend by (auto simp: list_all_iff)
  then obtain w h1 where w: "f x h = Some (w, h1)" "agree UNIV h h1" "typed t {length h..} h1 w"
    "content t h1 w = content t h x"
    using copiesE [OF assms(1)] by blast
  let ?zs = "ys[i := w]" and ?g = "h1[?l := CArr (ys[i := w])]"
  have arr: "load_arr ?l h1 = Some ys" by (rule load_agree(2) [OF w(2) _ Cons.prems(3)]) simp
  then have g: "load_arr ?l ?g = Some ?zs" and set: "set_elem ?l i w h1 = ?g"
    by (auto simp: load_arr.simps set_elem_def split: if_splits)
  have h1g: "agree {Suc ?l..} h1 ?g" by (rule agree_store) simp
  have hg: "agree {Suc ?l..} h ?g" using agree_trans [OF agree_UNIV [OF w(2)] h1g] .
  have wg: "typed t {Suc ?l..} ?g w" "content t ?g w = content t h0 x"
    using typed_frame [OF typed_mono [OF w(3)] h1g] l w(4) x by auto
  have old: "\<forall>y \<in> set (take i ys). typed t {Suc ?l..} ?g y \<and> content t ?g y = content t h y"
    using Cons.prems(5) typed_frame [OF _ hg] by (auto simp: list_all_iff)
  have zs: "take (Suc i) ?zs = take i ys @ [w]"
    using Cons.prems(4) by (simp add: take_Suc_conv_app_nth)
  have "agree UNIV h0 ?g" by (rule agree_store_new [OF agree_trans [OF Cons.prems(2) w(2)]]) simp
  moreover have "list_all (typed t {Suc ?l..} ?g) (take (Suc i) ?zs)"
    unfolding zs using old wg by (simp add: list_all_iff)
  ultimately have "\<exists>h' zs. copy_elems f ?l (Suc i) xs ?g = Some h' \<and> agree UNIV h0 h' \<and> load_arr ?l h' = Some zs
    \<and> list_all (typed t {Suc ?l..} h') zs
    \<and> map (content t h') zs = map (content t ?g) (take (Suc i) ?zs) @ map (content t h0) xs"
    using Cons.prems(1,4) g by (intro Cons.IH) auto
  moreover have "map (content t ?g) (take (Suc i) ?zs) = map (content t h) (take i ys) @ [content t h0 x]"
    unfolding zs using old wg by simp
  ultimately show ?case using w(1) set by auto
qed

lemma copies_slice [copy_steps]:
  assumes "copies t f"
  shows "copies (TSlice t) (copy_slice t f)"
  unfolding copies_def
proof (intro allI impI)
  fix h v assume v: "typed (TSlice t) {..<length h} h v"
  show "\<exists>w h'. copy_slice t f v h = Some (w, h') \<and> agree UNIV h h' \<and> typed (TSlice t) {length h..} h' w
      \<and> content (TSlice t) h' w = content (TSlice t) h v"
  proof (cases "v = Slice None")
    case True
    then show ?thesis by (simp add: copy_slice_def agree_def)
  next
    case False
    then obtain a off n ys where a: "v = Slice (Some (a, off, n))" "load_arr a h = Some ys" "off + n \<le> length ys"
      and ok: "list_all (typed t {..<length h} h) (take n (drop off ys))"
      using v by (auto split: val.splits option.splits)
    let ?xs = "take n (drop off ys)" and ?g = "h @ [CArr (replicate n (zero_val t))]"
    have n: "length ?xs = n" using a(3) by simp
    obtain h' zs where "copy_elems f (length h) 0 ?xs ?g = Some h'" "agree UNIV h h'" "load_arr (length h) h' = Some zs"
      "list_all (typed t {Suc (length h)..} h') zs" "map (content t h') zs = map (content t h) ?xs"
      using copy_elems_fills [OF assms ok agree_alloc load_new(2), of "replicate n (zero_val t)" 0] n by auto
    moreover from this(5) have "length zs = n" using n by (metis length_map)
    ultimately show ?thesis
      using a by (auto simp: copy_slice_def list_all_iff elim!: typed_mono)
  qed
qed

lemma copies_bulk [copy_steps]:
  assumes "flat t"
  shows "copies (TSlice t) (copy_bulk t)"
  unfolding copies_def
proof (intro allI impI)
  fix h v assume v: "typed (TSlice t) {..<length h} h v"
  show "\<exists>w h'. copy_bulk t v h = Some (w, h') \<and> agree UNIV h h' \<and> typed (TSlice t) {length h..} h' w
      \<and> content (TSlice t) h' w = content (TSlice t) h v"
  proof (cases "v = Slice None")
    case True
    then show ?thesis by (simp add: copy_bulk_def agree_def)
  next
    case False
    then obtain a off n ys where a: "v = Slice (Some (a, off, n))" "load_arr a h = Some ys" "off + n \<le> length ys"
      and ok: "list_all (typed t {..<length h} h) (take n (drop off ys))"
      using v by (auto split: val.splits option.splits)
    let ?g = "h @ [CArr (take n (drop off ys))]"
    have "copy_bulk t v h = Some (Slice (Some (length h, 0, n)), ?g)"
      using a by (simp add: copy_bulk_def Let_def list_update_append)
    moreover have "\<forall>y \<in> set (take n (drop off ys)). typed t {length h..} ?g y \<and> content t ?g y = content t h y"
      by (intro ballI typed_flat [OF assms, of "{..<length h}" h]) (use ok in \<open>auto simp: list_all_iff\<close>)
    ultimately show ?thesis
      using a by (auto simp: list_all_iff agree_alloc)
  qed
qed

lemma update_new_key: "k \<notin> fst ` set kvs \<Longrightarrow> AList.update k w kvs = kvs @ [(k, w)]"
  by (induction kvs) auto

lemma copy_entries_fills:
  assumes "copies t f" and "list_all (typed t {..<length h0} h0) (map snd kvs)" and "agree UNIV h0 h"
    and "load_map (length h0) h = Some ys" and "distinct (map fst (ys @ kvs))"
    and "list_all (typed t {Suc (length h0)..} h) (map snd ys)"
  shows "\<exists>h' zs. copy_entries f (length h0) kvs h = Some h' \<and> agree UNIV h0 h' \<and> load_map (length h0) h' = Some zs
    \<and> list_all (typed t {Suc (length h0)..} h') (map snd zs) \<and> map fst zs = map fst (ys @ kvs)
    \<and> map (\<lambda>(k, w). (k, content t h' w)) zs
        = map (\<lambda>(k, w). (k, content t h w)) ys @ map (\<lambda>(k, w). (k, content t h0 w)) kvs"
  using assms(2-)
proof (induction kvs arbitrary: ys h)
  case Nil
  then show ?case by simp
next
  case (Cons kx kvs)
  obtain k x where kx: "kx = (k, x)" by fastforce
  let ?l = "length h0"
  have l: "?l < length h" using Cons.prems(3) by (simp add: load_map.simps split: if_splits)
  from Cons.prems(1,2) have "typed t {..<length h} h x" and x: "content t h x = content t h0 x"
    using typed_extend by (auto simp: list_all_iff kx)
  then obtain w h1 where w: "f x h = Some (w, h1)" "agree UNIV h h1" "typed t {length h..} h1 w"
    "content t h1 w = content t h x"
    using copiesE [OF assms(1)] by blast
  let ?g = "h1[?l := CMap (ys @ [(k, w)])]"
  have "load_map ?l h1 = Some ys" by (rule load_agree(3) [OF w(2) _ Cons.prems(3)]) simp
  then have g: "load_map ?l ?g = Some (ys @ [(k, w)])" and set: "set_entry ?l k w h1 = ?g"
    using Cons.prems(4) by (auto simp: load_map.simps set_entry_def kx update_new_key split: if_splits)
  have h1g: "agree {Suc ?l..} h1 ?g" by (rule agree_store) simp
  have hg: "agree {Suc ?l..} h ?g" using agree_trans [OF agree_UNIV [OF w(2)] h1g] .
  have wg: "typed t {Suc ?l..} ?g w" "content t ?g w = content t h0 x"
    using typed_frame [OF typed_mono [OF w(3)] h1g] l w(4) x by auto
  have old: "\<forall>y \<in> snd ` set ys. typed t {Suc ?l..} ?g y \<and> content t ?g y = content t h y"
    using Cons.prems(5) typed_frame [OF _ hg] by (auto simp: list_all_iff)
  have "agree UNIV h0 ?g" by (rule agree_store_new [OF agree_trans [OF Cons.prems(2) w(2)]]) simp
  moreover have "list_all (typed t {Suc ?l..} ?g) (map snd (ys @ [(k, w)]))"
    using old wg by (auto simp: list_all_iff)
  ultimately have "\<exists>h' zs. copy_entries f ?l kvs ?g = Some h' \<and> agree UNIV h0 h' \<and> load_map ?l h' = Some zs
    \<and> list_all (typed t {Suc ?l..} h') (map snd zs) \<and> map fst zs = map fst ((ys @ [(k, w)]) @ kvs)
    \<and> map (\<lambda>(k, w). (k, content t h' w)) zs
        = map (\<lambda>(k, w). (k, content t ?g w)) (ys @ [(k, w)]) @ map (\<lambda>(k, w). (k, content t h0 w)) kvs"
    using Cons.prems(1,4) g by (intro Cons.IH) (auto simp: kx)
  moreover have "map (\<lambda>(k, w). (k, content t ?g w)) (ys @ [(k, w)])
      = map (\<lambda>(k, w). (k, content t h w)) ys @ [(k, content t h0 x)]"
    using old wg by force
  ultimately show ?case using w(1) set by (auto simp: kx)
qed

text \<open>The runtime may visit the entries of a map in any order.\<close>

definition any_order :: "((string \<times> val) list \<Rightarrow> (string \<times> val) list) \<Rightarrow> bool" where
  "any_order order \<longleftrightarrow> (\<forall>kvs. mset (order kvs) = mset kvs)"

lemma copies_map [copy_steps]:
  assumes "copies t f" and "any_order order"
  shows "copies (TMap t) (copy_map order f)"
  unfolding copies_def
proof (intro allI impI)
  fix h v assume v: "typed (TMap t) {..<length h} h v"
  show "\<exists>w h'. copy_map order f v h = Some (w, h') \<and> agree UNIV h h' \<and> typed (TMap t) {length h..} h' w
      \<and> content (TMap t) h' w = content (TMap t) h v"
  proof (cases "v = MapRef None")
    case True
    then show ?thesis by (simp add: copy_map_def agree_def)
  next
    case False
    then obtain a kvs where a: "v = MapRef (Some a)" "load_map a h = Some kvs" "distinct (map fst kvs)"
      and ok: "list_all (typed t {..<length h} h) (map snd kvs)"
      using v by (auto split: val.splits option.splits)
    have perm: "mset (order kvs) = mset kvs" using assms(2) by (simp add: any_order_def)
    then have same: "set (order kvs) = set kvs" by (rule mset_eq_setD)
    have dist: "distinct (map fst (order kvs))"
      using a(3) perm by (metis mset_map mset_eq_imp_distinct_iff)
    obtain h' zs where h': "copy_entries f (length h) (order kvs) (h @ [CMap []]) = Some h'" "agree UNIV h h'"
      "load_map (length h) h' = Some zs" "list_all (typed t {Suc (length h)..} h') (map snd zs)"
      "map fst zs = map fst (order kvs)"
      "map (\<lambda>(k, w). (k, content t h' w)) zs = map (\<lambda>(k, w). (k, content t h w)) (order kvs)"
      using copy_entries_fills [OF assms(1) _ agree_alloc load_new(3), of h "order kvs" "[]"] ok dist same
      by (auto simp: list_all_iff)
    have "map_of (map (\<lambda>(k, w). (k, content t h w)) (order kvs)) = map_of (map (\<lambda>(k, w). (k, content t h w)) kvs)"
      using dist a(3) same by (subst map_of_inject_set) (simp_all add: comp_def case_prod_unfold)
    with a h' dist show ?thesis
      by (auto simp: copy_map_def list_all_iff elim!: typed_mono)
  qed
qed

lemma typed_field:
  assumes "typed (TStruct fs) A h (Struct vs)" and "(n, t) \<in> set fs"
  shows "\<exists>x. map_of vs n = Some x \<and> typed t A h x"
proof -
  have "n \<in> set (map fst fs)" using assms(2) by force
  also have "map fst fs = map fst vs" using assms(1) by simp
  finally obtain x where "map_of vs n = Some x" by (auto simp: map_of_eq_None_iff dest!: weak_map_of_SomeI)
  moreover have "typed t A h (the (map_of vs n))" using assms by (auto simp: list_all_iff)
  ultimately show ?thesis by simp
qed

text \<open>A struct: every field is either overwritten by a copy or free of references.\<close>

definition field_done :: "memory \<Rightarrow> (string \<times> val) list \<Rightarrow> memory \<Rightarrow> (string \<times> val) list \<Rightarrow> string \<Rightarrow> ty \<Rightarrow> bool" where
  "field_done h0 ins h outs n t \<longleftrightarrow> typed t {length h0..} h (the (map_of outs n))
     \<and> content t h (the (map_of outs n)) = content t h0 (the (map_of ins n))"

lemma copy_fields_done:
  assumes ins: "map fst ins = map fst fs" "\<forall>(n, t) \<in> set fs. typed t {..<length h0} h0 (the (map_of ins n))"
    and "fst ` set as \<subseteq> fst ` set fs" and "distinct (map fst as)"
    and "\<forall>n f t. (n, f) \<in> set as \<longrightarrow> (n, t) \<in> set fs \<longrightarrow> copies t f"
    and "agree UNIV h0 h" and "map fst outs = map fst fs"
    and "\<forall>(n, t) \<in> set fs. n \<notin> fst ` set as \<longrightarrow> field_done h0 ins h outs n t"
  shows "\<exists>ws h'. copy_fields as ins outs h = Some (Struct ws, h') \<and> agree UNIV h0 h' \<and> map fst ws = map fst fs
    \<and> (\<forall>(n, t) \<in> set fs. field_done h0 ins h' ws n t)"
  using assms(3-)
proof (induction as arbitrary: outs h)
  case Nil
  then show ?case by simp
next
  case (Cons nf as)
  obtain n f where nf: "nf = (n, f)" by fastforce
  have "n \<in> fst ` set ins" using Cons.prems(1) arg_cong [OF ins(1), of set] by (simp add: nf)
  then obtain x where x: "map_of ins n = Some x" by (metis map_of_eq_None_iff not_Some_eq)
  obtain t where t: "(n, t) \<in> set fs" using Cons.prems(1) by (auto simp: nf)
  have tx: "typed t' {..<length h} h x \<and> content t' h x = content t' h0 x" if "(n, t') \<in> set fs" for t'
    using that ins(2) x typed_extend [OF _ Cons.prems(4)] by fastforce
  have cf: "copies t' f" if "(n, t') \<in> set fs" for t' using that Cons.prems(3) by (auto simp: nf)
  obtain w h1 where w: "f x h = Some (w, h1)" "agree UNIV h h1"
    using copiesE [OF cf [OF t] conjunct1 [OF tx [OF t]]] by blast
  have new: "typed t' {length h0..} h1 w \<and> content t' h1 w = content t' h0 x" if "(n, t') \<in> set fs" for t'
  proof -
    have "typed t' {length h..} h1 w" "content t' h1 w = content t' h x"
      using copiesE [OF cf [OF that] conjunct1 [OF tx [OF that]]] w(1) by (metis option.inject prod.inject)+
    with tx [OF that] agree_length [OF Cons.prems(4)] show ?thesis by (auto elim: typed_mono)
  qed
  let ?outs = "AList.update n w outs"
  have keys: "map fst ?outs = map fst fs"
    using Cons.prems(5) t by (simp add: update_keys image_iff) (metis fst_conv image_eqI list.set_map)
  have "\<forall>(m, t) \<in> set fs. m \<notin> fst ` set as \<longrightarrow> field_done h0 ins h1 ?outs m t"
  proof (intro ballI, clarify)
    fix m t' assume m: "(m, t') \<in> set fs" "m \<notin> fst ` set as"
    show "field_done h0 ins h1 ?outs m t'"
    proof (cases "m = n")
      case True
      with new m(1) x show ?thesis by (simp add: field_done_def update_conv')
    next
      case False
      with m have "field_done h0 ins h outs m t'" using Cons.prems(6) by (auto simp: nf)
      with False typed_frame [OF _ agree_UNIV [OF w(2)]] show ?thesis
        by (auto simp: field_done_def update_conv')
    qed
  qed
  then have "\<exists>ws h'. copy_fields as ins ?outs h1 = Some (Struct ws, h') \<and> agree UNIV h0 h' \<and> map fst ws = map fst fs
    \<and> (\<forall>(n, t) \<in> set fs. field_done h0 ins h' ws n t)"
    using Cons.prems(1,2,3) keys agree_trans [OF Cons.prems(4) w(2)] by (intro Cons.IH) (auto simp: nf)
  then show ?case using x w(1) by (simp add: nf)
qed

definition fields_copied :: "(string \<times> ty) list \<Rightarrow> (string \<times> copier) list \<Rightarrow> bool" where
  "fields_copied fs as \<longleftrightarrow> distinct (map fst as) \<and> list_all (\<lambda>(n, f). n \<in> fst ` set fs) as
     \<and> list_all (\<lambda>(n, t). case map_of as n of Some f \<Rightarrow> copies t f | None \<Rightarrow> flat t) fs"

lemma copies_struct:
  assumes "fields_copied fs as"
  shows "copies (TStruct fs) (copy_struct as)"
  unfolding copies_def
proof (intro allI impI)
  fix h v assume v: "typed (TStruct fs) {..<length h} h v"
  then obtain ins where ins: "v = Struct ins" "map fst ins = map fst fs"
    "\<forall>(n, t) \<in> set fs. typed t {..<length h} h (the (map_of ins n))"
    by (auto split: val.splits simp: list_all_iff)
  have c: "\<forall>n f t. (n, f) \<in> set as \<longrightarrow> (n, t) \<in> set fs \<longrightarrow> copies t f"
    using assms by (fastforce simp: fields_copied_def list_all_iff)
  have "\<forall>(n, t) \<in> set fs. n \<notin> fst ` set as \<longrightarrow> field_done h ins h ins n t"
  proof (intro ballI, clarify)
    fix n t assume n: "(n, t) \<in> set fs" "n \<notin> fst ` set as"
    then have "map_of as n = None" by (simp add: map_of_eq_None_iff)
    with n(1) assms have "flat t" by (fastforce simp: fields_copied_def list_all_iff)
    then show "field_done h ins h ins n t"
      using typed_flat ins(3) n(1) unfolding field_done_def by fast
  qed
  moreover have "fst ` set as \<subseteq> fst ` set fs" "distinct (map fst as)"
    using assms by (fastforce simp: fields_copied_def list_all_iff)+
  ultimately obtain ws h' where "copy_fields as ins ins h = Some (Struct ws, h')" "agree UNIV h h'" "map fst ws = map fst fs"
    "\<forall>(n, t) \<in> set fs. field_done h ins h' ws n t"
    using copy_fields_done [OF ins(2,3) _ _ c, of h ins] ins(2) by (auto simp: agree_def)
  then show "\<exists>w h'. copy_struct as v h = Some (w, h') \<and> agree UNIV h h' \<and> typed (TStruct fs) {length h..} h' w
      \<and> content (TStruct fs) h' w = content (TStruct fs) h v"
    using ins(1) by (fastforce simp: copy_struct_def field_done_def list_all_iff)
qed

text \<open>The DeepCopyObject methods wrap the pointer; the check they make keeps a nil pointer out of the interface.\<close>

lemma copies_object:
  assumes "copies (TPtr t) f" and "typed (TPtr t) {..<length h} h p"
  shows "\<exists>r h'. deep_copy_object T f p h = Some (r, h') \<and> agree UNIV h h' \<and> (r = NilInterface \<longleftrightarrow> p = Ptr None)
    \<and> (p \<noteq> Ptr None \<longrightarrow> (\<exists>c. r = Boxed T c \<and> typed (TPtr t) {length h..} h' c
        \<and> content (TPtr t) h' c = content (TPtr t) h p))"
proof -
  obtain c h' where c: "f p h = Some (c, h')" "agree UNIV h h'" "typed (TPtr t) {length h..} h' c"
    "content (TPtr t) h' c = content (TPtr t) h p"
    using assms by (rule copiesE)
  have "content (TPtr t) g q = NoValue \<longleftrightarrow> q = Ptr None" if "typed (TPtr t) A g q" for A g q
    using that by (auto split: val.splits option.splits)
  from this [OF c(3)] this [OF assms(2)] c(4) have "c = Ptr None \<longleftrightarrow> p = Ptr None" by auto
  with c show ?thesis by (simp add: deep_copy_object_def)
qed

end
