(* ===== verification/GoTypes.thy ===== *)
theory GoTypes
  imports GoMemory
begin

text \<open>The struct types of src/api/v1alpha1 and of src/pkg/lineage as descriptors, field by field with the names of the
  Go declarations. Types of apimachinery (TypeMeta, ObjectMeta, ListMeta, Time, Condition) and their copy methods
  are not part of the repository: they are the fields of \<open>library\<close>, and \<open>documented_library\<close> is what is relied on.\<close>

record library =
  lb_TypeMeta :: ty
  lb_ObjectMeta :: ty
  lb_ListMeta :: ty
  lb_Time :: ty
  lb_Condition :: ty
  lb_copy_ObjectMeta :: copier
  lb_copy_ListMeta :: copier
  lb_copy_Time :: copier
  lb_copy_Condition :: copier
  lb_DeepCopy_Time :: copier
  lb_order :: "(string \<times> val) list \<Rightarrow> (string \<times> val) list"

text \<open>A TypeMeta holds two strings; each DeepCopyInto and DeepCopy of the library keeps the contract of a copy.\<close>

definition documented_library :: "library \<Rightarrow> bool" where
  "documented_library L \<longleftrightarrow> flat (lb_TypeMeta L) \<and> copies (lb_ObjectMeta L) (lb_copy_ObjectMeta L)
     \<and> copies (lb_ListMeta L) (lb_copy_ListMeta L) \<and> copies (lb_Time L) (lb_copy_Time L)
     \<and> copies (lb_Condition L) (lb_copy_Condition L) \<and> copies (TPtr (lb_Time L)) (lb_DeepCopy_Time L)
     \<and> any_order (lb_order L)"

named_theorems flat_types

lemma library_copies [copy_steps]:
  "documented_library L \<Longrightarrow> copies (lb_ObjectMeta L) (lb_copy_ObjectMeta L)"
  "documented_library L \<Longrightarrow> copies (lb_ListMeta L) (lb_copy_ListMeta L)"
  "documented_library L \<Longrightarrow> copies (lb_Time L) (lb_copy_Time L)"
  "documented_library L \<Longrightarrow> copies (lb_Condition L) (lb_copy_Condition L)"
  "documented_library L \<Longrightarrow> copies (TPtr (lb_Time L)) (lb_DeepCopy_Time L)"
  "documented_library L \<Longrightarrow> any_order (lb_order L)"
  by (simp_all add: documented_library_def)

lemma library_flat [flat_types]: "documented_library L \<Longrightarrow> flat (lb_TypeMeta L)"
  by (simp add: documented_library_def)

definition DescendantEntry_ty :: "library \<Rightarrow> ty" where
  "DescendantEntry_ty L = TStruct [
     (''Group'', TBasic KString), (''Version'', TBasic KString), (''Kind'', TBasic KString),
     (''Name'', TBasic KString), (''Namespace'', TBasic KString), (''UID'', TBasic KString),
     (''SeamOperator'', TBasic KString), (''CreationRationale'', TBasic KString),
     (''RootGenerationAtCreation'', TBasic KInt), (''CreatedAt'', TPtr (lb_Time L)), (''ActorRef'', TBasic KString)]"

definition DriftAffectedCRRef_ty :: "library \<Rightarrow> ty" where
  "DriftAffectedCRRef_ty L = TStruct [
     (''Group'', TBasic KString), (''Kind'', TBasic KString), (''Namespace'', TBasic KString),
     (''Name'', TBasic KString)]"

lemma DriftAffectedCRRef_flat [flat_types]: "documented_library L \<Longrightarrow> flat (DriftAffectedCRRef_ty L)"
  by (simp add: DriftAffectedCRRef_ty_def flat_types)

definition DriftSignalSpec_ty :: "library \<Rightarrow> ty" where
  "DriftSignalSpec_ty L = TStruct [
     (''State'', TBasic KString), (''CorrelationID'', TBasic KString), (''ObservedAt'', lb_Time L),
     (''AffectedCRRef'', DriftAffectedCRRef_ty L), (''DriftReason'', TBasic KString),
     (''CorrectionJobRef'', TBasic KString), (''EscalationCounter'', TBasic KInt)]"

definition DriftSignalStatus_ty :: "library \<Rightarrow> ty" where
  "DriftSignalStatus_ty L = TStruct [
     (''ObservedGeneration'', TBasic KInt), (''Conditions'', TSlice (lb_Condition L))]"

definition DriftSignal_ty :: "library \<Rightarrow> ty" where
  "DriftSignal_ty L = TStruct [
     (''TypeMeta'', lb_TypeMeta L), (''ObjectMeta'', lb_ObjectMeta L), (''Spec'', DriftSignalSpec_ty L),
     (''Status'', DriftSignalStatus_ty L)]"

definition DriftSignalList_ty :: "library \<Rightarrow> ty" where
  "DriftSignalList_ty L = TStruct [
     (''TypeMeta'', lb_TypeMeta L), (''ListMeta'', lb_ListMeta L), (''Items'', TSlice (DriftSignal_ty L))]"

definition InfrastructureCAPICiliumPackRef_ty :: "library \<Rightarrow> ty" where
  "InfrastructureCAPICiliumPackRef_ty L = TStruct [
     (''Name'', TBasic KString), (''Version'', TBasic KString)]"

lemma InfrastructureCAPICiliumPackRef_flat [flat_types]: "documented_library L \<Longrightarrow> flat (InfrastructureCAPICiliumPackRef_ty L)"
  by (simp add: InfrastructureCAPICiliumPackRef_ty_def flat_types)

definition InfrastructureCAPIControlPlaneConfig_ty :: "library \<Rightarrow> ty" where
  "InfrastructureCAPIControlPlaneConfig_ty L = TStruct [
     (''Replicas'', TBasic KInt)]"

lemma InfrastructureCAPIControlPlaneConfig_flat [flat_types]: "documented_library L \<Longrightarrow> flat (InfrastructureCAPIControlPlaneConfig_ty L)"
  by (simp add: InfrastructureCAPIControlPlaneConfig_ty_def flat_types)

definition InfrastructureCAPIWorkerPool_ty :: "library \<Rightarrow> ty" where
  "InfrastructureCAPIWorkerPool_ty L = TStruct [
     (''Name'', TBasic KString), (''Replicas'', TBasic KInt),
     (''SeamInfrastructureMachineNames'', TSlice (TBasic KString))]"

definition InfrastructureCAPIConfig_ty :: "library \<Rightarrow> ty" where
  "InfrastructureCAPIConfig_ty L = TStruct [
     (''Enabled'', TBasic KBool), (''TalosVersion'', TBasic KString), (''KubernetesVersion'', TBasic KString),
     (''ControlPlane'', TPtr (InfrastructureCAPIControlPlaneConfig_ty L)),
     (''Workers'', TSlice (InfrastructureCAPIWorkerPool_ty L)),
     (''CiliumPackRef'', TPtr (InfrastructureCAPICiliumPackRef_ty L))]"

definition InfrastructurePackRegistryRef_ty :: "library \<Rightarrow> ty" where
  "InfrastructurePackRegistryRef_ty L = TStruct [
     (''URL'', TBasic KString), (''Digest'', TBasic KString)]"

lemma InfrastructurePackRegistryRef_flat [flat_types]: "documented_library L \<Longrightarrow> flat (InfrastructurePackRegistryRef_ty L)"
  by (simp add: InfrastructurePackRegistryRef_ty_def flat_types)

definition InfrastructurePackExecutionStage_ty :: "library \<Rightarrow> ty" where
  "InfrastructurePackExecutionStage_ty L = TStruct [
     (''Name'', TBasic KString), (''Manifests'', TSlice (TBasic KString))]"

definition InfrastructurePackProvenance_ty :: "library \<Rightarrow> ty" where
  "InfrastructurePackProvenance_ty L = TStruct [
     (''BuildID'', TBasic KString), (''BuildTimestamp'', TPtr (lb_Time L)), (''SourceRef'', TBasic KString)]"

definition InfrastructureLifecyclePolicy_ty :: "library \<Rightarrow> ty" where
  "InfrastructureLifecyclePolicy_ty L = TStruct [
     (''RetainOnDeletion'', TBasic KBool)]"

lemma InfrastructureLifecyclePolicy_flat [flat_types]: "documented_library L \<Longrightarrow> flat (InfrastructureLifecyclePolicy_ty L)"
  by (simp add: InfrastructureLifecyclePolicy_ty_def flat_types)

definition OperatorIdentity_ty :: "library \<Rightarrow> ty" where
  "OperatorIdentity_ty L = TStruct [
     (''Name'', TBasic KString), (''Version'', TBasic KString)]"

lemma OperatorIdentity_flat [flat_types]: "documented_library L \<Longrightarrow> flat (OperatorIdentity_ty L)"
  by (simp add: OperatorIdentity_ty_def flat_types)

definition SealedCausalChain_ty :: "library \<Rightarrow> ty" where
  "SealedCausalChain_ty L = TStruct [
     (''RootKind'', TBasic KString), (''RootName'', TBasic KString), (''RootNamespace'', TBasic KString),
     (''RootUID'', TBasic KString), (''CreatingOperator'', OperatorIdentity_ty L),
     (''CreationRationale'', TBasic KString), (''RootGenerationAtCreation'', TBasic KInt)]"

lemma SealedCausalChain_flat [flat_types]: "documented_library L \<Longrightarrow> flat (SealedCausalChain_ty L)"
  by (simp add: SealedCausalChain_ty_def flat_types)

definition InfrastructureClusterPackSpec_ty :: "library \<Rightarrow> ty" where
  "InfrastructureClusterPackSpec_ty L = TStruct [
     (''Version'', TBasic KString), (''RegistryRef'', InfrastructurePackRegistryRef_ty L),
     (''Checksum'', TBasic KString), (''RBACDigest'', TBasic KString), (''WorkloadDigest'', TBasic KString),
     (''ClusterScopedDigest'', TBasic KString), (''SourceBuildRef'', TBasic KString),
     (''ExecutionOrder'', TSlice (InfrastructurePackExecutionStage_ty L)),
     (''Provenance'', TPtr (InfrastructurePackProvenance_ty L)), (''BasePackName'', TBasic KString),
     (''TargetClusters'', TSlice (TBasic KString)), (''ChartVersion'', TBasic KString),
     (''ChartURL'', TBasic KString), (''ChartName'', TBasic KString), (''HelmVersion'', TBasic KString),
     (''ValuesFile'', TBasic KString), (''LifecyclePolicies'', TPtr (InfrastructureLifecyclePolicy_ty L)),
     (''Lineage'', TPtr (SealedCausalChain_ty L)), (''RollbackToRevision'', TBasic KInt)]"

definition InfrastructureClusterPackStatus_ty :: "library \<Rightarrow> ty" where
  "InfrastructureClusterPackStatus_ty L = TStruct [
     (''Signed'', TBasic KBool), (''PackSignature'', TBasic KString), (''ObservedGeneration'', TBasic KInt),
     (''Conditions'', TSlice (lb_Condition L))]"

definition InfrastructureClusterPack_ty :: "library \<Rightarrow> ty" where
  "InfrastructureClusterPack_ty L = TStruct [
     (''TypeMeta'', lb_TypeMeta L), (''ObjectMeta'', lb_ObjectMeta L), (''Spec'', InfrastructureClusterPackSpec_ty L),
     (''Status'', InfrastructureClusterPackStatus_ty L)]"

definition InfrastructureClusterPackList_ty :: "library \<Rightarrow> ty" where
  "InfrastructureClusterPackList_ty L = TStruct [
     (''TypeMeta'', lb_TypeMeta L), (''ListMeta'', lb_ListMeta L),
     (''Items'', TSlice (InfrastructureClusterPack_ty L))]"

definition InfrastructureClusterPackRef_ty :: "library \<Rightarrow> ty" where
  "InfrastructureClusterPackRef_ty L = TStruct [
     (''Name'', TBasic KString), (''Version'', TBasic KString)]"

lemma InfrastructureClusterPackRef_flat [flat_types]: "documented_library L \<Longrightarrow> flat (InfrastructureClusterPackRef_ty L)"
  by (simp add: InfrastructureClusterPackRef_ty_def flat_types)

definition InfrastructureDependencyPolicy_ty :: "library \<Rightarrow> ty" where
  "InfrastructureDependencyPolicy_ty L = TStruct [
     (''OnDrift'', TBasic KString)]"

lemma InfrastructureDependencyPolicy_flat [flat_types]: "documented_library L \<Longrightarrow> flat (InfrastructureDependencyPolicy_ty L)"
  by (simp add: InfrastructureDependencyPolicy_ty_def flat_types)

definition InfrastructureDeployedResourceRef_ty :: "library \<Rightarrow> ty" where
  "InfrastructureDeployedResourceRef_ty L = TStruct [
     (''APIVersion'', TBasic KString), (''Kind'', TBasic KString), (''Namespace'', TBasic KString),
     (''Name'', TBasic KString)]"

lemma InfrastructureDeployedResourceRef_flat [flat_types]: "documented_library L \<Longrightarrow> flat (InfrastructureDeployedResourceRef_ty L)"
  by (simp add: InfrastructureDeployedResourceRef_ty_def flat_types)

definition InfrastructureLineageIndexRootBinding_ty :: "library \<Rightarrow> ty" where
  "InfrastructureLineageIndexRootBinding_ty L = TStruct [
     (''RootKind'', TBasic KString), (''RootName'', TBasic KString), (''RootNamespace'', TBasic KString),
     (''RootUID'', TBasic KString), (''RootObservedGeneration'', TBasic KInt),
     (''DeclaringPrincipal'', TBasic KString)]"

lemma InfrastructureLineageIndexRootBinding_flat [flat_types]: "documented_library L \<Longrightarrow> flat (InfrastructureLineageIndexRootBinding_ty L)"
  by (simp add: InfrastructureLineageIndexRootBinding_ty_def flat_types)

definition InfrastructurePolicyBindingStatus_ty :: "library \<Rightarrow> ty" where
  "InfrastructurePolicyBindingStatus_ty L = TStruct [
     (''DomainPolicyRef'', TBasic KString), (''DomainProfileRef'', TBasic KString),
     (''PolicyGenerationAtLastEvaluation'', TBasic KInt), (''DriftDetected'', TBasic KBool)]"

lemma InfrastructurePolicyBindingStatus_flat [flat_types]: "documented_library L \<Longrightarrow> flat (InfrastructurePolicyBindingStatus_ty L)"
  by (simp add: InfrastructurePolicyBindingStatus_ty_def flat_types)

definition OutcomeEntry_ty :: "library \<Rightarrow> ty" where
  "OutcomeEntry_ty L = TStruct [
     (''DerivedObjectUID'', TBasic KString), (''OutcomeType'', TBasic KString), (''OutcomeTimestamp'', lb_Time L),
     (''OutcomeRef'', TBasic KString), (''OutcomeDetail'', TBasic KString)]"

definition LineageRetentionPolicy_ty :: "library \<Rightarrow> ty" where
  "LineageRetentionPolicy_ty L = TStruct [
     (''DescendantRetentionDays'', TBasic KInt), (''DeleteWithRoot'', TBasic KBool)]"

lemma LineageRetentionPolicy_flat [flat_types]: "documented_library L \<Longrightarrow> flat (LineageRetentionPolicy_ty L)"
  by (simp add: LineageRetentionPolicy_ty_def flat_types)

definition InfrastructureLineageIndexSpec_ty :: "library \<Rightarrow> ty" where
  "InfrastructureLineageIndexSpec_ty L = TStruct [
     (''RootBinding'', InfrastructureLineageIndexRootBinding_ty L), (''DomainRef'', TBasic KString),
     (''DescendantRegistry'', TSlice (DescendantEntry_ty L)),
     (''PolicyBindingStatus'', TPtr (InfrastructurePolicyBindingStatus_ty L)),
     (''OutcomeRegistry'', TSlice (OutcomeEntry_ty L)), (''RetentionPolicy'', TPtr (LineageRetentionPolicy_ty L))]"

definition InfrastructureLineageIndexStatus_ty :: "library \<Rightarrow> ty" where
  "InfrastructureLineageIndexStatus_ty L = TStruct [
     (''ObservedGeneration'', TBasic KInt), (''Conditions'', TSlice (lb_Condition L))]"

definition InfrastructureLineageIndex_ty :: "library \<Rightarrow> ty" where
  "InfrastructureLineageIndex_ty L = TStruct [
     (''TypeMeta'', lb_TypeMeta L), (''ObjectMeta'', lb_ObjectMeta L),
     (''Spec'', InfrastructureLineageIndexSpec_ty L), (''Status'', InfrastructureLineageIndexStatus_ty L)]"

definition InfrastructureLineageIndexList_ty :: "library \<Rightarrow> ty" where
  "InfrastructureLineageIndexList_ty L = TStruct [
     (''TypeMeta'', lb_TypeMeta L), (''ListMeta'', lb_ListMeta L),
     (''Items'', TSlice (InfrastructureLineageIndex_ty L))]"

definition InfrastructureLocalObjectRef_ty :: "library \<Rightarrow> ty" where
  "InfrastructureLocalObjectRef_ty L = TStruct [
     (''Name'', TBasic KString), (''Namespace'', TBasic KString)]"

lemma InfrastructureLocalObjectRef_flat [flat_types]: "documented_library L \<Longrightarrow> flat (InfrastructureLocalObjectRef_ty L)"
  by (simp add: InfrastructureLocalObjectRef_ty_def flat_types)

definition InfrastructurePackHelmSource_ty :: "library \<Rightarrow> ty" where
  "InfrastructurePackHelmSource_ty L = TStruct [
     (''URL'', TBasic KString), (''Chart'', TBasic KString), (''Version'', TBasic KString),
     (''ValuesFile'', TBasic KString)]"

lemma InfrastructurePackHelmSource_flat [flat_types]: "documented_library L \<Longrightarrow> flat (InfrastructurePackHelmSource_ty L)"
  by (simp add: InfrastructurePackHelmSource_ty_def flat_types)

definition InfrastructurePackKustomizeSource_ty :: "library \<Rightarrow> ty" where
  "InfrastructurePackKustomizeSource_ty L = TStruct [
     (''Path'', TBasic KString)]"

lemma InfrastructurePackKustomizeSource_flat [flat_types]: "documented_library L \<Longrightarrow> flat (InfrastructurePackKustomizeSource_ty L)"
  by (simp add: InfrastructurePackKustomizeSource_ty_def flat_types)

definition InfrastructurePackRawSource_ty :: "library \<Rightarrow> ty" where
  "InfrastructurePackRawSource_ty L = TStruct [
     (''Path'', TBasic KString)]"

lemma InfrastructurePackRawSource_flat [flat_types]: "documented_library L \<Longrightarrow> flat (InfrastructurePackRawSource_ty L)"
  by (simp add: InfrastructurePackRawSource_ty_def flat_types)

definition InfrastructurePackBuildSpec_ty :: "library \<Rightarrow> ty" where
  "InfrastructurePackBuildSpec_ty L = TStruct [
     (''ComponentName'', TBasic KString), (''Category'', TBasic KString),
     (''HelmSource'', TPtr (InfrastructurePackHelmSource_ty L)),
     (''KustomizeSource'', TPtr (InfrastructurePackKustomizeSource_ty L)),
     (''RawSource'', TPtr (InfrastructurePackRawSource_ty L)), (''TargetClusters'', TSlice (TBasic KString))]"

definition InfrastructurePackBuildStatus_ty :: "library \<Rightarrow> ty" where
  "InfrastructurePackBuildStatus_ty L = TStruct [
     (''ObservedGeneration'', TBasic KInt), (''Conditions'', TSlice (lb_Condition L))]"

definition InfrastructurePackBuild_ty :: "library \<Rightarrow> ty" where
  "InfrastructurePackBuild_ty L = TStruct [
     (''TypeMeta'', lb_TypeMeta L), (''ObjectMeta'', lb_ObjectMeta L), (''Spec'', InfrastructurePackBuildSpec_ty L),
     (''Status'', InfrastructurePackBuildStatus_ty L)]"

definition InfrastructurePackBuildList_ty :: "library \<Rightarrow> ty" where
  "InfrastructurePackBuildList_ty L = TStruct [
     (''TypeMeta'', lb_TypeMeta L), (''ListMeta'', lb_ListMeta L), (''Items'', TSlice (InfrastructurePackBuild_ty L))]"

definition InfrastructurePackExecutionSpec_ty :: "library \<Rightarrow> ty" where
  "InfrastructurePackExecutionSpec_ty L = TStruct [
     (''ClusterPackRef'', InfrastructureClusterPackRef_ty L), (''TargetClusterRef'', TBasic KString),
     (''AdmissionProfileRef'', TBasic KString), (''ChartVersion'', TBasic KString), (''ChartURL'', TBasic KString),
     (''ChartName'', TBasic KString), (''HelmVersion'', TBasic KString), (''Lineage'', TPtr (SealedCausalChain_ty L))]"

definition InfrastructurePackExecutionStatus_ty :: "library \<Rightarrow> ty" where
  "InfrastructurePackExecutionStatus_ty L = TStruct [
     (''ObservedGeneration'', TBasic KInt), (''JobName'', TBasic KString), (''OperationResultRef'', TBasic KString),
     (''Conditions'', TSlice (lb_Condition L))]"

definition InfrastructurePackExecution_ty :: "library \<Rightarrow> ty" where
  "InfrastructurePackExecution_ty L = TStruct [
     (''TypeMeta'', lb_TypeMeta L), (''ObjectMeta'', lb_ObjectMeta L),
     (''Spec'', InfrastructurePackExecutionSpec_ty L), (''Status'', InfrastructurePackExecutionStatus_ty L)]"

definition InfrastructurePackExecutionList_ty :: "library \<Rightarrow> ty" where
  "InfrastructurePackExecutionList_ty L = TStruct [
     (''TypeMeta'', lb_TypeMeta L), (''ListMeta'', lb_ListMeta L),
     (''Items'', TSlice (InfrastructurePackExecution_ty L))]"

definition InfrastructurePackInstanceSpec_ty :: "library \<Rightarrow> ty" where
  "InfrastructurePackInstanceSpec_ty L = TStruct [
     (''ClusterPackRef'', TBasic KString), (''Version'', TBasic KString), (''TargetClusterRef'', TBasic KString),
     (''DependsOn'', TSlice (TBasic KString)), (''DependencyPolicy'', TPtr (InfrastructureDependencyPolicy_ty L)),
     (''ChartVersion'', TBasic KString), (''ChartURL'', TBasic KString), (''ChartName'', TBasic KString),
     (''HelmVersion'', TBasic KString)]"

definition InfrastructurePackInstanceStatus_ty :: "library \<Rightarrow> ty" where
  "InfrastructurePackInstanceStatus_ty L = TStruct [
     (''ObservedGeneration'', TBasic KInt), (''DeliveredAt'', TPtr (lb_Time L)), (''DriftSummary'', TBasic KString),
     (''UpgradeDirection'', TBasic KString), (''DeployedResources'', TSlice (InfrastructureDeployedResourceRef_ty L)),
     (''Conditions'', TSlice (lb_Condition L))]"

definition InfrastructurePackInstance_ty :: "library \<Rightarrow> ty" where
  "InfrastructurePackInstance_ty L = TStruct [
     (''TypeMeta'', lb_TypeMeta L), (''ObjectMeta'', lb_ObjectMeta L),
     (''Spec'', InfrastructurePackInstanceSpec_ty L), (''Status'', InfrastructurePackInstanceStatus_ty L)]"

definition InfrastructurePackInstanceList_ty :: "library \<Rightarrow> ty" where
  "InfrastructurePackInstanceList_ty L = TStruct [
     (''TypeMeta'', lb_TypeMeta L), (''ListMeta'', lb_ListMeta L),
     (''Items'', TSlice (InfrastructurePackInstance_ty L))]"

definition PackReceiptDeployedResource_ty :: "library \<Rightarrow> ty" where
  "PackReceiptDeployedResource_ty L = TStruct [
     (''APIVersion'', TBasic KString), (''Kind'', TBasic KString), (''Namespace'', TBasic KString),
     (''Name'', TBasic KString)]"

lemma PackReceiptDeployedResource_flat [flat_types]: "documented_library L \<Longrightarrow> flat (PackReceiptDeployedResource_ty L)"
  by (simp add: PackReceiptDeployedResource_ty_def flat_types)

definition InfrastructurePackReceiptSpec_ty :: "library \<Rightarrow> ty" where
  "InfrastructurePackReceiptSpec_ty L = TStruct [
     (''PackInstanceRef'', TBasic KString), (''SignatureRef'', TBasic KString), (''ClusterPackRef'', TBasic KString),
     (''TargetClusterRef'', TBasic KString), (''RBACDigest'', TBasic KString), (''WorkloadDigest'', TBasic KString),
     (''ChartVersion'', TBasic KString), (''ChartURL'', TBasic KString), (''ChartName'', TBasic KString),
     (''HelmVersion'', TBasic KString), (''DeployedResources'', TSlice (PackReceiptDeployedResource_ty L))]"

definition InfrastructurePackReceiptStatus_ty :: "library \<Rightarrow> ty" where
  "InfrastructurePackReceiptStatus_ty L = TStruct [
     (''Verified'', TBasic KBool), (''Signature'', TBasic KString), (''VerificationFailedReason'', TBasic KString),
     (''ObservedGeneration'', TBasic KInt), (''Conditions'', TSlice (lb_Condition L))]"

definition InfrastructurePackReceipt_ty :: "library \<Rightarrow> ty" where
  "InfrastructurePackReceipt_ty L = TStruct [
     (''TypeMeta'', lb_TypeMeta L), (''ObjectMeta'', lb_ObjectMeta L), (''Spec'', InfrastructurePackReceiptSpec_ty L),
     (''Status'', InfrastructurePackReceiptStatus_ty L)]"

definition InfrastructurePackReceiptList_ty :: "library \<Rightarrow> ty" where
  "InfrastructurePackReceiptList_ty L = TStruct [
     (''TypeMeta'', lb_TypeMeta L), (''ListMeta'', lb_ListMeta L),
     (''Items'', TSlice (InfrastructurePackReceipt_ty L))]"

definition RunnerPhaseConfig_ty :: "library \<Rightarrow> ty" where
  "RunnerPhaseConfig_ty L = TStruct [
     (''Name'', TBasic KString), (''Parameters'', TMap (TBasic KString))]"

definition RunnerConfigStep_ty :: "library \<Rightarrow> ty" where
  "RunnerConfigStep_ty L = TStruct [
     (''Name'', TBasic KString), (''Capability'', TBasic KString), (''Parameters'', TMap (TBasic KString)),
     (''DependsOn'', TBasic KString), (''HaltOnFailure'', TBasic KBool)]"

definition RunnerOperationalHistoryEntry_ty :: "library \<Rightarrow> ty" where
  "RunnerOperationalHistoryEntry_ty L = TStruct [
     (''AppliedAt'', lb_Time L), (''Concern'', TBasic KString), (''PreviousValue'', TBasic KString),
     (''NewValue'', TBasic KString), (''AppliedBy'', TBasic KString)]"

definition InfrastructureRunnerConfigSpec_ty :: "library \<Rightarrow> ty" where
  "InfrastructureRunnerConfigSpec_ty L = TStruct [
     (''ClusterRef'', TBasic KString), (''RunnerImage'', TBasic KString),
     (''Phases'', TSlice (RunnerPhaseConfig_ty L)), (''Steps'', TSlice (RunnerConfigStep_ty L)),
     (''OperationalHistory'', TSlice (RunnerOperationalHistoryEntry_ty L)),
     (''MaintenanceTargetNodes'', TSlice (TBasic KString)), (''OperatorLeaderNode'', TBasic KString),
     (''SelfOperation'', TBasic KBool)]"

definition RunnerCapabilityEntry_ty :: "library \<Rightarrow> ty" where
  "RunnerCapabilityEntry_ty L = TStruct [
     (''Name'', TBasic KString), (''Version'', TBasic KString), (''Description'', TBasic KString)]"

lemma RunnerCapabilityEntry_flat [flat_types]: "documented_library L \<Longrightarrow> flat (RunnerCapabilityEntry_ty L)"
  by (simp add: RunnerCapabilityEntry_ty_def flat_types)

definition RunnerConfigStepResult_ty :: "library \<Rightarrow> ty" where
  "RunnerConfigStepResult_ty L = TStruct [
     (''Name'', TBasic KString), (''Status'', TBasic KString), (''StartedAt'', TPtr (lb_Time L)),
     (''CompletedAt'', TPtr (lb_Time L)), (''Message'', TBasic KString)]"

definition InfrastructureRunnerConfigStatus_ty :: "library \<Rightarrow> ty" where
  "InfrastructureRunnerConfigStatus_ty L = TStruct [
     (''Capabilities'', TSlice (RunnerCapabilityEntry_ty L)), (''AgentVersion'', TBasic KString),
     (''AgentLeader'', TBasic KString), (''Phase'', TBasic KString), (''FailedStep'', TBasic KString),
     (''StepResults'', TSlice (RunnerConfigStepResult_ty L)), (''Conditions'', TSlice (lb_Condition L))]"

definition InfrastructureRunnerConfig_ty :: "library \<Rightarrow> ty" where
  "InfrastructureRunnerConfig_ty L = TStruct [
     (''TypeMeta'', lb_TypeMeta L), (''ObjectMeta'', lb_ObjectMeta L),
     (''Spec'', InfrastructureRunnerConfigSpec_ty L), (''Status'', InfrastructureRunnerConfigStatus_ty L)]"

definition InfrastructureRunnerConfigList_ty :: "library \<Rightarrow> ty" where
  "InfrastructureRunnerConfigList_ty L = TStruct [
     (''TypeMeta'', lb_TypeMeta L), (''ListMeta'', lb_ListMeta L),
     (''Items'', TSlice (InfrastructureRunnerConfig_ty L))]"

definition InfrastructureTalosClusterSpec_ty :: "library \<Rightarrow> ty" where
  "InfrastructureTalosClusterSpec_ty L = TStruct [
     (''Mode'', TBasic KString), (''Role'', TBasic KString), (''TalosVersion'', TBasic KString),
     (''KubernetesVersion'', TBasic KString), (''VersionUpgrade'', TBasic KBool),
     (''ClusterEndpoint'', TBasic KString), (''NodeAddresses'', TSlice (TBasic KString)),
     (''CAPI'', TPtr (InfrastructureCAPIConfig_ty L)), (''InfrastructureProvider'', TBasic KString),
     (''KubeconfigSecretRef'', TBasic KString), (''TalosconfigSecretRef'', TBasic KString),
     (''Lineage'', TPtr (SealedCausalChain_ty L)), (''PkiRotationThresholdDays'', TBasic KInt),
     (''HardeningProfileRef'', TPtr (InfrastructureLocalObjectRef_ty L))]"

definition InfrastructureTalosClusterStatus_ty :: "library \<Rightarrow> ty" where
  "InfrastructureTalosClusterStatus_ty L = TStruct [
     (''ObservedGeneration'', TBasic KInt), (''Origin'', TBasic KString), (''ObservedTalosVersion'', TBasic KString),
     (''CAPIClusterRef'', TPtr (InfrastructureLocalObjectRef_ty L)), (''Conditions'', TSlice (lb_Condition L)),
     (''PkiExpiryDate'', TPtr (lb_Time L))]"

definition InfrastructureTalosCluster_ty :: "library \<Rightarrow> ty" where
  "InfrastructureTalosCluster_ty L = TStruct [
     (''TypeMeta'', lb_TypeMeta L), (''ObjectMeta'', lb_ObjectMeta L),
     (''Spec'', InfrastructureTalosClusterSpec_ty L), (''Status'', InfrastructureTalosClusterStatus_ty L)]"

definition InfrastructureTalosClusterList_ty :: "library \<Rightarrow> ty" where
  "InfrastructureTalosClusterList_ty L = TStruct [
     (''TypeMeta'', lb_TypeMeta L), (''ListMeta'', lb_ListMeta L),
     (''Items'', TSlice (InfrastructureTalosCluster_ty L))]"

definition TalosClusterOperationFailureReason_ty :: "library \<Rightarrow> ty" where
  "TalosClusterOperationFailureReason_ty L = TStruct [
     (''Category'', TBasic KString), (''Reason'', TBasic KString)]"

lemma TalosClusterOperationFailureReason_flat [flat_types]: "documented_library L \<Longrightarrow> flat (TalosClusterOperationFailureReason_ty L)"
  by (simp add: TalosClusterOperationFailureReason_ty_def flat_types)

definition TalosClusterOperationRecord_ty :: "library \<Rightarrow> ty" where
  "TalosClusterOperationRecord_ty L = TStruct [
     (''Capability'', TBasic KString), (''JobRef'', TBasic KString), (''Status'', TBasic KString),
     (''Message'', TBasic KString), (''StartedAt'', TPtr (lb_Time L)), (''CompletedAt'', TPtr (lb_Time L)),
     (''FailureReason'', TPtr (TalosClusterOperationFailureReason_ty L))]"

definition InfrastructureTalosClusterOperationResultSpec_ty :: "library \<Rightarrow> ty" where
  "InfrastructureTalosClusterOperationResultSpec_ty L = TStruct [
     (''ClusterRef'', TBasic KString), (''TalosVersion'', TBasic KString), (''Revision'', TBasic KInt),
     (''Operations'', TMap (TalosClusterOperationRecord_ty L)), (''OperationCount'', TBasic KInt)]"

definition InfrastructureTalosClusterOperationResultStatus_ty :: "library \<Rightarrow> ty" where
  "InfrastructureTalosClusterOperationResultStatus_ty L = TStruct [
     (''ObservedGeneration'', TBasic KInt)]"

lemma InfrastructureTalosClusterOperationResultStatus_flat [flat_types]: "documented_library L \<Longrightarrow> flat (InfrastructureTalosClusterOperationResultStatus_ty L)"
  by (simp add: InfrastructureTalosClusterOperationResultStatus_ty_def flat_types)

definition InfrastructureTalosClusterOperationResult_ty :: "library \<Rightarrow> ty" where
  "InfrastructureTalosClusterOperationResult_ty L = TStruct [
     (''TypeMeta'', lb_TypeMeta L), (''ObjectMeta'', lb_ObjectMeta L),
     (''Spec'', InfrastructureTalosClusterOperationResultSpec_ty L),
     (''Status'', InfrastructureTalosClusterOperationResultStatus_ty L)]"

definition InfrastructureTalosClusterOperationResultList_ty :: "library \<Rightarrow> ty" where
  "InfrastructureTalosClusterOperationResultList_ty L = TStruct [
     (''TypeMeta'', lb_TypeMeta L), (''ListMeta'', lb_ListMeta L),
     (''Items'', TSlice (InfrastructureTalosClusterOperationResult_ty L))]"

definition PackOperationArtifact_ty :: "library \<Rightarrow> ty" where
  "PackOperationArtifact_ty L = TStruct [
     (''Name'', TBasic KString), (''Kind'', TBasic KString), (''Reference'', TBasic KString),
     (''Checksum'', TBasic KString)]"

lemma PackOperationArtifact_flat [flat_types]: "documented_library L \<Longrightarrow> flat (PackOperationArtifact_ty L)"
  by (simp add: PackOperationArtifact_ty_def flat_types)

definition PackOperationDeployedResource_ty :: "library \<Rightarrow> ty" where
  "PackOperationDeployedResource_ty L = TStruct [
     (''APIVersion'', TBasic KString), (''Kind'', TBasic KString), (''Namespace'', TBasic KString),
     (''Name'', TBasic KString)]"

lemma PackOperationDeployedResource_flat [flat_types]: "documented_library L \<Longrightarrow> flat (PackOperationDeployedResource_ty L)"
  by (simp add: PackOperationDeployedResource_ty_def flat_types)

definition PackOperationFailureReason_ty :: "library \<Rightarrow> ty" where
  "PackOperationFailureReason_ty L = TStruct [
     (''Category'', TBasic KString), (''Reason'', TBasic KString), (''FailedStep'', TBasic KString)]"

lemma PackOperationFailureReason_flat [flat_types]: "documented_library L \<Longrightarrow> flat (PackOperationFailureReason_ty L)"
  by (simp add: PackOperationFailureReason_ty_def flat_types)

definition PackOperationStepResult_ty :: "library \<Rightarrow> ty" where
  "PackOperationStepResult_ty L = TStruct [
     (''Name'', TBasic KString), (''Status'', TBasic KString), (''StartedAt'', TPtr (lb_Time L)),
     (''CompletedAt'', TPtr (lb_Time L)), (''Message'', TBasic KString)]"

definition PackOperationResultSpec_ty :: "library \<Rightarrow> ty" where
  "PackOperationResultSpec_ty L = TStruct [
     (''Revision'', TBasic KInt), (''PreviousRevisionRef'', TBasic KString),
     (''TalosClusterOperationResultRef'', TBasic KString), (''PackExecutionRef'', TBasic KString),
     (''ClusterPackRef'', TBasic KString), (''TargetClusterRef'', TBasic KString), (''Capability'', TBasic KString),
     (''Phase'', TBasic KString), (''Status'', TBasic KString), (''StartedAt'', TPtr (lb_Time L)),
     (''CompletedAt'', TPtr (lb_Time L)), (''FailureReason'', TPtr (PackOperationFailureReason_ty L)),
     (''DeployedResources'', TSlice (PackOperationDeployedResource_ty L)),
     (''Artifacts'', TSlice (PackOperationArtifact_ty L)), (''Steps'', TSlice (PackOperationStepResult_ty L)),
     (''ClusterPackVersion'', TBasic KString), (''RBACDigest'', TBasic KString), (''WorkloadDigest'', TBasic KString)]"

definition PackOperationResultStatus_ty :: "library \<Rightarrow> ty" where
  "PackOperationResultStatus_ty L = TStruct [
     (''ObservedGeneration'', TBasic KInt)]"

lemma PackOperationResultStatus_flat [flat_types]: "documented_library L \<Longrightarrow> flat (PackOperationResultStatus_ty L)"
  by (simp add: PackOperationResultStatus_ty_def flat_types)

definition PackOperationResult_ty :: "library \<Rightarrow> ty" where
  "PackOperationResult_ty L = TStruct [
     (''TypeMeta'', lb_TypeMeta L), (''ObjectMeta'', lb_ObjectMeta L), (''Spec'', PackOperationResultSpec_ty L),
     (''Status'', PackOperationResultStatus_ty L)]"

definition PackOperationResultList_ty :: "library \<Rightarrow> ty" where
  "PackOperationResultList_ty L = TStruct [
     (''TypeMeta'', lb_TypeMeta L), (''ListMeta'', lb_ListMeta L), (''Items'', TSlice (PackOperationResult_ty L))]"

definition SeamMembershipSpec_ty :: "library \<Rightarrow> ty" where
  "SeamMembershipSpec_ty L = TStruct [
     (''AppIdentityRef'', TBasic KString), (''DomainIdentityRef'', TBasic KString),
     (''PrincipalRef'', TBasic KString), (''Tier'', TBasic KString)]"

lemma SeamMembershipSpec_flat [flat_types]: "documented_library L \<Longrightarrow> flat (SeamMembershipSpec_ty L)"
  by (simp add: SeamMembershipSpec_ty_def flat_types)

definition SeamMembershipStatus_ty :: "library \<Rightarrow> ty" where
  "SeamMembershipStatus_ty L = TStruct [
     (''Admitted'', TBasic KBool), (''AdmittedAt'', TPtr (lb_Time L)), (''PermissionSnapshotRef'', TBasic KString),
     (''Conditions'', TSlice (lb_Condition L))]"

definition SeamMembership_ty :: "library \<Rightarrow> ty" where
  "SeamMembership_ty L = TStruct [
     (''TypeMeta'', lb_TypeMeta L), (''ObjectMeta'', lb_ObjectMeta L), (''Spec'', SeamMembershipSpec_ty L),
     (''Status'', SeamMembershipStatus_ty L)]"

definition SeamMembershipList_ty :: "library \<Rightarrow> ty" where
  "SeamMembershipList_ty L = TStruct [
     (''TypeMeta'', lb_TypeMeta L), (''ListMeta'', lb_ListMeta L), (''Items'', TSlice (SeamMembership_ty L))]"

end
