(* ===== verification/DeepCopy.thy ===== *)
theory DeepCopy
  imports GoTypes
begin

text \<open>The generated methods of src/api/v1alpha1/zz_generated.deepcopy.go: DeepCopyInto as the list of its statements
  after \<open>*out = *in\<close>, DeepCopy as an allocation and a DeepCopyInto, DeepCopyObject as the method of the twelve
  kinds and their lists that the machinery calls through \<open>runtime.Object\<close>. Each is shown to meet the contract
  of a copy, from the methods it calls.\<close>

lemmas copied = copies_struct fields_copied_def

definition copies_as_object :: "string \<Rightarrow> ty \<Rightarrow> (val \<Rightarrow> memory \<Rightarrow> (iface \<times> memory) option) \<Rightarrow> bool" where
  "copies_as_object n t f \<longleftrightarrow> (\<exists>g. copies (TPtr t) g \<and> f = deep_copy_object n g)"

lemma object_of: "copies (TPtr t) g \<Longrightarrow> copies_as_object n t (deep_copy_object n g)"
  by (auto simp: copies_as_object_def)

definition DescendantEntry_DeepCopyInto :: "library \<Rightarrow> copier" where
  "DescendantEntry_DeepCopyInto L = copy_struct [
     (''CreatedAt'', if_not_nil (lb_DeepCopy_Time L))]"

definition DescendantEntry_DeepCopy :: "library \<Rightarrow> copier" where
  "DescendantEntry_DeepCopy L = copy_pointer (DescendantEntry_ty L) (DescendantEntry_DeepCopyInto L)"

lemma DescendantEntry_copies [copy_steps]: "documented_library L \<Longrightarrow> copies (DescendantEntry_ty L) (DescendantEntry_DeepCopyInto L)"
  by (simp add: DescendantEntry_ty_def DescendantEntry_DeepCopyInto_def copy_steps copied flat_types)

lemma DescendantEntry_pointer [copy_steps]: "documented_library L \<Longrightarrow> copies (TPtr (DescendantEntry_ty L)) (DescendantEntry_DeepCopy L)"
  by (simp add: DescendantEntry_DeepCopy_def DescendantEntry_copies copies_pointer)

definition DriftAffectedCRRef_DeepCopyInto :: "library \<Rightarrow> copier" where
  "DriftAffectedCRRef_DeepCopyInto L = copy_struct []"

definition DriftAffectedCRRef_DeepCopy :: "library \<Rightarrow> copier" where
  "DriftAffectedCRRef_DeepCopy L = copy_pointer (DriftAffectedCRRef_ty L) (DriftAffectedCRRef_DeepCopyInto L)"

lemma DriftAffectedCRRef_copies [copy_steps]: "documented_library L \<Longrightarrow> copies (DriftAffectedCRRef_ty L) (DriftAffectedCRRef_DeepCopyInto L)"
  by (simp add: DriftAffectedCRRef_ty_def DriftAffectedCRRef_DeepCopyInto_def copy_steps copied flat_types)

lemma DriftAffectedCRRef_pointer [copy_steps]: "documented_library L \<Longrightarrow> copies (TPtr (DriftAffectedCRRef_ty L)) (DriftAffectedCRRef_DeepCopy L)"
  by (simp add: DriftAffectedCRRef_DeepCopy_def DriftAffectedCRRef_copies copies_pointer)

definition DriftSignalSpec_DeepCopyInto :: "library \<Rightarrow> copier" where
  "DriftSignalSpec_DeepCopyInto L = copy_struct [
     (''ObservedAt'', lb_copy_Time L), (''AffectedCRRef'', assign)]"

definition DriftSignalSpec_DeepCopy :: "library \<Rightarrow> copier" where
  "DriftSignalSpec_DeepCopy L = copy_pointer (DriftSignalSpec_ty L) (DriftSignalSpec_DeepCopyInto L)"

lemma DriftSignalSpec_copies [copy_steps]: "documented_library L \<Longrightarrow> copies (DriftSignalSpec_ty L) (DriftSignalSpec_DeepCopyInto L)"
  by (simp add: DriftSignalSpec_ty_def DriftSignalSpec_DeepCopyInto_def copy_steps copied flat_types)

lemma DriftSignalSpec_pointer [copy_steps]: "documented_library L \<Longrightarrow> copies (TPtr (DriftSignalSpec_ty L)) (DriftSignalSpec_DeepCopy L)"
  by (simp add: DriftSignalSpec_DeepCopy_def DriftSignalSpec_copies copies_pointer)

definition DriftSignalStatus_DeepCopyInto :: "library \<Rightarrow> copier" where
  "DriftSignalStatus_DeepCopyInto L = copy_struct [
     (''Conditions'', copy_slice (lb_Condition L) (lb_copy_Condition L))]"

definition DriftSignalStatus_DeepCopy :: "library \<Rightarrow> copier" where
  "DriftSignalStatus_DeepCopy L = copy_pointer (DriftSignalStatus_ty L) (DriftSignalStatus_DeepCopyInto L)"

lemma DriftSignalStatus_copies [copy_steps]: "documented_library L \<Longrightarrow> copies (DriftSignalStatus_ty L) (DriftSignalStatus_DeepCopyInto L)"
  by (simp add: DriftSignalStatus_ty_def DriftSignalStatus_DeepCopyInto_def copy_steps copied flat_types)

lemma DriftSignalStatus_pointer [copy_steps]: "documented_library L \<Longrightarrow> copies (TPtr (DriftSignalStatus_ty L)) (DriftSignalStatus_DeepCopy L)"
  by (simp add: DriftSignalStatus_DeepCopy_def DriftSignalStatus_copies copies_pointer)

definition DriftSignal_DeepCopyInto :: "library \<Rightarrow> copier" where
  "DriftSignal_DeepCopyInto L = copy_struct [
     (''TypeMeta'', assign), (''ObjectMeta'', lb_copy_ObjectMeta L), (''Spec'', DriftSignalSpec_DeepCopyInto L),
     (''Status'', DriftSignalStatus_DeepCopyInto L)]"

definition DriftSignal_DeepCopy :: "library \<Rightarrow> copier" where
  "DriftSignal_DeepCopy L = copy_pointer (DriftSignal_ty L) (DriftSignal_DeepCopyInto L)"

definition DriftSignal_DeepCopyObject :: "library \<Rightarrow> val \<Rightarrow> memory \<Rightarrow> (iface \<times> memory) option" where
  "DriftSignal_DeepCopyObject L = deep_copy_object ''*DriftSignal'' (DriftSignal_DeepCopy L)"

lemma DriftSignal_copies [copy_steps]: "documented_library L \<Longrightarrow> copies (DriftSignal_ty L) (DriftSignal_DeepCopyInto L)"
  by (simp add: DriftSignal_ty_def DriftSignal_DeepCopyInto_def copy_steps copied flat_types)

lemma DriftSignal_pointer [copy_steps]: "documented_library L \<Longrightarrow> copies (TPtr (DriftSignal_ty L)) (DriftSignal_DeepCopy L)"
  by (simp add: DriftSignal_DeepCopy_def DriftSignal_copies copies_pointer)

lemma DriftSignal_object [copy_steps]:
  "documented_library L \<Longrightarrow> copies_as_object ''*DriftSignal'' (DriftSignal_ty L) (DriftSignal_DeepCopyObject L)"
  by (simp add: DriftSignal_DeepCopyObject_def object_of DriftSignal_pointer)

definition DriftSignalList_DeepCopyInto :: "library \<Rightarrow> copier" where
  "DriftSignalList_DeepCopyInto L = copy_struct [
     (''TypeMeta'', assign), (''ListMeta'', lb_copy_ListMeta L),
     (''Items'', copy_slice (DriftSignal_ty L) (DriftSignal_DeepCopyInto L))]"

definition DriftSignalList_DeepCopy :: "library \<Rightarrow> copier" where
  "DriftSignalList_DeepCopy L = copy_pointer (DriftSignalList_ty L) (DriftSignalList_DeepCopyInto L)"

definition DriftSignalList_DeepCopyObject :: "library \<Rightarrow> val \<Rightarrow> memory \<Rightarrow> (iface \<times> memory) option" where
  "DriftSignalList_DeepCopyObject L = deep_copy_object ''*DriftSignalList'' (DriftSignalList_DeepCopy L)"

lemma DriftSignalList_copies [copy_steps]: "documented_library L \<Longrightarrow> copies (DriftSignalList_ty L) (DriftSignalList_DeepCopyInto L)"
  by (simp add: DriftSignalList_ty_def DriftSignalList_DeepCopyInto_def copy_steps copied flat_types)

lemma DriftSignalList_pointer [copy_steps]: "documented_library L \<Longrightarrow> copies (TPtr (DriftSignalList_ty L)) (DriftSignalList_DeepCopy L)"
  by (simp add: DriftSignalList_DeepCopy_def DriftSignalList_copies copies_pointer)

lemma DriftSignalList_object [copy_steps]:
  "documented_library L \<Longrightarrow> copies_as_object ''*DriftSignalList'' (DriftSignalList_ty L) (DriftSignalList_DeepCopyObject L)"
  by (simp add: DriftSignalList_DeepCopyObject_def object_of DriftSignalList_pointer)

definition InfrastructureCAPICiliumPackRef_DeepCopyInto :: "library \<Rightarrow> copier" where
  "InfrastructureCAPICiliumPackRef_DeepCopyInto L = copy_struct []"

definition InfrastructureCAPICiliumPackRef_DeepCopy :: "library \<Rightarrow> copier" where
  "InfrastructureCAPICiliumPackRef_DeepCopy L = copy_pointer (InfrastructureCAPICiliumPackRef_ty L) (InfrastructureCAPICiliumPackRef_DeepCopyInto L)"

lemma InfrastructureCAPICiliumPackRef_copies [copy_steps]: "documented_library L \<Longrightarrow> copies (InfrastructureCAPICiliumPackRef_ty L) (InfrastructureCAPICiliumPackRef_DeepCopyInto L)"
  by (simp add: InfrastructureCAPICiliumPackRef_ty_def InfrastructureCAPICiliumPackRef_DeepCopyInto_def copy_steps copied flat_types)

lemma InfrastructureCAPICiliumPackRef_pointer [copy_steps]: "documented_library L \<Longrightarrow> copies (TPtr (InfrastructureCAPICiliumPackRef_ty L)) (InfrastructureCAPICiliumPackRef_DeepCopy L)"
  by (simp add: InfrastructureCAPICiliumPackRef_DeepCopy_def InfrastructureCAPICiliumPackRef_copies copies_pointer)

definition InfrastructureCAPIControlPlaneConfig_DeepCopyInto :: "library \<Rightarrow> copier" where
  "InfrastructureCAPIControlPlaneConfig_DeepCopyInto L = copy_struct []"

definition InfrastructureCAPIControlPlaneConfig_DeepCopy :: "library \<Rightarrow> copier" where
  "InfrastructureCAPIControlPlaneConfig_DeepCopy L = copy_pointer (InfrastructureCAPIControlPlaneConfig_ty L) (InfrastructureCAPIControlPlaneConfig_DeepCopyInto L)"

lemma InfrastructureCAPIControlPlaneConfig_copies [copy_steps]: "documented_library L \<Longrightarrow> copies (InfrastructureCAPIControlPlaneConfig_ty L) (InfrastructureCAPIControlPlaneConfig_DeepCopyInto L)"
  by (simp add: InfrastructureCAPIControlPlaneConfig_ty_def InfrastructureCAPIControlPlaneConfig_DeepCopyInto_def copy_steps copied flat_types)

lemma InfrastructureCAPIControlPlaneConfig_pointer [copy_steps]: "documented_library L \<Longrightarrow> copies (TPtr (InfrastructureCAPIControlPlaneConfig_ty L)) (InfrastructureCAPIControlPlaneConfig_DeepCopy L)"
  by (simp add: InfrastructureCAPIControlPlaneConfig_DeepCopy_def InfrastructureCAPIControlPlaneConfig_copies copies_pointer)

definition InfrastructureCAPIWorkerPool_DeepCopyInto :: "library \<Rightarrow> copier" where
  "InfrastructureCAPIWorkerPool_DeepCopyInto L = copy_struct [
     (''SeamInfrastructureMachineNames'', copy_bulk (TBasic KString))]"

definition InfrastructureCAPIWorkerPool_DeepCopy :: "library \<Rightarrow> copier" where
  "InfrastructureCAPIWorkerPool_DeepCopy L = copy_pointer (InfrastructureCAPIWorkerPool_ty L) (InfrastructureCAPIWorkerPool_DeepCopyInto L)"

lemma InfrastructureCAPIWorkerPool_copies [copy_steps]: "documented_library L \<Longrightarrow> copies (InfrastructureCAPIWorkerPool_ty L) (InfrastructureCAPIWorkerPool_DeepCopyInto L)"
  by (simp add: InfrastructureCAPIWorkerPool_ty_def InfrastructureCAPIWorkerPool_DeepCopyInto_def copy_steps copied flat_types)

lemma InfrastructureCAPIWorkerPool_pointer [copy_steps]: "documented_library L \<Longrightarrow> copies (TPtr (InfrastructureCAPIWorkerPool_ty L)) (InfrastructureCAPIWorkerPool_DeepCopy L)"
  by (simp add: InfrastructureCAPIWorkerPool_DeepCopy_def InfrastructureCAPIWorkerPool_copies copies_pointer)

definition InfrastructureCAPIConfig_DeepCopyInto :: "library \<Rightarrow> copier" where
  "InfrastructureCAPIConfig_DeepCopyInto L = copy_struct [
     (''ControlPlane'', copy_pointer (InfrastructureCAPIControlPlaneConfig_ty L) assign),
     (''Workers'', copy_slice (InfrastructureCAPIWorkerPool_ty L) (InfrastructureCAPIWorkerPool_DeepCopyInto L)),
     (''CiliumPackRef'', copy_pointer (InfrastructureCAPICiliumPackRef_ty L) assign)]"

definition InfrastructureCAPIConfig_DeepCopy :: "library \<Rightarrow> copier" where
  "InfrastructureCAPIConfig_DeepCopy L = copy_pointer (InfrastructureCAPIConfig_ty L) (InfrastructureCAPIConfig_DeepCopyInto L)"

lemma InfrastructureCAPIConfig_copies [copy_steps]: "documented_library L \<Longrightarrow> copies (InfrastructureCAPIConfig_ty L) (InfrastructureCAPIConfig_DeepCopyInto L)"
  by (simp add: InfrastructureCAPIConfig_ty_def InfrastructureCAPIConfig_DeepCopyInto_def copy_steps copied flat_types)

lemma InfrastructureCAPIConfig_pointer [copy_steps]: "documented_library L \<Longrightarrow> copies (TPtr (InfrastructureCAPIConfig_ty L)) (InfrastructureCAPIConfig_DeepCopy L)"
  by (simp add: InfrastructureCAPIConfig_DeepCopy_def InfrastructureCAPIConfig_copies copies_pointer)

definition InfrastructurePackRegistryRef_DeepCopyInto :: "library \<Rightarrow> copier" where
  "InfrastructurePackRegistryRef_DeepCopyInto L = copy_struct []"

definition InfrastructurePackRegistryRef_DeepCopy :: "library \<Rightarrow> copier" where
  "InfrastructurePackRegistryRef_DeepCopy L = copy_pointer (InfrastructurePackRegistryRef_ty L) (InfrastructurePackRegistryRef_DeepCopyInto L)"

lemma InfrastructurePackRegistryRef_copies [copy_steps]: "documented_library L \<Longrightarrow> copies (InfrastructurePackRegistryRef_ty L) (InfrastructurePackRegistryRef_DeepCopyInto L)"
  by (simp add: InfrastructurePackRegistryRef_ty_def InfrastructurePackRegistryRef_DeepCopyInto_def copy_steps copied flat_types)

lemma InfrastructurePackRegistryRef_pointer [copy_steps]: "documented_library L \<Longrightarrow> copies (TPtr (InfrastructurePackRegistryRef_ty L)) (InfrastructurePackRegistryRef_DeepCopy L)"
  by (simp add: InfrastructurePackRegistryRef_DeepCopy_def InfrastructurePackRegistryRef_copies copies_pointer)

definition InfrastructurePackExecutionStage_DeepCopyInto :: "library \<Rightarrow> copier" where
  "InfrastructurePackExecutionStage_DeepCopyInto L = copy_struct [
     (''Manifests'', copy_bulk (TBasic KString))]"

definition InfrastructurePackExecutionStage_DeepCopy :: "library \<Rightarrow> copier" where
  "InfrastructurePackExecutionStage_DeepCopy L = copy_pointer (InfrastructurePackExecutionStage_ty L) (InfrastructurePackExecutionStage_DeepCopyInto L)"

lemma InfrastructurePackExecutionStage_copies [copy_steps]: "documented_library L \<Longrightarrow> copies (InfrastructurePackExecutionStage_ty L) (InfrastructurePackExecutionStage_DeepCopyInto L)"
  by (simp add: InfrastructurePackExecutionStage_ty_def InfrastructurePackExecutionStage_DeepCopyInto_def copy_steps copied flat_types)

lemma InfrastructurePackExecutionStage_pointer [copy_steps]: "documented_library L \<Longrightarrow> copies (TPtr (InfrastructurePackExecutionStage_ty L)) (InfrastructurePackExecutionStage_DeepCopy L)"
  by (simp add: InfrastructurePackExecutionStage_DeepCopy_def InfrastructurePackExecutionStage_copies copies_pointer)

definition InfrastructurePackProvenance_DeepCopyInto :: "library \<Rightarrow> copier" where
  "InfrastructurePackProvenance_DeepCopyInto L = copy_struct [
     (''BuildTimestamp'', if_not_nil (lb_DeepCopy_Time L))]"

definition InfrastructurePackProvenance_DeepCopy :: "library \<Rightarrow> copier" where
  "InfrastructurePackProvenance_DeepCopy L = copy_pointer (InfrastructurePackProvenance_ty L) (InfrastructurePackProvenance_DeepCopyInto L)"

lemma InfrastructurePackProvenance_copies [copy_steps]: "documented_library L \<Longrightarrow> copies (InfrastructurePackProvenance_ty L) (InfrastructurePackProvenance_DeepCopyInto L)"
  by (simp add: InfrastructurePackProvenance_ty_def InfrastructurePackProvenance_DeepCopyInto_def copy_steps copied flat_types)

lemma InfrastructurePackProvenance_pointer [copy_steps]: "documented_library L \<Longrightarrow> copies (TPtr (InfrastructurePackProvenance_ty L)) (InfrastructurePackProvenance_DeepCopy L)"
  by (simp add: InfrastructurePackProvenance_DeepCopy_def InfrastructurePackProvenance_copies copies_pointer)

definition InfrastructureLifecyclePolicy_DeepCopyInto :: "library \<Rightarrow> copier" where
  "InfrastructureLifecyclePolicy_DeepCopyInto L = copy_struct []"

definition InfrastructureLifecyclePolicy_DeepCopy :: "library \<Rightarrow> copier" where
  "InfrastructureLifecyclePolicy_DeepCopy L = copy_pointer (InfrastructureLifecyclePolicy_ty L) (InfrastructureLifecyclePolicy_DeepCopyInto L)"

lemma InfrastructureLifecyclePolicy_copies [copy_steps]: "documented_library L \<Longrightarrow> copies (InfrastructureLifecyclePolicy_ty L) (InfrastructureLifecyclePolicy_DeepCopyInto L)"
  by (simp add: InfrastructureLifecyclePolicy_ty_def InfrastructureLifecyclePolicy_DeepCopyInto_def copy_steps copied flat_types)

lemma InfrastructureLifecyclePolicy_pointer [copy_steps]: "documented_library L \<Longrightarrow> copies (TPtr (InfrastructureLifecyclePolicy_ty L)) (InfrastructureLifecyclePolicy_DeepCopy L)"
  by (simp add: InfrastructureLifecyclePolicy_DeepCopy_def InfrastructureLifecyclePolicy_copies copies_pointer)

definition InfrastructureClusterPackSpec_DeepCopyInto :: "library \<Rightarrow> copier" where
  "InfrastructureClusterPackSpec_DeepCopyInto L = copy_struct [
     (''RegistryRef'', assign),
     (''ExecutionOrder'', copy_slice (InfrastructurePackExecutionStage_ty L) (InfrastructurePackExecutionStage_DeepCopyInto L)),
     (''Provenance'', copy_pointer (InfrastructurePackProvenance_ty L) (InfrastructurePackProvenance_DeepCopyInto L)),
     (''TargetClusters'', copy_bulk (TBasic KString)),
     (''LifecyclePolicies'', copy_pointer (InfrastructureLifecyclePolicy_ty L) assign),
     (''Lineage'', copy_pointer (SealedCausalChain_ty L) assign)]"

definition InfrastructureClusterPackSpec_DeepCopy :: "library \<Rightarrow> copier" where
  "InfrastructureClusterPackSpec_DeepCopy L = copy_pointer (InfrastructureClusterPackSpec_ty L) (InfrastructureClusterPackSpec_DeepCopyInto L)"

lemma InfrastructureClusterPackSpec_copies [copy_steps]: "documented_library L \<Longrightarrow> copies (InfrastructureClusterPackSpec_ty L) (InfrastructureClusterPackSpec_DeepCopyInto L)"
  by (simp add: InfrastructureClusterPackSpec_ty_def InfrastructureClusterPackSpec_DeepCopyInto_def copy_steps copied flat_types)

lemma InfrastructureClusterPackSpec_pointer [copy_steps]: "documented_library L \<Longrightarrow> copies (TPtr (InfrastructureClusterPackSpec_ty L)) (InfrastructureClusterPackSpec_DeepCopy L)"
  by (simp add: InfrastructureClusterPackSpec_DeepCopy_def InfrastructureClusterPackSpec_copies copies_pointer)

definition InfrastructureClusterPackStatus_DeepCopyInto :: "library \<Rightarrow> copier" where
  "InfrastructureClusterPackStatus_DeepCopyInto L = copy_struct [
     (''Conditions'', copy_slice (lb_Condition L) (lb_copy_Condition L))]"

definition InfrastructureClusterPackStatus_DeepCopy :: "library \<Rightarrow> copier" where
  "InfrastructureClusterPackStatus_DeepCopy L = copy_pointer (InfrastructureClusterPackStatus_ty L) (InfrastructureClusterPackStatus_DeepCopyInto L)"

lemma InfrastructureClusterPackStatus_copies [copy_steps]: "documented_library L \<Longrightarrow> copies (InfrastructureClusterPackStatus_ty L) (InfrastructureClusterPackStatus_DeepCopyInto L)"
  by (simp add: InfrastructureClusterPackStatus_ty_def InfrastructureClusterPackStatus_DeepCopyInto_def copy_steps copied flat_types)

lemma InfrastructureClusterPackStatus_pointer [copy_steps]: "documented_library L \<Longrightarrow> copies (TPtr (InfrastructureClusterPackStatus_ty L)) (InfrastructureClusterPackStatus_DeepCopy L)"
  by (simp add: InfrastructureClusterPackStatus_DeepCopy_def InfrastructureClusterPackStatus_copies copies_pointer)

definition InfrastructureClusterPack_DeepCopyInto :: "library \<Rightarrow> copier" where
  "InfrastructureClusterPack_DeepCopyInto L = copy_struct [
     (''TypeMeta'', assign), (''ObjectMeta'', lb_copy_ObjectMeta L),
     (''Spec'', InfrastructureClusterPackSpec_DeepCopyInto L),
     (''Status'', InfrastructureClusterPackStatus_DeepCopyInto L)]"

definition InfrastructureClusterPack_DeepCopy :: "library \<Rightarrow> copier" where
  "InfrastructureClusterPack_DeepCopy L = copy_pointer (InfrastructureClusterPack_ty L) (InfrastructureClusterPack_DeepCopyInto L)"

definition InfrastructureClusterPack_DeepCopyObject :: "library \<Rightarrow> val \<Rightarrow> memory \<Rightarrow> (iface \<times> memory) option" where
  "InfrastructureClusterPack_DeepCopyObject L = deep_copy_object ''*InfrastructureClusterPack'' (InfrastructureClusterPack_DeepCopy L)"

lemma InfrastructureClusterPack_copies [copy_steps]: "documented_library L \<Longrightarrow> copies (InfrastructureClusterPack_ty L) (InfrastructureClusterPack_DeepCopyInto L)"
  by (simp add: InfrastructureClusterPack_ty_def InfrastructureClusterPack_DeepCopyInto_def copy_steps copied flat_types)

lemma InfrastructureClusterPack_pointer [copy_steps]: "documented_library L \<Longrightarrow> copies (TPtr (InfrastructureClusterPack_ty L)) (InfrastructureClusterPack_DeepCopy L)"
  by (simp add: InfrastructureClusterPack_DeepCopy_def InfrastructureClusterPack_copies copies_pointer)

lemma InfrastructureClusterPack_object [copy_steps]:
  "documented_library L \<Longrightarrow> copies_as_object ''*InfrastructureClusterPack'' (InfrastructureClusterPack_ty L) (InfrastructureClusterPack_DeepCopyObject L)"
  by (simp add: InfrastructureClusterPack_DeepCopyObject_def object_of InfrastructureClusterPack_pointer)

definition InfrastructureClusterPackList_DeepCopyInto :: "library \<Rightarrow> copier" where
  "InfrastructureClusterPackList_DeepCopyInto L = copy_struct [
     (''TypeMeta'', assign), (''ListMeta'', lb_copy_ListMeta L),
     (''Items'', copy_slice (InfrastructureClusterPack_ty L) (InfrastructureClusterPack_DeepCopyInto L))]"

definition InfrastructureClusterPackList_DeepCopy :: "library \<Rightarrow> copier" where
  "InfrastructureClusterPackList_DeepCopy L = copy_pointer (InfrastructureClusterPackList_ty L) (InfrastructureClusterPackList_DeepCopyInto L)"

definition InfrastructureClusterPackList_DeepCopyObject :: "library \<Rightarrow> val \<Rightarrow> memory \<Rightarrow> (iface \<times> memory) option" where
  "InfrastructureClusterPackList_DeepCopyObject L = deep_copy_object ''*InfrastructureClusterPackList'' (InfrastructureClusterPackList_DeepCopy L)"

lemma InfrastructureClusterPackList_copies [copy_steps]: "documented_library L \<Longrightarrow> copies (InfrastructureClusterPackList_ty L) (InfrastructureClusterPackList_DeepCopyInto L)"
  by (simp add: InfrastructureClusterPackList_ty_def InfrastructureClusterPackList_DeepCopyInto_def copy_steps copied flat_types)

lemma InfrastructureClusterPackList_pointer [copy_steps]: "documented_library L \<Longrightarrow> copies (TPtr (InfrastructureClusterPackList_ty L)) (InfrastructureClusterPackList_DeepCopy L)"
  by (simp add: InfrastructureClusterPackList_DeepCopy_def InfrastructureClusterPackList_copies copies_pointer)

lemma InfrastructureClusterPackList_object [copy_steps]:
  "documented_library L \<Longrightarrow> copies_as_object ''*InfrastructureClusterPackList'' (InfrastructureClusterPackList_ty L) (InfrastructureClusterPackList_DeepCopyObject L)"
  by (simp add: InfrastructureClusterPackList_DeepCopyObject_def object_of InfrastructureClusterPackList_pointer)

definition InfrastructureClusterPackRef_DeepCopyInto :: "library \<Rightarrow> copier" where
  "InfrastructureClusterPackRef_DeepCopyInto L = copy_struct []"

definition InfrastructureClusterPackRef_DeepCopy :: "library \<Rightarrow> copier" where
  "InfrastructureClusterPackRef_DeepCopy L = copy_pointer (InfrastructureClusterPackRef_ty L) (InfrastructureClusterPackRef_DeepCopyInto L)"

lemma InfrastructureClusterPackRef_copies [copy_steps]: "documented_library L \<Longrightarrow> copies (InfrastructureClusterPackRef_ty L) (InfrastructureClusterPackRef_DeepCopyInto L)"
  by (simp add: InfrastructureClusterPackRef_ty_def InfrastructureClusterPackRef_DeepCopyInto_def copy_steps copied flat_types)

lemma InfrastructureClusterPackRef_pointer [copy_steps]: "documented_library L \<Longrightarrow> copies (TPtr (InfrastructureClusterPackRef_ty L)) (InfrastructureClusterPackRef_DeepCopy L)"
  by (simp add: InfrastructureClusterPackRef_DeepCopy_def InfrastructureClusterPackRef_copies copies_pointer)

definition InfrastructureDependencyPolicy_DeepCopyInto :: "library \<Rightarrow> copier" where
  "InfrastructureDependencyPolicy_DeepCopyInto L = copy_struct []"

definition InfrastructureDependencyPolicy_DeepCopy :: "library \<Rightarrow> copier" where
  "InfrastructureDependencyPolicy_DeepCopy L = copy_pointer (InfrastructureDependencyPolicy_ty L) (InfrastructureDependencyPolicy_DeepCopyInto L)"

lemma InfrastructureDependencyPolicy_copies [copy_steps]: "documented_library L \<Longrightarrow> copies (InfrastructureDependencyPolicy_ty L) (InfrastructureDependencyPolicy_DeepCopyInto L)"
  by (simp add: InfrastructureDependencyPolicy_ty_def InfrastructureDependencyPolicy_DeepCopyInto_def copy_steps copied flat_types)

lemma InfrastructureDependencyPolicy_pointer [copy_steps]: "documented_library L \<Longrightarrow> copies (TPtr (InfrastructureDependencyPolicy_ty L)) (InfrastructureDependencyPolicy_DeepCopy L)"
  by (simp add: InfrastructureDependencyPolicy_DeepCopy_def InfrastructureDependencyPolicy_copies copies_pointer)

definition InfrastructureDeployedResourceRef_DeepCopyInto :: "library \<Rightarrow> copier" where
  "InfrastructureDeployedResourceRef_DeepCopyInto L = copy_struct []"

definition InfrastructureDeployedResourceRef_DeepCopy :: "library \<Rightarrow> copier" where
  "InfrastructureDeployedResourceRef_DeepCopy L = copy_pointer (InfrastructureDeployedResourceRef_ty L) (InfrastructureDeployedResourceRef_DeepCopyInto L)"

lemma InfrastructureDeployedResourceRef_copies [copy_steps]: "documented_library L \<Longrightarrow> copies (InfrastructureDeployedResourceRef_ty L) (InfrastructureDeployedResourceRef_DeepCopyInto L)"
  by (simp add: InfrastructureDeployedResourceRef_ty_def InfrastructureDeployedResourceRef_DeepCopyInto_def copy_steps copied flat_types)

lemma InfrastructureDeployedResourceRef_pointer [copy_steps]: "documented_library L \<Longrightarrow> copies (TPtr (InfrastructureDeployedResourceRef_ty L)) (InfrastructureDeployedResourceRef_DeepCopy L)"
  by (simp add: InfrastructureDeployedResourceRef_DeepCopy_def InfrastructureDeployedResourceRef_copies copies_pointer)

definition InfrastructureLineageIndexRootBinding_DeepCopyInto :: "library \<Rightarrow> copier" where
  "InfrastructureLineageIndexRootBinding_DeepCopyInto L = copy_struct []"

definition InfrastructureLineageIndexRootBinding_DeepCopy :: "library \<Rightarrow> copier" where
  "InfrastructureLineageIndexRootBinding_DeepCopy L = copy_pointer (InfrastructureLineageIndexRootBinding_ty L) (InfrastructureLineageIndexRootBinding_DeepCopyInto L)"

lemma InfrastructureLineageIndexRootBinding_copies [copy_steps]: "documented_library L \<Longrightarrow> copies (InfrastructureLineageIndexRootBinding_ty L) (InfrastructureLineageIndexRootBinding_DeepCopyInto L)"
  by (simp add: InfrastructureLineageIndexRootBinding_ty_def InfrastructureLineageIndexRootBinding_DeepCopyInto_def copy_steps copied flat_types)

lemma InfrastructureLineageIndexRootBinding_pointer [copy_steps]: "documented_library L \<Longrightarrow> copies (TPtr (InfrastructureLineageIndexRootBinding_ty L)) (InfrastructureLineageIndexRootBinding_DeepCopy L)"
  by (simp add: InfrastructureLineageIndexRootBinding_DeepCopy_def InfrastructureLineageIndexRootBinding_copies copies_pointer)

definition InfrastructurePolicyBindingStatus_DeepCopyInto :: "library \<Rightarrow> copier" where
  "InfrastructurePolicyBindingStatus_DeepCopyInto L = copy_struct []"

definition InfrastructurePolicyBindingStatus_DeepCopy :: "library \<Rightarrow> copier" where
  "InfrastructurePolicyBindingStatus_DeepCopy L = copy_pointer (InfrastructurePolicyBindingStatus_ty L) (InfrastructurePolicyBindingStatus_DeepCopyInto L)"

lemma InfrastructurePolicyBindingStatus_copies [copy_steps]: "documented_library L \<Longrightarrow> copies (InfrastructurePolicyBindingStatus_ty L) (InfrastructurePolicyBindingStatus_DeepCopyInto L)"
  by (simp add: InfrastructurePolicyBindingStatus_ty_def InfrastructurePolicyBindingStatus_DeepCopyInto_def copy_steps copied flat_types)

lemma InfrastructurePolicyBindingStatus_pointer [copy_steps]: "documented_library L \<Longrightarrow> copies (TPtr (InfrastructurePolicyBindingStatus_ty L)) (InfrastructurePolicyBindingStatus_DeepCopy L)"
  by (simp add: InfrastructurePolicyBindingStatus_DeepCopy_def InfrastructurePolicyBindingStatus_copies copies_pointer)

definition OutcomeEntry_DeepCopyInto :: "library \<Rightarrow> copier" where
  "OutcomeEntry_DeepCopyInto L = copy_struct [
     (''OutcomeTimestamp'', lb_copy_Time L)]"

definition OutcomeEntry_DeepCopy :: "library \<Rightarrow> copier" where
  "OutcomeEntry_DeepCopy L = copy_pointer (OutcomeEntry_ty L) (OutcomeEntry_DeepCopyInto L)"

lemma OutcomeEntry_copies [copy_steps]: "documented_library L \<Longrightarrow> copies (OutcomeEntry_ty L) (OutcomeEntry_DeepCopyInto L)"
  by (simp add: OutcomeEntry_ty_def OutcomeEntry_DeepCopyInto_def copy_steps copied flat_types)

lemma OutcomeEntry_pointer [copy_steps]: "documented_library L \<Longrightarrow> copies (TPtr (OutcomeEntry_ty L)) (OutcomeEntry_DeepCopy L)"
  by (simp add: OutcomeEntry_DeepCopy_def OutcomeEntry_copies copies_pointer)

definition LineageRetentionPolicy_DeepCopyInto :: "library \<Rightarrow> copier" where
  "LineageRetentionPolicy_DeepCopyInto L = copy_struct []"

definition LineageRetentionPolicy_DeepCopy :: "library \<Rightarrow> copier" where
  "LineageRetentionPolicy_DeepCopy L = copy_pointer (LineageRetentionPolicy_ty L) (LineageRetentionPolicy_DeepCopyInto L)"

lemma LineageRetentionPolicy_copies [copy_steps]: "documented_library L \<Longrightarrow> copies (LineageRetentionPolicy_ty L) (LineageRetentionPolicy_DeepCopyInto L)"
  by (simp add: LineageRetentionPolicy_ty_def LineageRetentionPolicy_DeepCopyInto_def copy_steps copied flat_types)

lemma LineageRetentionPolicy_pointer [copy_steps]: "documented_library L \<Longrightarrow> copies (TPtr (LineageRetentionPolicy_ty L)) (LineageRetentionPolicy_DeepCopy L)"
  by (simp add: LineageRetentionPolicy_DeepCopy_def LineageRetentionPolicy_copies copies_pointer)

definition InfrastructureLineageIndexSpec_DeepCopyInto :: "library \<Rightarrow> copier" where
  "InfrastructureLineageIndexSpec_DeepCopyInto L = copy_struct [
     (''RootBinding'', assign),
     (''DescendantRegistry'', copy_slice (DescendantEntry_ty L) (DescendantEntry_DeepCopyInto L)),
     (''PolicyBindingStatus'', copy_pointer (InfrastructurePolicyBindingStatus_ty L) assign),
     (''OutcomeRegistry'', copy_slice (OutcomeEntry_ty L) (OutcomeEntry_DeepCopyInto L)),
     (''RetentionPolicy'', copy_pointer (LineageRetentionPolicy_ty L) assign)]"

definition InfrastructureLineageIndexSpec_DeepCopy :: "library \<Rightarrow> copier" where
  "InfrastructureLineageIndexSpec_DeepCopy L = copy_pointer (InfrastructureLineageIndexSpec_ty L) (InfrastructureLineageIndexSpec_DeepCopyInto L)"

lemma InfrastructureLineageIndexSpec_copies [copy_steps]: "documented_library L \<Longrightarrow> copies (InfrastructureLineageIndexSpec_ty L) (InfrastructureLineageIndexSpec_DeepCopyInto L)"
  by (simp add: InfrastructureLineageIndexSpec_ty_def InfrastructureLineageIndexSpec_DeepCopyInto_def copy_steps copied flat_types)

lemma InfrastructureLineageIndexSpec_pointer [copy_steps]: "documented_library L \<Longrightarrow> copies (TPtr (InfrastructureLineageIndexSpec_ty L)) (InfrastructureLineageIndexSpec_DeepCopy L)"
  by (simp add: InfrastructureLineageIndexSpec_DeepCopy_def InfrastructureLineageIndexSpec_copies copies_pointer)

definition InfrastructureLineageIndexStatus_DeepCopyInto :: "library \<Rightarrow> copier" where
  "InfrastructureLineageIndexStatus_DeepCopyInto L = copy_struct [
     (''Conditions'', copy_slice (lb_Condition L) (lb_copy_Condition L))]"

definition InfrastructureLineageIndexStatus_DeepCopy :: "library \<Rightarrow> copier" where
  "InfrastructureLineageIndexStatus_DeepCopy L = copy_pointer (InfrastructureLineageIndexStatus_ty L) (InfrastructureLineageIndexStatus_DeepCopyInto L)"

lemma InfrastructureLineageIndexStatus_copies [copy_steps]: "documented_library L \<Longrightarrow> copies (InfrastructureLineageIndexStatus_ty L) (InfrastructureLineageIndexStatus_DeepCopyInto L)"
  by (simp add: InfrastructureLineageIndexStatus_ty_def InfrastructureLineageIndexStatus_DeepCopyInto_def copy_steps copied flat_types)

lemma InfrastructureLineageIndexStatus_pointer [copy_steps]: "documented_library L \<Longrightarrow> copies (TPtr (InfrastructureLineageIndexStatus_ty L)) (InfrastructureLineageIndexStatus_DeepCopy L)"
  by (simp add: InfrastructureLineageIndexStatus_DeepCopy_def InfrastructureLineageIndexStatus_copies copies_pointer)

definition InfrastructureLineageIndex_DeepCopyInto :: "library \<Rightarrow> copier" where
  "InfrastructureLineageIndex_DeepCopyInto L = copy_struct [
     (''TypeMeta'', assign), (''ObjectMeta'', lb_copy_ObjectMeta L),
     (''Spec'', InfrastructureLineageIndexSpec_DeepCopyInto L),
     (''Status'', InfrastructureLineageIndexStatus_DeepCopyInto L)]"

definition InfrastructureLineageIndex_DeepCopy :: "library \<Rightarrow> copier" where
  "InfrastructureLineageIndex_DeepCopy L = copy_pointer (InfrastructureLineageIndex_ty L) (InfrastructureLineageIndex_DeepCopyInto L)"

definition InfrastructureLineageIndex_DeepCopyObject :: "library \<Rightarrow> val \<Rightarrow> memory \<Rightarrow> (iface \<times> memory) option" where
  "InfrastructureLineageIndex_DeepCopyObject L = deep_copy_object ''*InfrastructureLineageIndex'' (InfrastructureLineageIndex_DeepCopy L)"

lemma InfrastructureLineageIndex_copies [copy_steps]: "documented_library L \<Longrightarrow> copies (InfrastructureLineageIndex_ty L) (InfrastructureLineageIndex_DeepCopyInto L)"
  by (simp add: InfrastructureLineageIndex_ty_def InfrastructureLineageIndex_DeepCopyInto_def copy_steps copied flat_types)

lemma InfrastructureLineageIndex_pointer [copy_steps]: "documented_library L \<Longrightarrow> copies (TPtr (InfrastructureLineageIndex_ty L)) (InfrastructureLineageIndex_DeepCopy L)"
  by (simp add: InfrastructureLineageIndex_DeepCopy_def InfrastructureLineageIndex_copies copies_pointer)

lemma InfrastructureLineageIndex_object [copy_steps]:
  "documented_library L \<Longrightarrow> copies_as_object ''*InfrastructureLineageIndex'' (InfrastructureLineageIndex_ty L) (InfrastructureLineageIndex_DeepCopyObject L)"
  by (simp add: InfrastructureLineageIndex_DeepCopyObject_def object_of InfrastructureLineageIndex_pointer)

definition InfrastructureLineageIndexList_DeepCopyInto :: "library \<Rightarrow> copier" where
  "InfrastructureLineageIndexList_DeepCopyInto L = copy_struct [
     (''TypeMeta'', assign), (''ListMeta'', lb_copy_ListMeta L),
     (''Items'', copy_slice (InfrastructureLineageIndex_ty L) (InfrastructureLineageIndex_DeepCopyInto L))]"

definition InfrastructureLineageIndexList_DeepCopy :: "library \<Rightarrow> copier" where
  "InfrastructureLineageIndexList_DeepCopy L = copy_pointer (InfrastructureLineageIndexList_ty L) (InfrastructureLineageIndexList_DeepCopyInto L)"

definition InfrastructureLineageIndexList_DeepCopyObject :: "library \<Rightarrow> val \<Rightarrow> memory \<Rightarrow> (iface \<times> memory) option" where
  "InfrastructureLineageIndexList_DeepCopyObject L = deep_copy_object ''*InfrastructureLineageIndexList'' (InfrastructureLineageIndexList_DeepCopy L)"

lemma InfrastructureLineageIndexList_copies [copy_steps]: "documented_library L \<Longrightarrow> copies (InfrastructureLineageIndexList_ty L) (InfrastructureLineageIndexList_DeepCopyInto L)"
  by (simp add: InfrastructureLineageIndexList_ty_def InfrastructureLineageIndexList_DeepCopyInto_def copy_steps copied flat_types)

lemma InfrastructureLineageIndexList_pointer [copy_steps]: "documented_library L \<Longrightarrow> copies (TPtr (InfrastructureLineageIndexList_ty L)) (InfrastructureLineageIndexList_DeepCopy L)"
  by (simp add: InfrastructureLineageIndexList_DeepCopy_def InfrastructureLineageIndexList_copies copies_pointer)

lemma InfrastructureLineageIndexList_object [copy_steps]:
  "documented_library L \<Longrightarrow> copies_as_object ''*InfrastructureLineageIndexList'' (InfrastructureLineageIndexList_ty L) (InfrastructureLineageIndexList_DeepCopyObject L)"
  by (simp add: InfrastructureLineageIndexList_DeepCopyObject_def object_of InfrastructureLineageIndexList_pointer)

definition InfrastructureLocalObjectRef_DeepCopyInto :: "library \<Rightarrow> copier" where
  "InfrastructureLocalObjectRef_DeepCopyInto L = copy_struct []"

definition InfrastructureLocalObjectRef_DeepCopy :: "library \<Rightarrow> copier" where
  "InfrastructureLocalObjectRef_DeepCopy L = copy_pointer (InfrastructureLocalObjectRef_ty L) (InfrastructureLocalObjectRef_DeepCopyInto L)"

lemma InfrastructureLocalObjectRef_copies [copy_steps]: "documented_library L \<Longrightarrow> copies (InfrastructureLocalObjectRef_ty L) (InfrastructureLocalObjectRef_DeepCopyInto L)"
  by (simp add: InfrastructureLocalObjectRef_ty_def InfrastructureLocalObjectRef_DeepCopyInto_def copy_steps copied flat_types)

lemma InfrastructureLocalObjectRef_pointer [copy_steps]: "documented_library L \<Longrightarrow> copies (TPtr (InfrastructureLocalObjectRef_ty L)) (InfrastructureLocalObjectRef_DeepCopy L)"
  by (simp add: InfrastructureLocalObjectRef_DeepCopy_def InfrastructureLocalObjectRef_copies copies_pointer)

definition InfrastructurePackHelmSource_DeepCopyInto :: "library \<Rightarrow> copier" where
  "InfrastructurePackHelmSource_DeepCopyInto L = copy_struct []"

definition InfrastructurePackHelmSource_DeepCopy :: "library \<Rightarrow> copier" where
  "InfrastructurePackHelmSource_DeepCopy L = copy_pointer (InfrastructurePackHelmSource_ty L) (InfrastructurePackHelmSource_DeepCopyInto L)"

lemma InfrastructurePackHelmSource_copies [copy_steps]: "documented_library L \<Longrightarrow> copies (InfrastructurePackHelmSource_ty L) (InfrastructurePackHelmSource_DeepCopyInto L)"
  by (simp add: InfrastructurePackHelmSource_ty_def InfrastructurePackHelmSource_DeepCopyInto_def copy_steps copied flat_types)

lemma InfrastructurePackHelmSource_pointer [copy_steps]: "documented_library L \<Longrightarrow> copies (TPtr (InfrastructurePackHelmSource_ty L)) (InfrastructurePackHelmSource_DeepCopy L)"
  by (simp add: InfrastructurePackHelmSource_DeepCopy_def InfrastructurePackHelmSource_copies copies_pointer)

definition InfrastructurePackKustomizeSource_DeepCopyInto :: "library \<Rightarrow> copier" where
  "InfrastructurePackKustomizeSource_DeepCopyInto L = copy_struct []"

definition InfrastructurePackKustomizeSource_DeepCopy :: "library \<Rightarrow> copier" where
  "InfrastructurePackKustomizeSource_DeepCopy L = copy_pointer (InfrastructurePackKustomizeSource_ty L) (InfrastructurePackKustomizeSource_DeepCopyInto L)"

lemma InfrastructurePackKustomizeSource_copies [copy_steps]: "documented_library L \<Longrightarrow> copies (InfrastructurePackKustomizeSource_ty L) (InfrastructurePackKustomizeSource_DeepCopyInto L)"
  by (simp add: InfrastructurePackKustomizeSource_ty_def InfrastructurePackKustomizeSource_DeepCopyInto_def copy_steps copied flat_types)

lemma InfrastructurePackKustomizeSource_pointer [copy_steps]: "documented_library L \<Longrightarrow> copies (TPtr (InfrastructurePackKustomizeSource_ty L)) (InfrastructurePackKustomizeSource_DeepCopy L)"
  by (simp add: InfrastructurePackKustomizeSource_DeepCopy_def InfrastructurePackKustomizeSource_copies copies_pointer)

definition InfrastructurePackRawSource_DeepCopyInto :: "library \<Rightarrow> copier" where
  "InfrastructurePackRawSource_DeepCopyInto L = copy_struct []"

definition InfrastructurePackRawSource_DeepCopy :: "library \<Rightarrow> copier" where
  "InfrastructurePackRawSource_DeepCopy L = copy_pointer (InfrastructurePackRawSource_ty L) (InfrastructurePackRawSource_DeepCopyInto L)"

lemma InfrastructurePackRawSource_copies [copy_steps]: "documented_library L \<Longrightarrow> copies (InfrastructurePackRawSource_ty L) (InfrastructurePackRawSource_DeepCopyInto L)"
  by (simp add: InfrastructurePackRawSource_ty_def InfrastructurePackRawSource_DeepCopyInto_def copy_steps copied flat_types)

lemma InfrastructurePackRawSource_pointer [copy_steps]: "documented_library L \<Longrightarrow> copies (TPtr (InfrastructurePackRawSource_ty L)) (InfrastructurePackRawSource_DeepCopy L)"
  by (simp add: InfrastructurePackRawSource_DeepCopy_def InfrastructurePackRawSource_copies copies_pointer)

definition InfrastructurePackBuildSpec_DeepCopyInto :: "library \<Rightarrow> copier" where
  "InfrastructurePackBuildSpec_DeepCopyInto L = copy_struct [
     (''HelmSource'', copy_pointer (InfrastructurePackHelmSource_ty L) assign),
     (''KustomizeSource'', copy_pointer (InfrastructurePackKustomizeSource_ty L) assign),
     (''RawSource'', copy_pointer (InfrastructurePackRawSource_ty L) assign),
     (''TargetClusters'', copy_bulk (TBasic KString))]"

definition InfrastructurePackBuildSpec_DeepCopy :: "library \<Rightarrow> copier" where
  "InfrastructurePackBuildSpec_DeepCopy L = copy_pointer (InfrastructurePackBuildSpec_ty L) (InfrastructurePackBuildSpec_DeepCopyInto L)"

lemma InfrastructurePackBuildSpec_copies [copy_steps]: "documented_library L \<Longrightarrow> copies (InfrastructurePackBuildSpec_ty L) (InfrastructurePackBuildSpec_DeepCopyInto L)"
  by (simp add: InfrastructurePackBuildSpec_ty_def InfrastructurePackBuildSpec_DeepCopyInto_def copy_steps copied flat_types)

lemma InfrastructurePackBuildSpec_pointer [copy_steps]: "documented_library L \<Longrightarrow> copies (TPtr (InfrastructurePackBuildSpec_ty L)) (InfrastructurePackBuildSpec_DeepCopy L)"
  by (simp add: InfrastructurePackBuildSpec_DeepCopy_def InfrastructurePackBuildSpec_copies copies_pointer)

definition InfrastructurePackBuildStatus_DeepCopyInto :: "library \<Rightarrow> copier" where
  "InfrastructurePackBuildStatus_DeepCopyInto L = copy_struct [
     (''Conditions'', copy_slice (lb_Condition L) (lb_copy_Condition L))]"

definition InfrastructurePackBuildStatus_DeepCopy :: "library \<Rightarrow> copier" where
  "InfrastructurePackBuildStatus_DeepCopy L = copy_pointer (InfrastructurePackBuildStatus_ty L) (InfrastructurePackBuildStatus_DeepCopyInto L)"

lemma InfrastructurePackBuildStatus_copies [copy_steps]: "documented_library L \<Longrightarrow> copies (InfrastructurePackBuildStatus_ty L) (InfrastructurePackBuildStatus_DeepCopyInto L)"
  by (simp add: InfrastructurePackBuildStatus_ty_def InfrastructurePackBuildStatus_DeepCopyInto_def copy_steps copied flat_types)

lemma InfrastructurePackBuildStatus_pointer [copy_steps]: "documented_library L \<Longrightarrow> copies (TPtr (InfrastructurePackBuildStatus_ty L)) (InfrastructurePackBuildStatus_DeepCopy L)"
  by (simp add: InfrastructurePackBuildStatus_DeepCopy_def InfrastructurePackBuildStatus_copies copies_pointer)

definition InfrastructurePackBuild_DeepCopyInto :: "library \<Rightarrow> copier" where
  "InfrastructurePackBuild_DeepCopyInto L = copy_struct [
     (''TypeMeta'', assign), (''ObjectMeta'', lb_copy_ObjectMeta L),
     (''Spec'', InfrastructurePackBuildSpec_DeepCopyInto L),
     (''Status'', InfrastructurePackBuildStatus_DeepCopyInto L)]"

definition InfrastructurePackBuild_DeepCopy :: "library \<Rightarrow> copier" where
  "InfrastructurePackBuild_DeepCopy L = copy_pointer (InfrastructurePackBuild_ty L) (InfrastructurePackBuild_DeepCopyInto L)"

definition InfrastructurePackBuild_DeepCopyObject :: "library \<Rightarrow> val \<Rightarrow> memory \<Rightarrow> (iface \<times> memory) option" where
  "InfrastructurePackBuild_DeepCopyObject L = deep_copy_object ''*InfrastructurePackBuild'' (InfrastructurePackBuild_DeepCopy L)"

lemma InfrastructurePackBuild_copies [copy_steps]: "documented_library L \<Longrightarrow> copies (InfrastructurePackBuild_ty L) (InfrastructurePackBuild_DeepCopyInto L)"
  by (simp add: InfrastructurePackBuild_ty_def InfrastructurePackBuild_DeepCopyInto_def copy_steps copied flat_types)

lemma InfrastructurePackBuild_pointer [copy_steps]: "documented_library L \<Longrightarrow> copies (TPtr (InfrastructurePackBuild_ty L)) (InfrastructurePackBuild_DeepCopy L)"
  by (simp add: InfrastructurePackBuild_DeepCopy_def InfrastructurePackBuild_copies copies_pointer)

lemma InfrastructurePackBuild_object [copy_steps]:
  "documented_library L \<Longrightarrow> copies_as_object ''*InfrastructurePackBuild'' (InfrastructurePackBuild_ty L) (InfrastructurePackBuild_DeepCopyObject L)"
  by (simp add: InfrastructurePackBuild_DeepCopyObject_def object_of InfrastructurePackBuild_pointer)

definition InfrastructurePackBuildList_DeepCopyInto :: "library \<Rightarrow> copier" where
  "InfrastructurePackBuildList_DeepCopyInto L = copy_struct [
     (''TypeMeta'', assign), (''ListMeta'', lb_copy_ListMeta L),
     (''Items'', copy_slice (InfrastructurePackBuild_ty L) (InfrastructurePackBuild_DeepCopyInto L))]"

definition InfrastructurePackBuildList_DeepCopy :: "library \<Rightarrow> copier" where
  "InfrastructurePackBuildList_DeepCopy L = copy_pointer (InfrastructurePackBuildList_ty L) (InfrastructurePackBuildList_DeepCopyInto L)"

definition InfrastructurePackBuildList_DeepCopyObject :: "library \<Rightarrow> val \<Rightarrow> memory \<Rightarrow> (iface \<times> memory) option" where
  "InfrastructurePackBuildList_DeepCopyObject L = deep_copy_object ''*InfrastructurePackBuildList'' (InfrastructurePackBuildList_DeepCopy L)"

lemma InfrastructurePackBuildList_copies [copy_steps]: "documented_library L \<Longrightarrow> copies (InfrastructurePackBuildList_ty L) (InfrastructurePackBuildList_DeepCopyInto L)"
  by (simp add: InfrastructurePackBuildList_ty_def InfrastructurePackBuildList_DeepCopyInto_def copy_steps copied flat_types)

lemma InfrastructurePackBuildList_pointer [copy_steps]: "documented_library L \<Longrightarrow> copies (TPtr (InfrastructurePackBuildList_ty L)) (InfrastructurePackBuildList_DeepCopy L)"
  by (simp add: InfrastructurePackBuildList_DeepCopy_def InfrastructurePackBuildList_copies copies_pointer)

lemma InfrastructurePackBuildList_object [copy_steps]:
  "documented_library L \<Longrightarrow> copies_as_object ''*InfrastructurePackBuildList'' (InfrastructurePackBuildList_ty L) (InfrastructurePackBuildList_DeepCopyObject L)"
  by (simp add: InfrastructurePackBuildList_DeepCopyObject_def object_of InfrastructurePackBuildList_pointer)

definition InfrastructurePackExecutionSpec_DeepCopyInto :: "library \<Rightarrow> copier" where
  "InfrastructurePackExecutionSpec_DeepCopyInto L = copy_struct [
     (''ClusterPackRef'', assign), (''Lineage'', copy_pointer (SealedCausalChain_ty L) assign)]"

definition InfrastructurePackExecutionSpec_DeepCopy :: "library \<Rightarrow> copier" where
  "InfrastructurePackExecutionSpec_DeepCopy L = copy_pointer (InfrastructurePackExecutionSpec_ty L) (InfrastructurePackExecutionSpec_DeepCopyInto L)"

lemma InfrastructurePackExecutionSpec_copies [copy_steps]: "documented_library L \<Longrightarrow> copies (InfrastructurePackExecutionSpec_ty L) (InfrastructurePackExecutionSpec_DeepCopyInto L)"
  by (simp add: InfrastructurePackExecutionSpec_ty_def InfrastructurePackExecutionSpec_DeepCopyInto_def copy_steps copied flat_types)

lemma InfrastructurePackExecutionSpec_pointer [copy_steps]: "documented_library L \<Longrightarrow> copies (TPtr (InfrastructurePackExecutionSpec_ty L)) (InfrastructurePackExecutionSpec_DeepCopy L)"
  by (simp add: InfrastructurePackExecutionSpec_DeepCopy_def InfrastructurePackExecutionSpec_copies copies_pointer)

definition InfrastructurePackExecutionStatus_DeepCopyInto :: "library \<Rightarrow> copier" where
  "InfrastructurePackExecutionStatus_DeepCopyInto L = copy_struct [
     (''Conditions'', copy_slice (lb_Condition L) (lb_copy_Condition L))]"

definition InfrastructurePackExecutionStatus_DeepCopy :: "library \<Rightarrow> copier" where
  "InfrastructurePackExecutionStatus_DeepCopy L = copy_pointer (InfrastructurePackExecutionStatus_ty L) (InfrastructurePackExecutionStatus_DeepCopyInto L)"

lemma InfrastructurePackExecutionStatus_copies [copy_steps]: "documented_library L \<Longrightarrow> copies (InfrastructurePackExecutionStatus_ty L) (InfrastructurePackExecutionStatus_DeepCopyInto L)"
  by (simp add: InfrastructurePackExecutionStatus_ty_def InfrastructurePackExecutionStatus_DeepCopyInto_def copy_steps copied flat_types)

lemma InfrastructurePackExecutionStatus_pointer [copy_steps]: "documented_library L \<Longrightarrow> copies (TPtr (InfrastructurePackExecutionStatus_ty L)) (InfrastructurePackExecutionStatus_DeepCopy L)"
  by (simp add: InfrastructurePackExecutionStatus_DeepCopy_def InfrastructurePackExecutionStatus_copies copies_pointer)

definition InfrastructurePackExecution_DeepCopyInto :: "library \<Rightarrow> copier" where
  "InfrastructurePackExecution_DeepCopyInto L = copy_struct [
     (''TypeMeta'', assign), (''ObjectMeta'', lb_copy_ObjectMeta L),
     (''Spec'', InfrastructurePackExecutionSpec_DeepCopyInto L),
     (''Status'', InfrastructurePackExecutionStatus_DeepCopyInto L)]"

definition InfrastructurePackExecution_DeepCopy :: "library \<Rightarrow> copier" where
  "InfrastructurePackExecution_DeepCopy L = copy_pointer (InfrastructurePackExecution_ty L) (InfrastructurePackExecution_DeepCopyInto L)"

definition InfrastructurePackExecution_DeepCopyObject :: "library \<Rightarrow> val \<Rightarrow> memory \<Rightarrow> (iface \<times> memory) option" where
  "InfrastructurePackExecution_DeepCopyObject L = deep_copy_object ''*InfrastructurePackExecution'' (InfrastructurePackExecution_DeepCopy L)"

lemma InfrastructurePackExecution_copies [copy_steps]: "documented_library L \<Longrightarrow> copies (InfrastructurePackExecution_ty L) (InfrastructurePackExecution_DeepCopyInto L)"
  by (simp add: InfrastructurePackExecution_ty_def InfrastructurePackExecution_DeepCopyInto_def copy_steps copied flat_types)

lemma InfrastructurePackExecution_pointer [copy_steps]: "documented_library L \<Longrightarrow> copies (TPtr (InfrastructurePackExecution_ty L)) (InfrastructurePackExecution_DeepCopy L)"
  by (simp add: InfrastructurePackExecution_DeepCopy_def InfrastructurePackExecution_copies copies_pointer)

lemma InfrastructurePackExecution_object [copy_steps]:
  "documented_library L \<Longrightarrow> copies_as_object ''*InfrastructurePackExecution'' (InfrastructurePackExecution_ty L) (InfrastructurePackExecution_DeepCopyObject L)"
  by (simp add: InfrastructurePackExecution_DeepCopyObject_def object_of InfrastructurePackExecution_pointer)

definition InfrastructurePackExecutionList_DeepCopyInto :: "library \<Rightarrow> copier" where
  "InfrastructurePackExecutionList_DeepCopyInto L = copy_struct [
     (''TypeMeta'', assign), (''ListMeta'', lb_copy_ListMeta L),
     (''Items'', copy_slice (InfrastructurePackExecution_ty L) (InfrastructurePackExecution_DeepCopyInto L))]"

definition InfrastructurePackExecutionList_DeepCopy :: "library \<Rightarrow> copier" where
  "InfrastructurePackExecutionList_DeepCopy L = copy_pointer (InfrastructurePackExecutionList_ty L) (InfrastructurePackExecutionList_DeepCopyInto L)"

definition InfrastructurePackExecutionList_DeepCopyObject :: "library \<Rightarrow> val \<Rightarrow> memory \<Rightarrow> (iface \<times> memory) option" where
  "InfrastructurePackExecutionList_DeepCopyObject L = deep_copy_object ''*InfrastructurePackExecutionList'' (InfrastructurePackExecutionList_DeepCopy L)"

lemma InfrastructurePackExecutionList_copies [copy_steps]: "documented_library L \<Longrightarrow> copies (InfrastructurePackExecutionList_ty L) (InfrastructurePackExecutionList_DeepCopyInto L)"
  by (simp add: InfrastructurePackExecutionList_ty_def InfrastructurePackExecutionList_DeepCopyInto_def copy_steps copied flat_types)

lemma InfrastructurePackExecutionList_pointer [copy_steps]: "documented_library L \<Longrightarrow> copies (TPtr (InfrastructurePackExecutionList_ty L)) (InfrastructurePackExecutionList_DeepCopy L)"
  by (simp add: InfrastructurePackExecutionList_DeepCopy_def InfrastructurePackExecutionList_copies copies_pointer)

lemma InfrastructurePackExecutionList_object [copy_steps]:
  "documented_library L \<Longrightarrow> copies_as_object ''*InfrastructurePackExecutionList'' (InfrastructurePackExecutionList_ty L) (InfrastructurePackExecutionList_DeepCopyObject L)"
  by (simp add: InfrastructurePackExecutionList_DeepCopyObject_def object_of InfrastructurePackExecutionList_pointer)

definition InfrastructurePackInstanceSpec_DeepCopyInto :: "library \<Rightarrow> copier" where
  "InfrastructurePackInstanceSpec_DeepCopyInto L = copy_struct [
     (''DependsOn'', copy_bulk (TBasic KString)),
     (''DependencyPolicy'', copy_pointer (InfrastructureDependencyPolicy_ty L) assign)]"

definition InfrastructurePackInstanceSpec_DeepCopy :: "library \<Rightarrow> copier" where
  "InfrastructurePackInstanceSpec_DeepCopy L = copy_pointer (InfrastructurePackInstanceSpec_ty L) (InfrastructurePackInstanceSpec_DeepCopyInto L)"

lemma InfrastructurePackInstanceSpec_copies [copy_steps]: "documented_library L \<Longrightarrow> copies (InfrastructurePackInstanceSpec_ty L) (InfrastructurePackInstanceSpec_DeepCopyInto L)"
  by (simp add: InfrastructurePackInstanceSpec_ty_def InfrastructurePackInstanceSpec_DeepCopyInto_def copy_steps copied flat_types)

lemma InfrastructurePackInstanceSpec_pointer [copy_steps]: "documented_library L \<Longrightarrow> copies (TPtr (InfrastructurePackInstanceSpec_ty L)) (InfrastructurePackInstanceSpec_DeepCopy L)"
  by (simp add: InfrastructurePackInstanceSpec_DeepCopy_def InfrastructurePackInstanceSpec_copies copies_pointer)

definition InfrastructurePackInstanceStatus_DeepCopyInto :: "library \<Rightarrow> copier" where
  "InfrastructurePackInstanceStatus_DeepCopyInto L = copy_struct [
     (''DeliveredAt'', if_not_nil (lb_DeepCopy_Time L)),
     (''DeployedResources'', copy_bulk (InfrastructureDeployedResourceRef_ty L)),
     (''Conditions'', copy_slice (lb_Condition L) (lb_copy_Condition L))]"

definition InfrastructurePackInstanceStatus_DeepCopy :: "library \<Rightarrow> copier" where
  "InfrastructurePackInstanceStatus_DeepCopy L = copy_pointer (InfrastructurePackInstanceStatus_ty L) (InfrastructurePackInstanceStatus_DeepCopyInto L)"

lemma InfrastructurePackInstanceStatus_copies [copy_steps]: "documented_library L \<Longrightarrow> copies (InfrastructurePackInstanceStatus_ty L) (InfrastructurePackInstanceStatus_DeepCopyInto L)"
  by (simp add: InfrastructurePackInstanceStatus_ty_def InfrastructurePackInstanceStatus_DeepCopyInto_def copy_steps copied flat_types)

lemma InfrastructurePackInstanceStatus_pointer [copy_steps]: "documented_library L \<Longrightarrow> copies (TPtr (InfrastructurePackInstanceStatus_ty L)) (InfrastructurePackInstanceStatus_DeepCopy L)"
  by (simp add: InfrastructurePackInstanceStatus_DeepCopy_def InfrastructurePackInstanceStatus_copies copies_pointer)

definition InfrastructurePackInstance_DeepCopyInto :: "library \<Rightarrow> copier" where
  "InfrastructurePackInstance_DeepCopyInto L = copy_struct [
     (''TypeMeta'', assign), (''ObjectMeta'', lb_copy_ObjectMeta L),
     (''Spec'', InfrastructurePackInstanceSpec_DeepCopyInto L),
     (''Status'', InfrastructurePackInstanceStatus_DeepCopyInto L)]"

definition InfrastructurePackInstance_DeepCopy :: "library \<Rightarrow> copier" where
  "InfrastructurePackInstance_DeepCopy L = copy_pointer (InfrastructurePackInstance_ty L) (InfrastructurePackInstance_DeepCopyInto L)"

definition InfrastructurePackInstance_DeepCopyObject :: "library \<Rightarrow> val \<Rightarrow> memory \<Rightarrow> (iface \<times> memory) option" where
  "InfrastructurePackInstance_DeepCopyObject L = deep_copy_object ''*InfrastructurePackInstance'' (InfrastructurePackInstance_DeepCopy L)"

lemma InfrastructurePackInstance_copies [copy_steps]: "documented_library L \<Longrightarrow> copies (InfrastructurePackInstance_ty L) (InfrastructurePackInstance_DeepCopyInto L)"
  by (simp add: InfrastructurePackInstance_ty_def InfrastructurePackInstance_DeepCopyInto_def copy_steps copied flat_types)

lemma InfrastructurePackInstance_pointer [copy_steps]: "documented_library L \<Longrightarrow> copies (TPtr (InfrastructurePackInstance_ty L)) (InfrastructurePackInstance_DeepCopy L)"
  by (simp add: InfrastructurePackInstance_DeepCopy_def InfrastructurePackInstance_copies copies_pointer)

lemma InfrastructurePackInstance_object [copy_steps]:
  "documented_library L \<Longrightarrow> copies_as_object ''*InfrastructurePackInstance'' (InfrastructurePackInstance_ty L) (InfrastructurePackInstance_DeepCopyObject L)"
  by (simp add: InfrastructurePackInstance_DeepCopyObject_def object_of InfrastructurePackInstance_pointer)

definition InfrastructurePackInstanceList_DeepCopyInto :: "library \<Rightarrow> copier" where
  "InfrastructurePackInstanceList_DeepCopyInto L = copy_struct [
     (''TypeMeta'', assign), (''ListMeta'', lb_copy_ListMeta L),
     (''Items'', copy_slice (InfrastructurePackInstance_ty L) (InfrastructurePackInstance_DeepCopyInto L))]"

definition InfrastructurePackInstanceList_DeepCopy :: "library \<Rightarrow> copier" where
  "InfrastructurePackInstanceList_DeepCopy L = copy_pointer (InfrastructurePackInstanceList_ty L) (InfrastructurePackInstanceList_DeepCopyInto L)"

definition InfrastructurePackInstanceList_DeepCopyObject :: "library \<Rightarrow> val \<Rightarrow> memory \<Rightarrow> (iface \<times> memory) option" where
  "InfrastructurePackInstanceList_DeepCopyObject L = deep_copy_object ''*InfrastructurePackInstanceList'' (InfrastructurePackInstanceList_DeepCopy L)"

lemma InfrastructurePackInstanceList_copies [copy_steps]: "documented_library L \<Longrightarrow> copies (InfrastructurePackInstanceList_ty L) (InfrastructurePackInstanceList_DeepCopyInto L)"
  by (simp add: InfrastructurePackInstanceList_ty_def InfrastructurePackInstanceList_DeepCopyInto_def copy_steps copied flat_types)

lemma InfrastructurePackInstanceList_pointer [copy_steps]: "documented_library L \<Longrightarrow> copies (TPtr (InfrastructurePackInstanceList_ty L)) (InfrastructurePackInstanceList_DeepCopy L)"
  by (simp add: InfrastructurePackInstanceList_DeepCopy_def InfrastructurePackInstanceList_copies copies_pointer)

lemma InfrastructurePackInstanceList_object [copy_steps]:
  "documented_library L \<Longrightarrow> copies_as_object ''*InfrastructurePackInstanceList'' (InfrastructurePackInstanceList_ty L) (InfrastructurePackInstanceList_DeepCopyObject L)"
  by (simp add: InfrastructurePackInstanceList_DeepCopyObject_def object_of InfrastructurePackInstanceList_pointer)

definition PackReceiptDeployedResource_DeepCopyInto :: "library \<Rightarrow> copier" where
  "PackReceiptDeployedResource_DeepCopyInto L = copy_struct []"

definition PackReceiptDeployedResource_DeepCopy :: "library \<Rightarrow> copier" where
  "PackReceiptDeployedResource_DeepCopy L = copy_pointer (PackReceiptDeployedResource_ty L) (PackReceiptDeployedResource_DeepCopyInto L)"

lemma PackReceiptDeployedResource_copies [copy_steps]: "documented_library L \<Longrightarrow> copies (PackReceiptDeployedResource_ty L) (PackReceiptDeployedResource_DeepCopyInto L)"
  by (simp add: PackReceiptDeployedResource_ty_def PackReceiptDeployedResource_DeepCopyInto_def copy_steps copied flat_types)

lemma PackReceiptDeployedResource_pointer [copy_steps]: "documented_library L \<Longrightarrow> copies (TPtr (PackReceiptDeployedResource_ty L)) (PackReceiptDeployedResource_DeepCopy L)"
  by (simp add: PackReceiptDeployedResource_DeepCopy_def PackReceiptDeployedResource_copies copies_pointer)

definition InfrastructurePackReceiptSpec_DeepCopyInto :: "library \<Rightarrow> copier" where
  "InfrastructurePackReceiptSpec_DeepCopyInto L = copy_struct [
     (''DeployedResources'', copy_bulk (PackReceiptDeployedResource_ty L))]"

definition InfrastructurePackReceiptSpec_DeepCopy :: "library \<Rightarrow> copier" where
  "InfrastructurePackReceiptSpec_DeepCopy L = copy_pointer (InfrastructurePackReceiptSpec_ty L) (InfrastructurePackReceiptSpec_DeepCopyInto L)"

lemma InfrastructurePackReceiptSpec_copies [copy_steps]: "documented_library L \<Longrightarrow> copies (InfrastructurePackReceiptSpec_ty L) (InfrastructurePackReceiptSpec_DeepCopyInto L)"
  by (simp add: InfrastructurePackReceiptSpec_ty_def InfrastructurePackReceiptSpec_DeepCopyInto_def copy_steps copied flat_types)

lemma InfrastructurePackReceiptSpec_pointer [copy_steps]: "documented_library L \<Longrightarrow> copies (TPtr (InfrastructurePackReceiptSpec_ty L)) (InfrastructurePackReceiptSpec_DeepCopy L)"
  by (simp add: InfrastructurePackReceiptSpec_DeepCopy_def InfrastructurePackReceiptSpec_copies copies_pointer)

definition InfrastructurePackReceiptStatus_DeepCopyInto :: "library \<Rightarrow> copier" where
  "InfrastructurePackReceiptStatus_DeepCopyInto L = copy_struct [
     (''Conditions'', copy_slice (lb_Condition L) (lb_copy_Condition L))]"

definition InfrastructurePackReceiptStatus_DeepCopy :: "library \<Rightarrow> copier" where
  "InfrastructurePackReceiptStatus_DeepCopy L = copy_pointer (InfrastructurePackReceiptStatus_ty L) (InfrastructurePackReceiptStatus_DeepCopyInto L)"

lemma InfrastructurePackReceiptStatus_copies [copy_steps]: "documented_library L \<Longrightarrow> copies (InfrastructurePackReceiptStatus_ty L) (InfrastructurePackReceiptStatus_DeepCopyInto L)"
  by (simp add: InfrastructurePackReceiptStatus_ty_def InfrastructurePackReceiptStatus_DeepCopyInto_def copy_steps copied flat_types)

lemma InfrastructurePackReceiptStatus_pointer [copy_steps]: "documented_library L \<Longrightarrow> copies (TPtr (InfrastructurePackReceiptStatus_ty L)) (InfrastructurePackReceiptStatus_DeepCopy L)"
  by (simp add: InfrastructurePackReceiptStatus_DeepCopy_def InfrastructurePackReceiptStatus_copies copies_pointer)

definition InfrastructurePackReceipt_DeepCopyInto :: "library \<Rightarrow> copier" where
  "InfrastructurePackReceipt_DeepCopyInto L = copy_struct [
     (''TypeMeta'', assign), (''ObjectMeta'', lb_copy_ObjectMeta L), (''Spec'', assign),
     (''Status'', InfrastructurePackReceiptStatus_DeepCopyInto L)]"

definition InfrastructurePackReceipt_DeepCopy :: "library \<Rightarrow> copier" where
  "InfrastructurePackReceipt_DeepCopy L = copy_pointer (InfrastructurePackReceipt_ty L) (InfrastructurePackReceipt_DeepCopyInto L)"

definition InfrastructurePackReceipt_DeepCopyObject :: "library \<Rightarrow> val \<Rightarrow> memory \<Rightarrow> (iface \<times> memory) option" where
  "InfrastructurePackReceipt_DeepCopyObject L = deep_copy_object ''*InfrastructurePackReceipt'' (InfrastructurePackReceipt_DeepCopy L)"

definition InfrastructurePackReceiptList_DeepCopyInto :: "library \<Rightarrow> copier" where
  "InfrastructurePackReceiptList_DeepCopyInto L = copy_struct [
     (''TypeMeta'', assign), (''ListMeta'', lb_copy_ListMeta L),
     (''Items'', copy_slice (InfrastructurePackReceipt_ty L) (InfrastructurePackReceipt_DeepCopyInto L))]"

definition InfrastructurePackReceiptList_DeepCopy :: "library \<Rightarrow> copier" where
  "InfrastructurePackReceiptList_DeepCopy L = copy_pointer (InfrastructurePackReceiptList_ty L) (InfrastructurePackReceiptList_DeepCopyInto L)"

definition InfrastructurePackReceiptList_DeepCopyObject :: "library \<Rightarrow> val \<Rightarrow> memory \<Rightarrow> (iface \<times> memory) option" where
  "InfrastructurePackReceiptList_DeepCopyObject L = deep_copy_object ''*InfrastructurePackReceiptList'' (InfrastructurePackReceiptList_DeepCopy L)"

definition RunnerPhaseConfig_DeepCopyInto :: "library \<Rightarrow> copier" where
  "RunnerPhaseConfig_DeepCopyInto L = copy_struct [
     (''Parameters'', copy_map (lb_order L) assign)]"

definition RunnerPhaseConfig_DeepCopy :: "library \<Rightarrow> copier" where
  "RunnerPhaseConfig_DeepCopy L = copy_pointer (RunnerPhaseConfig_ty L) (RunnerPhaseConfig_DeepCopyInto L)"

lemma RunnerPhaseConfig_copies [copy_steps]: "documented_library L \<Longrightarrow> copies (RunnerPhaseConfig_ty L) (RunnerPhaseConfig_DeepCopyInto L)"
  by (simp add: RunnerPhaseConfig_ty_def RunnerPhaseConfig_DeepCopyInto_def copy_steps copied flat_types)

lemma RunnerPhaseConfig_pointer [copy_steps]: "documented_library L \<Longrightarrow> copies (TPtr (RunnerPhaseConfig_ty L)) (RunnerPhaseConfig_DeepCopy L)"
  by (simp add: RunnerPhaseConfig_DeepCopy_def RunnerPhaseConfig_copies copies_pointer)

definition RunnerConfigStep_DeepCopyInto :: "library \<Rightarrow> copier" where
  "RunnerConfigStep_DeepCopyInto L = copy_struct [
     (''Parameters'', copy_map (lb_order L) assign)]"

definition RunnerConfigStep_DeepCopy :: "library \<Rightarrow> copier" where
  "RunnerConfigStep_DeepCopy L = copy_pointer (RunnerConfigStep_ty L) (RunnerConfigStep_DeepCopyInto L)"

lemma RunnerConfigStep_copies [copy_steps]: "documented_library L \<Longrightarrow> copies (RunnerConfigStep_ty L) (RunnerConfigStep_DeepCopyInto L)"
  by (simp add: RunnerConfigStep_ty_def RunnerConfigStep_DeepCopyInto_def copy_steps copied flat_types)

lemma RunnerConfigStep_pointer [copy_steps]: "documented_library L \<Longrightarrow> copies (TPtr (RunnerConfigStep_ty L)) (RunnerConfigStep_DeepCopy L)"
  by (simp add: RunnerConfigStep_DeepCopy_def RunnerConfigStep_copies copies_pointer)

definition RunnerOperationalHistoryEntry_DeepCopyInto :: "library \<Rightarrow> copier" where
  "RunnerOperationalHistoryEntry_DeepCopyInto L = copy_struct [
     (''AppliedAt'', lb_copy_Time L)]"

definition RunnerOperationalHistoryEntry_DeepCopy :: "library \<Rightarrow> copier" where
  "RunnerOperationalHistoryEntry_DeepCopy L = copy_pointer (RunnerOperationalHistoryEntry_ty L) (RunnerOperationalHistoryEntry_DeepCopyInto L)"

lemma RunnerOperationalHistoryEntry_copies [copy_steps]: "documented_library L \<Longrightarrow> copies (RunnerOperationalHistoryEntry_ty L) (RunnerOperationalHistoryEntry_DeepCopyInto L)"
  by (simp add: RunnerOperationalHistoryEntry_ty_def RunnerOperationalHistoryEntry_DeepCopyInto_def copy_steps copied flat_types)

lemma RunnerOperationalHistoryEntry_pointer [copy_steps]: "documented_library L \<Longrightarrow> copies (TPtr (RunnerOperationalHistoryEntry_ty L)) (RunnerOperationalHistoryEntry_DeepCopy L)"
  by (simp add: RunnerOperationalHistoryEntry_DeepCopy_def RunnerOperationalHistoryEntry_copies copies_pointer)

definition InfrastructureRunnerConfigSpec_DeepCopyInto :: "library \<Rightarrow> copier" where
  "InfrastructureRunnerConfigSpec_DeepCopyInto L = copy_struct [
     (''Phases'', copy_slice (RunnerPhaseConfig_ty L) (RunnerPhaseConfig_DeepCopyInto L)),
     (''Steps'', copy_slice (RunnerConfigStep_ty L) (RunnerConfigStep_DeepCopyInto L)),
     (''OperationalHistory'', copy_slice (RunnerOperationalHistoryEntry_ty L) (RunnerOperationalHistoryEntry_DeepCopyInto L)),
     (''MaintenanceTargetNodes'', copy_bulk (TBasic KString))]"

definition InfrastructureRunnerConfigSpec_DeepCopy :: "library \<Rightarrow> copier" where
  "InfrastructureRunnerConfigSpec_DeepCopy L = copy_pointer (InfrastructureRunnerConfigSpec_ty L) (InfrastructureRunnerConfigSpec_DeepCopyInto L)"

lemma InfrastructureRunnerConfigSpec_copies [copy_steps]: "documented_library L \<Longrightarrow> copies (InfrastructureRunnerConfigSpec_ty L) (InfrastructureRunnerConfigSpec_DeepCopyInto L)"
  by (simp add: InfrastructureRunnerConfigSpec_ty_def InfrastructureRunnerConfigSpec_DeepCopyInto_def copy_steps copied flat_types)

lemma InfrastructureRunnerConfigSpec_pointer [copy_steps]: "documented_library L \<Longrightarrow> copies (TPtr (InfrastructureRunnerConfigSpec_ty L)) (InfrastructureRunnerConfigSpec_DeepCopy L)"
  by (simp add: InfrastructureRunnerConfigSpec_DeepCopy_def InfrastructureRunnerConfigSpec_copies copies_pointer)

definition RunnerCapabilityEntry_DeepCopyInto :: "library \<Rightarrow> copier" where
  "RunnerCapabilityEntry_DeepCopyInto L = copy_struct []"

definition RunnerCapabilityEntry_DeepCopy :: "library \<Rightarrow> copier" where
  "RunnerCapabilityEntry_DeepCopy L = copy_pointer (RunnerCapabilityEntry_ty L) (RunnerCapabilityEntry_DeepCopyInto L)"

lemma RunnerCapabilityEntry_copies [copy_steps]: "documented_library L \<Longrightarrow> copies (RunnerCapabilityEntry_ty L) (RunnerCapabilityEntry_DeepCopyInto L)"
  by (simp add: RunnerCapabilityEntry_ty_def RunnerCapabilityEntry_DeepCopyInto_def copy_steps copied flat_types)

lemma RunnerCapabilityEntry_pointer [copy_steps]: "documented_library L \<Longrightarrow> copies (TPtr (RunnerCapabilityEntry_ty L)) (RunnerCapabilityEntry_DeepCopy L)"
  by (simp add: RunnerCapabilityEntry_DeepCopy_def RunnerCapabilityEntry_copies copies_pointer)

definition RunnerConfigStepResult_DeepCopyInto :: "library \<Rightarrow> copier" where
  "RunnerConfigStepResult_DeepCopyInto L = copy_struct [
     (''StartedAt'', if_not_nil (lb_DeepCopy_Time L)), (''CompletedAt'', if_not_nil (lb_DeepCopy_Time L))]"

definition RunnerConfigStepResult_DeepCopy :: "library \<Rightarrow> copier" where
  "RunnerConfigStepResult_DeepCopy L = copy_pointer (RunnerConfigStepResult_ty L) (RunnerConfigStepResult_DeepCopyInto L)"

lemma RunnerConfigStepResult_copies [copy_steps]: "documented_library L \<Longrightarrow> copies (RunnerConfigStepResult_ty L) (RunnerConfigStepResult_DeepCopyInto L)"
  by (simp add: RunnerConfigStepResult_ty_def RunnerConfigStepResult_DeepCopyInto_def copy_steps copied flat_types)

lemma RunnerConfigStepResult_pointer [copy_steps]: "documented_library L \<Longrightarrow> copies (TPtr (RunnerConfigStepResult_ty L)) (RunnerConfigStepResult_DeepCopy L)"
  by (simp add: RunnerConfigStepResult_DeepCopy_def RunnerConfigStepResult_copies copies_pointer)

definition InfrastructureRunnerConfigStatus_DeepCopyInto :: "library \<Rightarrow> copier" where
  "InfrastructureRunnerConfigStatus_DeepCopyInto L = copy_struct [
     (''Capabilities'', copy_bulk (RunnerCapabilityEntry_ty L)),
     (''StepResults'', copy_slice (RunnerConfigStepResult_ty L) (RunnerConfigStepResult_DeepCopyInto L)),
     (''Conditions'', copy_slice (lb_Condition L) (lb_copy_Condition L))]"

definition InfrastructureRunnerConfigStatus_DeepCopy :: "library \<Rightarrow> copier" where
  "InfrastructureRunnerConfigStatus_DeepCopy L = copy_pointer (InfrastructureRunnerConfigStatus_ty L) (InfrastructureRunnerConfigStatus_DeepCopyInto L)"

lemma InfrastructureRunnerConfigStatus_copies [copy_steps]: "documented_library L \<Longrightarrow> copies (InfrastructureRunnerConfigStatus_ty L) (InfrastructureRunnerConfigStatus_DeepCopyInto L)"
  by (simp add: InfrastructureRunnerConfigStatus_ty_def InfrastructureRunnerConfigStatus_DeepCopyInto_def copy_steps copied flat_types)

lemma InfrastructureRunnerConfigStatus_pointer [copy_steps]: "documented_library L \<Longrightarrow> copies (TPtr (InfrastructureRunnerConfigStatus_ty L)) (InfrastructureRunnerConfigStatus_DeepCopy L)"
  by (simp add: InfrastructureRunnerConfigStatus_DeepCopy_def InfrastructureRunnerConfigStatus_copies copies_pointer)

definition InfrastructureRunnerConfig_DeepCopyInto :: "library \<Rightarrow> copier" where
  "InfrastructureRunnerConfig_DeepCopyInto L = copy_struct [
     (''TypeMeta'', assign), (''ObjectMeta'', lb_copy_ObjectMeta L),
     (''Spec'', InfrastructureRunnerConfigSpec_DeepCopyInto L),
     (''Status'', InfrastructureRunnerConfigStatus_DeepCopyInto L)]"

definition InfrastructureRunnerConfig_DeepCopy :: "library \<Rightarrow> copier" where
  "InfrastructureRunnerConfig_DeepCopy L = copy_pointer (InfrastructureRunnerConfig_ty L) (InfrastructureRunnerConfig_DeepCopyInto L)"

definition InfrastructureRunnerConfig_DeepCopyObject :: "library \<Rightarrow> val \<Rightarrow> memory \<Rightarrow> (iface \<times> memory) option" where
  "InfrastructureRunnerConfig_DeepCopyObject L = deep_copy_object ''*InfrastructureRunnerConfig'' (InfrastructureRunnerConfig_DeepCopy L)"

lemma InfrastructureRunnerConfig_copies [copy_steps]: "documented_library L \<Longrightarrow> copies (InfrastructureRunnerConfig_ty L) (InfrastructureRunnerConfig_DeepCopyInto L)"
  by (simp add: InfrastructureRunnerConfig_ty_def InfrastructureRunnerConfig_DeepCopyInto_def copy_steps copied flat_types)

lemma InfrastructureRunnerConfig_pointer [copy_steps]: "documented_library L \<Longrightarrow> copies (TPtr (InfrastructureRunnerConfig_ty L)) (InfrastructureRunnerConfig_DeepCopy L)"
  by (simp add: InfrastructureRunnerConfig_DeepCopy_def InfrastructureRunnerConfig_copies copies_pointer)

lemma InfrastructureRunnerConfig_object [copy_steps]:
  "documented_library L \<Longrightarrow> copies_as_object ''*InfrastructureRunnerConfig'' (InfrastructureRunnerConfig_ty L) (InfrastructureRunnerConfig_DeepCopyObject L)"
  by (simp add: InfrastructureRunnerConfig_DeepCopyObject_def object_of InfrastructureRunnerConfig_pointer)

definition InfrastructureRunnerConfigList_DeepCopyInto :: "library \<Rightarrow> copier" where
  "InfrastructureRunnerConfigList_DeepCopyInto L = copy_struct [
     (''TypeMeta'', assign), (''ListMeta'', lb_copy_ListMeta L),
     (''Items'', copy_slice (InfrastructureRunnerConfig_ty L) (InfrastructureRunnerConfig_DeepCopyInto L))]"

definition InfrastructureRunnerConfigList_DeepCopy :: "library \<Rightarrow> copier" where
  "InfrastructureRunnerConfigList_DeepCopy L = copy_pointer (InfrastructureRunnerConfigList_ty L) (InfrastructureRunnerConfigList_DeepCopyInto L)"

definition InfrastructureRunnerConfigList_DeepCopyObject :: "library \<Rightarrow> val \<Rightarrow> memory \<Rightarrow> (iface \<times> memory) option" where
  "InfrastructureRunnerConfigList_DeepCopyObject L = deep_copy_object ''*InfrastructureRunnerConfigList'' (InfrastructureRunnerConfigList_DeepCopy L)"

lemma InfrastructureRunnerConfigList_copies [copy_steps]: "documented_library L \<Longrightarrow> copies (InfrastructureRunnerConfigList_ty L) (InfrastructureRunnerConfigList_DeepCopyInto L)"
  by (simp add: InfrastructureRunnerConfigList_ty_def InfrastructureRunnerConfigList_DeepCopyInto_def copy_steps copied flat_types)

lemma InfrastructureRunnerConfigList_pointer [copy_steps]: "documented_library L \<Longrightarrow> copies (TPtr (InfrastructureRunnerConfigList_ty L)) (InfrastructureRunnerConfigList_DeepCopy L)"
  by (simp add: InfrastructureRunnerConfigList_DeepCopy_def InfrastructureRunnerConfigList_copies copies_pointer)

lemma InfrastructureRunnerConfigList_object [copy_steps]:
  "documented_library L \<Longrightarrow> copies_as_object ''*InfrastructureRunnerConfigList'' (InfrastructureRunnerConfigList_ty L) (InfrastructureRunnerConfigList_DeepCopyObject L)"
  by (simp add: InfrastructureRunnerConfigList_DeepCopyObject_def object_of InfrastructureRunnerConfigList_pointer)

definition InfrastructureTalosClusterSpec_DeepCopyInto :: "library \<Rightarrow> copier" where
  "InfrastructureTalosClusterSpec_DeepCopyInto L = copy_struct [
     (''NodeAddresses'', copy_bulk (TBasic KString)),
     (''CAPI'', copy_pointer (InfrastructureCAPIConfig_ty L) (InfrastructureCAPIConfig_DeepCopyInto L)),
     (''Lineage'', copy_pointer (SealedCausalChain_ty L) assign),
     (''HardeningProfileRef'', copy_pointer (InfrastructureLocalObjectRef_ty L) assign)]"

definition InfrastructureTalosClusterSpec_DeepCopy :: "library \<Rightarrow> copier" where
  "InfrastructureTalosClusterSpec_DeepCopy L = copy_pointer (InfrastructureTalosClusterSpec_ty L) (InfrastructureTalosClusterSpec_DeepCopyInto L)"

lemma InfrastructureTalosClusterSpec_copies [copy_steps]: "documented_library L \<Longrightarrow> copies (InfrastructureTalosClusterSpec_ty L) (InfrastructureTalosClusterSpec_DeepCopyInto L)"
  by (simp add: InfrastructureTalosClusterSpec_ty_def InfrastructureTalosClusterSpec_DeepCopyInto_def copy_steps copied flat_types)

lemma InfrastructureTalosClusterSpec_pointer [copy_steps]: "documented_library L \<Longrightarrow> copies (TPtr (InfrastructureTalosClusterSpec_ty L)) (InfrastructureTalosClusterSpec_DeepCopy L)"
  by (simp add: InfrastructureTalosClusterSpec_DeepCopy_def InfrastructureTalosClusterSpec_copies copies_pointer)

definition InfrastructureTalosClusterStatus_DeepCopyInto :: "library \<Rightarrow> copier" where
  "InfrastructureTalosClusterStatus_DeepCopyInto L = copy_struct [
     (''CAPIClusterRef'', copy_pointer (InfrastructureLocalObjectRef_ty L) assign),
     (''Conditions'', copy_slice (lb_Condition L) (lb_copy_Condition L)),
     (''PkiExpiryDate'', if_not_nil (lb_DeepCopy_Time L))]"

definition InfrastructureTalosClusterStatus_DeepCopy :: "library \<Rightarrow> copier" where
  "InfrastructureTalosClusterStatus_DeepCopy L = copy_pointer (InfrastructureTalosClusterStatus_ty L) (InfrastructureTalosClusterStatus_DeepCopyInto L)"

lemma InfrastructureTalosClusterStatus_copies [copy_steps]: "documented_library L \<Longrightarrow> copies (InfrastructureTalosClusterStatus_ty L) (InfrastructureTalosClusterStatus_DeepCopyInto L)"
  by (simp add: InfrastructureTalosClusterStatus_ty_def InfrastructureTalosClusterStatus_DeepCopyInto_def copy_steps copied flat_types)

lemma InfrastructureTalosClusterStatus_pointer [copy_steps]: "documented_library L \<Longrightarrow> copies (TPtr (InfrastructureTalosClusterStatus_ty L)) (InfrastructureTalosClusterStatus_DeepCopy L)"
  by (simp add: InfrastructureTalosClusterStatus_DeepCopy_def InfrastructureTalosClusterStatus_copies copies_pointer)

definition InfrastructureTalosCluster_DeepCopyInto :: "library \<Rightarrow> copier" where
  "InfrastructureTalosCluster_DeepCopyInto L = copy_struct [
     (''TypeMeta'', assign), (''ObjectMeta'', lb_copy_ObjectMeta L),
     (''Spec'', InfrastructureTalosClusterSpec_DeepCopyInto L),
     (''Status'', InfrastructureTalosClusterStatus_DeepCopyInto L)]"

definition InfrastructureTalosCluster_DeepCopy :: "library \<Rightarrow> copier" where
  "InfrastructureTalosCluster_DeepCopy L = copy_pointer (InfrastructureTalosCluster_ty L) (InfrastructureTalosCluster_DeepCopyInto L)"

definition InfrastructureTalosCluster_DeepCopyObject :: "library \<Rightarrow> val \<Rightarrow> memory \<Rightarrow> (iface \<times> memory) option" where
  "InfrastructureTalosCluster_DeepCopyObject L = deep_copy_object ''*InfrastructureTalosCluster'' (InfrastructureTalosCluster_DeepCopy L)"

lemma InfrastructureTalosCluster_copies [copy_steps]: "documented_library L \<Longrightarrow> copies (InfrastructureTalosCluster_ty L) (InfrastructureTalosCluster_DeepCopyInto L)"
  by (simp add: InfrastructureTalosCluster_ty_def InfrastructureTalosCluster_DeepCopyInto_def copy_steps copied flat_types)

lemma InfrastructureTalosCluster_pointer [copy_steps]: "documented_library L \<Longrightarrow> copies (TPtr (InfrastructureTalosCluster_ty L)) (InfrastructureTalosCluster_DeepCopy L)"
  by (simp add: InfrastructureTalosCluster_DeepCopy_def InfrastructureTalosCluster_copies copies_pointer)

lemma InfrastructureTalosCluster_object [copy_steps]:
  "documented_library L \<Longrightarrow> copies_as_object ''*InfrastructureTalosCluster'' (InfrastructureTalosCluster_ty L) (InfrastructureTalosCluster_DeepCopyObject L)"
  by (simp add: InfrastructureTalosCluster_DeepCopyObject_def object_of InfrastructureTalosCluster_pointer)

definition InfrastructureTalosClusterList_DeepCopyInto :: "library \<Rightarrow> copier" where
  "InfrastructureTalosClusterList_DeepCopyInto L = copy_struct [
     (''TypeMeta'', assign), (''ListMeta'', lb_copy_ListMeta L),
     (''Items'', copy_slice (InfrastructureTalosCluster_ty L) (InfrastructureTalosCluster_DeepCopyInto L))]"

definition InfrastructureTalosClusterList_DeepCopy :: "library \<Rightarrow> copier" where
  "InfrastructureTalosClusterList_DeepCopy L = copy_pointer (InfrastructureTalosClusterList_ty L) (InfrastructureTalosClusterList_DeepCopyInto L)"

definition InfrastructureTalosClusterList_DeepCopyObject :: "library \<Rightarrow> val \<Rightarrow> memory \<Rightarrow> (iface \<times> memory) option" where
  "InfrastructureTalosClusterList_DeepCopyObject L = deep_copy_object ''*InfrastructureTalosClusterList'' (InfrastructureTalosClusterList_DeepCopy L)"

lemma InfrastructureTalosClusterList_copies [copy_steps]: "documented_library L \<Longrightarrow> copies (InfrastructureTalosClusterList_ty L) (InfrastructureTalosClusterList_DeepCopyInto L)"
  by (simp add: InfrastructureTalosClusterList_ty_def InfrastructureTalosClusterList_DeepCopyInto_def copy_steps copied flat_types)

lemma InfrastructureTalosClusterList_pointer [copy_steps]: "documented_library L \<Longrightarrow> copies (TPtr (InfrastructureTalosClusterList_ty L)) (InfrastructureTalosClusterList_DeepCopy L)"
  by (simp add: InfrastructureTalosClusterList_DeepCopy_def InfrastructureTalosClusterList_copies copies_pointer)

lemma InfrastructureTalosClusterList_object [copy_steps]:
  "documented_library L \<Longrightarrow> copies_as_object ''*InfrastructureTalosClusterList'' (InfrastructureTalosClusterList_ty L) (InfrastructureTalosClusterList_DeepCopyObject L)"
  by (simp add: InfrastructureTalosClusterList_DeepCopyObject_def object_of InfrastructureTalosClusterList_pointer)

definition TalosClusterOperationFailureReason_DeepCopyInto :: "library \<Rightarrow> copier" where
  "TalosClusterOperationFailureReason_DeepCopyInto L = copy_struct []"

definition TalosClusterOperationFailureReason_DeepCopy :: "library \<Rightarrow> copier" where
  "TalosClusterOperationFailureReason_DeepCopy L = copy_pointer (TalosClusterOperationFailureReason_ty L) (TalosClusterOperationFailureReason_DeepCopyInto L)"

lemma TalosClusterOperationFailureReason_copies [copy_steps]: "documented_library L \<Longrightarrow> copies (TalosClusterOperationFailureReason_ty L) (TalosClusterOperationFailureReason_DeepCopyInto L)"
  by (simp add: TalosClusterOperationFailureReason_ty_def TalosClusterOperationFailureReason_DeepCopyInto_def copy_steps copied flat_types)

lemma TalosClusterOperationFailureReason_pointer [copy_steps]: "documented_library L \<Longrightarrow> copies (TPtr (TalosClusterOperationFailureReason_ty L)) (TalosClusterOperationFailureReason_DeepCopy L)"
  by (simp add: TalosClusterOperationFailureReason_DeepCopy_def TalosClusterOperationFailureReason_copies copies_pointer)

definition TalosClusterOperationRecord_DeepCopyInto :: "library \<Rightarrow> copier" where
  "TalosClusterOperationRecord_DeepCopyInto L = copy_struct [
     (''StartedAt'', if_not_nil (lb_DeepCopy_Time L)), (''CompletedAt'', if_not_nil (lb_DeepCopy_Time L)),
     (''FailureReason'', copy_pointer (TalosClusterOperationFailureReason_ty L) assign)]"

definition TalosClusterOperationRecord_DeepCopy :: "library \<Rightarrow> copier" where
  "TalosClusterOperationRecord_DeepCopy L = copy_pointer (TalosClusterOperationRecord_ty L) (TalosClusterOperationRecord_DeepCopyInto L)"

lemma TalosClusterOperationRecord_copies [copy_steps]: "documented_library L \<Longrightarrow> copies (TalosClusterOperationRecord_ty L) (TalosClusterOperationRecord_DeepCopyInto L)"
  by (simp add: TalosClusterOperationRecord_ty_def TalosClusterOperationRecord_DeepCopyInto_def copy_steps copied flat_types)

lemma TalosClusterOperationRecord_pointer [copy_steps]: "documented_library L \<Longrightarrow> copies (TPtr (TalosClusterOperationRecord_ty L)) (TalosClusterOperationRecord_DeepCopy L)"
  by (simp add: TalosClusterOperationRecord_DeepCopy_def TalosClusterOperationRecord_copies copies_pointer)

definition InfrastructureTalosClusterOperationResultSpec_DeepCopyInto :: "library \<Rightarrow> copier" where
  "InfrastructureTalosClusterOperationResultSpec_DeepCopyInto L = copy_struct [
     (''Operations'', copy_map (lb_order L) (through_pointer (TalosClusterOperationRecord_DeepCopy L)))]"

definition InfrastructureTalosClusterOperationResultSpec_DeepCopy :: "library \<Rightarrow> copier" where
  "InfrastructureTalosClusterOperationResultSpec_DeepCopy L = copy_pointer (InfrastructureTalosClusterOperationResultSpec_ty L) (InfrastructureTalosClusterOperationResultSpec_DeepCopyInto L)"

lemma InfrastructureTalosClusterOperationResultSpec_copies [copy_steps]: "documented_library L \<Longrightarrow> copies (InfrastructureTalosClusterOperationResultSpec_ty L) (InfrastructureTalosClusterOperationResultSpec_DeepCopyInto L)"
  by (simp add: InfrastructureTalosClusterOperationResultSpec_ty_def InfrastructureTalosClusterOperationResultSpec_DeepCopyInto_def copy_steps copied flat_types)

lemma InfrastructureTalosClusterOperationResultSpec_pointer [copy_steps]: "documented_library L \<Longrightarrow> copies (TPtr (InfrastructureTalosClusterOperationResultSpec_ty L)) (InfrastructureTalosClusterOperationResultSpec_DeepCopy L)"
  by (simp add: InfrastructureTalosClusterOperationResultSpec_DeepCopy_def InfrastructureTalosClusterOperationResultSpec_copies copies_pointer)

definition InfrastructureTalosClusterOperationResultStatus_DeepCopyInto :: "library \<Rightarrow> copier" where
  "InfrastructureTalosClusterOperationResultStatus_DeepCopyInto L = copy_struct []"

definition InfrastructureTalosClusterOperationResultStatus_DeepCopy :: "library \<Rightarrow> copier" where
  "InfrastructureTalosClusterOperationResultStatus_DeepCopy L = copy_pointer (InfrastructureTalosClusterOperationResultStatus_ty L) (InfrastructureTalosClusterOperationResultStatus_DeepCopyInto L)"

lemma InfrastructureTalosClusterOperationResultStatus_copies [copy_steps]: "documented_library L \<Longrightarrow> copies (InfrastructureTalosClusterOperationResultStatus_ty L) (InfrastructureTalosClusterOperationResultStatus_DeepCopyInto L)"
  by (simp add: InfrastructureTalosClusterOperationResultStatus_ty_def InfrastructureTalosClusterOperationResultStatus_DeepCopyInto_def copy_steps copied flat_types)

lemma InfrastructureTalosClusterOperationResultStatus_pointer [copy_steps]: "documented_library L \<Longrightarrow> copies (TPtr (InfrastructureTalosClusterOperationResultStatus_ty L)) (InfrastructureTalosClusterOperationResultStatus_DeepCopy L)"
  by (simp add: InfrastructureTalosClusterOperationResultStatus_DeepCopy_def InfrastructureTalosClusterOperationResultStatus_copies copies_pointer)

definition InfrastructureTalosClusterOperationResult_DeepCopyInto :: "library \<Rightarrow> copier" where
  "InfrastructureTalosClusterOperationResult_DeepCopyInto L = copy_struct [
     (''TypeMeta'', assign), (''ObjectMeta'', lb_copy_ObjectMeta L),
     (''Spec'', InfrastructureTalosClusterOperationResultSpec_DeepCopyInto L), (''Status'', assign)]"

definition InfrastructureTalosClusterOperationResult_DeepCopy :: "library \<Rightarrow> copier" where
  "InfrastructureTalosClusterOperationResult_DeepCopy L = copy_pointer (InfrastructureTalosClusterOperationResult_ty L) (InfrastructureTalosClusterOperationResult_DeepCopyInto L)"

definition InfrastructureTalosClusterOperationResult_DeepCopyObject :: "library \<Rightarrow> val \<Rightarrow> memory \<Rightarrow> (iface \<times> memory) option" where
  "InfrastructureTalosClusterOperationResult_DeepCopyObject L = deep_copy_object ''*InfrastructureTalosClusterOperationResult'' (InfrastructureTalosClusterOperationResult_DeepCopy L)"

lemma InfrastructureTalosClusterOperationResult_copies [copy_steps]: "documented_library L \<Longrightarrow> copies (InfrastructureTalosClusterOperationResult_ty L) (InfrastructureTalosClusterOperationResult_DeepCopyInto L)"
  by (simp add: InfrastructureTalosClusterOperationResult_ty_def InfrastructureTalosClusterOperationResult_DeepCopyInto_def copy_steps copied flat_types)

lemma InfrastructureTalosClusterOperationResult_pointer [copy_steps]: "documented_library L \<Longrightarrow> copies (TPtr (InfrastructureTalosClusterOperationResult_ty L)) (InfrastructureTalosClusterOperationResult_DeepCopy L)"
  by (simp add: InfrastructureTalosClusterOperationResult_DeepCopy_def InfrastructureTalosClusterOperationResult_copies copies_pointer)

lemma InfrastructureTalosClusterOperationResult_object [copy_steps]:
  "documented_library L \<Longrightarrow> copies_as_object ''*InfrastructureTalosClusterOperationResult'' (InfrastructureTalosClusterOperationResult_ty L) (InfrastructureTalosClusterOperationResult_DeepCopyObject L)"
  by (simp add: InfrastructureTalosClusterOperationResult_DeepCopyObject_def object_of InfrastructureTalosClusterOperationResult_pointer)

definition InfrastructureTalosClusterOperationResultList_DeepCopyInto :: "library \<Rightarrow> copier" where
  "InfrastructureTalosClusterOperationResultList_DeepCopyInto L = copy_struct [
     (''TypeMeta'', assign), (''ListMeta'', lb_copy_ListMeta L),
     (''Items'', copy_slice (InfrastructureTalosClusterOperationResult_ty L) (InfrastructureTalosClusterOperationResult_DeepCopyInto L))]"

definition InfrastructureTalosClusterOperationResultList_DeepCopy :: "library \<Rightarrow> copier" where
  "InfrastructureTalosClusterOperationResultList_DeepCopy L = copy_pointer (InfrastructureTalosClusterOperationResultList_ty L) (InfrastructureTalosClusterOperationResultList_DeepCopyInto L)"

definition InfrastructureTalosClusterOperationResultList_DeepCopyObject :: "library \<Rightarrow> val \<Rightarrow> memory \<Rightarrow> (iface \<times> memory) option" where
  "InfrastructureTalosClusterOperationResultList_DeepCopyObject L = deep_copy_object ''*InfrastructureTalosClusterOperationResultList'' (InfrastructureTalosClusterOperationResultList_DeepCopy L)"

lemma InfrastructureTalosClusterOperationResultList_copies [copy_steps]: "documented_library L \<Longrightarrow> copies (InfrastructureTalosClusterOperationResultList_ty L) (InfrastructureTalosClusterOperationResultList_DeepCopyInto L)"
  by (simp add: InfrastructureTalosClusterOperationResultList_ty_def InfrastructureTalosClusterOperationResultList_DeepCopyInto_def copy_steps copied flat_types)

lemma InfrastructureTalosClusterOperationResultList_pointer [copy_steps]: "documented_library L \<Longrightarrow> copies (TPtr (InfrastructureTalosClusterOperationResultList_ty L)) (InfrastructureTalosClusterOperationResultList_DeepCopy L)"
  by (simp add: InfrastructureTalosClusterOperationResultList_DeepCopy_def InfrastructureTalosClusterOperationResultList_copies copies_pointer)

lemma InfrastructureTalosClusterOperationResultList_object [copy_steps]:
  "documented_library L \<Longrightarrow> copies_as_object ''*InfrastructureTalosClusterOperationResultList'' (InfrastructureTalosClusterOperationResultList_ty L) (InfrastructureTalosClusterOperationResultList_DeepCopyObject L)"
  by (simp add: InfrastructureTalosClusterOperationResultList_DeepCopyObject_def object_of InfrastructureTalosClusterOperationResultList_pointer)

definition PackOperationArtifact_DeepCopyInto :: "library \<Rightarrow> copier" where
  "PackOperationArtifact_DeepCopyInto L = copy_struct []"

definition PackOperationArtifact_DeepCopy :: "library \<Rightarrow> copier" where
  "PackOperationArtifact_DeepCopy L = copy_pointer (PackOperationArtifact_ty L) (PackOperationArtifact_DeepCopyInto L)"

lemma PackOperationArtifact_copies [copy_steps]: "documented_library L \<Longrightarrow> copies (PackOperationArtifact_ty L) (PackOperationArtifact_DeepCopyInto L)"
  by (simp add: PackOperationArtifact_ty_def PackOperationArtifact_DeepCopyInto_def copy_steps copied flat_types)

lemma PackOperationArtifact_pointer [copy_steps]: "documented_library L \<Longrightarrow> copies (TPtr (PackOperationArtifact_ty L)) (PackOperationArtifact_DeepCopy L)"
  by (simp add: PackOperationArtifact_DeepCopy_def PackOperationArtifact_copies copies_pointer)

definition PackOperationDeployedResource_DeepCopyInto :: "library \<Rightarrow> copier" where
  "PackOperationDeployedResource_DeepCopyInto L = copy_struct []"

definition PackOperationDeployedResource_DeepCopy :: "library \<Rightarrow> copier" where
  "PackOperationDeployedResource_DeepCopy L = copy_pointer (PackOperationDeployedResource_ty L) (PackOperationDeployedResource_DeepCopyInto L)"

lemma PackOperationDeployedResource_copies [copy_steps]: "documented_library L \<Longrightarrow> copies (PackOperationDeployedResource_ty L) (PackOperationDeployedResource_DeepCopyInto L)"
  by (simp add: PackOperationDeployedResource_ty_def PackOperationDeployedResource_DeepCopyInto_def copy_steps copied flat_types)

lemma PackOperationDeployedResource_pointer [copy_steps]: "documented_library L \<Longrightarrow> copies (TPtr (PackOperationDeployedResource_ty L)) (PackOperationDeployedResource_DeepCopy L)"
  by (simp add: PackOperationDeployedResource_DeepCopy_def PackOperationDeployedResource_copies copies_pointer)

definition PackOperationFailureReason_DeepCopyInto :: "library \<Rightarrow> copier" where
  "PackOperationFailureReason_DeepCopyInto L = copy_struct []"

definition PackOperationFailureReason_DeepCopy :: "library \<Rightarrow> copier" where
  "PackOperationFailureReason_DeepCopy L = copy_pointer (PackOperationFailureReason_ty L) (PackOperationFailureReason_DeepCopyInto L)"

lemma PackOperationFailureReason_copies [copy_steps]: "documented_library L \<Longrightarrow> copies (PackOperationFailureReason_ty L) (PackOperationFailureReason_DeepCopyInto L)"
  by (simp add: PackOperationFailureReason_ty_def PackOperationFailureReason_DeepCopyInto_def copy_steps copied flat_types)

lemma PackOperationFailureReason_pointer [copy_steps]: "documented_library L \<Longrightarrow> copies (TPtr (PackOperationFailureReason_ty L)) (PackOperationFailureReason_DeepCopy L)"
  by (simp add: PackOperationFailureReason_DeepCopy_def PackOperationFailureReason_copies copies_pointer)

definition PackOperationStepResult_DeepCopyInto :: "library \<Rightarrow> copier" where
  "PackOperationStepResult_DeepCopyInto L = copy_struct [
     (''StartedAt'', if_not_nil (lb_DeepCopy_Time L)), (''CompletedAt'', if_not_nil (lb_DeepCopy_Time L))]"

definition PackOperationStepResult_DeepCopy :: "library \<Rightarrow> copier" where
  "PackOperationStepResult_DeepCopy L = copy_pointer (PackOperationStepResult_ty L) (PackOperationStepResult_DeepCopyInto L)"

lemma PackOperationStepResult_copies [copy_steps]: "documented_library L \<Longrightarrow> copies (PackOperationStepResult_ty L) (PackOperationStepResult_DeepCopyInto L)"
  by (simp add: PackOperationStepResult_ty_def PackOperationStepResult_DeepCopyInto_def copy_steps copied flat_types)

lemma PackOperationStepResult_pointer [copy_steps]: "documented_library L \<Longrightarrow> copies (TPtr (PackOperationStepResult_ty L)) (PackOperationStepResult_DeepCopy L)"
  by (simp add: PackOperationStepResult_DeepCopy_def PackOperationStepResult_copies copies_pointer)

definition PackOperationResultSpec_DeepCopyInto :: "library \<Rightarrow> copier" where
  "PackOperationResultSpec_DeepCopyInto L = copy_struct [
     (''StartedAt'', if_not_nil (lb_DeepCopy_Time L)), (''CompletedAt'', if_not_nil (lb_DeepCopy_Time L)),
     (''FailureReason'', copy_pointer (PackOperationFailureReason_ty L) assign),
     (''DeployedResources'', copy_bulk (PackOperationDeployedResource_ty L)),
     (''Artifacts'', copy_bulk (PackOperationArtifact_ty L)),
     (''Steps'', copy_slice (PackOperationStepResult_ty L) (PackOperationStepResult_DeepCopyInto L))]"

definition PackOperationResultSpec_DeepCopy :: "library \<Rightarrow> copier" where
  "PackOperationResultSpec_DeepCopy L = copy_pointer (PackOperationResultSpec_ty L) (PackOperationResultSpec_DeepCopyInto L)"

lemma PackOperationResultSpec_copies [copy_steps]: "documented_library L \<Longrightarrow> copies (PackOperationResultSpec_ty L) (PackOperationResultSpec_DeepCopyInto L)"
  by (simp add: PackOperationResultSpec_ty_def PackOperationResultSpec_DeepCopyInto_def copy_steps copied flat_types)

lemma PackOperationResultSpec_pointer [copy_steps]: "documented_library L \<Longrightarrow> copies (TPtr (PackOperationResultSpec_ty L)) (PackOperationResultSpec_DeepCopy L)"
  by (simp add: PackOperationResultSpec_DeepCopy_def PackOperationResultSpec_copies copies_pointer)

definition PackOperationResultStatus_DeepCopyInto :: "library \<Rightarrow> copier" where
  "PackOperationResultStatus_DeepCopyInto L = copy_struct []"

definition PackOperationResultStatus_DeepCopy :: "library \<Rightarrow> copier" where
  "PackOperationResultStatus_DeepCopy L = copy_pointer (PackOperationResultStatus_ty L) (PackOperationResultStatus_DeepCopyInto L)"

lemma PackOperationResultStatus_copies [copy_steps]: "documented_library L \<Longrightarrow> copies (PackOperationResultStatus_ty L) (PackOperationResultStatus_DeepCopyInto L)"
  by (simp add: PackOperationResultStatus_ty_def PackOperationResultStatus_DeepCopyInto_def copy_steps copied flat_types)

lemma PackOperationResultStatus_pointer [copy_steps]: "documented_library L \<Longrightarrow> copies (TPtr (PackOperationResultStatus_ty L)) (PackOperationResultStatus_DeepCopy L)"
  by (simp add: PackOperationResultStatus_DeepCopy_def PackOperationResultStatus_copies copies_pointer)

definition PackOperationResult_DeepCopyInto :: "library \<Rightarrow> copier" where
  "PackOperationResult_DeepCopyInto L = copy_struct [
     (''TypeMeta'', assign), (''ObjectMeta'', lb_copy_ObjectMeta L),
     (''Spec'', PackOperationResultSpec_DeepCopyInto L), (''Status'', assign)]"

definition PackOperationResult_DeepCopy :: "library \<Rightarrow> copier" where
  "PackOperationResult_DeepCopy L = copy_pointer (PackOperationResult_ty L) (PackOperationResult_DeepCopyInto L)"

definition PackOperationResult_DeepCopyObject :: "library \<Rightarrow> val \<Rightarrow> memory \<Rightarrow> (iface \<times> memory) option" where
  "PackOperationResult_DeepCopyObject L = deep_copy_object ''*PackOperationResult'' (PackOperationResult_DeepCopy L)"

lemma PackOperationResult_copies [copy_steps]: "documented_library L \<Longrightarrow> copies (PackOperationResult_ty L) (PackOperationResult_DeepCopyInto L)"
  by (simp add: PackOperationResult_ty_def PackOperationResult_DeepCopyInto_def copy_steps copied flat_types)

lemma PackOperationResult_pointer [copy_steps]: "documented_library L \<Longrightarrow> copies (TPtr (PackOperationResult_ty L)) (PackOperationResult_DeepCopy L)"
  by (simp add: PackOperationResult_DeepCopy_def PackOperationResult_copies copies_pointer)

lemma PackOperationResult_object [copy_steps]:
  "documented_library L \<Longrightarrow> copies_as_object ''*PackOperationResult'' (PackOperationResult_ty L) (PackOperationResult_DeepCopyObject L)"
  by (simp add: PackOperationResult_DeepCopyObject_def object_of PackOperationResult_pointer)

definition PackOperationResultList_DeepCopyInto :: "library \<Rightarrow> copier" where
  "PackOperationResultList_DeepCopyInto L = copy_struct [
     (''TypeMeta'', assign), (''ListMeta'', lb_copy_ListMeta L),
     (''Items'', copy_slice (PackOperationResult_ty L) (PackOperationResult_DeepCopyInto L))]"

definition PackOperationResultList_DeepCopy :: "library \<Rightarrow> copier" where
  "PackOperationResultList_DeepCopy L = copy_pointer (PackOperationResultList_ty L) (PackOperationResultList_DeepCopyInto L)"

definition PackOperationResultList_DeepCopyObject :: "library \<Rightarrow> val \<Rightarrow> memory \<Rightarrow> (iface \<times> memory) option" where
  "PackOperationResultList_DeepCopyObject L = deep_copy_object ''*PackOperationResultList'' (PackOperationResultList_DeepCopy L)"

lemma PackOperationResultList_copies [copy_steps]: "documented_library L \<Longrightarrow> copies (PackOperationResultList_ty L) (PackOperationResultList_DeepCopyInto L)"
  by (simp add: PackOperationResultList_ty_def PackOperationResultList_DeepCopyInto_def copy_steps copied flat_types)

lemma PackOperationResultList_pointer [copy_steps]: "documented_library L \<Longrightarrow> copies (TPtr (PackOperationResultList_ty L)) (PackOperationResultList_DeepCopy L)"
  by (simp add: PackOperationResultList_DeepCopy_def PackOperationResultList_copies copies_pointer)

lemma PackOperationResultList_object [copy_steps]:
  "documented_library L \<Longrightarrow> copies_as_object ''*PackOperationResultList'' (PackOperationResultList_ty L) (PackOperationResultList_DeepCopyObject L)"
  by (simp add: PackOperationResultList_DeepCopyObject_def object_of PackOperationResultList_pointer)

definition SeamMembershipSpec_DeepCopyInto :: "library \<Rightarrow> copier" where
  "SeamMembershipSpec_DeepCopyInto L = copy_struct []"

definition SeamMembershipSpec_DeepCopy :: "library \<Rightarrow> copier" where
  "SeamMembershipSpec_DeepCopy L = copy_pointer (SeamMembershipSpec_ty L) (SeamMembershipSpec_DeepCopyInto L)"

lemma SeamMembershipSpec_copies [copy_steps]: "documented_library L \<Longrightarrow> copies (SeamMembershipSpec_ty L) (SeamMembershipSpec_DeepCopyInto L)"
  by (simp add: SeamMembershipSpec_ty_def SeamMembershipSpec_DeepCopyInto_def copy_steps copied flat_types)

lemma SeamMembershipSpec_pointer [copy_steps]: "documented_library L \<Longrightarrow> copies (TPtr (SeamMembershipSpec_ty L)) (SeamMembershipSpec_DeepCopy L)"
  by (simp add: SeamMembershipSpec_DeepCopy_def SeamMembershipSpec_copies copies_pointer)

definition SeamMembershipStatus_DeepCopyInto :: "library \<Rightarrow> copier" where
  "SeamMembershipStatus_DeepCopyInto L = copy_struct [
     (''AdmittedAt'', if_not_nil (lb_DeepCopy_Time L)),
     (''Conditions'', copy_slice (lb_Condition L) (lb_copy_Condition L))]"

definition SeamMembershipStatus_DeepCopy :: "library \<Rightarrow> copier" where
  "SeamMembershipStatus_DeepCopy L = copy_pointer (SeamMembershipStatus_ty L) (SeamMembershipStatus_DeepCopyInto L)"

lemma SeamMembershipStatus_copies [copy_steps]: "documented_library L \<Longrightarrow> copies (SeamMembershipStatus_ty L) (SeamMembershipStatus_DeepCopyInto L)"
  by (simp add: SeamMembershipStatus_ty_def SeamMembershipStatus_DeepCopyInto_def copy_steps copied flat_types)

lemma SeamMembershipStatus_pointer [copy_steps]: "documented_library L \<Longrightarrow> copies (TPtr (SeamMembershipStatus_ty L)) (SeamMembershipStatus_DeepCopy L)"
  by (simp add: SeamMembershipStatus_DeepCopy_def SeamMembershipStatus_copies copies_pointer)

definition SeamMembership_DeepCopyInto :: "library \<Rightarrow> copier" where
  "SeamMembership_DeepCopyInto L = copy_struct [
     (''TypeMeta'', assign), (''ObjectMeta'', lb_copy_ObjectMeta L), (''Spec'', assign),
     (''Status'', SeamMembershipStatus_DeepCopyInto L)]"

definition SeamMembership_DeepCopy :: "library \<Rightarrow> copier" where
  "SeamMembership_DeepCopy L = copy_pointer (SeamMembership_ty L) (SeamMembership_DeepCopyInto L)"

definition SeamMembership_DeepCopyObject :: "library \<Rightarrow> val \<Rightarrow> memory \<Rightarrow> (iface \<times> memory) option" where
  "SeamMembership_DeepCopyObject L = deep_copy_object ''*SeamMembership'' (SeamMembership_DeepCopy L)"

lemma SeamMembership_copies [copy_steps]: "documented_library L \<Longrightarrow> copies (SeamMembership_ty L) (SeamMembership_DeepCopyInto L)"
  by (simp add: SeamMembership_ty_def SeamMembership_DeepCopyInto_def copy_steps copied flat_types)

lemma SeamMembership_pointer [copy_steps]: "documented_library L \<Longrightarrow> copies (TPtr (SeamMembership_ty L)) (SeamMembership_DeepCopy L)"
  by (simp add: SeamMembership_DeepCopy_def SeamMembership_copies copies_pointer)

lemma SeamMembership_object [copy_steps]:
  "documented_library L \<Longrightarrow> copies_as_object ''*SeamMembership'' (SeamMembership_ty L) (SeamMembership_DeepCopyObject L)"
  by (simp add: SeamMembership_DeepCopyObject_def object_of SeamMembership_pointer)

definition SeamMembershipList_DeepCopyInto :: "library \<Rightarrow> copier" where
  "SeamMembershipList_DeepCopyInto L = copy_struct [
     (''TypeMeta'', assign), (''ListMeta'', lb_copy_ListMeta L),
     (''Items'', copy_slice (SeamMembership_ty L) (SeamMembership_DeepCopyInto L))]"

definition SeamMembershipList_DeepCopy :: "library \<Rightarrow> copier" where
  "SeamMembershipList_DeepCopy L = copy_pointer (SeamMembershipList_ty L) (SeamMembershipList_DeepCopyInto L)"

definition SeamMembershipList_DeepCopyObject :: "library \<Rightarrow> val \<Rightarrow> memory \<Rightarrow> (iface \<times> memory) option" where
  "SeamMembershipList_DeepCopyObject L = deep_copy_object ''*SeamMembershipList'' (SeamMembershipList_DeepCopy L)"

lemma SeamMembershipList_copies [copy_steps]: "documented_library L \<Longrightarrow> copies (SeamMembershipList_ty L) (SeamMembershipList_DeepCopyInto L)"
  by (simp add: SeamMembershipList_ty_def SeamMembershipList_DeepCopyInto_def copy_steps copied flat_types)

lemma SeamMembershipList_pointer [copy_steps]: "documented_library L \<Longrightarrow> copies (TPtr (SeamMembershipList_ty L)) (SeamMembershipList_DeepCopy L)"
  by (simp add: SeamMembershipList_DeepCopy_def SeamMembershipList_copies copies_pointer)

lemma SeamMembershipList_object [copy_steps]:
  "documented_library L \<Longrightarrow> copies_as_object ''*SeamMembershipList'' (SeamMembershipList_ty L) (SeamMembershipList_DeepCopyObject L)"
  by (simp add: SeamMembershipList_DeepCopyObject_def object_of SeamMembershipList_pointer)


section \<open>All methods\<close>

definition deep_copy_methods :: "library \<Rightarrow> (string \<times> ty \<times> copier) list" where
  "deep_copy_methods L = [
     (''DescendantEntry'', DescendantEntry_ty L, DescendantEntry_DeepCopy L),
     (''DriftAffectedCRRef'', DriftAffectedCRRef_ty L, DriftAffectedCRRef_DeepCopy L),
     (''DriftSignal'', DriftSignal_ty L, DriftSignal_DeepCopy L),
     (''DriftSignalList'', DriftSignalList_ty L, DriftSignalList_DeepCopy L),
     (''DriftSignalSpec'', DriftSignalSpec_ty L, DriftSignalSpec_DeepCopy L),
     (''DriftSignalStatus'', DriftSignalStatus_ty L, DriftSignalStatus_DeepCopy L),
     (''InfrastructureCAPICiliumPackRef'', InfrastructureCAPICiliumPackRef_ty L, InfrastructureCAPICiliumPackRef_DeepCopy L),
     (''InfrastructureCAPIConfig'', InfrastructureCAPIConfig_ty L, InfrastructureCAPIConfig_DeepCopy L),
     (''InfrastructureCAPIControlPlaneConfig'', InfrastructureCAPIControlPlaneConfig_ty L, InfrastructureCAPIControlPlaneConfig_DeepCopy L),
     (''InfrastructureCAPIWorkerPool'', InfrastructureCAPIWorkerPool_ty L, InfrastructureCAPIWorkerPool_DeepCopy L),
     (''InfrastructureClusterPack'', InfrastructureClusterPack_ty L, InfrastructureClusterPack_DeepCopy L),
     (''InfrastructureClusterPackList'', InfrastructureClusterPackList_ty L, InfrastructureClusterPackList_DeepCopy L),
     (''InfrastructureClusterPackRef'', InfrastructureClusterPackRef_ty L, InfrastructureClusterPackRef_DeepCopy L),
     (''InfrastructureClusterPackSpec'', InfrastructureClusterPackSpec_ty L, InfrastructureClusterPackSpec_DeepCopy L),
     (''InfrastructureClusterPackStatus'', InfrastructureClusterPackStatus_ty L, InfrastructureClusterPackStatus_DeepCopy L),
     (''InfrastructureDependencyPolicy'', InfrastructureDependencyPolicy_ty L, InfrastructureDependencyPolicy_DeepCopy L),
     (''InfrastructureDeployedResourceRef'', InfrastructureDeployedResourceRef_ty L, InfrastructureDeployedResourceRef_DeepCopy L),
     (''InfrastructureLifecyclePolicy'', InfrastructureLifecyclePolicy_ty L, InfrastructureLifecyclePolicy_DeepCopy L),
     (''InfrastructureLineageIndex'', InfrastructureLineageIndex_ty L, InfrastructureLineageIndex_DeepCopy L),
     (''InfrastructureLineageIndexList'', InfrastructureLineageIndexList_ty L, InfrastructureLineageIndexList_DeepCopy L),
     (''InfrastructureLineageIndexRootBinding'', InfrastructureLineageIndexRootBinding_ty L, InfrastructureLineageIndexRootBinding_DeepCopy L),
     (''InfrastructureLineageIndexSpec'', InfrastructureLineageIndexSpec_ty L, InfrastructureLineageIndexSpec_DeepCopy L),
     (''InfrastructureLineageIndexStatus'', InfrastructureLineageIndexStatus_ty L, InfrastructureLineageIndexStatus_DeepCopy L),
     (''InfrastructureLocalObjectRef'', InfrastructureLocalObjectRef_ty L, InfrastructureLocalObjectRef_DeepCopy L),
     (''InfrastructurePackBuild'', InfrastructurePackBuild_ty L, InfrastructurePackBuild_DeepCopy L),
     (''InfrastructurePackBuildList'', InfrastructurePackBuildList_ty L, InfrastructurePackBuildList_DeepCopy L),
     (''InfrastructurePackBuildSpec'', InfrastructurePackBuildSpec_ty L, InfrastructurePackBuildSpec_DeepCopy L),
     (''InfrastructurePackBuildStatus'', InfrastructurePackBuildStatus_ty L, InfrastructurePackBuildStatus_DeepCopy L),
     (''InfrastructurePackExecution'', InfrastructurePackExecution_ty L, InfrastructurePackExecution_DeepCopy L),
     (''InfrastructurePackExecutionList'', InfrastructurePackExecutionList_ty L, InfrastructurePackExecutionList_DeepCopy L),
     (''InfrastructurePackExecutionSpec'', InfrastructurePackExecutionSpec_ty L, InfrastructurePackExecutionSpec_DeepCopy L),
     (''InfrastructurePackExecutionStage'', InfrastructurePackExecutionStage_ty L, InfrastructurePackExecutionStage_DeepCopy L),
     (''InfrastructurePackExecutionStatus'', InfrastructurePackExecutionStatus_ty L, InfrastructurePackExecutionStatus_DeepCopy L),
     (''InfrastructurePackHelmSource'', InfrastructurePackHelmSource_ty L, InfrastructurePackHelmSource_DeepCopy L),
     (''InfrastructurePackInstance'', InfrastructurePackInstance_ty L, InfrastructurePackInstance_DeepCopy L),
     (''InfrastructurePackInstanceList'', InfrastructurePackInstanceList_ty L, InfrastructurePackInstanceList_DeepCopy L),
     (''InfrastructurePackInstanceSpec'', InfrastructurePackInstanceSpec_ty L, InfrastructurePackInstanceSpec_DeepCopy L),
     (''InfrastructurePackInstanceStatus'', InfrastructurePackInstanceStatus_ty L, InfrastructurePackInstanceStatus_DeepCopy L),
     (''InfrastructurePackKustomizeSource'', InfrastructurePackKustomizeSource_ty L, InfrastructurePackKustomizeSource_DeepCopy L),
     (''InfrastructurePackProvenance'', InfrastructurePackProvenance_ty L, InfrastructurePackProvenance_DeepCopy L),
     (''InfrastructurePackRawSource'', InfrastructurePackRawSource_ty L, InfrastructurePackRawSource_DeepCopy L),
     (''InfrastructurePackReceipt'', InfrastructurePackReceipt_ty L, InfrastructurePackReceipt_DeepCopy L),
     (''InfrastructurePackReceiptList'', InfrastructurePackReceiptList_ty L, InfrastructurePackReceiptList_DeepCopy L),
     (''InfrastructurePackReceiptSpec'', InfrastructurePackReceiptSpec_ty L, InfrastructurePackReceiptSpec_DeepCopy L),
     (''PackReceiptDeployedResource'', PackReceiptDeployedResource_ty L, PackReceiptDeployedResource_DeepCopy L),
     (''InfrastructurePackReceiptStatus'', InfrastructurePackReceiptStatus_ty L, InfrastructurePackReceiptStatus_DeepCopy L),
     (''InfrastructurePackRegistryRef'', InfrastructurePackRegistryRef_ty L, InfrastructurePackRegistryRef_DeepCopy L),
     (''InfrastructurePolicyBindingStatus'', InfrastructurePolicyBindingStatus_ty L, InfrastructurePolicyBindingStatus_DeepCopy L),
     (''InfrastructureRunnerConfig'', InfrastructureRunnerConfig_ty L, InfrastructureRunnerConfig_DeepCopy L),
     (''InfrastructureRunnerConfigList'', InfrastructureRunnerConfigList_ty L, InfrastructureRunnerConfigList_DeepCopy L),
     (''InfrastructureRunnerConfigSpec'', InfrastructureRunnerConfigSpec_ty L, InfrastructureRunnerConfigSpec_DeepCopy L),
     (''InfrastructureRunnerConfigStatus'', InfrastructureRunnerConfigStatus_ty L, InfrastructureRunnerConfigStatus_DeepCopy L),
     (''InfrastructureTalosCluster'', InfrastructureTalosCluster_ty L, InfrastructureTalosCluster_DeepCopy L),
     (''InfrastructureTalosClusterList'', InfrastructureTalosClusterList_ty L, InfrastructureTalosClusterList_DeepCopy L),
     (''InfrastructureTalosClusterOperationResult'', InfrastructureTalosClusterOperationResult_ty L, InfrastructureTalosClusterOperationResult_DeepCopy L),
     (''InfrastructureTalosClusterOperationResultList'', InfrastructureTalosClusterOperationResultList_ty L, InfrastructureTalosClusterOperationResultList_DeepCopy L),
     (''InfrastructureTalosClusterOperationResultSpec'', InfrastructureTalosClusterOperationResultSpec_ty L, InfrastructureTalosClusterOperationResultSpec_DeepCopy L),
     (''InfrastructureTalosClusterOperationResultStatus'', InfrastructureTalosClusterOperationResultStatus_ty L, InfrastructureTalosClusterOperationResultStatus_DeepCopy L),
     (''InfrastructureTalosClusterSpec'', InfrastructureTalosClusterSpec_ty L, InfrastructureTalosClusterSpec_DeepCopy L),
     (''InfrastructureTalosClusterStatus'', InfrastructureTalosClusterStatus_ty L, InfrastructureTalosClusterStatus_DeepCopy L),
     (''LineageRetentionPolicy'', LineageRetentionPolicy_ty L, LineageRetentionPolicy_DeepCopy L),
     (''OutcomeEntry'', OutcomeEntry_ty L, OutcomeEntry_DeepCopy L),
     (''PackOperationArtifact'', PackOperationArtifact_ty L, PackOperationArtifact_DeepCopy L),
     (''PackOperationDeployedResource'', PackOperationDeployedResource_ty L, PackOperationDeployedResource_DeepCopy L),
     (''PackOperationFailureReason'', PackOperationFailureReason_ty L, PackOperationFailureReason_DeepCopy L),
     (''PackOperationResult'', PackOperationResult_ty L, PackOperationResult_DeepCopy L),
     (''PackOperationResultList'', PackOperationResultList_ty L, PackOperationResultList_DeepCopy L),
     (''PackOperationResultSpec'', PackOperationResultSpec_ty L, PackOperationResultSpec_DeepCopy L),
     (''PackOperationResultStatus'', PackOperationResultStatus_ty L, PackOperationResultStatus_DeepCopy L),
     (''PackOperationStepResult'', PackOperationStepResult_ty L, PackOperationStepResult_DeepCopy L),
     (''RunnerCapabilityEntry'', RunnerCapabilityEntry_ty L, RunnerCapabilityEntry_DeepCopy L),
     (''RunnerConfigStep'', RunnerConfigStep_ty L, RunnerConfigStep_DeepCopy L),
     (''RunnerConfigStepResult'', RunnerConfigStepResult_ty L, RunnerConfigStepResult_DeepCopy L),
     (''RunnerOperationalHistoryEntry'', RunnerOperationalHistoryEntry_ty L, RunnerOperationalHistoryEntry_DeepCopy L),
     (''RunnerPhaseConfig'', RunnerPhaseConfig_ty L, RunnerPhaseConfig_DeepCopy L),
     (''SeamMembership'', SeamMembership_ty L, SeamMembership_DeepCopy L),
     (''SeamMembershipList'', SeamMembershipList_ty L, SeamMembershipList_DeepCopy L),
     (''SeamMembershipSpec'', SeamMembershipSpec_ty L, SeamMembershipSpec_DeepCopy L),
     (''SeamMembershipStatus'', SeamMembershipStatus_ty L, SeamMembershipStatus_DeepCopy L),
     (''TalosClusterOperationFailureReason'', TalosClusterOperationFailureReason_ty L, TalosClusterOperationFailureReason_DeepCopy L),
     (''TalosClusterOperationRecord'', TalosClusterOperationRecord_ty L, TalosClusterOperationRecord_DeepCopy L)]"

definition deep_copy_objects :: "library \<Rightarrow> (string \<times> ty \<times> (val \<Rightarrow> memory \<Rightarrow> (iface \<times> memory) option)) list" where
  "deep_copy_objects L = [
     (''*DriftSignal'', DriftSignal_ty L, DriftSignal_DeepCopyObject L),
     (''*DriftSignalList'', DriftSignalList_ty L, DriftSignalList_DeepCopyObject L),
     (''*InfrastructureClusterPack'', InfrastructureClusterPack_ty L, InfrastructureClusterPack_DeepCopyObject L),
     (''*InfrastructureClusterPackList'', InfrastructureClusterPackList_ty L, InfrastructureClusterPackList_DeepCopyObject L),
     (''*InfrastructureLineageIndex'', InfrastructureLineageIndex_ty L, InfrastructureLineageIndex_DeepCopyObject L),
     (''*InfrastructureLineageIndexList'', InfrastructureLineageIndexList_ty L, InfrastructureLineageIndexList_DeepCopyObject L),
     (''*InfrastructurePackBuild'', InfrastructurePackBuild_ty L, InfrastructurePackBuild_DeepCopyObject L),
     (''*InfrastructurePackBuildList'', InfrastructurePackBuildList_ty L, InfrastructurePackBuildList_DeepCopyObject L),
     (''*InfrastructurePackExecution'', InfrastructurePackExecution_ty L, InfrastructurePackExecution_DeepCopyObject L),
     (''*InfrastructurePackExecutionList'', InfrastructurePackExecutionList_ty L, InfrastructurePackExecutionList_DeepCopyObject L),
     (''*InfrastructurePackInstance'', InfrastructurePackInstance_ty L, InfrastructurePackInstance_DeepCopyObject L),
     (''*InfrastructurePackInstanceList'', InfrastructurePackInstanceList_ty L, InfrastructurePackInstanceList_DeepCopyObject L),
     (''*InfrastructurePackReceipt'', InfrastructurePackReceipt_ty L, InfrastructurePackReceipt_DeepCopyObject L),
     (''*InfrastructurePackReceiptList'', InfrastructurePackReceiptList_ty L, InfrastructurePackReceiptList_DeepCopyObject L),
     (''*InfrastructureRunnerConfig'', InfrastructureRunnerConfig_ty L, InfrastructureRunnerConfig_DeepCopyObject L),
     (''*InfrastructureRunnerConfigList'', InfrastructureRunnerConfigList_ty L, InfrastructureRunnerConfigList_DeepCopyObject L),
     (''*InfrastructureTalosCluster'', InfrastructureTalosCluster_ty L, InfrastructureTalosCluster_DeepCopyObject L),
     (''*InfrastructureTalosClusterList'', InfrastructureTalosClusterList_ty L, InfrastructureTalosClusterList_DeepCopyObject L),
     (''*InfrastructureTalosClusterOperationResult'', InfrastructureTalosClusterOperationResult_ty L, InfrastructureTalosClusterOperationResult_DeepCopyObject L),
     (''*InfrastructureTalosClusterOperationResultList'', InfrastructureTalosClusterOperationResultList_ty L, InfrastructureTalosClusterOperationResultList_DeepCopyObject L),
     (''*PackOperationResult'', PackOperationResult_ty L, PackOperationResult_DeepCopyObject L),
     (''*PackOperationResultList'', PackOperationResultList_ty L, PackOperationResultList_DeepCopyObject L),
     (''*SeamMembership'', SeamMembership_ty L, SeamMembership_DeepCopyObject L),
     (''*SeamMembershipList'', SeamMembershipList_ty L, SeamMembershipList_DeepCopyObject L)]"

text \<open>One kind assigns its spec although the spec holds a slice; the list of the kind copies its items with it.\<close>

definition sharing_kinds :: "string list" where
  "sharing_kinds = [''InfrastructurePackReceipt'', ''InfrastructurePackReceiptList'']"

lemma methods_copy:
  "documented_library L \<Longrightarrow>
    list_all (\<lambda>(n, t, f). n \<notin> set sharing_kinds \<longrightarrow> copies (TPtr t) f) (deep_copy_methods L)"
  by (simp add: deep_copy_methods_def sharing_kinds_def copy_steps)

lemma objects_copy:
  "documented_library L \<Longrightarrow>
    list_all (\<lambda>(n, t, f). n \<notin> (\<lambda>k. CHR ''*'' # k) ` set sharing_kinds \<longrightarrow> copies_as_object n t f) (deep_copy_objects L)"
  by (simp add: deep_copy_objects_def sharing_kinds_def copy_steps)

end
