(* ===== verification/DeepCopySafety.thy ===== *)
theory DeepCopySafety
  imports DeepCopy
begin

text \<open>What the deep copies promise to their callers, the informer caches and the clients of the reconcilers: a copy reads
  like the original and shares no memory with it. InfrastructurePackReceipt is the exception: its method
  assigns the spec, so the copy and the original hold the same slice of deployed resources.\<close>

definition field_of :: "string \<Rightarrow> val \<Rightarrow> val option" where
  "field_of n v = (case v of Struct vs \<Rightarrow> map_of vs n | _ \<Rightarrow> None)"

definition deployed_resources :: "memory \<Rightarrow> val \<Rightarrow> val option" where
  "deployed_resources h p = (case p of
     Ptr (Some a) \<Rightarrow> do {
       receipt \<leftarrow> load_val a h;
       spec \<leftarrow> field_of ''Spec'' receipt;
       field_of ''DeployedResources'' spec
     }
   | _ \<Rightarrow> None)"


section \<open>A sample library and memory\<close>

definition sample_library :: library where
  "sample_library = \<lparr>
     lb_TypeMeta = TStruct [(''Kind'', TBasic KString), (''APIVersion'', TBasic KString)],
     lb_ObjectMeta = TStruct [(''Name'', TBasic KString), (''Labels'', TMap (TBasic KString))],
     lb_ListMeta = TStruct [(''ResourceVersion'', TBasic KString)],
     lb_Time = TBasic KInt,
     lb_Condition = TStruct [(''Type'', TBasic KString), (''LastTransitionTime'', TBasic KInt)],
     lb_copy_ObjectMeta = copy_struct [(''Labels'', copy_map rev assign)],
     lb_copy_ListMeta = copy_struct [],
     lb_copy_Time = assign,
     lb_copy_Condition = copy_struct [(''LastTransitionTime'', assign)],
     lb_DeepCopy_Time = copy_pointer (TBasic KInt) assign,
     lb_order = rev\<rparr>"

lemma sample_library_documented: "documented_library sample_library"
  by (simp add: documented_library_def sample_library_def any_order_def copied copy_steps)

definition text_val :: "string \<Rightarrow> val" where
  "text_val s = Basic (BString s)"

text \<open>An entry with a time at address 0; a receipt with one resource at address 0 and one label at address 1.\<close>

definition entry_memory :: memory where
  "entry_memory = [CVal (Basic (BInt 7)), CVal (Struct [
     (''Group'', text_val []), (''Version'', text_val ''v1''), (''Kind'', text_val ''Pod''), (''Name'', text_val ''p''),
     (''Namespace'', text_val ''n''), (''UID'', text_val ''u''), (''SeamOperator'', text_val ''platform''),
     (''CreationRationale'', text_val ''ClusterProvision''), (''RootGenerationAtCreation'', Basic (BInt 1)),
     (''CreatedAt'', Ptr (Some 0)), (''ActorRef'', text_val [])])]"

definition receipt_memory :: memory where
  "receipt_memory = [
     CArr [Struct [(''APIVersion'', text_val ''v1''), (''Kind'', text_val ''Pod''), (''Namespace'', text_val ''n''),
       (''Name'', text_val ''p'')]],
     CMap [(''app'', text_val ''seam'')],
     CVal (Struct [
       (''TypeMeta'', Struct [(''Kind'', text_val []), (''APIVersion'', text_val [])]),
       (''ObjectMeta'', Struct [(''Name'', text_val ''r''), (''Labels'', MapRef (Some 1))]),
       (''Spec'', Struct [
         (''PackInstanceRef'', text_val []), (''SignatureRef'', text_val []), (''ClusterPackRef'', text_val ''c''),
         (''TargetClusterRef'', text_val ''t''), (''RBACDigest'', text_val []), (''WorkloadDigest'', text_val []),
         (''ChartVersion'', text_val []), (''ChartURL'', text_val []), (''ChartName'', text_val []),
         (''HelmVersion'', text_val []), (''DeployedResources'', Slice (Some (0, 0, 1)))]),
       (''Status'', Struct [
         (''Verified'', Basic (BBool True)), (''Signature'', text_val []), (''VerificationFailedReason'', text_val []),
         (''ObservedGeneration'', Basic (BInt 0)), (''Conditions'', Slice None)])])]"

text \<open>A list that holds this receipt; the array of its items takes the place of the cell of the receipt.\<close>

definition list_memory :: memory where
  "list_memory = receipt_memory[2 := CArr [the (load_val 2 receipt_memory)]] @ [CVal (Struct [
     (''TypeMeta'', Struct [(''Kind'', text_val []), (''APIVersion'', text_val [])]),
     (''ListMeta'', Struct [(''ResourceVersion'', text_val [])]),
     (''Items'', Slice (Some (2, 0, 1)))])]"

lemmas loads = load_val.simps load_arr.simps load_map.simps

lemma entry_typed:
  "typed (TPtr (DescendantEntry_ty sample_library)) {..<length entry_memory} entry_memory (Ptr (Some 1))"
  by (simp add: entry_memory_def DescendantEntry_ty_def sample_library_def text_val_def loads)

lemma receipt_typed:
  "typed (TPtr (InfrastructurePackReceipt_ty sample_library)) {..<length receipt_memory} receipt_memory (Ptr (Some 2))"
  by (simp add: receipt_memory_def InfrastructurePackReceipt_ty_def InfrastructurePackReceiptSpec_ty_def
      PackReceiptDeployedResource_ty_def InfrastructurePackReceiptStatus_ty_def sample_library_def text_val_def loads)


section \<open>Independence of copies\<close>

lemma receipt_fields:
  assumes "typed (TPtr (InfrastructurePackReceipt_ty L)) A h p" and "p \<noteq> Ptr None"
  obtains a vs tm om us st r where "p = Ptr (Some a)" "a < length h" "load_val a h = Some (Struct vs)"
    "map_of vs ''TypeMeta'' = Some tm" "map_of vs ''ObjectMeta'' = Some om" "map_of vs ''Spec'' = Some (Struct us)"
    "map_of vs ''Status'' = Some st" "map_of us ''DeployedResources'' = Some r"
    "typed (lb_TypeMeta L) A h tm" "typed (lb_ObjectMeta L) A h om"
    "typed (InfrastructurePackReceiptSpec_ty L) A h (Struct us)" "typed (InfrastructurePackReceiptStatus_ty L) A h st"
proof -
  obtain a v where a: "p = Ptr (Some a)" "load_val a h = Some v" and v: "typed (InfrastructurePackReceipt_ty L) A h v"
    using assms by (auto split: val.splits option.splits)
  then obtain vs where vs: "v = Struct vs" by (auto simp: InfrastructurePackReceipt_ty_def split: val.splits)
  have "a < length h" using a(2) by (simp add: load_val.simps split: if_splits)
  moreover note get = typed_field [OF v [unfolded InfrastructurePackReceipt_ty_def vs]]
  obtain tm om sp st where x: "map_of vs ''TypeMeta'' = Some tm" "map_of vs ''ObjectMeta'' = Some om"
     "map_of vs ''Spec'' = Some sp" "map_of vs ''Status'' = Some st"
    and t: "typed (lb_TypeMeta L) A h tm" "typed (lb_ObjectMeta L) A h om"
     "typed (InfrastructurePackReceiptSpec_ty L) A h sp" "typed (InfrastructurePackReceiptStatus_ty L) A h st"
    using get [of "''TypeMeta''" "lb_TypeMeta L"] get [of "''ObjectMeta''" "lb_ObjectMeta L"]
      get [of "''Spec''" "InfrastructurePackReceiptSpec_ty L"] get [of "''Status''" "InfrastructurePackReceiptStatus_ty L"] by auto
  obtain us where us: "sp = Struct us" using t(3) by (auto simp: InfrastructurePackReceiptSpec_ty_def split: val.splits)
  then obtain r where "map_of us ''DeployedResources'' = Some r"
    using t(3) typed_field [of _ A h us "''DeployedResources''"] unfolding InfrastructurePackReceiptSpec_ty_def by fastforce
  ultimately show thesis using that a vs x t us by blast
qed

text \<open>C14 (pack_receipt_copy_shares): DeepCopy of an InfrastructurePackReceipt returns another object that reads like the
  original, but whose spec holds the very slice of the original: same array, offset and length.\<close>

theorem pack_receipt_copy_shares:
  assumes "documented_library L" and "typed (TPtr (InfrastructurePackReceipt_ty L)) {..<length h} h p" and "p \<noteq> Ptr None"
  shows "\<exists>q h'. InfrastructurePackReceipt_DeepCopy L p h = Some (q, h')
    \<and> content (TPtr (InfrastructurePackReceipt_ty L)) h' q = content (TPtr (InfrastructurePackReceipt_ty L)) h p
    \<and> q \<noteq> p \<and> deployed_resources h' q = deployed_resources h p \<and> deployed_resources h p \<noteq> None"
proof -
  obtain a vs tm om us st r where a: "p = Ptr (Some a)" "a < length h" "load_val a h = Some (Struct vs)"
    and x: "map_of vs ''TypeMeta'' = Some tm" "map_of vs ''ObjectMeta'' = Some om" "map_of vs ''Spec'' = Some (Struct us)"
      "map_of vs ''Status'' = Some st" "map_of us ''DeployedResources'' = Some r"
    and t: "typed (lb_TypeMeta L) {..<length h} h tm" "typed (lb_ObjectMeta L) {..<length h} h om"
      "typed (InfrastructurePackReceiptSpec_ty L) {..<length h} h (Struct us)"
      "typed (InfrastructurePackReceiptStatus_ty L) {..<length h} h st"
    using assms(2,3) by (rule receipt_fields)
  let ?g = "h @ [CVal (zero_val (InfrastructurePackReceipt_ty L))]"
  have g: "agree UNIV h ?g" by (rule agree_alloc)
  obtain om' h1 where om: "lb_copy_ObjectMeta L om ?g = Some (om', h1)" "agree UNIV ?g h1"
    "typed (lb_ObjectMeta L) {length ?g..} h1 om'" "content (lb_ObjectMeta L) h1 om' = content (lb_ObjectMeta L) h om"
    using copiesE [OF library_copies(1) [OF assms(1)]] typed_extend [OF t(2) g] by metis
  have h1: "agree UNIV h h1" using agree_trans [OF g om(2)] .
  obtain st' h2 where st: "InfrastructurePackReceiptStatus_DeepCopyInto L st h1 = Some (st', h2)" "agree UNIV h1 h2"
    "typed (InfrastructurePackReceiptStatus_ty L) {length h1..} h2 st'"
    "content (InfrastructurePackReceiptStatus_ty L) h2 st' = content (InfrastructurePackReceiptStatus_ty L) h st"
    using copiesE [OF InfrastructurePackReceiptStatus_copies [OF assms(1)]] typed_extend [OF t(4) h1] by metis
  let ?outs = "AList.update ''Status'' st' (AList.update ''Spec'' (Struct us) (AList.update ''ObjectMeta'' om' (AList.update ''TypeMeta'' tm vs)))"
  let ?k = "h2[length h := CVal (Struct ?outs)]" and ?q = "Ptr (Some (length h))"
  have run: "InfrastructurePackReceipt_DeepCopy L p h = Some (?q, ?k)"
    using a x om(1) st(1)
    by (simp add: InfrastructurePackReceipt_DeepCopy_def copy_pointer_def InfrastructurePackReceipt_DeepCopyInto_def
        copy_struct_def assign_def)
  have h2: "agree UNIV h h2" using agree_trans [OF h1 st(2)] .
  then have hk: "agree UNIV h ?k" by (rule agree_store_new) simp
  have h2k: "agree {length ?g..} h2 ?k" by (rule agree_store) simp
  have old: "content t ?k y = content t h y" if "typed t {..<length h} h y" for t y
    using typed_extend [OF that hk] by simp
  have om': "content (lb_ObjectMeta L) ?k om' = content (lb_ObjectMeta L) h om"
    using typed_frame [OF om(3) agree_UNIV [OF st(2)]] typed_frame [OF _ h2k] om(4) by metis
  have "typed (InfrastructurePackReceiptStatus_ty L) {length ?g..} h2 st'"
    using st(3) by (rule typed_mono) (use agree_length [OF om(2)] in auto)
  then have st': "content (InfrastructurePackReceiptStatus_ty L) ?k st' = content (InfrastructurePackReceiptStatus_ty L) h st"
    using typed_frame [OF _ h2k] st(4) by metis
  have k: "load_val (length h) ?k = Some (Struct ?outs)"
    using agree_length [OF agree_trans [OF om(2) st(2)]] by (simp add: load_val.simps)
  have "content (TPtr (InfrastructurePackReceipt_ty L)) ?k ?q = content (TPtr (InfrastructurePackReceipt_ty L)) h p"
    using k a x old [OF t(1)] old [OF t(3)] om' st' by (simp add: InfrastructurePackReceipt_ty_def update_conv')
  moreover have "deployed_resources ?k ?q = deployed_resources h p"
    using k a x by (simp add: deployed_resources_def field_of_def update_conv')
  moreover have "deployed_resources h p \<noteq> None" using a x by (simp add: deployed_resources_def field_of_def)
  moreover have "?q \<noteq> p" using a by simp
  ultimately show ?thesis using run by blast
qed

theorem pack_receipt_copy_shares_witness:
  "\<exists>q h'. InfrastructurePackReceipt_DeepCopy sample_library (Ptr (Some 2)) receipt_memory = Some (q, h')
    \<and> q \<noteq> Ptr (Some 2) \<and> deployed_resources h' q = Some (Slice (Some (0, 0, 1)))"
proof -
  have "deployed_resources receipt_memory (Ptr (Some 2)) = Some (Slice (Some (0, 0, 1)))"
    by (simp add: deployed_resources_def receipt_memory_def field_of_def loads)
  with pack_receipt_copy_shares [OF sample_library_documented receipt_typed] show ?thesis by auto
qed

text \<open>What sharing means: a resource renamed through the copy is renamed in the original.\<close>

lemma write_through_copy_visible:
  "\<exists>h'. InfrastructurePackReceipt_DeepCopy sample_library (Ptr (Some 2)) receipt_memory = Some (Ptr (Some 3), h')
    \<and> deployed_resources h' (Ptr (Some 3)) = Some (Slice (Some (0, 0, 1)))
    \<and> content (TPtr (InfrastructurePackReceipt_ty sample_library)) (set_elem 0 0 (zero_val (PackReceiptDeployedResource_ty sample_library)) h') (Ptr (Some 2))
      \<noteq> content (TPtr (InfrastructurePackReceipt_ty sample_library)) h' (Ptr (Some 2))"
  by (simp add: InfrastructurePackReceipt_DeepCopy_def InfrastructurePackReceipt_DeepCopyInto_def copy_pointer_def copy_struct_def
      receipt_memory_def loads assign_def sample_library_def copy_map_def set_entry_def InfrastructurePackReceiptStatus_DeepCopyInto_def
      copy_slice_def deployed_resources_def field_of_def set_elem_def InfrastructurePackReceipt_ty_def InfrastructurePackReceiptSpec_ty_def
      PackReceiptDeployedResource_ty_def text_val_def)

text \<open>The same through a list: a write to the array of the original shows in the copied list.\<close>

lemma list_write_visible:
  "\<exists>q h'. InfrastructurePackReceiptList_DeepCopy sample_library (Ptr (Some 3)) list_memory = Some (q, h')
    \<and> content (TPtr (InfrastructurePackReceiptList_ty sample_library)) h' q
      = content (TPtr (InfrastructurePackReceiptList_ty sample_library)) list_memory (Ptr (Some 3))
    \<and> content (TPtr (InfrastructurePackReceiptList_ty sample_library)) (set_elem 0 0 (zero_val (PackReceiptDeployedResource_ty sample_library)) h') q
      \<noteq> content (TPtr (InfrastructurePackReceiptList_ty sample_library)) h' q"
  by (simp add: InfrastructurePackReceiptList_DeepCopy_def InfrastructurePackReceiptList_DeepCopyInto_def list_memory_def
      InfrastructurePackReceipt_DeepCopyInto_def copy_pointer_def copy_struct_def
      receipt_memory_def loads assign_def sample_library_def copy_map_def set_entry_def InfrastructurePackReceiptStatus_DeepCopyInto_def
      copy_slice_def set_elem_def InfrastructurePackReceiptList_ty_def InfrastructurePackReceipt_ty_def InfrastructurePackReceiptSpec_ty_def
      InfrastructurePackReceiptStatus_ty_def PackReceiptDeployedResource_ty_def text_val_def)

text \<open>C13 (deep_copies_independent): every other DeepCopy method, called on a pointer to well-typed memory, returns without
  a panic a value that reads like the original. Whatever is written afterwards to the memory that existed
  before the call leaves the copy as it is, and whatever is written to memory allocated by or after the call leaves
  the original as it is.\<close>

theorem deep_copies_independent:
  assumes "documented_library L" and "(n, t, f) \<in> set (deep_copy_methods L)" and "n \<notin> set sharing_kinds"
    and "typed (TPtr t) {..<length h} h p"
  shows "\<exists>q h'. f p h = Some (q, h') \<and> content (TPtr t) h' q = content (TPtr t) h p
    \<and> (\<forall>g. agree {length h..} h' g \<longrightarrow> content (TPtr t) g q = content (TPtr t) h p)
    \<and> (\<forall>g. agree {..<length h} h' g \<longrightarrow> content (TPtr t) g p = content (TPtr t) h p)"
  using methods_copy [OF assms(1)] assms(2,3) copies_independent [OF _ assms(4)] by (fastforce simp: list_all_iff)

theorem deep_copies_independent_witness:
  "\<exists>q h'. DescendantEntry_DeepCopy sample_library (Ptr (Some 1)) entry_memory = Some (q, h')
    \<and> (\<forall>time. content (TPtr (DescendantEntry_ty sample_library)) (h'[0 := CVal (Basic (BInt time))]) q
        = content (TPtr (DescendantEntry_ty sample_library)) entry_memory (Ptr (Some 1)))"
proof -
  have n: "length entry_memory = 2" by (simp add: entry_memory_def)
  have m: "(''DescendantEntry'', DescendantEntry_ty sample_library, DescendantEntry_DeepCopy sample_library)
    \<in> set (deep_copy_methods sample_library)"
    unfolding deep_copy_methods_def by (simp only: list.set insert_iff simp_thms)
  obtain q h' where "DescendantEntry_DeepCopy sample_library (Ptr (Some 1)) entry_memory = Some (q, h')"
    "\<forall>g. agree {2..} h' g \<longrightarrow> content (TPtr (DescendantEntry_ty sample_library)) g q
      = content (TPtr (DescendantEntry_ty sample_library)) entry_memory (Ptr (Some 1))"
    using deep_copies_independent [OF sample_library_documented m _ entry_typed] by (auto simp: sharing_kinds_def n)
  then show ?thesis by (auto simp: agree_store)
qed

text \<open>DeepCopyObject gives the nil interface exactly for a nil pointer, and otherwise an interface that holds a fresh
  pointer of the right dynamic type with the same content: never an interface around a nil pointer.\<close>

lemma deep_copy_objects_boxed:
  assumes "documented_library L" and "(n, t, f) \<in> set (deep_copy_objects L)" and "tl n \<notin> set sharing_kinds"
    and "typed (TPtr t) {..<length h} h p"
  shows "\<exists>r h'. f p h = Some (r, h') \<and> agree UNIV h h' \<and> (r = NilInterface \<longleftrightarrow> p = Ptr None)
    \<and> (p \<noteq> Ptr None \<longrightarrow> (\<exists>c. r = Boxed n c \<and> typed (TPtr t) {length h..} h' c
        \<and> content (TPtr t) h' c = content (TPtr t) h p))"
proof -
  have "n \<notin> (\<lambda>k. CHR ''*'' # k) ` set sharing_kinds" using assms(3) by auto
  then have "copies_as_object n t f" using objects_copy [OF assms(1)] assms(2) by (auto simp: list_all_iff)
  then obtain g where "copies (TPtr t) g" "f = deep_copy_object n g" by (auto simp: copies_as_object_def)
  with copies_object [OF _ assms(4)] show ?thesis by blast
qed

lemma deep_copy_objects_boxed_sample:
  "\<exists>h'. SeamMembership_DeepCopyObject sample_library (Ptr None) [] = Some (NilInterface, h')"
proof -
  have m: "(''*SeamMembership'', SeamMembership_ty sample_library, SeamMembership_DeepCopyObject sample_library)
    \<in> set (deep_copy_objects sample_library)"
    unfolding deep_copy_objects_def by (simp only: list.set insert_iff simp_thms)
  show ?thesis
    using deep_copy_objects_boxed [OF sample_library_documented m, of "[]" "Ptr None"] by (auto simp: sharing_kinds_def)
qed

end
