(* ===== verification/ConditionVocabulary.thy ===== *)
theory ConditionVocabulary
  imports Prelude
begin

text \<open>
  The condition type and reason constants of \<^verbatim>\<open>src/pkg/conditions/conditions.go\<close>, one
  abbreviation per Go constant, in the order of the file, and the \<^verbatim>\<open>vocabulary\<close> map of
  \<^verbatim>\<open>src/pkg/conditions/validate.go\<close>, one association list per operator section. A
  constant that Go declares as an alias of another is an alias here too.
\<close>


section \<open>Cross-operator conditions\<close>

abbreviation (input) ConditionTypeLineageSynced :: string where
  "ConditionTypeLineageSynced \<equiv> ''LineageSynced''"

abbreviation (input) ReasonLineageControllerAbsent :: string where
  "ReasonLineageControllerAbsent \<equiv> ''LineageControllerAbsent''"


section \<open>Guardian conditions\<close>

abbreviation (input) ConditionTypeBootstrapLabelAbsent :: string where
  "ConditionTypeBootstrapLabelAbsent \<equiv> ''BootstrapLabelAbsent''"

abbreviation (input) ReasonLabelAbsent :: string where
  "ReasonLabelAbsent \<equiv> ''LabelAbsent''"

abbreviation (input) ReasonLabelPresent :: string where
  "ReasonLabelPresent \<equiv> ''LabelPresent''"

abbreviation (input) ConditionTypeIdentityBindingTrustAnchorResolved :: string where
  "ConditionTypeIdentityBindingTrustAnchorResolved \<equiv> ''TrustAnchorResolved''"

abbreviation (input) ReasonTrustAnchorResolved :: string where
  "ReasonTrustAnchorResolved \<equiv> ''TrustAnchorResolved''"

abbreviation (input) ReasonTrustAnchorNotFound :: string where
  "ReasonTrustAnchorNotFound \<equiv> ''TrustAnchorNotFound''"

abbreviation (input) ReasonTrustAnchorInvalid :: string where
  "ReasonTrustAnchorInvalid \<equiv> ''TrustAnchorInvalid''"

abbreviation (input) ReasonTrustAnchorTypeMismatch :: string where
  "ReasonTrustAnchorTypeMismatch \<equiv> ''TrustAnchorTypeMismatch''"

abbreviation (input) ReasonTrustMethodMismatch :: string where
  "ReasonTrustMethodMismatch \<equiv> ''TrustMethodMismatch''"

abbreviation (input) ConditionTypeIdentityBindingValid :: string where
  "ConditionTypeIdentityBindingValid \<equiv> ''IdentityBindingValid''"

abbreviation (input) ReasonIdentityBindingValid :: string where
  "ReasonIdentityBindingValid \<equiv> ''Valid''"

abbreviation (input) ReasonIdentityBindingInvalid :: string where
  "ReasonIdentityBindingInvalid \<equiv> ''Invalid''"

abbreviation (input) ReasonPermissionSetMissing :: string where
  "ReasonPermissionSetMissing \<equiv> ''PermissionSetMissing''"

abbreviation (input) ReasonPermissionSetNotFound :: string where
  "ReasonPermissionSetNotFound \<equiv> ''PermissionSetNotFound''"

abbreviation (input) ReasonTokenTTLExceeded :: string where
  "ReasonTokenTTLExceeded \<equiv> ''TokenTTLExceeded''"

abbreviation (input) ConditionTypeIdentityProviderReachable :: string where
  "ConditionTypeIdentityProviderReachable \<equiv> ''Reachable''"

abbreviation (input) ReasonIdentityProviderReachable :: string where
  "ReasonIdentityProviderReachable \<equiv> ''Reachable''"

abbreviation (input) ReasonIdentityProviderUnreachable :: string where
  "ReasonIdentityProviderUnreachable \<equiv> ''Unreachable''"

abbreviation (input) ReasonIdentityProviderPending :: string where
  "ReasonIdentityProviderPending \<equiv> ''Pending''"

abbreviation (input) ConditionTypeIdentityProviderValid :: string where
  "ConditionTypeIdentityProviderValid \<equiv> ''Valid''"

abbreviation (input) ReasonIdentityProviderValid :: string where
  "ReasonIdentityProviderValid \<equiv> ''Valid''"

abbreviation (input) ReasonIdentityProviderInvalid :: string where
  "ReasonIdentityProviderInvalid \<equiv> ''Invalid''"

abbreviation (input) ConditionTypePermissionSetValid :: string where
  "ConditionTypePermissionSetValid \<equiv> ''PermissionSetValid''"

abbreviation (input) ReasonPermissionSetValid :: string where
  "ReasonPermissionSetValid \<equiv> ''Valid''"

abbreviation (input) ReasonPermissionSetInvalid :: string where
  "ReasonPermissionSetInvalid \<equiv> ''Invalid''"

abbreviation (input) ConditionTypeRBACPolicyDegraded :: string where
  "ConditionTypeRBACPolicyDegraded \<equiv> ''RBACPolicyDegraded''"

abbreviation (input) ReasonValidationFailed :: string where
  "ReasonValidationFailed \<equiv> ''ValidationFailed''"

abbreviation (input) ReasonPolicyViolation :: string where
  "ReasonPolicyViolation \<equiv> ''PolicyViolation''"

abbreviation (input) ReasonStructureInvalid :: string where
  "ReasonStructureInvalid \<equiv> ''StructureInvalid''"

abbreviation (input) ReasonPolicyNotFound :: string where
  "ReasonPolicyNotFound \<equiv> ''PolicyNotFound''"

abbreviation (input) ReasonEPGPending :: string where
  "ReasonEPGPending \<equiv> ''EPGPending''"

abbreviation (input) ConditionTypeRBACPolicyValid :: string where
  "ConditionTypeRBACPolicyValid \<equiv> ''RBACPolicyValid''"

abbreviation (input) ReasonValidationPassed :: string where
  "ReasonValidationPassed \<equiv> ''ValidationPassed''"

abbreviation (input) ConditionTypeRBACProfilePolicyCompliant :: string where
  "ConditionTypeRBACProfilePolicyCompliant \<equiv> ''PolicyCompliant''"

abbreviation (input) ReasonBootstrapProfilesReady :: string where
  "ReasonBootstrapProfilesReady \<equiv> ''BootstrapProfilesReady''"

abbreviation (input) ReasonBootstrapProfilesPending :: string where
  "ReasonBootstrapProfilesPending \<equiv> ''BootstrapProfilesPending''"

abbreviation (input) ConditionTypeRBACProfileProvisioned :: string where
  "ConditionTypeRBACProfileProvisioned \<equiv> ''Provisioned''"

abbreviation (input) ReasonProvisioningComplete :: string where
  "ReasonProvisioningComplete \<equiv> ''ProvisioningComplete''"

abbreviation (input) ReasonProvisioningFailed :: string where
  "ReasonProvisioningFailed \<equiv> ''ProvisioningFailed''"

abbreviation (input) ConditionTypeRBACProfileValidated :: string where
  "ConditionTypeRBACProfileValidated \<equiv> ''ProfileValidated''"

abbreviation (input) ConditionTypeWebhookRegistered :: string where
  "ConditionTypeWebhookRegistered \<equiv> ''WebhookRegistered''"

abbreviation (input) ReasonWebhookRegistered :: string where
  "ReasonWebhookRegistered \<equiv> ''WebhookRegistered''"

abbreviation (input) ConditionTypePermissionSnapshotFresh :: string where
  "ConditionTypePermissionSnapshotFresh \<equiv> ''Fresh''"

abbreviation (input) ReasonSnapshotFresh :: string where
  "ReasonSnapshotFresh \<equiv> ''SnapshotFresh''"

abbreviation (input) ReasonSnapshotStale :: string where
  "ReasonSnapshotStale \<equiv> ''SnapshotStale''"

abbreviation (input) ConditionTypePermissionSnapshotCompliant :: string where
  "ConditionTypePermissionSnapshotCompliant \<equiv> ''Compliant''"

abbreviation (input) ReasonDriftAbsent :: string where
  "ReasonDriftAbsent \<equiv> ''DriftAbsent''"


section \<open>Platform - TalosCluster conditions\<close>

abbreviation (input) ConditionTypeReady :: string where
  "ConditionTypeReady \<equiv> ''Ready''"

abbreviation (input) ConditionTypeEtcdMaintenanceReady :: string where
  "ConditionTypeEtcdMaintenanceReady \<equiv> ConditionTypeReady"

abbreviation (input) ConditionTypeNodeMaintenanceReady :: string where
  "ConditionTypeNodeMaintenanceReady \<equiv> ConditionTypeReady"

abbreviation (input) ConditionTypePKIRotationReady :: string where
  "ConditionTypePKIRotationReady \<equiv> ConditionTypeReady"

abbreviation (input) ConditionTypeResetReady :: string where
  "ConditionTypeResetReady \<equiv> ConditionTypeReady"

abbreviation (input) ConditionTypeUpgradePolicyReady :: string where
  "ConditionTypeUpgradePolicyReady \<equiv> ConditionTypeReady"

abbreviation (input) ConditionTypeNodeOperationReady :: string where
  "ConditionTypeNodeOperationReady \<equiv> ConditionTypeReady"

abbreviation (input) ConditionTypeMaintenanceBundleReady :: string where
  "ConditionTypeMaintenanceBundleReady \<equiv> ConditionTypeReady"

abbreviation (input) ReasonClusterReady :: string where
  "ReasonClusterReady \<equiv> ''ClusterReady''"

abbreviation (input) ReasonCAPIClusterRunning :: string where
  "ReasonCAPIClusterRunning \<equiv> ''CAPIClusterRunning''"

abbreviation (input) ReasonJobComplete :: string where
  "ReasonJobComplete \<equiv> ''JobComplete''"

abbreviation (input) ReasonEtcdJobComplete :: string where
  "ReasonEtcdJobComplete \<equiv> ReasonJobComplete"

abbreviation (input) ReasonNodeJobComplete :: string where
  "ReasonNodeJobComplete \<equiv> ReasonJobComplete"

abbreviation (input) ReasonPKIJobComplete :: string where
  "ReasonPKIJobComplete \<equiv> ReasonJobComplete"

abbreviation (input) ReasonResetJobComplete :: string where
  "ReasonResetJobComplete \<equiv> ReasonJobComplete"

abbreviation (input) ReasonUpgradeJobComplete :: string where
  "ReasonUpgradeJobComplete \<equiv> ReasonJobComplete"

abbreviation (input) ReasonNodeOpJobComplete :: string where
  "ReasonNodeOpJobComplete \<equiv> ReasonJobComplete"

abbreviation (input) ReasonMaintenanceBundleJobComplete :: string where
  "ReasonMaintenanceBundleJobComplete \<equiv> ReasonJobComplete"

abbreviation (input) ReasonResetComplete :: string where
  "ReasonResetComplete \<equiv> ''ResetComplete''"

abbreviation (input) ReasonAllControlPlaneMachinesReady :: string where
  "ReasonAllControlPlaneMachinesReady \<equiv> ''AllControlPlaneMachinesReady''"

abbreviation (input) ReasonPackReceiptReady :: string where
  "ReasonPackReceiptReady \<equiv> ''PackReceiptReady''"

abbreviation (input) ConditionTypeDegraded :: string where
  "ConditionTypeDegraded \<equiv> ''Degraded''"

abbreviation (input) ConditionTypeEtcdMaintenanceDegraded :: string where
  "ConditionTypeEtcdMaintenanceDegraded \<equiv> ConditionTypeDegraded"

abbreviation (input) ConditionTypeNodeMaintenanceDegraded :: string where
  "ConditionTypeNodeMaintenanceDegraded \<equiv> ConditionTypeDegraded"

abbreviation (input) ConditionTypePKIRotationDegraded :: string where
  "ConditionTypePKIRotationDegraded \<equiv> ConditionTypeDegraded"

abbreviation (input) ConditionTypeResetDegraded :: string where
  "ConditionTypeResetDegraded \<equiv> ConditionTypeDegraded"

abbreviation (input) ConditionTypeUpgradePolicyDegraded :: string where
  "ConditionTypeUpgradePolicyDegraded \<equiv> ConditionTypeDegraded"

abbreviation (input) ConditionTypeNodeOperationDegraded :: string where
  "ConditionTypeNodeOperationDegraded \<equiv> ConditionTypeDegraded"

abbreviation (input) ConditionTypeMaintenanceBundleDegraded :: string where
  "ConditionTypeMaintenanceBundleDegraded \<equiv> ConditionTypeDegraded"

abbreviation (input) ReasonDegraded :: string where
  "ReasonDegraded \<equiv> ''Degraded''"

abbreviation (input) ReasonBootstrapJobFailed :: string where
  "ReasonBootstrapJobFailed \<equiv> ''BootstrapJobFailed''"

abbreviation (input) ReasonConductorJobGateBlocked :: string where
  "ReasonConductorJobGateBlocked \<equiv> ''ConductorJobGateBlocked''"

abbreviation (input) ReasonJobFailed :: string where
  "ReasonJobFailed \<equiv> ''JobFailed''"

abbreviation (input) ReasonEtcdJobFailed :: string where
  "ReasonEtcdJobFailed \<equiv> ReasonJobFailed"

abbreviation (input) ReasonNodeJobFailed :: string where
  "ReasonNodeJobFailed \<equiv> ReasonJobFailed"

abbreviation (input) ReasonPKIJobFailed :: string where
  "ReasonPKIJobFailed \<equiv> ReasonJobFailed"

abbreviation (input) ReasonResetJobFailed :: string where
  "ReasonResetJobFailed \<equiv> ReasonJobFailed"

abbreviation (input) ReasonUpgradeJobFailed :: string where
  "ReasonUpgradeJobFailed \<equiv> ReasonJobFailed"

abbreviation (input) ReasonNodeOpJobFailed :: string where
  "ReasonNodeOpJobFailed \<equiv> ReasonJobFailed"

abbreviation (input) ReasonMaintenanceBundleJobFailed :: string where
  "ReasonMaintenanceBundleJobFailed \<equiv> ReasonJobFailed"

abbreviation (input) ReasonCapabilityUnknown :: string where
  "ReasonCapabilityUnknown \<equiv> ''CapabilityUnknown''"

abbreviation (input) ReasonMaintenanceBundleCapabilityUnknown :: string where
  "ReasonMaintenanceBundleCapabilityUnknown \<equiv> ReasonCapabilityUnknown"

abbreviation (input) ReasonReconcilerNotImplemented :: string where
  "ReasonReconcilerNotImplemented \<equiv> ''ReconcilerNotImplemented''"

abbreviation (input) ReasonMaintenanceBundleReconcilerNotImplemented :: string where
  "ReasonMaintenanceBundleReconcilerNotImplemented \<equiv> ReasonReconcilerNotImplemented"

abbreviation (input) ReasonS3DestinationAbsent :: string where
  "ReasonS3DestinationAbsent \<equiv> ''S3DestinationAbsent''"

abbreviation (input) ReasonEtcdBackupDestinationAbsent :: string where
  "ReasonEtcdBackupDestinationAbsent \<equiv> ReasonS3DestinationAbsent"

abbreviation (input) ConditionTypeRunning :: string where
  "ConditionTypeRunning \<equiv> ''Running''"

abbreviation (input) ConditionTypeEtcdMaintenanceRunning :: string where
  "ConditionTypeEtcdMaintenanceRunning \<equiv> ConditionTypeRunning"

abbreviation (input) ConditionTypePackExecutionRunning :: string where
  "ConditionTypePackExecutionRunning \<equiv> ConditionTypeRunning"

abbreviation (input) ReasonJobSubmitted :: string where
  "ReasonJobSubmitted \<equiv> ''JobSubmitted''"

abbreviation (input) ReasonEtcdJobSubmitted :: string where
  "ReasonEtcdJobSubmitted \<equiv> ReasonJobSubmitted"

abbreviation (input) ReasonMaintenanceBundleJobSubmitted :: string where
  "ReasonMaintenanceBundleJobSubmitted \<equiv> ReasonJobSubmitted"

abbreviation (input) ReasonNodeJobSubmitted :: string where
  "ReasonNodeJobSubmitted \<equiv> ReasonJobSubmitted"

abbreviation (input) ReasonPKIJobSubmitted :: string where
  "ReasonPKIJobSubmitted \<equiv> ReasonJobSubmitted"

abbreviation (input) ReasonResetJobSubmitted :: string where
  "ReasonResetJobSubmitted \<equiv> ReasonJobSubmitted"

abbreviation (input) ReasonUpgradeJobSubmitted :: string where
  "ReasonUpgradeJobSubmitted \<equiv> ReasonJobSubmitted"

abbreviation (input) ReasonNodeOpJobSubmitted :: string where
  "ReasonNodeOpJobSubmitted \<equiv> ReasonJobSubmitted"

abbreviation (input) ReasonJobSucceeded :: string where
  "ReasonJobSucceeded \<equiv> ''JobSucceeded''"

abbreviation (input) ConditionTypePending :: string where
  "ConditionTypePending \<equiv> ''Pending''"

abbreviation (input) ConditionTypeMaintenanceBundlePending :: string where
  "ConditionTypeMaintenanceBundlePending \<equiv> ConditionTypePending"

abbreviation (input) ConditionTypePackExecutionPending :: string where
  "ConditionTypePackExecutionPending \<equiv> ConditionTypePending"

abbreviation (input) ReasonPending :: string where
  "ReasonPending \<equiv> ''Pending''"

abbreviation (input) ReasonEtcdOperationPending :: string where
  "ReasonEtcdOperationPending \<equiv> ReasonPending"

abbreviation (input) ReasonMaintenanceBundlePending :: string where
  "ReasonMaintenanceBundlePending \<equiv> ReasonPending"

abbreviation (input) ReasonNodeOperationPending :: string where
  "ReasonNodeOperationPending \<equiv> ReasonPending"

abbreviation (input) ReasonNodeOpPending :: string where
  "ReasonNodeOpPending \<equiv> ReasonPending"

abbreviation (input) ReasonPKIOperationPending :: string where
  "ReasonPKIOperationPending \<equiv> ReasonPending"

abbreviation (input) ReasonUpgradeOperationPending :: string where
  "ReasonUpgradeOperationPending \<equiv> ReasonPending"

abbreviation (input) ReasonGatesClearing :: string where
  "ReasonGatesClearing \<equiv> ''GatesClearing''"

abbreviation (input) ReasonAwaitingSignature :: string where
  "ReasonAwaitingSignature \<equiv> ''AwaitingSignature''"

abbreviation (input) ReasonAwaitingConductorReady :: string where
  "ReasonAwaitingConductorReady \<equiv> ''AwaitingConductorReady''"

abbreviation (input) ConditionTypeBootstrapping :: string where
  "ConditionTypeBootstrapping \<equiv> ''Bootstrapping''"

abbreviation (input) ReasonBootstrapJobSubmitted :: string where
  "ReasonBootstrapJobSubmitted \<equiv> ''BootstrapJobSubmitted''"

abbreviation (input) ReasonBootstrapJobComplete :: string where
  "ReasonBootstrapJobComplete \<equiv> ''BootstrapJobComplete''"

abbreviation (input) ReasonCAPIObjectsCreated :: string where
  "ReasonCAPIObjectsCreated \<equiv> ''CAPIObjectsCreated''"

abbreviation (input) ConditionTypeImporting :: string where
  "ConditionTypeImporting \<equiv> ''Importing''"

abbreviation (input) ReasonImportComplete :: string where
  "ReasonImportComplete \<equiv> ''ImportComplete''"

abbreviation (input) ConditionTypeCiliumPending :: string where
  "ConditionTypeCiliumPending \<equiv> ''CiliumPending''"

abbreviation (input) ReasonCiliumPackPending :: string where
  "ReasonCiliumPackPending \<equiv> ''CiliumPackPending''"

abbreviation (input) ReasonCiliumPackReady :: string where
  "ReasonCiliumPackReady \<equiv> ''CiliumPackReady''"

abbreviation (input) ConditionTypeControlPlaneUnreachable :: string where
  "ConditionTypeControlPlaneUnreachable \<equiv> ''ControlPlaneUnreachable''"

abbreviation (input) ReasonControlPlaneNodeUnreachable :: string where
  "ReasonControlPlaneNodeUnreachable \<equiv> ''ControlPlaneNodeUnreachable''"

abbreviation (input) ConditionTypePartialWorkerAvailability :: string where
  "ConditionTypePartialWorkerAvailability \<equiv> ''PartialWorkerAvailability''"

abbreviation (input) ReasonWorkerNodeUnreachable :: string where
  "ReasonWorkerNodeUnreachable \<equiv> ''WorkerNodeUnreachable''"

abbreviation (input) ConditionTypeConductorReady :: string where
  "ConditionTypeConductorReady \<equiv> ''ConductorReady''"

abbreviation (input) ReasonConductorBootstrapComplete :: string where
  "ReasonConductorBootstrapComplete \<equiv> ''ConductorBootstrapComplete''"

abbreviation (input) ReasonConductorBootstrapPending :: string where
  "ReasonConductorBootstrapPending \<equiv> ''ConductorBootstrapPending''"

abbreviation (input) ReasonConductorDeploymentAvailable :: string where
  "ReasonConductorDeploymentAvailable \<equiv> ''ConductorDeploymentAvailable''"

abbreviation (input) ReasonConductorDeploymentUnavailable :: string where
  "ReasonConductorDeploymentUnavailable \<equiv> ''ConductorDeploymentUnavailable''"

abbreviation (input) ConditionTypeBootstrapped :: string where
  "ConditionTypeBootstrapped \<equiv> ''Bootstrapped''"

abbreviation (input) ConditionTypeScreenProviderNotImplemented :: string where
  "ConditionTypeScreenProviderNotImplemented \<equiv> ''ScreenProviderNotImplemented''"

abbreviation (input) ConditionTypePhaseFailed :: string where
  "ConditionTypePhaseFailed \<equiv> ''PhaseFailed''"

abbreviation (input) ConditionTypeKubeconfigUnavailable :: string where
  "ConditionTypeKubeconfigUnavailable \<equiv> ''KubeconfigUnavailable''"

abbreviation (input) ReasonScreenNotImplemented :: string where
  "ReasonScreenNotImplemented \<equiv> ''ScreenNotImplemented''"

abbreviation (input) ReasonTalosVersionRequired :: string where
  "ReasonTalosVersionRequired \<equiv> ''TalosVersionRequired''"

abbreviation (input) ReasonTalosConfigSecretAbsent :: string where
  "ReasonTalosConfigSecretAbsent \<equiv> ''TalosConfigSecretAbsent''"


section \<open>Platform - ClusterMaintenance conditions\<close>

abbreviation (input) ConditionTypeClusterMaintenancePaused :: string where
  "ConditionTypeClusterMaintenancePaused \<equiv> ''Paused''"

abbreviation (input) ReasonCAPIPaused :: string where
  "ReasonCAPIPaused \<equiv> ''CAPIPaused''"

abbreviation (input) ReasonCAPIResumed :: string where
  "ReasonCAPIResumed \<equiv> ''CAPIResumed''"

abbreviation (input) ConditionTypeClusterMaintenanceWindowActive :: string where
  "ConditionTypeClusterMaintenanceWindowActive \<equiv> ''WindowActive''"

abbreviation (input) ReasonMaintenanceWindowOpen :: string where
  "ReasonMaintenanceWindowOpen \<equiv> ''MaintenanceWindowOpen''"

abbreviation (input) ReasonMaintenanceWindowClosed :: string where
  "ReasonMaintenanceWindowClosed \<equiv> ''MaintenanceWindowClosed''"


section \<open>Platform - Day-2 specific conditions\<close>

abbreviation (input) ConditionTypeNodeOperationCAPIDelegated :: string where
  "ConditionTypeNodeOperationCAPIDelegated \<equiv> ''CAPIDelegated''"

abbreviation (input) ConditionTypeUpgradePolicyCAPIDelegated :: string where
  "ConditionTypeUpgradePolicyCAPIDelegated \<equiv> ConditionTypeNodeOperationCAPIDelegated"

abbreviation (input) ReasonNodeOpCAPIDelegated :: string where
  "ReasonNodeOpCAPIDelegated \<equiv> ''CAPIDelegated''"

abbreviation (input) ReasonUpgradeCAPIDelegated :: string where
  "ReasonUpgradeCAPIDelegated \<equiv> ReasonNodeOpCAPIDelegated"

abbreviation (input) ConditionTypeResetPendingApproval :: string where
  "ConditionTypeResetPendingApproval \<equiv> ''PendingApproval''"

abbreviation (input) ReasonApprovalRequired :: string where
  "ReasonApprovalRequired \<equiv> ''ApprovalRequired''"

abbreviation (input) EtcdBackupDestinationAbsent :: string where
  "EtcdBackupDestinationAbsent \<equiv> ''EtcdBackupDestinationAbsent''"

abbreviation (input) ReasonCAPIClusterDeleting :: string where
  "ReasonCAPIClusterDeleting \<equiv> ''CAPIClusterDeleting''"

abbreviation (input) ReasonCAPIClusterDrained :: string where
  "ReasonCAPIClusterDrained \<equiv> ''CAPIClusterDrained''"


section \<open>Platform - CAPI Infrastructure Provider conditions\<close>

abbreviation (input) ConditionTypeInfrastructureReady :: string where
  "ConditionTypeInfrastructureReady \<equiv> ''InfrastructureReady''"

abbreviation (input) ReasonControlPlaneMachinesNotReady :: string where
  "ReasonControlPlaneMachinesNotReady \<equiv> ''ControlPlaneMachinesNotReady''"

abbreviation (input) ReasonControlPlaneMachinesPending :: string where
  "ReasonControlPlaneMachinesPending \<equiv> ''ControlPlaneMachinesPending''"

abbreviation (input) ConditionTypeMachineReady :: string where
  "ConditionTypeMachineReady \<equiv> ''MachineReady''"

abbreviation (input) ReasonMachineReady :: string where
  "ReasonMachineReady \<equiv> ''MachineReady''"

abbreviation (input) ReasonMachineConfigApplied :: string where
  "ReasonMachineConfigApplied \<equiv> ''MachineConfigApplied''"

abbreviation (input) ReasonMachineConfigFailed :: string where
  "ReasonMachineConfigFailed \<equiv> ''MachineConfigFailed''"

abbreviation (input) ReasonBootstrapDataNotReady :: string where
  "ReasonBootstrapDataNotReady \<equiv> ''BootstrapDataNotReady''"

abbreviation (input) ReasonCAPIMachineNotBound :: string where
  "ReasonCAPIMachineNotBound \<equiv> ''CAPIMachineNotBound''"

abbreviation (input) ReasonMachineOutOfMaintenance :: string where
  "ReasonMachineOutOfMaintenance \<equiv> ''MachineOutOfMaintenance''"

abbreviation (input) ConditionTypePortReachable :: string where
  "ConditionTypePortReachable \<equiv> ''PortReachable''"

abbreviation (input) ReasonPortUnreachable :: string where
  "ReasonPortUnreachable \<equiv> ''PortUnreachable''"


section \<open>Wrapper - ClusterPack conditions\<close>

abbreviation (input) ConditionTypeClusterPackAvailable :: string where
  "ConditionTypeClusterPackAvailable \<equiv> ''Available''"

abbreviation (input) ReasonPackAvailable :: string where
  "ReasonPackAvailable \<equiv> ''PackAvailable''"

abbreviation (input) ReasonPackSignaturePending :: string where
  "ReasonPackSignaturePending \<equiv> ''SignaturePending''"

abbreviation (input) ConditionTypeClusterPackImmutabilityViolation :: string where
  "ConditionTypeClusterPackImmutabilityViolation \<equiv> ''ImmutabilityViolation''"

abbreviation (input) ReasonImmutabilityViolation :: string where
  "ReasonImmutabilityViolation \<equiv> ''ImmutabilityViolation''"

abbreviation (input) ConditionTypeClusterPackRevoked :: string where
  "ConditionTypeClusterPackRevoked \<equiv> ''Revoked''"

abbreviation (input) ReasonPackRevoked :: string where
  "ReasonPackRevoked \<equiv> ''PackRevoked''"

abbreviation (input) ConditionTypeClusterPackSignaturePending :: string where
  "ConditionTypeClusterPackSignaturePending \<equiv> ''SignaturePending''"

abbreviation (input) ReasonPackSigned :: string where
  "ReasonPackSigned \<equiv> ''PackSigned''"


section \<open>Wrapper - PackExecution conditions\<close>

abbreviation (input) ConditionTypePackExecutionWaiting :: string where
  "ConditionTypePackExecutionWaiting \<equiv> ''Waiting''"

abbreviation (input) ConditionTypePackSignaturePending :: string where
  "ConditionTypePackSignaturePending \<equiv> ''PackSignaturePending''"

abbreviation (input) ConditionTypePackRevoked :: string where
  "ConditionTypePackRevoked \<equiv> ''PackRevoked''"

abbreviation (input) ReasonClusterPackRevoked :: string where
  "ReasonClusterPackRevoked \<equiv> ''ClusterPackRevoked''"

abbreviation (input) ConditionTypePermissionSnapshotOutOfSync :: string where
  "ConditionTypePermissionSnapshotOutOfSync \<equiv> ''PermissionSnapshotOutOfSync''"

abbreviation (input) ReasonSnapshotOutOfSync :: string where
  "ReasonSnapshotOutOfSync \<equiv> ''SnapshotOutOfSync''"

abbreviation (input) ConditionTypeRBACProfileNotProvisioned :: string where
  "ConditionTypeRBACProfileNotProvisioned \<equiv> ''RBACProfileNotProvisioned''"

abbreviation (input) ReasonRBACProfileNotReady :: string where
  "ReasonRBACProfileNotReady \<equiv> ''RBACProfileNotProvisioned''"

abbreviation (input) ConditionTypeWrapperRunnerRBACNotReady :: string where
  "ConditionTypeWrapperRunnerRBACNotReady \<equiv> ''WrapperRunnerRBACNotReady''"

abbreviation (input) ReasonWrapperRunnerRBACNotReady :: string where
  "ReasonWrapperRunnerRBACNotReady \<equiv> ''WrapperRunnerRBACNotReady''"

abbreviation (input) ConditionTypePackExecutionFailed :: string where
  "ConditionTypePackExecutionFailed \<equiv> ''Failed''"

abbreviation (input) ReasonOperationResultNotFound :: string where
  "ReasonOperationResultNotFound \<equiv> ''OperationResultNotFound''"

abbreviation (input) ConditionTypePackExecutionSucceeded :: string where
  "ConditionTypePackExecutionSucceeded \<equiv> ''Succeeded''"


section \<open>Wrapper - PackInstance conditions\<close>

abbreviation (input) ConditionTypePackInstanceReady :: string where
  "ConditionTypePackInstanceReady \<equiv> ''Ready''"

abbreviation (input) ReasonAwaitingDelivery :: string where
  "ReasonAwaitingDelivery \<equiv> ''AwaitingDelivery''"

abbreviation (input) ConditionTypePackInstanceDependencyBlocked :: string where
  "ConditionTypePackInstanceDependencyBlocked \<equiv> ''DependencyBlocked''"

abbreviation (input) ReasonDependencyDrifted :: string where
  "ReasonDependencyDrifted \<equiv> ''DependencyDrifted''"

abbreviation (input) ConditionTypePackInstanceDrifted :: string where
  "ConditionTypePackInstanceDrifted \<equiv> ''Drifted''"

abbreviation (input) ReasonDriftDetected :: string where
  "ReasonDriftDetected \<equiv> ''DriftDetected''"

abbreviation (input) ReasonNoDrift :: string where
  "ReasonNoDrift \<equiv> ''NoDrift''"

abbreviation (input) ConditionTypePackInstanceProgressing :: string where
  "ConditionTypePackInstanceProgressing \<equiv> ''Progressing''"

abbreviation (input) ReasonPackDelivered :: string where
  "ReasonPackDelivered \<equiv> ''PackDelivered''"

abbreviation (input) ReasonPackReceiptNotFound :: string where
  "ReasonPackReceiptNotFound \<equiv> ''PackReceiptNotFound''"

abbreviation (input) ConditionTypePackInstanceSecurityViolation :: string where
  "ConditionTypePackInstanceSecurityViolation \<equiv> ''SecurityViolation''"

abbreviation (input) ReasonSignatureVerifyFailed :: string where
  "ReasonSignatureVerifyFailed \<equiv> ''SignatureVerifyFailed''"

abbreviation (input) ReasonSecurityViolationCleared :: string where
  "ReasonSecurityViolationCleared \<equiv> ''SecurityViolationCleared''"


section \<open>Platform - Version upgrade and anti-regression conditions\<close>

abbreviation (input) ConditionTypeVersionUpgradePending :: string where
  "ConditionTypeVersionUpgradePending \<equiv> ''VersionUpgradePending''"

abbreviation (input) ReasonVersionUpgradeRequested :: string where
  "ReasonVersionUpgradeRequested \<equiv> ''VersionUpgradeRequested''"

abbreviation (input) ReasonVersionUpgradeSubmitted :: string where
  "ReasonVersionUpgradeSubmitted \<equiv> ''VersionUpgradeSubmitted''"

abbreviation (input) ReasonVersionUpgradeComplete :: string where
  "ReasonVersionUpgradeComplete \<equiv> ''VersionUpgradeComplete''"

abbreviation (input) ConditionTypeVersionRegressionBlocked :: string where
  "ConditionTypeVersionRegressionBlocked \<equiv> ''VersionRegressionBlocked''"

abbreviation (input) ReasonVersionRegressionAttempted :: string where
  "ReasonVersionRegressionAttempted \<equiv> ''VersionRegressionAttempted''"

abbreviation (input) ConditionTypeHardeningApplied :: string where
  "ConditionTypeHardeningApplied \<equiv> ''HardeningApplied''"

abbreviation (input) ReasonHardeningApplied :: string where
  "ReasonHardeningApplied \<equiv> ''HardeningApplied''"

abbreviation (input) ReasonHardeningPending :: string where
  "ReasonHardeningPending \<equiv> ''HardeningPending''"

abbreviation (input) ReasonHardeningProfileNotValid :: string where
  "ReasonHardeningProfileNotValid \<equiv> ''HardeningProfileNotValid''"


section \<open>The vocabulary map\<close>

text \<open>
  The literal of the map \<^verbatim>\<open>vocabulary\<close>: each condition type with the reasons passed to
  \<^verbatim>\<open>reasons(...)\<close>, section by section.
\<close>

definition vocab_Cross_operator :: "(string \<times> string list) list" where
  "vocab_Cross_operator =
    [(ConditionTypeLineageSynced,
       [ReasonLineageControllerAbsent])]"

definition vocab_Guardian :: "(string \<times> string list) list" where
  "vocab_Guardian =
    [(ConditionTypeBootstrapLabelAbsent,
       [ReasonLabelAbsent,
        ReasonLabelPresent]),
     (ConditionTypeIdentityBindingTrustAnchorResolved,
       [ReasonTrustAnchorResolved,
        ReasonTrustAnchorNotFound,
        ReasonTrustAnchorInvalid,
        ReasonTrustAnchorTypeMismatch,
        ReasonTrustMethodMismatch]),
     (ConditionTypeIdentityBindingValid,
       [ReasonIdentityBindingValid,
        ReasonIdentityBindingInvalid,
        ReasonPermissionSetMissing,
        ReasonPermissionSetNotFound,
        ReasonTokenTTLExceeded]),
     (ConditionTypeIdentityProviderReachable,
       [ReasonIdentityProviderReachable,
        ReasonIdentityProviderUnreachable,
        ReasonIdentityProviderPending]),
     (ConditionTypeIdentityProviderValid,
       [ReasonIdentityProviderValid,
        ReasonIdentityProviderInvalid]),
     (ConditionTypePermissionSetValid,
       [ReasonPermissionSetValid,
        ReasonPermissionSetInvalid,
        ReasonPermissionSetNotFound]),
     (ConditionTypeRBACPolicyDegraded,
       [ReasonValidationFailed,
        ReasonPolicyViolation,
        ReasonStructureInvalid,
        ReasonPolicyNotFound,
        ReasonEPGPending]),
     (ConditionTypeRBACPolicyValid,
       [ReasonValidationPassed,
        ReasonValidationFailed]),
     (ConditionTypeRBACProfilePolicyCompliant,
       [ReasonBootstrapProfilesReady,
        ReasonBootstrapProfilesPending]),
     (ConditionTypeRBACProfileProvisioned,
       [ReasonProvisioningComplete,
        ReasonProvisioningFailed]),
     (ConditionTypeRBACProfileValidated,
       [ReasonValidationPassed,
        ReasonValidationFailed]),
     (ConditionTypeWebhookRegistered,
       [ReasonWebhookRegistered])]"

definition vocab_Guardian_PermissionSnapshot :: "(string \<times> string list) list" where
  "vocab_Guardian_PermissionSnapshot =
    [(ConditionTypePermissionSnapshotFresh,
       [ReasonSnapshotFresh,
        ReasonSnapshotStale]),
     (ConditionTypePermissionSnapshotCompliant,
       [ReasonDriftAbsent,
        ReasonDriftDetected])]"

definition vocab_Platform_TalosCluster :: "(string \<times> string list) list" where
  "vocab_Platform_TalosCluster =
    [(ConditionTypeReady,
       [ReasonClusterReady,
        ReasonCAPIClusterRunning,
        ReasonJobComplete,
        ReasonResetComplete,
        ReasonAllControlPlaneMachinesReady,
        ReasonPackReceiptReady,
        ReasonPackReceiptNotFound,
        ReasonSignatureVerifyFailed,
        ReasonDependencyDrifted,
        ReasonDriftDetected]),
     (ConditionTypeDegraded,
       [ReasonDegraded,
        ReasonBootstrapJobFailed,
        ReasonConductorJobGateBlocked,
        ReasonJobFailed,
        ReasonCapabilityUnknown,
        ReasonReconcilerNotImplemented,
        ReasonS3DestinationAbsent]),
     (ConditionTypeRunning,
       [ReasonJobSubmitted,
        ReasonJobFailed,
        ReasonJobComplete,
        ReasonJobSucceeded]),
     (ConditionTypePending,
       [ReasonPending,
        ReasonJobSubmitted,
        ReasonJobFailed,
        ReasonJobComplete,
        ReasonCapabilityUnknown,
        ReasonReconcilerNotImplemented,
        ReasonGatesClearing,
        ReasonAwaitingSignature,
        ReasonAwaitingConductorReady]),
     (ConditionTypeBootstrapping,
       [ReasonBootstrapJobSubmitted,
        ReasonBootstrapJobComplete,
        ReasonBootstrapJobFailed,
        ReasonCAPIObjectsCreated,
        ReasonCAPIClusterRunning]),
     (ConditionTypeImporting,
       [ReasonImportComplete]),
     (ConditionTypeCiliumPending,
       [ReasonCiliumPackPending,
        ReasonCiliumPackReady]),
     (ConditionTypeControlPlaneUnreachable,
       [ReasonControlPlaneNodeUnreachable]),
     (ConditionTypePartialWorkerAvailability,
       [ReasonWorkerNodeUnreachable]),
     (ConditionTypeConductorReady,
       [ReasonConductorBootstrapComplete,
        ReasonConductorBootstrapPending])]"

definition vocab_Platform_ClusterMaintenance :: "(string \<times> string list) list" where
  "vocab_Platform_ClusterMaintenance =
    [(ConditionTypeClusterMaintenancePaused,
       [ReasonCAPIPaused,
        ReasonCAPIResumed,
        ReasonConductorJobGateBlocked]),
     (ConditionTypeClusterMaintenanceWindowActive,
       [ReasonMaintenanceWindowOpen,
        ReasonMaintenanceWindowClosed])]"

definition vocab_Platform_Day_2_specific :: "(string \<times> string list) list" where
  "vocab_Platform_Day_2_specific =
    [(ConditionTypeNodeOperationCAPIDelegated,
       [ReasonNodeOpCAPIDelegated]),
     (ConditionTypeResetPendingApproval,
       [ReasonApprovalRequired]),
     (EtcdBackupDestinationAbsent,
       [ReasonS3DestinationAbsent])]"

definition vocab_Platform_CAPI_Infrastructure_Provider :: "(string \<times> string list) list" where
  "vocab_Platform_CAPI_Infrastructure_Provider =
    [(ConditionTypeInfrastructureReady,
       [ReasonAllControlPlaneMachinesReady,
        ReasonControlPlaneMachinesNotReady,
        ReasonControlPlaneMachinesPending]),
     (ConditionTypeMachineReady,
       [ReasonMachineReady,
        ReasonMachineConfigApplied,
        ReasonMachineConfigFailed,
        ReasonBootstrapDataNotReady,
        ReasonCAPIMachineNotBound,
        ReasonMachineOutOfMaintenance]),
     (ConditionTypePortReachable,
       [ReasonPortUnreachable])]"

definition vocab_Wrapper_ClusterPack :: "(string \<times> string list) list" where
  "vocab_Wrapper_ClusterPack =
    [(ConditionTypeClusterPackAvailable,
       [ReasonPackAvailable,
        ReasonPackSignaturePending,
        ReasonPackSigned]),
     (ConditionTypeClusterPackImmutabilityViolation,
       [ReasonImmutabilityViolation]),
     (ConditionTypeClusterPackRevoked,
       [ReasonPackRevoked]),
     (ConditionTypeClusterPackSignaturePending,
       [ReasonPackSignaturePending,
        ReasonPackSigned])]"

definition vocab_Wrapper_PackExecution :: "(string \<times> string list) list" where
  "vocab_Wrapper_PackExecution =
    [(ConditionTypePackExecutionWaiting,
       [ReasonAwaitingConductorReady]),
     (ConditionTypePackSignaturePending,
       [ReasonAwaitingSignature,
        ReasonPackSigned]),
     (ConditionTypePackRevoked,
       [ReasonClusterPackRevoked]),
     (ConditionTypePermissionSnapshotOutOfSync,
       [ReasonSnapshotOutOfSync]),
     (ConditionTypeRBACProfileNotProvisioned,
       [ReasonRBACProfileNotReady]),
     (ConditionTypeWrapperRunnerRBACNotReady,
       [ReasonWrapperRunnerRBACNotReady]),
     (ConditionTypePackExecutionFailed,
       [ReasonJobFailed,
        ReasonOperationResultNotFound]),
     (ConditionTypePackExecutionSucceeded,
       [ReasonJobSucceeded])]"

definition vocab_Wrapper_PackInstance :: "(string \<times> string list) list" where
  "vocab_Wrapper_PackInstance =
    [(ConditionTypePackInstanceDependencyBlocked,
       [ReasonDependencyDrifted]),
     (ConditionTypePackInstanceDrifted,
       [ReasonDriftDetected,
        ReasonNoDrift]),
     (ConditionTypePackInstanceProgressing,
       [ReasonPackDelivered,
        ReasonPackReceiptNotFound]),
     (ConditionTypePackInstanceSecurityViolation,
       [ReasonSignatureVerifyFailed,
        ReasonSecurityViolationCleared])]"

definition vocabulary :: "(string \<times> string list) list" where
  "vocabulary =
     vocab_Cross_operator @
     vocab_Guardian @
     vocab_Guardian_PermissionSnapshot @
     vocab_Platform_TalosCluster @
     vocab_Platform_ClusterMaintenance @
     vocab_Platform_Day_2_specific @
     vocab_Platform_CAPI_Infrastructure_Provider @
     vocab_Wrapper_ClusterPack @
     vocab_Wrapper_PackExecution @
     vocab_Wrapper_PackInstance"

lemmas vocabulary_defs =
  vocabulary_def vocab_Cross_operator_def vocab_Guardian_def vocab_Guardian_PermissionSnapshot_def vocab_Platform_TalosCluster_def vocab_Platform_ClusterMaintenance_def vocab_Platform_Day_2_specific_def vocab_Platform_CAPI_Infrastructure_Provider_def vocab_Wrapper_ClusterPack_def vocab_Wrapper_PackExecution_def vocab_Wrapper_PackInstance_def

end
