(* ===== verification/Conditions.thy ===== *)
theory Conditions
  imports ConditionVocabulary
begin

text \<open>
  Package \<^verbatim>\<open>src/pkg/conditions\<close>: the condition list helpers \<^verbatim>\<open>SetCondition\<close> and
  \<^verbatim>\<open>FindCondition\<close> (conditions.go), and the vocabulary checks \<^verbatim>\<open>ValidateCondition\<close>,
  \<^verbatim>\<open>KnownConditionTypes\<close> and \<^verbatim>\<open>ValidReasonsFor\<close> (validate.go). The interface
  \<open>condition_writer\<close> states what every writer of a condition list promises; the package's
  \<^verbatim>\<open>SetCondition\<close> and the LineageSynced writer of the lineage controller both provide it.
\<close>


section \<open>The contract of a condition writer\<close>

text \<open>
  A writer of one condition \<open>k\<close> keeps the order of the list and every entry of another
  type, and adds \<open>k\<close> at the end exactly when it is missing.
\<close>

locale condition_writer =
  fixes key :: "'c \<Rightarrow> 'k" and k :: 'k and put :: "'c list \<Rightarrow> 'c list"
  assumes put_keys:
      "map key (put cs) = (if k \<in> set (map key cs) then map key cs else map key cs @ [k])"
    and put_others: "filter (\<lambda>c. key c \<noteq> k) (put cs) = filter (\<lambda>c. key c \<noteq> k) cs"
begin

lemma put_present: "k \<in> key ` set (put cs)"
proof -
  have "k \<in> set (map key (put cs))" by (simp only: put_keys) simp
  then show ?thesis by simp
qed

lemma put_distinct: "distinct (map key cs) \<Longrightarrow> distinct (map key (put cs))"
  by (auto simp: put_keys)

lemma put_length: "length (put cs) = length cs + (if k \<in> key ` set cs then 0 else 1)"
proof -
  have "length (map key (put cs)) = length cs + (if k \<in> key ` set cs then 0 else 1)"
    by (simp add: put_keys)
  then show ?thesis by simp
qed

lemma put_keeps_others: "key c \<noteq> k \<Longrightarrow> c \<in> set (put cs) \<longleftrightarrow> c \<in> set cs"
  using arg_cong [OF put_others [of cs], of set] by auto

end


section \<open>SetCondition and FindCondition\<close>

text \<open>\<^verbatim>\<open>metav1.Condition\<close>, with the transition time in nanoseconds since the epoch.\<close>

record Condition =
  c_Type :: string
  c_Status :: string
  c_Reason :: string
  c_Message :: string
  c_ObservedGeneration :: int
  c_LastTransitionTime :: int

text \<open>The Go function returns a pointer into the slice: here, the index of the element.\<close>

fun FindCondition :: "Condition list \<Rightarrow> string \<Rightarrow> nat option" where
  "FindCondition [] conditionType = None"
| "FindCondition (c # cs) conditionType =
     (if c_Type c = conditionType then Some 0
      else map_option Suc (FindCondition cs conditionType))"

definition SetCondition ::
  "Condition list \<Rightarrow> string \<Rightarrow> string \<Rightarrow> string \<Rightarrow> string \<Rightarrow> int \<Rightarrow> int \<Rightarrow> Condition list" where
  "SetCondition conditions conditionType status reason message observedGeneration now =
     (case FindCondition conditions conditionType of
        None \<Rightarrow> conditions @
          [\<lparr>c_Type = conditionType, c_Status = status, c_Reason = reason, c_Message = message,
            c_ObservedGeneration = observedGeneration, c_LastTransitionTime = now\<rparr>]
      | Some i \<Rightarrow>
          (let existing = conditions ! i;
               existing = (if c_Status existing \<noteq> status
                           then existing\<lparr>c_LastTransitionTime := now\<rparr> else existing)
           in conditions[i := existing\<lparr>c_Status := status, c_Reason := reason,
                c_Message := message, c_ObservedGeneration := observedGeneration\<rparr>]))"

lemma FindCondition_None: "FindCondition cs t = None \<longleftrightarrow> t \<notin> c_Type ` set cs"
  by (induction cs) auto

lemma FindCondition_Some:
  "FindCondition cs t = Some i \<Longrightarrow>
     i < length cs \<and> c_Type (cs ! i) = t \<and> t \<notin> c_Type ` set (take i cs)"
proof (induction cs arbitrary: i)
  case (Cons c cs)
  then show ?case by (cases i) (auto split: if_splits)
qed simp

lemma FindCondition_append:
  "t \<notin> c_Type ` set cs \<Longrightarrow> FindCondition (cs @ ds) t = map_option (\<lambda>i. length cs + i) (FindCondition ds t)"
  by (induction cs; cases "FindCondition ds t") auto

lemma FindCondition_update:
  "FindCondition cs t = Some i \<Longrightarrow> c_Type c = t \<Longrightarrow> FindCondition (cs[i := c]) t = Some i"
proof (induction cs arbitrary: i)
  case (Cons d cs)
  then show ?case by (cases i) (auto split: if_splits)
qed simp

text \<open>Updating an entry without changing its type changes no other type.\<close>

lemma filter_update_same:
  "i < length cs \<Longrightarrow> \<not> P (cs ! i) \<Longrightarrow> \<not> P c \<Longrightarrow> filter P (cs[i := c]) = filter P cs"
proof (induction cs arbitrary: i)
  case (Cons d cs)
  then show ?case by (cases i) auto
qed simp

lemma map_update_same:
  "i < length cs \<Longrightarrow> f c = f (cs ! i) \<Longrightarrow> map f (cs[i := c]) = map f cs"
  by (metis list_update_id map_update)

lemma SetCondition_present:
  assumes "FindCondition cs t = Some i"
  obtains e where "SetCondition cs t st r m g now = cs[i := e]" and "c_Type e = t"
    and "c_Status e = st" and "c_Reason e = r" and "c_Message e = m"
    and "c_ObservedGeneration e = g"
    and "c_LastTransitionTime e = (if c_Status (cs ! i) = st then c_LastTransitionTime (cs ! i) else now)"
  using FindCondition_Some [OF assms]
  by (intro that) (auto simp: SetCondition_def assms Let_def)

lemma SetCondition_absent:
  "t \<notin> c_Type ` set cs \<Longrightarrow>
     SetCondition cs t st r m g now =
       cs @ [\<lparr>c_Type = t, c_Status = st, c_Reason = r, c_Message = m,
              c_ObservedGeneration = g, c_LastTransitionTime = now\<rparr>]"
  by (simp add: SetCondition_def FindCondition_None [symmetric])

interpretation set_condition: condition_writer c_Type t "\<lambda>cs. SetCondition cs t st r m g now"
  for t st r m g now
proof
  fix cs
  show "map c_Type (SetCondition cs t st r m g now) =
      (if t \<in> set (map c_Type cs) then map c_Type cs else map c_Type cs @ [t])"
  proof (cases "FindCondition cs t")
    case None
    then have "t \<notin> c_Type ` set cs" by (simp add: FindCondition_None)
    then show ?thesis by (simp add: SetCondition_absent)
  next
    case (Some i)
    from Some have "t \<in> c_Type ` set cs"
      using FindCondition_None [of cs t] by auto
    moreover obtain e where "SetCondition cs t st r m g now = cs[i := e]" and "c_Type e = t"
      using Some by (rule SetCondition_present)
    ultimately show ?thesis using FindCondition_Some [OF Some] by (simp add: map_update_same)
  qed
  show "filter (\<lambda>c. c_Type c \<noteq> t) (SetCondition cs t st r m g now) = filter (\<lambda>c. c_Type c \<noteq> t) cs"
  proof (cases "FindCondition cs t")
    case None
    then have "t \<notin> c_Type ` set cs" by (simp add: FindCondition_None)
    then show ?thesis by (simp add: SetCondition_absent)
  next
    case (Some i)
    obtain e where "SetCondition cs t st r m g now = cs[i := e]" and "c_Type e = t"
      using Some by (rule SetCondition_present)
    with FindCondition_Some [OF Some] show ?thesis by (simp add: filter_update_same)
  qed
qed

lemma SetCondition_written:
  "\<exists>i. FindCondition (SetCondition cs t st r m g now) t = Some i \<and>
     SetCondition cs t st r m g now ! i =
       \<lparr>c_Type = t, c_Status = st, c_Reason = r, c_Message = m, c_ObservedGeneration = g,
        c_LastTransitionTime =
          c_LastTransitionTime (SetCondition cs t st r m g now ! i)\<rparr> \<and>
     c_LastTransitionTime (SetCondition cs t st r m g now ! i) =
          (case FindCondition cs t of
             None \<Rightarrow> now
           | Some j \<Rightarrow> if c_Status (cs ! j) = st then c_LastTransitionTime (cs ! j) else now)"
proof (cases "FindCondition cs t")
  case None
  then have "t \<notin> c_Type ` set cs" by (simp add: FindCondition_None)
  with None show ?thesis by (simp add: SetCondition_absent FindCondition_append nth_append)
next
  case (Some i)
  obtain e where "SetCondition cs t st r m g now = cs[i := e]" and e: "c_Type e = t"
    "c_Status e = st" "c_Reason e = r" "c_Message e = m" "c_ObservedGeneration e = g"
    "c_LastTransitionTime e = (if c_Status (cs ! i) = st then c_LastTransitionTime (cs ! i) else now)"
    using Some by (rule SetCondition_present)
  with Some FindCondition_Some [OF Some] show ?thesis
    by (intro exI [of _ i]) (simp add: FindCondition_update)
qed

text \<open>C24 (SetCondition_reads_back): after \<^verbatim>\<open>SetCondition\<close> the list has a condition of the given type,
  \<^verbatim>\<open>FindCondition\<close> finds it, it carries the written status, reason, message and generation, and
  its transition time is the old one when the status did not change and \<^verbatim>\<open>now\<close> otherwise.\<close>

theorem SetCondition_reads_back:
  "\<exists>i. FindCondition (SetCondition cs t st r m g now) t = Some i \<and>
     SetCondition cs t st r m g now ! i =
       \<lparr>c_Type = t, c_Status = st, c_Reason = r, c_Message = m, c_ObservedGeneration = g,
        c_LastTransitionTime =
          (case FindCondition cs t of
             None \<Rightarrow> now
           | Some j \<Rightarrow> if c_Status (cs ! j) = st then c_LastTransitionTime (cs ! j) else now)\<rparr>"
  using SetCondition_written [of cs t st r m g now] by auto

text \<open>\<^verbatim>\<open>SetCondition\<close> keeps the order and every condition of another type, and
  neither creates nor removes a duplicate type: the list-map invariant of a condition array
  (\<^verbatim>\<open>listMapKey=type\<close>) holds after the call exactly when it held before.\<close>

lemma SetCondition_frame:
  "filter (\<lambda>c. c_Type c \<noteq> t) (SetCondition cs t st r m g now) = filter (\<lambda>c. c_Type c \<noteq> t) cs \<and>
   distinct (map c_Type (SetCondition cs t st r m g now)) = distinct (map c_Type cs) \<and>
   length (SetCondition cs t st r m g now) = length cs + (if t \<in> c_Type ` set cs then 0 else 1)"
  by (auto simp: set_condition.put_others set_condition.put_keys set_condition.put_length)

text \<open>Writing the same condition again, at a later time, changes nothing: the
  transition time of an unchanged status is not refreshed.\<close>

lemma SetCondition_idempotent:
  "SetCondition (SetCondition cs t st r m g now) t st r m g later = SetCondition cs t st r m g now"
proof -
  obtain i where i: "FindCondition (SetCondition cs t st r m g now) t = Some i"
    and e: "SetCondition cs t st r m g now ! i =
       \<lparr>c_Type = t, c_Status = st, c_Reason = r, c_Message = m, c_ObservedGeneration = g,
        c_LastTransitionTime = c_LastTransitionTime (SetCondition cs t st r m g now ! i)\<rparr>"
    using SetCondition_written [of cs t st r m g now] by blast
  let ?ds = "SetCondition cs t st r m g now"
  have "SetCondition ?ds t st r m g later = ?ds[i := ?ds ! i]"
    using e by (subst SetCondition_def [of ?ds]) (cases "?ds ! i", simp add: i)
  then show ?thesis by simp
qed


section \<open>The vocabulary checks\<close>

text \<open>\<^verbatim>\<open>reasons\<close> builds a set from its arguments: a map with the arguments as keys.\<close>

definition reasons :: "string list \<Rightarrow> string list" where
  "reasons rs = remdups rs"

definition sortedKeys :: "string list \<Rightarrow> string list" where
  "sortedKeys m = sort m"

definition lookup_vocabulary :: "string \<Rightarrow> string list option" where
  "lookup_vocabulary conditionType = map_option reasons (map_of vocabulary conditionType)"

text \<open>The result is \<^const>\<open>None\<close> for \<^verbatim>\<open>nil\<close> and the error text otherwise.\<close>

definition ValidateCondition :: "string \<Rightarrow> string \<Rightarrow> string option" where
  "ValidateCondition conditionType reason =
     (if conditionType = [] then
        Some ''conditions.ValidateCondition: conditionType must not be empty''
      else if reason = [] then
        Some (''conditions.ValidateCondition: reason must not be empty for conditionType ''
              @ Quote conditionType)
      else (case lookup_vocabulary conditionType of
          None \<Rightarrow> Some (''conditions.ValidateCondition: unknown condition type '' @ Quote conditionType
                    @ ''; not declared in the Seam condition vocabulary'')
        | Some validReasons \<Rightarrow>
            if reason \<notin> set validReasons then
              Some (''conditions.ValidateCondition: reason '' @ Quote reason
                    @ '' is not valid for condition type '' @ Quote conditionType
                    @ ''; valid reasons: ['' @ Join (sortedKeys validReasons) '', '' @ '']'')
            else None))"

definition KnownConditionTypes :: "string list" where
  "KnownConditionTypes = sort (map fst vocabulary)"

definition ValidReasonsFor :: "string \<Rightarrow> string list" where
  "ValidReasonsFor conditionType =
     (case lookup_vocabulary conditionType of
        None \<Rightarrow> []
      | Some validReasons \<Rightarrow> sortedKeys validReasons)"

lemma vocabulary_types_distinct: "distinct (map fst vocabulary)"
  by (simp add: vocabulary_defs)

lemma vocabulary_entries:
  "list_all (\<lambda>(t, rs). t \<noteq> [] \<and> rs \<noteq> [] \<and> [] \<notin> set rs) vocabulary"
  by (simp add: vocabulary_defs)

lemma vocabulary_entry:
  "(t, rs) \<in> set vocabulary \<Longrightarrow> t \<noteq> [] \<and> rs \<noteq> [] \<and> [] \<notin> set rs"
  using vocabulary_entries unfolding list_all_iff by blast

lemma lookup_vocabulary_reasons:
  "lookup_vocabulary t = Some rs \<Longrightarrow> t \<noteq> [] \<and> [] \<notin> set rs \<and> distinct rs"
  by (auto simp: lookup_vocabulary_def reasons_def dest!: map_of_SomeD dest: vocabulary_entry)

lemma lookup_vocabulary_None: "lookup_vocabulary t = None \<longleftrightarrow> t \<notin> set (map fst vocabulary)"
  by (auto simp: lookup_vocabulary_def map_of_eq_None_iff)

lemma vocabulary_check_iff:
  "(ValidateCondition t r = None) = (\<exists>rs. (t, rs) \<in> set vocabulary \<and> r \<in> set rs)"
proof -
  have "(ValidateCondition t r = None) = (\<exists>rs. lookup_vocabulary t = Some rs \<and> r \<in> set rs)"
    using lookup_vocabulary_reasons [of t]
    by (auto simp: ValidateCondition_def split: option.splits)
  also have "\<dots> = (\<exists>rs. (t, rs) \<in> set vocabulary \<and> r \<in> set rs)"
    using vocabulary_types_distinct
    by (auto simp: lookup_vocabulary_def reasons_def map_of_eq_Some_iff)
  finally show ?thesis .
qed

text \<open>C25 (ValidateCondition_iff): \<^verbatim>\<open>ValidateCondition\<close> accepts exactly the pairs the vocabulary lists, and these are
  the pairs \<^verbatim>\<open>ValidReasonsFor\<close> reports; the two empty-argument checks reject nothing the
  vocabulary contains.\<close>

theorem ValidateCondition_iff:
  "(ValidateCondition t r = None) = (r \<in> set (ValidReasonsFor t)) \<and>
   (ValidateCondition t r = None) = (\<exists>rs. (t, rs) \<in> set vocabulary \<and> r \<in> set rs)"
proof -
  have "(r \<in> set (ValidReasonsFor t)) = (ValidateCondition t r = None)"
    using lookup_vocabulary_reasons [of t]
    by (auto simp: ValidReasonsFor_def sortedKeys_def ValidateCondition_def split: option.splits)
  then show ?thesis using vocabulary_check_iff [of t r] by simp
qed

lemma set_KnownConditionTypes: "set KnownConditionTypes = fst ` set vocabulary"
  by (simp add: KnownConditionTypes_def)

text \<open>\<^verbatim>\<open>KnownConditionTypes\<close> is the strictly sorted list of the 49 condition types
  with at least one valid reason, so membership in it is the same as being known to
  \<^verbatim>\<open>ValidateCondition\<close>.\<close>

lemma KnownConditionTypes_exact:
  "sorted KnownConditionTypes \<and> distinct KnownConditionTypes \<and> length KnownConditionTypes = 49 \<and>
   (t \<in> set KnownConditionTypes) = (\<exists>r. ValidateCondition t r = None)"
proof -
  have "sorted KnownConditionTypes \<and> distinct KnownConditionTypes"
    using vocabulary_types_distinct by (simp add: KnownConditionTypes_def)
  moreover have "length KnownConditionTypes = length vocabulary" "length vocabulary = 49"
    by (simp_all add: KnownConditionTypes_def) (simp add: vocabulary_defs)
  moreover have "(t \<in> set KnownConditionTypes) = (\<exists>rs. (t, rs) \<in> set vocabulary)"
    by (force simp: KnownConditionTypes_def)
  moreover have "(\<exists>r. ValidateCondition t r = None) = (\<exists>rs. (t, rs) \<in> set vocabulary)"
    unfolding vocabulary_check_iff by (blast dest: vocabulary_entry intro: hd_in_set)
  ultimately show ?thesis by simp
qed


end
