(* ===== verification/Kube.thy ===== *)
theory Kube
  imports Conditions
begin

text \<open>
  The Kubernetes values the controllers read and write. The API machinery
  (\<^verbatim>\<open>k8s.io/apimachinery\<close>, \<^verbatim>\<open>sigs.k8s.io/controller-runtime\<close>) is not part of the repository,
  so an \<^verbatim>\<open>unstructured.Unstructured\<close> object is represented by what its accessors return:
  the metadata getters, \<^verbatim>\<open>NestedString\<close> at a path, and \<^verbatim>\<open>NestedSlice\<close> at
  \<^verbatim>\<open>status.conditions\<close> and \<^verbatim>\<open>status.loadBalancer.ingress\<close>. Setters replace the corresponding observation.
\<close>

record GVK =
  gvk_Group :: string
  gvk_Version :: string
  gvk_Kind :: string

text \<open>\<^verbatim>\<open>types.NamespacedName\<close>, also used as the request of a reconcile call.\<close>

record NamespacedName =
  nn_Namespace :: string
  nn_Name :: string

text \<open>\<^verbatim>\<open>NamespacedName.String\<close>: namespace, slash, name.\<close>

definition nn_String :: "NamespacedName \<Rightarrow> string" where
  "nn_String nn = nn_Namespace nn @ ''/'' @ nn_Name nn"

text \<open>
  The \<^verbatim>\<open>interface{}\<close> values found inside an unstructured object, as far as the sources look
  into them: a string, an integer, or any other value.
\<close>

datatype gval = GStr string | GInt int | GOther nat

text \<open>An element of an untyped slice (\<^verbatim>\<open>[]interface{}\<close>): a JSON object, or another value.\<close>

datatype elem = EMap "(string, gval) gomap" | EOther gval

record uobj =
  u_Name :: string
  u_Namespace :: string
  u_UID :: string
  u_Generation :: int
  u_Labels :: "(string, string) gomap"
  u_Annotations :: "(string, string) gomap"
  u_Finalizers :: "string list"
  u_Deleting :: bool  \<comment> \<open>the deletion timestamp is set\<close>
  u_Conditions :: "elem list"
  u_StatusIsMap :: bool  \<comment> \<open>\<^verbatim>\<open>status\<close> is absent or a JSON object, so a nested set succeeds\<close>
  u_Ingress :: "elem list"  \<comment> \<open>\<^verbatim>\<open>status.loadBalancer.ingress\<close>, for a Service\<close>
  u_Strings :: "(string list, string) gomap"

definition u_key :: "uobj \<Rightarrow> NamespacedName" where
  "u_key obj = \<lparr>nn_Namespace = u_Namespace obj, nn_Name = u_Name obj\<rparr>"

text \<open>\<^verbatim>\<open>unstructured.NestedString\<close> with the found flag and the error dropped, as everywhere here.\<close>

definition NestedString :: "uobj \<Rightarrow> string list \<Rightarrow> string" where
  "NestedString obj path = (case map_of (u_Strings obj) path of None \<Rightarrow> [] | Some v \<Rightarrow> v)"

text \<open>\<^verbatim>\<open>cond[k] == s\<close> and \<^verbatim>\<open>v, _ := cond[k].(string)\<close> on a condition object.\<close>

definition cond_is :: "(string, gval) gomap \<Rightarrow> string \<Rightarrow> string \<Rightarrow> bool" where
  "cond_is cond k s \<longleftrightarrow> map_of cond k = Some (GStr s)"

definition cond_str :: "(string, gval) gomap \<Rightarrow> string \<Rightarrow> string" where
  "cond_str cond k = (case map_of cond k of Some (GStr s) \<Rightarrow> s | _ \<Rightarrow> [])"

text \<open>
  The loop both controllers write over \<^verbatim>\<open>status.conditions\<close>: is there a condition object of
  this type with status True? Elements that are not objects are skipped.
\<close>

fun cond_true :: "elem list \<Rightarrow> string \<Rightarrow> bool" where
  "cond_true [] condType = False"
| "cond_true (EOther _ # es) condType = cond_true es condType"
| "cond_true (EMap cond # es) condType =
     (if cond_is cond ''type'' condType \<and> cond_is cond ''status'' ''True'' then True
      else cond_true es condType)"

text \<open>Typed metadata: the part of \<^verbatim>\<open>metav1.ObjectMeta\<close> the sources set or read.\<close>

record OwnerReference =
  or_APIVersion :: string
  or_Kind :: string
  or_Name :: string
  or_UID :: string
  or_BlockOwnerDeletion :: "bool option"

record ObjectMeta =
  om_Name :: string
  om_Namespace :: string
  om_Labels :: "(string, string) gomap"
  om_Annotations :: "(string, string) gomap"
  om_OwnerReferences :: "OwnerReference list"

text \<open>\<^verbatim>\<open>corev1.ConfigMap\<close>; the \<^verbatim>\<open>Data\<close> map may be nil.\<close>

record ConfigMap =
  cm_Meta :: ObjectMeta
  cm_Data :: "(string, string) gomap option"

definition cm_key :: "ConfigMap \<Rightarrow> NamespacedName" where
  "cm_key cm = \<lparr>nn_Namespace = om_Namespace (cm_Meta cm), nn_Name = om_Name (cm_Meta cm)\<rparr>"

lemma cond_is_str: "s \<noteq> [] \<Longrightarrow> cond_is cond k s \<longleftrightarrow> cond_str cond k = s"
  by (auto simp: cond_is_def cond_str_def split: option.splits gval.splits)

end
