(* ===== verification/LineagePkg.thy ===== *)
theory LineagePkg
  imports Kube
begin

text \<open>
  Package \<^verbatim>\<open>src/pkg/lineage\<close>: the creation rationale vocabulary (rationale.go), the sealed
  causal chain (chain.go), and the label protocol between the operators that create derived
  objects and the reconcilers that read them (descendant.go).
\<close>


section \<open>rationale.go\<close>

type_synonym CreationRationale = string

abbreviation (input) ClusterProvision :: CreationRationale where
  "ClusterProvision \<equiv> ''ClusterProvision''"

abbreviation (input) ClusterDecommission :: CreationRationale where
  "ClusterDecommission \<equiv> ''ClusterDecommission''"

abbreviation (input) SecurityEnforcement :: CreationRationale where
  "SecurityEnforcement \<equiv> ''SecurityEnforcement''"

abbreviation (input) PackExecution :: CreationRationale where
  "PackExecution \<equiv> ''PackExecution''"

abbreviation (input) VirtualizationFulfillment :: CreationRationale where
  "VirtualizationFulfillment \<equiv> ''VirtualizationFulfillment''"

abbreviation (input) ConductorAssignment :: CreationRationale where
  "ConductorAssignment \<equiv> ''ConductorAssignment''"

abbreviation (input) VortexBinding :: CreationRationale where
  "VortexBinding \<equiv> ''VortexBinding''"


section \<open>chain.go\<close>

record OperatorIdentity =
  oi_Name :: string
  oi_Version :: string

record SealedCausalChain =
  scc_RootKind :: string
  scc_RootName :: string
  scc_RootNamespace :: string
  scc_RootUID :: string
  scc_CreatingOperator :: OperatorIdentity
  scc_CreationRationale :: CreationRationale
  scc_RootGenerationAtCreation :: int


section \<open>descendant.go\<close>

abbreviation (input) LabelRootILINamespace :: string where
  "LabelRootILINamespace \<equiv> ''infrastructure.ontai.dev/root-ili-namespace''"

abbreviation (input) LabelActorRef :: string where
  "LabelActorRef \<equiv> ''infrastructure.ontai.dev/actor-ref''"

abbreviation (input) AnnotationDeclaringPrincipal :: string where
  "AnnotationDeclaringPrincipal \<equiv> ''infrastructure.ontai.dev/declaring-principal''"

definition IndexName :: "string \<Rightarrow> string \<Rightarrow> string" where
  "IndexName kind name = ToLower kind @ ''-'' @ name"

definition SetDescendantLabels ::
  "uobj \<Rightarrow> string \<Rightarrow> string \<Rightarrow> string \<Rightarrow> CreationRationale \<Rightarrow> string \<Rightarrow> uobj" where
  "SetDescendantLabels obj iliName iliNamespace operator rationale actorRef =
     (let labels = u_Labels obj;
          labels = AList.update ''infrastructure.ontai.dev/root-ili'' iliName labels;
          labels = AList.update LabelRootILINamespace iliNamespace labels;
          labels = AList.update ''infrastructure.ontai.dev/seam-operator'' operator labels;
          labels = AList.update ''infrastructure.ontai.dev/creation-rationale'' rationale labels;
          labels = AList.update LabelActorRef actorRef labels
      in obj\<lparr>u_Labels := labels\<rparr>)"

text \<open>
  Two kinds without a hyphen whose lower-case forms differ never share an index name, and
  within one kind the name is recovered: the part after the first hyphen.
\<close>

lemma IndexName_inj:
  assumes "CHR ''-'' \<notin> set (ToLower k)" and "CHR ''-'' \<notin> set (ToLower k')"
    and "IndexName k n = IndexName k' n'"
  shows "ToLower k = ToLower k' \<and> n = n'"
  using assms split_at_inj [of "ToLower k" "CHR ''-''" n "ToLower k'" n'] by (simp add: IndexName_def)

lemma map_of_SetDescendantLabels:
  "map_of (u_Labels (SetDescendantLabels obj n ns op rat actor)) =
     (map_of (u_Labels obj))
       (''infrastructure.ontai.dev/root-ili'' \<mapsto> n, LabelRootILINamespace \<mapsto> ns,
        ''infrastructure.ontai.dev/seam-operator'' \<mapsto> op,
        ''infrastructure.ontai.dev/creation-rationale'' \<mapsto> rat, LabelActorRef \<mapsto> actor)"
  by (simp add: SetDescendantLabels_def Let_def)

end
