(* ===== verification/LineageTypes.thy ===== *)
theory LineageTypes
  imports LineagePkg
begin

text \<open>
  The InfrastructureLineageIndex CRD of
  \<^verbatim>\<open>src/api/v1alpha1/infrastructurelineageindex_types.go\<close>: one record per Go struct, in the
  order of the file. Times are nanoseconds since the epoch, a pointer field is an option, the
  retention period keeps its 32-bit width.
\<close>

record InfrastructureLineageIndexRootBinding =
  rb_RootKind :: string
  rb_RootName :: string
  rb_RootNamespace :: string
  rb_RootUID :: string
  rb_RootObservedGeneration :: int
  rb_DeclaringPrincipal :: string

record DescendantEntry =
  de_Group :: string
  de_Version :: string
  de_Kind :: string
  de_Name :: string
  de_Namespace :: string
  de_UID :: string
  de_SeamOperator :: string
  de_CreationRationale :: CreationRationale
  de_RootGenerationAtCreation :: int
  de_CreatedAt :: "int option"
  de_ActorRef :: string

record InfrastructurePolicyBindingStatus =
  pbs_DomainPolicyRef :: string
  pbs_DomainProfileRef :: string
  pbs_PolicyGenerationAtLastEvaluation :: int
  pbs_DriftDetected :: bool

type_synonym OutcomeType = string

abbreviation (input) OutcomeTypeSucceeded :: OutcomeType where
  "OutcomeTypeSucceeded \<equiv> ''Succeeded''"

abbreviation (input) OutcomeTypeFailed :: OutcomeType where
  "OutcomeTypeFailed \<equiv> ''Failed''"

abbreviation (input) OutcomeTypeDrifted :: OutcomeType where
  "OutcomeTypeDrifted \<equiv> ''Drifted''"

abbreviation (input) OutcomeTypeSuperseded :: OutcomeType where
  "OutcomeTypeSuperseded \<equiv> ''Superseded''"

record OutcomeEntry =
  oe_DerivedObjectUID :: string
  oe_OutcomeType :: OutcomeType
  oe_OutcomeTimestamp :: int
  oe_OutcomeRef :: string
  oe_OutcomeDetail :: string

record LineageRetentionPolicy =
  rp_DescendantRetentionDays :: "32 word"
  rp_DeleteWithRoot :: bool

record InfrastructureLineageIndexSpec =
  spec_RootBinding :: InfrastructureLineageIndexRootBinding
  spec_DomainRef :: string
  spec_DescendantRegistry :: "DescendantEntry list"
  spec_PolicyBindingStatus :: "InfrastructurePolicyBindingStatus option"
  spec_OutcomeRegistry :: "OutcomeEntry list"
  spec_RetentionPolicy :: "LineageRetentionPolicy option"

record InfrastructureLineageIndexStatus =
  status_ObservedGeneration :: int
  status_Conditions :: "Condition list"

record InfrastructureLineageIndex =
  ili_Meta :: ObjectMeta
  ili_Spec :: InfrastructureLineageIndexSpec
  ili_Status :: InfrastructureLineageIndexStatus

type_synonym ILI = InfrastructureLineageIndex

abbreviation ili_RootBinding :: "ILI \<Rightarrow> InfrastructureLineageIndexRootBinding" where
  "ili_RootBinding x \<equiv> spec_RootBinding (ili_Spec x)"

abbreviation ili_Descendants :: "ILI \<Rightarrow> DescendantEntry list" where
  "ili_Descendants x \<equiv> spec_DescendantRegistry (ili_Spec x)"

abbreviation ili_Outcomes :: "ILI \<Rightarrow> OutcomeEntry list" where
  "ili_Outcomes x \<equiv> spec_OutcomeRegistry (ili_Spec x)"

text \<open>Replacing one part of an index, as an in-place assignment followed by a patch does.\<close>

definition set_Descendants :: "DescendantEntry list \<Rightarrow> ILI \<Rightarrow> ILI" where
  "set_Descendants ds x = x\<lparr>ili_Spec := (ili_Spec x)\<lparr>spec_DescendantRegistry := ds\<rparr>\<rparr>"

definition set_Outcomes :: "OutcomeEntry list \<Rightarrow> ILI \<Rightarrow> ILI" where
  "set_Outcomes os x = x\<lparr>ili_Spec := (ili_Spec x)\<lparr>spec_OutcomeRegistry := os\<rparr>\<rparr>"

definition set_OwnerReferences :: "OwnerReference list \<Rightarrow> ILI \<Rightarrow> ILI" where
  "set_OwnerReferences rs x = x\<lparr>ili_Meta := (ili_Meta x)\<lparr>om_OwnerReferences := rs\<rparr>\<rparr>"

lemmas ili_setters = set_Descendants_def set_Outcomes_def set_OwnerReferences_def

definition ili_key :: "ILI \<Rightarrow> NamespacedName" where
  "ili_key x = \<lparr>nn_Namespace = om_Namespace (ili_Meta x), nn_Name = om_Name (ili_Meta x)\<rparr>"

lemma ili_key_setters [simp]:
  "ili_key (set_Descendants ds x) = ili_key x"
  "ili_key (set_Outcomes os x) = ili_key x"
  "ili_key (set_OwnerReferences rs x) = ili_key x"
  by (simp_all add: ili_key_def ili_setters)

lemma ili_Meta_setters [simp]:
  "ili_Meta (set_Descendants ds x) = ili_Meta x"
  "ili_Meta (set_Outcomes os x) = ili_Meta x"
  "om_OwnerReferences (ili_Meta (set_OwnerReferences rs x)) = rs"
  by (simp_all add: ili_setters)

lemma ili_Spec_setters [simp]:
  "ili_Spec (set_OwnerReferences rs x) = ili_Spec x"
  "ili_Status (set_OwnerReferences rs x) = ili_Status x"
  "ili_Status (set_Descendants ds x) = ili_Status x"
  "ili_Status (set_Outcomes os x) = ili_Status x"
  "ili_Descendants (set_Descendants ds x) = ds"
  "ili_Outcomes (set_Outcomes os x) = os"
  "ili_Outcomes (set_Descendants ds x) = ili_Outcomes x"
  "ili_Descendants (set_Outcomes os x) = ili_Descendants x"
  "ili_RootBinding (set_Descendants ds x) = ili_RootBinding x"
  "ili_RootBinding (set_Outcomes os x) = ili_RootBinding x"
  "spec_DomainRef (ili_Spec (set_Descendants ds x)) = spec_DomainRef (ili_Spec x)"
  "spec_DomainRef (ili_Spec (set_Outcomes os x)) = spec_DomainRef (ili_Spec x)"
  "spec_RetentionPolicy (ili_Spec (set_Descendants ds x)) = spec_RetentionPolicy (ili_Spec x)"
  "spec_RetentionPolicy (ili_Spec (set_Outcomes os x)) = spec_RetentionPolicy (ili_Spec x)"
  by (simp_all add: ili_setters)

end
