(* ===== verification/Client.thy ===== *)
theory Client
  imports LineageTypes
begin

text \<open>
  The API client (\<^verbatim>\<open>sigs.k8s.io/controller-runtime/pkg/client\<close>) and the clock as a parameter.
  A world of any type \<open>'w\<close> stands for everything outside the process; each call takes
  the world, may fail, and returns the world after it. Nothing is assumed of a client unless a
  theorem says so: whatever other writers do between two calls is part of the calls. A
  successful write returns the object the server answered with, which replaces the caller's copy.

  \<open>documented\<close> collects what the documentation of the API server promises when nobody else
  writes: reads return the stored object, a create fails on an existing name, a merge patch
  against an unchanged base stores the modified object, an update stores its argument and the
  last finalizer's removal from a deleted object removes it; any call may fail without an effect.
  \<open>mem_client\<close> is an in-memory server with this behaviour.
\<close>

record 'w client =
  cl_Get :: "GVK \<Rightarrow> NamespacedName \<Rightarrow> 'w \<Rightarrow> (api_error + uobj) \<times> 'w"
  cl_Patch :: "GVK \<Rightarrow> uobj \<Rightarrow> uobj \<Rightarrow> 'w \<Rightarrow> (api_error + uobj) \<times> 'w"
  cl_StatusPatch :: "GVK \<Rightarrow> uobj \<Rightarrow> uobj \<Rightarrow> 'w \<Rightarrow> (api_error + uobj) \<times> 'w"
  cl_Update :: "GVK \<Rightarrow> uobj \<Rightarrow> 'w \<Rightarrow> (api_error + uobj) \<times> 'w"
  cl_GetILI :: "NamespacedName \<Rightarrow> 'w \<Rightarrow> (api_error + ILI) \<times> 'w"
  cl_CreateILI :: "ILI \<Rightarrow> 'w \<Rightarrow> (api_error + ILI) \<times> 'w"
  cl_PatchILI :: "ILI \<Rightarrow> ILI \<Rightarrow> 'w \<Rightarrow> (api_error + ILI) \<times> 'w"
  cl_GetCM :: "NamespacedName \<Rightarrow> 'w \<Rightarrow> (api_error + ConfigMap) \<times> 'w"
  cl_CreateCM :: "ConfigMap \<Rightarrow> 'w \<Rightarrow> (api_error + ConfigMap) \<times> 'w"
  cl_PatchCM :: "ConfigMap \<Rightarrow> ConfigMap \<Rightarrow> 'w \<Rightarrow> (api_error + ConfigMap) \<times> 'w"
  cl_Now :: "'w \<Rightarrow> int"  \<comment> \<open>\<^verbatim>\<open>time.Now\<close>, nanoseconds since the epoch\<close>

text \<open>The calls as actions of the state monad; a patch takes the modified object and its base.\<close>

definition Get :: "'w client \<Rightarrow> GVK \<Rightarrow> NamespacedName \<Rightarrow> ('w, api_error + uobj) state" where
  "Get c g k = State (cl_Get c g k)"

definition Patch :: "'w client \<Rightarrow> GVK \<Rightarrow> uobj \<Rightarrow> uobj \<Rightarrow> ('w, api_error + uobj) state" where
  "Patch c g obj base = State (cl_Patch c g obj base)"

definition StatusPatch :: "'w client \<Rightarrow> GVK \<Rightarrow> uobj \<Rightarrow> uobj \<Rightarrow> ('w, api_error + uobj) state" where
  "StatusPatch c g obj base = State (cl_StatusPatch c g obj base)"

definition Update :: "'w client \<Rightarrow> GVK \<Rightarrow> uobj \<Rightarrow> ('w, api_error + uobj) state" where
  "Update c g obj = State (cl_Update c g obj)"

definition GetILI :: "'w client \<Rightarrow> NamespacedName \<Rightarrow> ('w, api_error + ILI) state" where
  "GetILI c k = State (cl_GetILI c k)"

definition CreateILI :: "'w client \<Rightarrow> ILI \<Rightarrow> ('w, api_error + ILI) state" where
  "CreateILI c x = State (cl_CreateILI c x)"

definition PatchILI :: "'w client \<Rightarrow> ILI \<Rightarrow> ILI \<Rightarrow> ('w, api_error + ILI) state" where
  "PatchILI c x base = State (cl_PatchILI c x base)"

definition GetCM :: "'w client \<Rightarrow> NamespacedName \<Rightarrow> ('w, api_error + ConfigMap) state" where
  "GetCM c k = State (cl_GetCM c k)"

definition CreateCM :: "'w client \<Rightarrow> ConfigMap \<Rightarrow> ('w, api_error + ConfigMap) state" where
  "CreateCM c x = State (cl_CreateCM c x)"

definition PatchCM :: "'w client \<Rightarrow> ConfigMap \<Rightarrow> ConfigMap \<Rightarrow> ('w, api_error + ConfigMap) state" where
  "PatchCM c x base = State (cl_PatchCM c x base)"

definition Now :: "'w client \<Rightarrow> ('w, int) state" where
  "Now c = State (\<lambda>w. (cl_Now c w, w))"

lemmas client_call_defs = Get_def Patch_def StatusPatch_def Update_def GetILI_def CreateILI_def
  PatchILI_def GetCM_def CreateCM_def PatchCM_def Now_def

lemma run_Now [simp]: "run_state (Now c) w = (cl_Now c w, w)"
  by (simp add: Now_def)

lemma wp_Now [wp]: "wp_of (Now c) Q w = Q (cl_Now c w) w"
  by (simp add: wp_of_def)


section \<open>What the API server documents\<close>

text \<open>What a client of the API can observe of a world.\<close>

record 'w view =
  vw_Obj :: "'w \<Rightarrow> GVK \<Rightarrow> NamespacedName \<Rightarrow> uobj option"
  vw_ILI :: "'w \<Rightarrow> NamespacedName \<Rightarrow> ILI option"
  vw_CM :: "'w \<Rightarrow> NamespacedName \<Rightarrow> ConfigMap option"

definition same_view :: "'w view \<Rightarrow> 'w \<Rightarrow> 'w \<Rightarrow> bool" where
  "same_view v w w' \<longleftrightarrow>
     vw_Obj v w' = vw_Obj v w \<and> vw_ILI v w' = vw_ILI v w \<and> vw_CM v w' = vw_CM v w"

definition put_Obj :: "'w view \<Rightarrow> GVK \<Rightarrow> NamespacedName \<Rightarrow> uobj option \<Rightarrow> 'w \<Rightarrow> 'w \<Rightarrow> bool" where
  "put_Obj v g k obj w w' \<longleftrightarrow>
     vw_Obj v w' = (vw_Obj v w)(g := (vw_Obj v w g)(k := obj)) \<and>
     vw_ILI v w' = vw_ILI v w \<and> vw_CM v w' = vw_CM v w"

definition put_ILI :: "'w view \<Rightarrow> NamespacedName \<Rightarrow> ILI \<Rightarrow> 'w \<Rightarrow> 'w \<Rightarrow> bool" where
  "put_ILI v k x w w' \<longleftrightarrow>
     vw_Obj v w' = vw_Obj v w \<and> vw_ILI v w' = (vw_ILI v w)(k \<mapsto> x) \<and> vw_CM v w' = vw_CM v w"

definition put_CM :: "'w view \<Rightarrow> NamespacedName \<Rightarrow> ConfigMap \<Rightarrow> 'w \<Rightarrow> 'w \<Rightarrow> bool" where
  "put_CM v k x w w' \<longleftrightarrow>
     vw_Obj v w' = vw_Obj v w \<and> vw_ILI v w' = vw_ILI v w \<and> vw_CM v w' = (vw_CM v w)(k \<mapsto> x)"

text \<open>Reading: the stored object, or the reason there is none, or a failed call.\<close>

definition read_answer :: "'a option \<Rightarrow> api_error + 'a \<Rightarrow> bool" where
  "read_answer stored r \<longleftrightarrow>
     (case r of Inr x \<Rightarrow> stored = Some x | Inl e \<Rightarrow> e = NotFound \<longrightarrow> stored = None)"

text \<open>Writing: the new object is stored and returned, or the call failed without an effect.\<close>

definition write_answer :: "bool \<Rightarrow> bool \<Rightarrow> 'a \<Rightarrow> api_error + 'a \<Rightarrow> bool" where
  "write_answer unchanged stored x r \<longleftrightarrow> (case r of Inr y \<Rightarrow> y = x \<and> stored | Inl _ \<Rightarrow> unchanged)"

definition documented_reads :: "'w client \<Rightarrow> 'w view \<Rightarrow> bool" where
  "documented_reads c v \<longleftrightarrow>
     (\<forall>g k w. read_answer (vw_Obj v w g k) (fst (cl_Get c g k w)) \<and>
        same_view v w (snd (cl_Get c g k w))) \<and>
     (\<forall>k w. read_answer (vw_ILI v w k) (fst (cl_GetILI c k w)) \<and>
        same_view v w (snd (cl_GetILI c k w))) \<and>
     (\<forall>k w. read_answer (vw_CM v w k) (fst (cl_GetCM c k w)) \<and>
        same_view v w (snd (cl_GetCM c k w)))"

definition documented_keys :: "'w view \<Rightarrow> bool" where
  "documented_keys v \<longleftrightarrow>
     (\<forall>w g k x. vw_Obj v w g k = Some x \<longrightarrow> u_key x = k) \<and>
     (\<forall>w k x. vw_ILI v w k = Some x \<longrightarrow> ili_key x = k) \<and>
     (\<forall>w k x. vw_CM v w k = Some x \<longrightarrow> cm_key x = k)"

definition documented_creates :: "'w client \<Rightarrow> 'w view \<Rightarrow> bool" where
  "documented_creates c v \<longleftrightarrow>
     (\<forall>x w. case cl_CreateILI c x w of (r, w') \<Rightarrow>
        (if vw_ILI v w (ili_key x) = None
         then write_answer (same_view v w w') (put_ILI v (ili_key x) x w w') x r \<and> r \<noteq> Inl AlreadyExists
         else (\<exists>e. r = Inl e) \<and> same_view v w w')) \<and>
     (\<forall>x w. case cl_CreateCM c x w of (r, w') \<Rightarrow>
        (if vw_CM v w (cm_key x) = None
         then write_answer (same_view v w w') (put_CM v (cm_key x) x w w') x r \<and> r \<noteq> Inl AlreadyExists
         else (\<exists>e. r = Inl e) \<and> same_view v w w'))"

text \<open>A patch whose base is what is stored, and that keeps the object's name, stores the result.\<close>

definition documented_patches :: "'w client \<Rightarrow> 'w view \<Rightarrow> bool" where
  "documented_patches c v \<longleftrightarrow>
     (\<forall>g x b w. vw_Obj v w g (u_key b) = Some b \<and> u_key x = u_key b \<longrightarrow>
        (case cl_Patch c g x b w of (r, w') \<Rightarrow>
           write_answer (same_view v w w') (put_Obj v g (u_key b) (Some x) w w') x r)) \<and>
     (\<forall>g x b w. vw_Obj v w g (u_key b) = Some b \<and> u_key x = u_key b \<longrightarrow>
        (case cl_StatusPatch c g x b w of (r, w') \<Rightarrow>
           write_answer (same_view v w w') (put_Obj v g (u_key b) (Some x) w w') x r)) \<and>
     (\<forall>x b w. vw_ILI v w (ili_key b) = Some b \<and> ili_key x = ili_key b \<longrightarrow>
        (case cl_PatchILI c x b w of (r, w') \<Rightarrow>
           write_answer (same_view v w w') (put_ILI v (ili_key b) x w w') x r)) \<and>
     (\<forall>x b w. vw_CM v w (cm_key b) = Some b \<and> cm_key x = cm_key b \<longrightarrow>
        (case cl_PatchCM c x b w of (r, w') \<Rightarrow>
           write_answer (same_view v w w') (put_CM v (cm_key b) x w w') x r))"

text \<open>
  An update stores the object, except that a deleted object without finalizers is removed; it
  fails on an object that is not stored.
\<close>

definition documented_updates :: "'w client \<Rightarrow> 'w view \<Rightarrow> bool" where
  "documented_updates c v \<longleftrightarrow>
     (\<forall>g x w. case cl_Update c g x w of (r, w') \<Rightarrow>
        (if vw_Obj v w g (u_key x) = None then (\<exists>e. r = Inl e) \<and> same_view v w w'
         else write_answer (same_view v w w')
           (put_Obj v g (u_key x) (if u_Deleting x \<and> u_Finalizers x = [] then None else Some x) w w') x r))"

definition documented :: "'w client \<Rightarrow> 'w view \<Rightarrow> bool" where
  "documented c v \<longleftrightarrow> documented_reads c v \<and> documented_keys v \<and> documented_creates c v \<and>
     documented_patches c v \<and> documented_updates c v"

text \<open>
  A server that answers: no call fails for a reason other than the state of the store. A client
  of a documented server that answers never sees an unexplained error.
\<close>

definition answers :: "'w client \<Rightarrow> 'w view \<Rightarrow> bool" where
  "answers c v \<longleftrightarrow>
     (\<forall>g k w e. fst (cl_Get c g k w) = Inl e \<longrightarrow> e = NotFound) \<and>
     (\<forall>k w e. fst (cl_GetILI c k w) = Inl e \<longrightarrow> e = NotFound) \<and>
     (\<forall>k w e. fst (cl_GetCM c k w) = Inl e \<longrightarrow> e = NotFound) \<and>
     (\<forall>x w. vw_ILI v w (ili_key x) = None \<longrightarrow> (\<exists>y. fst (cl_CreateILI c x w) = Inr y)) \<and>
     (\<forall>x w. vw_CM v w (cm_key x) = None \<longrightarrow> (\<exists>y. fst (cl_CreateCM c x w) = Inr y)) \<and>
     (\<forall>g x b w. vw_Obj v w g (u_key b) = Some b \<and> u_key x = u_key b \<longrightarrow> (\<exists>y. fst (cl_Patch c g x b w) = Inr y)) \<and>
     (\<forall>g x b w. vw_Obj v w g (u_key b) = Some b \<and> u_key x = u_key b \<longrightarrow> (\<exists>y. fst (cl_StatusPatch c g x b w) = Inr y)) \<and>
     (\<forall>x b w. vw_ILI v w (ili_key b) = Some b \<and> ili_key x = ili_key b \<longrightarrow> (\<exists>y. fst (cl_PatchILI c x b w) = Inr y)) \<and>
     (\<forall>x b w. vw_CM v w (cm_key b) = Some b \<and> cm_key x = cm_key b \<longrightarrow> (\<exists>y. fst (cl_PatchCM c x b w) = Inr y)) \<and>
     (\<forall>g x w. vw_Obj v w g (u_key x) \<noteq> None \<longrightarrow> (\<exists>y. fst (cl_Update c g x w) = Inr y))"


section \<open>Rules for calls to a documented server\<close>

lemma IsNotFound_iff [simp]: "IsNotFound e \<longleftrightarrow> e = NotFound"
  by (cases e) auto

lemma IsAlreadyExists_iff [simp]: "IsAlreadyExists e \<longleftrightarrow> e = AlreadyExists"
  by (cases e) auto

lemma same_view_refl [simp]: "same_view v w w"
  by (simp add: same_view_def)

lemma same_view_trans: "same_view v w w' \<Longrightarrow> same_view v w' w'' \<Longrightarrow> same_view v w w''"
  by (simp add: same_view_def)

lemma read_answer_cases:
  assumes "read_answer stored r"
  obtains (found) x where "r = Inr x" and "stored = Some x"
  | (missing) "r = Inl NotFound" and "stored = None"
  | (failed) e where "r = Inl e" and "e \<noteq> NotFound"
  using assms by (cases r) (auto simp: read_answer_def)

lemma wp_Get_documented:
  assumes "documented c v"
    and "\<And>x w'. vw_Obj v w g k = Some x \<Longrightarrow> u_key x = k \<Longrightarrow> same_view v w w' \<Longrightarrow> Q (Inr x) w'"
    and "\<And>w'. vw_Obj v w g k = None \<Longrightarrow> same_view v w w' \<Longrightarrow> Q (Inl NotFound) w'"
    and "\<And>e w'. e \<noteq> NotFound \<Longrightarrow> same_view v w w' \<Longrightarrow> Q (Inl e) w'"
  shows "wp_of (Get c g k) Q w"
proof -
  obtain r w' where call: "cl_Get c g k w = (r, w')" by fastforce
  with assms(1) have "read_answer (vw_Obj v w g k) r" and s: "same_view v w w'"
    and key: "\<And>x. vw_Obj v w g k = Some x \<Longrightarrow> u_key x = k"
    by (auto simp: documented_def documented_keys_def documented_reads_def
        dest!: spec [of _ g] spec [of _ k] spec [of _ w])
  from this(1) have "Q r w'"
    by (cases rule: read_answer_cases) (auto intro: assms(2-4) s key)
  then show ?thesis by (simp add: Get_def wp call)
qed

lemma wp_GetILI_documented:
  assumes "documented c v"
    and "\<And>x w'. vw_ILI v w k = Some x \<Longrightarrow> ili_key x = k \<Longrightarrow> same_view v w w' \<Longrightarrow> Q (Inr x) w'"
    and "\<And>w'. vw_ILI v w k = None \<Longrightarrow> same_view v w w' \<Longrightarrow> Q (Inl NotFound) w'"
    and "\<And>e w'. e \<noteq> NotFound \<Longrightarrow> same_view v w w' \<Longrightarrow> Q (Inl e) w'"
  shows "wp_of (GetILI c k) Q w"
proof -
  obtain r w' where call: "cl_GetILI c k w = (r, w')" by fastforce
  with assms(1) have "read_answer (vw_ILI v w k) r" and s: "same_view v w w'"
    and key: "\<And>x. vw_ILI v w k = Some x \<Longrightarrow> ili_key x = k"
    by (auto simp: documented_def documented_keys_def documented_reads_def
        dest!: spec [of _ k] spec [of _ w])
  from this(1) have "Q r w'"
    by (cases rule: read_answer_cases) (auto intro: assms(2-4) s key)
  then show ?thesis by (simp add: GetILI_def wp call)
qed

lemma wp_GetCM_documented:
  assumes "documented c v"
    and "\<And>x w'. vw_CM v w k = Some x \<Longrightarrow> cm_key x = k \<Longrightarrow> same_view v w w' \<Longrightarrow> Q (Inr x) w'"
    and "\<And>w'. vw_CM v w k = None \<Longrightarrow> same_view v w w' \<Longrightarrow> Q (Inl NotFound) w'"
    and "\<And>e w'. e \<noteq> NotFound \<Longrightarrow> same_view v w w' \<Longrightarrow> Q (Inl e) w'"
  shows "wp_of (GetCM c k) Q w"
proof -
  obtain r w' where call: "cl_GetCM c k w = (r, w')" by fastforce
  with assms(1) have "read_answer (vw_CM v w k) r" and s: "same_view v w w'"
    and key: "\<And>x. vw_CM v w k = Some x \<Longrightarrow> cm_key x = k"
    by (auto simp: documented_def documented_keys_def documented_reads_def
        dest!: spec [of _ k] spec [of _ w])
  from this(1) have "Q r w'"
    by (cases rule: read_answer_cases) (auto intro: assms(2-4) s key)
  then show ?thesis by (simp add: GetCM_def wp call)
qed

lemma wp_CreateILI_documented:
  assumes "documented c v" and "vw_ILI v w (ili_key x) = None"
    and "\<And>w'. put_ILI v (ili_key x) x w w' \<Longrightarrow> Q (Inr x) w'"
    and "\<And>e w'. e \<noteq> AlreadyExists \<Longrightarrow> same_view v w w' \<Longrightarrow> Q (Inl e) w'"
  shows "wp_of (CreateILI c x) Q w"
proof -
  obtain r w' where call: "cl_CreateILI c x w = (r, w')" by fastforce
  with assms(1) have "write_answer (same_view v w w') (put_ILI v (ili_key x) x w w') x r \<and> r \<noteq> Inl AlreadyExists"
    unfolding documented_def documented_creates_def
    by (auto simp: assms(2) dest!: spec [of _ x] spec [of _ w])
  then have "Q r w'"
    by (cases r) (auto simp: write_answer_def intro: assms(3,4))
  then show ?thesis by (simp add: CreateILI_def wp call)
qed

lemma wp_CreateCM_documented:
  assumes "documented c v" and "vw_CM v w (cm_key x) = None"
    and "\<And>w'. put_CM v (cm_key x) x w w' \<Longrightarrow> Q (Inr x) w'"
    and "\<And>e w'. e \<noteq> AlreadyExists \<Longrightarrow> same_view v w w' \<Longrightarrow> Q (Inl e) w'"
  shows "wp_of (CreateCM c x) Q w"
proof -
  obtain r w' where call: "cl_CreateCM c x w = (r, w')" by fastforce
  with assms(1) have "write_answer (same_view v w w') (put_CM v (cm_key x) x w w') x r \<and> r \<noteq> Inl AlreadyExists"
    unfolding documented_def documented_creates_def
    by (auto simp: assms(2) dest!: spec [of _ x] spec [of _ w])
  then have "Q r w'"
    by (cases r) (auto simp: write_answer_def intro: assms(3,4))
  then show ?thesis by (simp add: CreateCM_def wp call)
qed

lemma wp_PatchILI_documented:
  assumes "documented c v" and "vw_ILI v w (ili_key b) = Some b" and "ili_key x = ili_key b"
    and "\<And>w'. put_ILI v (ili_key b) x w w' \<Longrightarrow> Q (Inr x) w'"
    and "\<And>e w'. same_view v w w' \<Longrightarrow> Q (Inl e) w'"
  shows "wp_of (PatchILI c x b) Q w"
proof -
  obtain r w' where call: "cl_PatchILI c x b w = (r, w')" by fastforce
  have "write_answer (same_view v w w') (put_ILI v (ili_key b) x w w') x r"
    using assms(1-3) call unfolding documented_def documented_patches_def by fastforce
  then have "Q r w'" by (cases r) (auto simp: write_answer_def intro: assms(4,5))
  then show ?thesis by (simp add: PatchILI_def wp call)
qed

lemma wp_PatchCM_documented:
  assumes "documented c v" and "vw_CM v w (cm_key b) = Some b" and "cm_key x = cm_key b"
    and "\<And>w'. put_CM v (cm_key b) x w w' \<Longrightarrow> Q (Inr x) w'"
    and "\<And>e w'. same_view v w w' \<Longrightarrow> Q (Inl e) w'"
  shows "wp_of (PatchCM c x b) Q w"
proof -
  obtain r w' where call: "cl_PatchCM c x b w = (r, w')" by fastforce
  have "write_answer (same_view v w w') (put_CM v (cm_key b) x w w') x r"
    using assms(1-3) call unfolding documented_def documented_patches_def by fastforce
  then have "Q r w'" by (cases r) (auto simp: write_answer_def intro: assms(4,5))
  then show ?thesis by (simp add: PatchCM_def wp call)
qed

lemma wp_Patch_documented:
  assumes "documented c v" and "vw_Obj v w g (u_key b) = Some b" and "u_key x = u_key b"
    and "\<And>w'. put_Obj v g (u_key b) (Some x) w w' \<Longrightarrow> Q (Inr x) w'"
    and "\<And>e w'. same_view v w w' \<Longrightarrow> Q (Inl e) w'"
  shows "wp_of (Patch c g x b) Q w"
proof -
  obtain r w' where call: "cl_Patch c g x b w = (r, w')" by fastforce
  have "write_answer (same_view v w w') (put_Obj v g (u_key b) (Some x) w w') x r"
    using assms(1-3) call unfolding documented_def documented_patches_def by fastforce
  then have "Q r w'" by (cases r) (auto simp: write_answer_def intro: assms(4,5))
  then show ?thesis by (simp add: Patch_def wp call)
qed

lemma wp_StatusPatch_documented:
  assumes "documented c v" and "vw_Obj v w g (u_key b) = Some b" and "u_key x = u_key b"
    and "\<And>w'. put_Obj v g (u_key b) (Some x) w w' \<Longrightarrow> Q (Inr x) w'"
    and "\<And>e w'. same_view v w w' \<Longrightarrow> Q (Inl e) w'"
  shows "wp_of (StatusPatch c g x b) Q w"
proof -
  obtain r w' where call: "cl_StatusPatch c g x b w = (r, w')" by fastforce
  have "write_answer (same_view v w w') (put_Obj v g (u_key b) (Some x) w w') x r"
    using assms(1-3) call unfolding documented_def documented_patches_def by fastforce
  then have "Q r w'" by (cases r) (auto simp: write_answer_def intro: assms(4,5))
  then show ?thesis by (simp add: StatusPatch_def wp call)
qed

lemma wp_Update_documented:
  assumes "documented c v" and "vw_Obj v w g (u_key x) \<noteq> None"
    and "\<And>w'. put_Obj v g (u_key x) (if u_Deleting x \<and> u_Finalizers x = [] then None else Some x) w w' \<Longrightarrow> Q (Inr x) w'"
    and "\<And>e w'. same_view v w w' \<Longrightarrow> Q (Inl e) w'"
  shows "wp_of (Update c g x) Q w"
proof -
  obtain r w' where call: "cl_Update c g x w = (r, w')" by fastforce
  have "write_answer (same_view v w w')
      (put_Obj v g (u_key x) (if u_Deleting x \<and> u_Finalizers x = [] then None else Some x) w w') x r"
  proof -
    have "documented_updates c v" using assms(1) by (simp add: documented_def)
    from this [unfolded documented_updates_def, THEN spec, of g, THEN spec, of x, THEN spec, of w] show ?thesis
      using assms(2) by (auto simp: call)
  qed
  then have "Q r w'" by (cases r) (auto simp: write_answer_def intro: assms(3,4))
  then show ?thesis by (simp add: Update_def wp call)
qed


section \<open>An in-memory server\<close>

record mem =
  mem_Obj :: "GVK \<Rightarrow> NamespacedName \<Rightarrow> uobj option"
  mem_ILI :: "NamespacedName \<Rightarrow> ILI option"
  mem_CM :: "NamespacedName \<Rightarrow> ConfigMap option"
  mem_Now :: int

text \<open>An object is visible under its own name only.\<close>

definition visible :: "('a \<Rightarrow> NamespacedName) \<Rightarrow> (NamespacedName \<Rightarrow> 'a option) \<Rightarrow> NamespacedName \<Rightarrow> 'a option" where
  "visible key m k = (case m k of None \<Rightarrow> None | Some x \<Rightarrow> if key x = k then Some x else None)"

definition mem_read :: "'a option \<Rightarrow> api_error + 'a" where
  "mem_read stored = (case stored of None \<Rightarrow> Inl NotFound | Some x \<Rightarrow> Inr x)"

definition mem_view :: "mem view" where
  "mem_view = \<lparr>vw_Obj = (\<lambda>w g. visible u_key (mem_Obj w g)), vw_ILI = (\<lambda>w. visible ili_key (mem_ILI w)),
     vw_CM = (\<lambda>w. visible cm_key (mem_CM w))\<rparr>"

definition mem_set :: "GVK \<Rightarrow> NamespacedName \<Rightarrow> uobj option \<Rightarrow> mem \<Rightarrow> mem" where
  "mem_set g k x w = w\<lparr>mem_Obj := (mem_Obj w)(g := (mem_Obj w g)(k := x))\<rparr>"

definition mem_patch :: "GVK \<Rightarrow> uobj \<Rightarrow> uobj \<Rightarrow> mem \<Rightarrow> (api_error + uobj) \<times> mem" where
  "mem_patch g x b w =
     (if visible u_key (mem_Obj w g) (u_key b) = None then (Inl NotFound, w)
      else (Inr x, mem_set g (u_key b) (Some x) w))"

definition mem_update :: "GVK \<Rightarrow> uobj \<Rightarrow> mem \<Rightarrow> (api_error + uobj) \<times> mem" where
  "mem_update g x w =
     (if visible u_key (mem_Obj w g) (u_key x) = None then (Inl NotFound, w)
      else (Inr x, mem_set g (u_key x) (if u_Deleting x \<and> u_Finalizers x = [] then None else Some x) w))"

definition mem_client :: "mem client" where
  "mem_client =
     \<lparr>cl_Get = (\<lambda>g k w. (mem_read (visible u_key (mem_Obj w g) k), w)),
      cl_Patch = mem_patch, cl_StatusPatch = mem_patch, cl_Update = mem_update,
      cl_GetILI = (\<lambda>k w. (mem_read (visible ili_key (mem_ILI w) k), w)),
      cl_CreateILI = (\<lambda>x w. if visible ili_key (mem_ILI w) (ili_key x) = None
        then (Inr x, w\<lparr>mem_ILI := (mem_ILI w)(ili_key x \<mapsto> x)\<rparr>) else (Inl AlreadyExists, w)),
      cl_PatchILI = (\<lambda>x b w. if visible ili_key (mem_ILI w) (ili_key b) = None then (Inl NotFound, w)
        else (Inr x, w\<lparr>mem_ILI := (mem_ILI w)(ili_key b \<mapsto> x)\<rparr>)),
      cl_GetCM = (\<lambda>k w. (mem_read (visible cm_key (mem_CM w) k), w)),
      cl_CreateCM = (\<lambda>x w. if visible cm_key (mem_CM w) (cm_key x) = None
        then (Inr x, w\<lparr>mem_CM := (mem_CM w)(cm_key x \<mapsto> x)\<rparr>) else (Inl AlreadyExists, w)),
      cl_PatchCM = (\<lambda>x b w. if visible cm_key (mem_CM w) (cm_key b) = None then (Inl NotFound, w)
        else (Inr x, w\<lparr>mem_CM := (mem_CM w)(cm_key b \<mapsto> x)\<rparr>)),
      cl_Now = mem_Now\<rparr>"

lemma visible_key: "visible key m k = Some x \<Longrightarrow> key x = k"
  by (auto simp: visible_def split: option.splits if_splits)

lemma visible_put: "key x = k \<Longrightarrow> visible key (m(k \<mapsto> x)) = (visible key m)(k \<mapsto> x)"
  by (auto simp: visible_def fun_eq_iff)

lemma visible_remove: "visible key (m(k := None)) = (visible key m)(k := None)"
  by (auto simp: visible_def fun_eq_iff)

lemma read_answer_mem [simp]: "read_answer stored (mem_read stored)"
  by (simp add: read_answer_def mem_read_def split: option.split)

lemma mem_set_view:
  "x = None \<or> u_key (the x) = k \<Longrightarrow> put_Obj mem_view g k x w (mem_set g k x w)"
  by (cases x) (auto simp: put_Obj_def mem_view_def mem_set_def visible_put visible_remove fun_eq_iff)

lemma mem_reads: "documented_reads mem_client mem_view"
  by (simp add: documented_reads_def mem_client_def mem_view_def)

lemma mem_keys: "documented_keys mem_view"
  by (auto simp: documented_keys_def mem_view_def dest: visible_key)

lemma mem_creates: "documented_creates mem_client mem_view"
  by (auto simp: documented_creates_def mem_client_def mem_view_def write_answer_def
      put_ILI_def put_CM_def visible_put)

lemma mem_patch_view:
  assumes "visible u_key (mem_Obj w g) (u_key b) = Some b" and "u_key x = u_key b"
    and "mem_patch g x b w = (r, w')"
  shows "write_answer (same_view mem_view w w') (put_Obj mem_view g (u_key b) (Some x) w w') x r"
  using assms mem_set_view [of "Some x" "u_key b" g w] by (auto simp: mem_patch_def write_answer_def)

lemma mem_patches: "documented_patches mem_client mem_view"
proof -
  have "vw_Obj mem_view = (\<lambda>w g. visible u_key (mem_Obj w g))"
    by (simp add: mem_view_def)
  then show ?thesis
    unfolding documented_patches_def
    by (auto simp: mem_client_def intro: mem_patch_view)
      (auto simp: mem_view_def write_answer_def put_ILI_def put_CM_def visible_put)
qed

lemma mem_updates: "documented_updates mem_client mem_view"
proof -
  have "vw_Obj mem_view = (\<lambda>w g. visible u_key (mem_Obj w g))"
    by (simp add: mem_view_def)
  then show ?thesis
    unfolding documented_updates_def
    by (auto simp: mem_client_def mem_update_def write_answer_def intro!: mem_set_view)
qed

lemma mem_documented: "documented mem_client mem_view"
  using mem_reads mem_keys mem_creates mem_patches mem_updates by (simp add: documented_def)

lemma mem_answers: "answers mem_client mem_view"
  by (auto simp: answers_def mem_client_def mem_view_def mem_read_def mem_patch_def mem_update_def
      split: option.splits)

text \<open>Evaluating calls of the in-memory server.\<close>

lemma mem_reads_eval:
  "run_state (Get mem_client g k) w = (mem_read (visible u_key (mem_Obj w g) k), w)"
  "run_state (GetILI mem_client k) w = (mem_read (visible ili_key (mem_ILI w) k), w)"
  "run_state (GetCM mem_client k) w = (mem_read (visible cm_key (mem_CM w) k), w)"
  "cl_Now mem_client w = mem_Now w"
  by (simp_all add: client_call_defs mem_client_def)

lemma mem_writes_eval:
  "visible u_key (mem_Obj w g) (u_key b) \<noteq> None \<Longrightarrow>
     run_state (Patch mem_client g x b) w = (Inr x, mem_set g (u_key b) (Some x) w)"
  "visible u_key (mem_Obj w g) (u_key b) \<noteq> None \<Longrightarrow>
     run_state (StatusPatch mem_client g x b) w = (Inr x, mem_set g (u_key b) (Some x) w)"
  "visible ili_key (mem_ILI w) (ili_key y) = None \<Longrightarrow>
     run_state (CreateILI mem_client y) w = (Inr y, w\<lparr>mem_ILI := (mem_ILI w)(ili_key y \<mapsto> y)\<rparr>)"
  "visible ili_key (mem_ILI w) (ili_key i) \<noteq> None \<Longrightarrow>
     run_state (PatchILI mem_client y i) w = (Inr y, w\<lparr>mem_ILI := (mem_ILI w)(ili_key i \<mapsto> y)\<rparr>)"
  by (simp_all add: client_call_defs mem_client_def mem_patch_def)

lemma mem_set_eval [simp]:
  "u_key x = k \<Longrightarrow> visible u_key (mem_Obj (mem_set g k (Some x) w) g) k = Some x"
  "mem_ILI (mem_set g k y w) = mem_ILI w" "mem_CM (mem_set g k y w) = mem_CM w" "mem_Now (mem_set g k y w) = mem_Now w"
  by (simp_all add: mem_set_def visible_def)

lemma visible_hit [simp]: "key x = k \<Longrightarrow> visible key (m(k \<mapsto> x)) k = Some x"
  by (simp add: visible_def)

lemma mem_read_eval [simp]: "mem_read (Some x) = Inr x" "mem_read None = Inl NotFound"
  by (simp_all add: mem_read_def)

lemmas mem_eval = mem_reads_eval mem_writes_eval

end
