(* ===== verification/Zone.thy ===== *)
theory Zone
  imports Prelude
begin

text \<open>
  \<^verbatim>\<open>src/internal/dns/zone.go\<close>: DNS records, the in-memory zone file with one slot per
  (type, name) pair, and its rendering as an RFC 1035 zone file. The interface
  \<open>zone_store\<close> states what the zone promises to \<^verbatim>\<open>DSNSState\<close>.
\<close>


section \<open>The contract of a record store\<close>

text \<open>
  Adding a record fills the slot of its key and no other; removing clears one slot. A key
  starts with the record type and a colon, and the rest of a key names its own slot.
\<close>

locale zone_store =
  fixes lookup :: "'z \<Rightarrow> string \<Rightarrow> 'r option"
    and add :: "'z \<Rightarrow> 'r \<Rightarrow> 'z"
    and remove :: "'z \<Rightarrow> string \<Rightarrow> string \<Rightarrow> 'z"
    and rkey :: "string \<Rightarrow> string \<Rightarrow> string"
    and rtype :: "'r \<Rightarrow> string" and rname :: "'r \<Rightarrow> string" and norm :: "'r \<Rightarrow> 'r"
  assumes lookup_add: "lookup (add z r) = (lookup z)(rkey (rtype r) (rname r) \<mapsto> norm r)"
    and lookup_remove: "lookup (remove z t n) = (lookup z)(rkey t n := None)"
    and rkey_shape: "\<exists>m. rkey t n = t @ CHR '':'' # m \<and> rkey t m = rkey t n"
begin

lemma lookup_adds:
  "lookup (foldl add z rs) =
     lookup z ++ map_of (rev (map (\<lambda>r. (rkey (rtype r) (rname r), norm r)) rs))"
  by (induction rs arbitrary: z) (simp_all add: lookup_add)

lemma lookup_removes:
  "lookup (foldl (\<lambda>z (t, n). remove z t n) z ks) = lookup z |` (- (\<lambda>(t, n). rkey t n) ` set ks)"
proof (induction ks arbitrary: z)
  case (Cons k ks)
  then show ?case by (cases k) (auto simp: lookup_remove restrict_map_def fun_eq_iff)
qed (simp add: restrict_map_def)

text \<open>Cutting a key at its first colon and removing that slot removes the key itself.\<close>

lemma rkey_cut:
  assumes "CHR '':'' \<notin> set t"
  shows "IndexByte (rkey t n) (CHR '':'') = Some (length t)"
    and "rkey (take (length t) (rkey t n)) (drop (Suc (length t)) (rkey t n)) = rkey t n"
  using rkey_shape [of t n] IndexByte_append [OF assms] by auto

end


section \<open>Records and the zone\<close>

abbreviation (input) ZoneName :: string where
  "ZoneName \<equiv> ''seam.ontave.dev''"

abbreviation (input) DefaultTTL :: int where
  "DefaultTTL \<equiv> 300"

abbreviation (input) DSNSNameserver :: string where
  "DSNSNameserver \<equiv> ''ns.'' @ ZoneName"

abbreviation (input) DSNSSOAContact :: string where
  "DSNSSOAContact \<equiv> ''hostmaster.'' @ ZoneName"

type_synonym RecordType = string

abbreviation (input) RecordTypeA :: RecordType where
  "RecordTypeA \<equiv> ''A''"

abbreviation (input) RecordTypeTXT :: RecordType where
  "RecordTypeTXT \<equiv> ''TXT''"

abbreviation (input) RecordTypeNS :: RecordType where
  "RecordTypeNS \<equiv> ''NS''"

record Record =
  r_Name :: string
  r_Type :: RecordType
  r_TTL :: int
  r_Value :: string

definition recordKey :: "RecordType \<Rightarrow> string \<Rightarrow> string" where
  "recordKey rtype name = rtype @ '':'' @ ToLower name"

record ZoneFile =
  zf_records :: "(string, Record) gomap"

definition NewZoneFile :: ZoneFile where
  "NewZoneFile = \<lparr>zf_records = []\<rparr>"

definition AddRecord :: "ZoneFile \<Rightarrow> Record \<Rightarrow> ZoneFile" where
  "AddRecord z r =
     (let r = (if r_TTL r = 0 then r\<lparr>r_TTL := DefaultTTL\<rparr> else r)
      in z\<lparr>zf_records := AList.update (recordKey (r_Type r) (r_Name r)) r (zf_records z)\<rparr>)"

definition RemoveRecord :: "ZoneFile \<Rightarrow> RecordType \<Rightarrow> string \<Rightarrow> ZoneFile" where
  "RemoveRecord z rtype name =
     z\<lparr>zf_records := AList.delete (recordKey rtype name) (zf_records z)\<rparr>"

text \<open>The three kinds of line \<^verbatim>\<open>Render\<close> writes for a record.\<close>

definition render_record :: "Record \<Rightarrow> string" where
  "render_record r =
     (let ttl = (if r_TTL r = 0 then DefaultTTL else r_TTL r) in
      if r_Type r = RecordTypeTXT then
        r_Name r @ '' '' @ dec_int ttl @ '' IN TXT '' @ [CHR 0x22] @ r_Value r @ [CHR 0x22] @ newline
      else if r_Type r = RecordTypeNS then
        r_Name r @ '' '' @ dec_int ttl @ '' IN NS '' @ r_Value r @ ''.'' @ newline
      else
        r_Name r @ '' '' @ dec_int ttl @ '' IN A '' @ r_Value r @ newline)"

definition render_header :: "int \<Rightarrow> string" where
  "render_header serial =
     ''$ORIGIN '' @ ZoneName @ ''.'' @ newline
     @ ''$TTL '' @ dec_int DefaultTTL @ newline @ newline
     @ ''@ '' @ dec_int DefaultTTL @ '' IN SOA '' @ DSNSNameserver @ ''. '' @ DSNSSOAContact @ ''. ('' @ newline
     @ ''    '' @ dec_int serial @ '' ; serial'' @ newline
     @ ''    3600        ; refresh'' @ newline
     @ ''    900         ; retry'' @ newline
     @ ''    604800      ; expire'' @ newline
     @ ''    '' @ dec_int DefaultTTL @ ''         ; minimum TTL'' @ newline
     @ '')'' @ newline @ newline
     @ ''@ '' @ dec_int DefaultTTL @ '' IN NS '' @ DSNSNameserver @ ''.'' @ newline @ newline"

text \<open>The keys are collected in the map's iteration order and then sorted.\<close>

definition sorted_records :: "ZoneFile \<Rightarrow> Record list" where
  "sorted_records z = map (\<lambda>k. the (map_of (zf_records z) k)) (sort (map fst (zf_records z)))"

text \<open>\<^verbatim>\<open>now\<close> is the clock reading in nanoseconds; the serial is its Unix time in seconds.\<close>

definition Render :: "ZoneFile \<Rightarrow> int \<Rightarrow> string" where
  "Render z now = render_header (now div 1000000000) @ concat (map render_record (sorted_records z))"

definition zone_lookup :: "ZoneFile \<Rightarrow> string \<Rightarrow> Record option" where
  "zone_lookup z = map_of (zf_records z)"

definition with_ttl :: "Record \<Rightarrow> Record" where
  "with_ttl r = (if r_TTL r = 0 then r\<lparr>r_TTL := DefaultTTL\<rparr> else r)"

definition key_of :: "Record \<Rightarrow> string" where
  "key_of r = recordKey (r_Type r) (r_Name r)"

text \<open>The zone's invariant: one slot per key, each record in its own slot, no zero TTL.\<close>

definition zone_ok :: "ZoneFile \<Rightarrow> bool" where
  "zone_ok z \<longleftrightarrow> distinct (map fst (zf_records z)) \<and>
     (\<forall>(k, r) \<in> set (zf_records z). k = key_of r \<and> r_TTL r \<noteq> 0)"

lemma key_of_with_ttl [simp]: "key_of (with_ttl r) = key_of r"
  by (simp add: key_of_def with_ttl_def)

lemma AddRecord_alt: "AddRecord z r = z\<lparr>zf_records := AList.update (key_of r) (with_ttl r) (zf_records z)\<rparr>"
  by (simp add: AddRecord_def with_ttl_def key_of_def)

interpretation zone: zone_store zone_lookup AddRecord RemoveRecord recordKey r_Type r_Name with_ttl
proof
  fix z r t n
  show "zone_lookup (AddRecord z r) = (zone_lookup z)(recordKey (r_Type r) (r_Name r) \<mapsto> with_ttl r)"
    by (simp add: zone_lookup_def AddRecord_alt key_of_def)
  show "zone_lookup (RemoveRecord z t n) = (zone_lookup z)(recordKey t n := None)"
    by (simp add: zone_lookup_def RemoveRecord_def)
  show "\<exists>m. recordKey t n = t @ CHR '':'' # m \<and> recordKey t m = recordKey t n"
    by (intro exI [of _ "ToLower n"]) (simp add: recordKey_def)
qed

lemma zone_lookup_New [simp]: "zone_lookup NewZoneFile = Map.empty"
  by (simp add: zone_lookup_def NewZoneFile_def)

lemma zone_ok_New [simp]: "zone_ok NewZoneFile"
  by (simp add: zone_ok_def NewZoneFile_def)

lemma zone_ok_Add: "zone_ok z \<Longrightarrow> zone_ok (AddRecord z r)"
proof -
  have "r_TTL (with_ttl r) \<noteq> 0" by (simp add: with_ttl_def)
  moreover have "set (AList.update k x m) \<subseteq> insert (k, x) (set m)" for k :: string and x m
    by (induction m) auto
  ultimately show "zone_ok z \<Longrightarrow> zone_ok (AddRecord z r)"
    by (fastforce simp: zone_ok_def AddRecord_alt distinct_update)
qed

lemma zone_ok_Remove: "zone_ok z \<Longrightarrow> zone_ok (RemoveRecord z t n)"
  by (auto simp: zone_ok_def RemoveRecord_def AList.delete_eq distinct_map_filter)

lemma zone_ok_lookup: "zone_ok z \<Longrightarrow> zone_lookup z k = Some r \<Longrightarrow> k = key_of r \<and> r_TTL r \<noteq> 0"
  by (auto simp: zone_ok_def zone_lookup_def dest: map_of_SomeD)

text \<open>The rendered records are those of the map, in the order of their keys.\<close>

lemma dom_zone_lookup: "dom (zone_lookup z) = set (map fst (zf_records z))"
  by (simp add: zone_lookup_def dom_map_of_conv_image_fst)

lemma sorted_records_keys:
  assumes "zone_ok z"
  shows "map key_of (sorted_records z) = sort (map fst (zf_records z))"
proof -
  have "key_of (the (map_of (zf_records z) k)) = k" if "k \<in> set (map fst (zf_records z))" for k
  proof -
    from that obtain r where "zone_lookup z k = Some r"
      by (metis domD dom_zone_lookup)
    with zone_ok_lookup [OF assms this] show ?thesis by (simp add: zone_lookup_def)
  qed
  then show ?thesis by (auto simp: sorted_records_def intro!: map_idI)
qed

lemma set_sorted_records: "set (sorted_records z) = ran (zone_lookup z)"
proof -
  have "set (sorted_records z) = (\<lambda>k. the (zone_lookup z k)) ` dom (zone_lookup z)"
    by (simp add: sorted_records_def zone_lookup_def dom_map_of_conv_image_fst)
  also have "\<dots> = ran (zone_lookup z)"
    by (force simp: ran_def dom_def)
  finally show ?thesis .
qed

lemma zone_lookup_of_records:
  assumes "zone_ok z"
  shows "zone_lookup z = map_of (map (\<lambda>r. (key_of r, r)) (sorted_records z))"
proof
  fix k
  let ?m = "map_of (map (\<lambda>r. (key_of r, r)) (sorted_records z))"
  have d: "distinct (map fst (map (\<lambda>r. (key_of r, r)) (sorted_records z)))"
    using assms sorted_records_keys [OF assms] by (simp add: comp_def zone_ok_def)
  show "zone_lookup z k = ?m k"
  proof (cases "zone_lookup z k")
    case (Some r)
    then have "r \<in> set (sorted_records z)" and "key_of r = k"
      using zone_ok_lookup [OF assms] by (auto simp: set_sorted_records ran_def)
    then have "?m k = Some r" using d by (auto simp: map_of_eq_Some_iff)
    with Some show ?thesis by simp
  next
    case None
    then have "k \<notin> set (map key_of (sorted_records z))"
      using sorted_records_keys [OF assms] dom_zone_lookup [of z] by auto
    then have "?m k = None" by (auto simp: map_of_eq_None_iff)
    with None show ?thesis by simp
  qed
qed



section \<open>Properties of the zone\<close>

text \<open>The empty zone satisfies the zone's invariant, and adding and removing records keep
  it: at most one record per (type, lower-case name) slot, every record in its own slot, and no
  record with TTL zero.\<close>

lemma zone_invariant:
  "zone_ok NewZoneFile \<and> (zone_ok z \<longrightarrow> zone_ok (AddRecord z r) \<and> zone_ok (RemoveRecord z t n))"
  by (simp add: zone_ok_Add zone_ok_Remove)

lemma zone_invariant_sample:
  "zone_ok (AddRecord NewZoneFile \<lparr>r_Name = ''Prod'', r_Type = RecordTypeA, r_TTL = 0, r_Value = ''10.0.0.1''\<rparr>) \<and>
   zone_ok (RemoveRecord NewZoneFile RecordTypeA ''prod'')"
  using zone_invariant [of NewZoneFile "\<lparr>r_Name = ''Prod'', r_Type = RecordTypeA, r_TTL = 0, r_Value = ''10.0.0.1''\<rparr>"
      RecordTypeA "''prod''"] by blast

text \<open>Adding a record makes it readable under its key in any case of the name, with
  the default TTL when it has none, and touches no other slot; removing clears exactly the slot
  of the given type and name.\<close>

lemma AddRecord_RemoveRecord_lookup:
  "zone_lookup (AddRecord z r) (recordKey (r_Type r) (ToLower (r_Name r))) =
     Some (if r_TTL r = 0 then r\<lparr>r_TTL := 300\<rparr> else r) \<and>
   (k \<noteq> recordKey (r_Type r) (r_Name r) \<longrightarrow> zone_lookup (AddRecord z r) k = zone_lookup z k) \<and>
   zone_lookup (RemoveRecord z t n) k = (if k = recordKey t n then None else zone_lookup z k)"
proof -
  have "recordKey t (ToLower n) = recordKey t n" for t n by (simp add: recordKey_def)
  then show ?thesis by (simp add: zone.lookup_add zone.lookup_remove with_ttl_def)
qed

lemma AddRecord_RemoveRecord_lookup_sample:
  "zone_lookup (AddRecord NewZoneFile \<lparr>r_Name = ''a'', r_Type = RecordTypeA, r_TTL = 0, r_Value = ''1''\<rparr>) ''TXT:a''
     = zone_lookup NewZoneFile ''TXT:a''"
  using AddRecord_RemoveRecord_lookup [of NewZoneFile "\<lparr>r_Name = ''a'', r_Type = RecordTypeA, r_TTL = 0, r_Value = ''1''\<rparr>"
      "''TXT:a''" "[]" "[]"]
  by (simp add: recordKey_def)

text \<open>The rendered zone depends on the zone's contents and the clock only, never on the
  order in which records were inserted or in which the map is iterated.\<close>

lemma Render_deterministic:
  assumes "zone_ok z" and "zone_ok z'" and "\<forall>k. zone_lookup z k = zone_lookup z' k"
  shows "Render z now = Render z' now"
proof -
  from assms(3) have eq: "zone_lookup z = zone_lookup z'" by auto
  then have "sort (map fst (zf_records z)) = sort (map fst (zf_records z'))"
    using assms(1,2) dom_zone_lookup [of z] dom_zone_lookup [of z']
    by (intro sort_cong_set) (auto simp: zone_ok_def)
  with eq have "sorted_records z = sorted_records z'"
    by (simp add: sorted_records_def zone_lookup_def)
  then show ?thesis by (simp add: Render_def)
qed

lemma Render_deterministic_sample:
  "Render \<lparr>zf_records = [(''A:x'', \<lparr>r_Name = ''x'', r_Type = ''A'', r_TTL = 300, r_Value = ''1''\<rparr>),
                        (''A:y'', \<lparr>r_Name = ''y'', r_Type = ''A'', r_TTL = 300, r_Value = ''2''\<rparr>)]\<rparr> 7 =
   Render \<lparr>zf_records = [(''A:y'', \<lparr>r_Name = ''y'', r_Type = ''A'', r_TTL = 300, r_Value = ''2''\<rparr>),
                        (''A:x'', \<lparr>r_Name = ''x'', r_Type = ''A'', r_TTL = 300, r_Value = ''1''\<rparr>)]\<rparr> 7"
  by (rule Render_deterministic)
    (simp_all add: zone_ok_def key_of_def recordKey_def ToLower_def lower_char_def zone_lookup_def)

text \<open>
  A record without characters that mean something to the zone file: no blank or line end in
  the name, no line end in the value, and one of the three types.
\<close>

definition clean_record :: "Record \<Rightarrow> bool" where
  "clean_record r \<longleftrightarrow> CHR '' '' \<notin> set (r_Name r) \<and> CHR 0x0A \<notin> set (r_Name r) \<and>
     CHR 0x0A \<notin> set (r_Value r) \<and> r_Type r \<in> {RecordTypeA, RecordTypeTXT, RecordTypeNS}"

definition render_line :: "Record \<Rightarrow> string" where
  "render_line r =
     r_Name r @ '' '' @ dec_int (r_TTL (with_ttl r)) @ '' IN '' @
     (if r_Type r = RecordTypeTXT then ''TXT '' @ [CHR 0x22] @ r_Value r @ [CHR 0x22]
      else if r_Type r = RecordTypeNS then ''NS '' @ r_Value r @ ''.''
      else ''A '' @ r_Value r)"

lemma render_record_line: "render_record r = render_line r @ [CHR 0x0A]"
  by (simp add: render_record_def render_line_def with_ttl_def Let_def)

lemma blank_notin_dec [simp]: "CHR '' '' \<notin> set (dec_int i)"
  using dec_int_chars [of "CHR '' ''" i] by auto

lemma newline_notin_dec [simp]: "CHR 0x0A \<notin> set (dec_int i)"
  using dec_int_chars [of "CHR 0x0A" i] by auto

lemma newline_notin_line: "clean_record r \<Longrightarrow> CHR 0x0A \<notin> set (render_line r)"
  by (auto simp: clean_record_def render_line_def)

lemma render_line_inj:
  assumes "render_line r = render_line r'" and "clean_record r" and "clean_record r'"
    and "r_TTL r \<noteq> 0" and "r_TTL r' \<noteq> 0"
  shows "r = r'"
proof -
  let ?rest = "\<lambda>r. ''IN '' @ (if r_Type r = RecordTypeTXT then ''TXT '' @ [CHR 0x22] @ r_Value r @ [CHR 0x22]
      else if r_Type r = RecordTypeNS then ''NS '' @ r_Value r @ ''.'' else ''A '' @ r_Value r)"
  have "r_Name r @ CHR '' '' # dec_int (r_TTL r) @ CHR '' '' # ?rest r =
      r_Name r' @ CHR '' '' # dec_int (r_TTL r') @ CHR '' '' # ?rest r'"
    using assms(1,4,5) by (simp add: render_line_def with_ttl_def)
  from split_at_inj [OF this] assms(2,3) have n: "r_Name r = r_Name r'"
    and "dec_int (r_TTL r) @ CHR '' '' # ?rest r = dec_int (r_TTL r') @ CHR '' '' # ?rest r'"
    by (auto simp: clean_record_def)
  from split_at_inj [OF this(2)] have t: "r_TTL r = r_TTL r'" and "?rest r = ?rest r'"
    by (auto simp: dec_int_inj)
  from this(2) assms(2,3) have "r_Type r = r_Type r' \<and> r_Value r = r_Value r'"
    by (auto simp: clean_record_def split: if_splits)
  with n t show ?thesis by simp
qed

text \<open>C20 (Render_injective): rendering loses nothing: two zones of clean records with the same rendered text hold
  the same records under the same keys.\<close>

theorem Render_injective:
  assumes "zone_ok z" and "zone_ok z'"
    and "\<forall>r \<in> ran (zone_lookup z) \<union> ran (zone_lookup z'). clean_record r"
    and "Render z now = Render z' now"
  shows "zone_lookup z = zone_lookup z'"
proof -
  let ?ls = "\<lambda>z. map render_line (sorted_records z)"
  have rr: "render_record = (\<lambda>r. render_line r @ [CHR 0x0A])"
    by (simp add: fun_eq_iff render_record_line)
  have "concat (map (\<lambda>l. l @ [CHR 0x0A]) (?ls z)) = concat (map (\<lambda>l. l @ [CHR 0x0A]) (?ls z'))"
    using assms(4) by (simp add: Render_def rr comp_def)
  moreover have "\<forall>l \<in> set (?ls z). CHR 0x0A \<notin> set l" and "\<forall>l \<in> set (?ls z'). CHR 0x0A \<notin> set l"
    using assms(3) newline_notin_line by (auto simp: set_sorted_records)
  ultimately have "?ls z = ?ls z'" by (rule concat_lines_inj)
  moreover have "inj_on render_line (set (sorted_records z) \<union> set (sorted_records z'))"
    using assms(3) zone_ok_lookup [OF assms(1)] zone_ok_lookup [OF assms(2)]
    by (auto simp: set_sorted_records ran_def intro!: inj_onI render_line_inj)
  ultimately have "sorted_records z = sorted_records z'"
    by (simp add: map_inj_on)
  then show ?thesis
    using zone_lookup_of_records [OF assms(1)] zone_lookup_of_records [OF assms(2)] by simp
qed

theorem Render_injective_witness:
  "zone_lookup (AddRecord NewZoneFile \<lparr>r_Name = ''x'', r_Type = ''TXT'', r_TTL = 300, r_Value = ''v''\<rparr>) =
   zone_lookup (AddRecord NewZoneFile \<lparr>r_Name = ''x'', r_Type = ''TXT'', r_TTL = 0, r_Value = ''v''\<rparr>)"
proof -
  let ?z = "AddRecord NewZoneFile \<lparr>r_Name = ''x'', r_Type = ''TXT'', r_TTL = 300, r_Value = ''v''\<rparr>"
  let ?z' = "AddRecord NewZoneFile \<lparr>r_Name = ''x'', r_Type = ''TXT'', r_TTL = 0, r_Value = ''v''\<rparr>"
  have eq: "?z = ?z'" by (simp add: AddRecord_def)
  have "ran (zone_lookup ?z) = {\<lparr>r_Name = ''x'', r_Type = ''TXT'', r_TTL = 300, r_Value = ''v''\<rparr>}"
    by (simp add: zone.lookup_add with_ttl_def)
  then have "\<forall>r \<in> ran (zone_lookup ?z) \<union> ran (zone_lookup ?z'). clean_record r"
    by (simp add: eq [symmetric] clean_record_def)
  then show ?thesis
    using zone_ok_Add [OF zone_ok_New] eq by (intro Render_injective [of _ _ 0]) simp_all
qed

text \<open>C21 (Render_TXT_injection): record values are written without escaping: for every name, a TXT value with a
  quote and a line end makes the rendered zone contain an A record line that no record of the
  zone stands for. The record value must not come from an untrusted field.\<close>

theorem Render_TXT_injection:
  "\<exists>v before after.
     Render (AddRecord NewZoneFile \<lparr>r_Name = n, r_Type = RecordTypeTXT, r_TTL = 0, r_Value = v\<rparr>) now =
       before @ newline @ ''api.prod 300 IN A 10.6.6.6'' @ newline @ after \<and>
     zone_lookup (AddRecord NewZoneFile \<lparr>r_Name = n, r_Type = RecordTypeTXT, r_TTL = 0, r_Value = v\<rparr>)
       (recordKey RecordTypeA ''api.prod'') = None"
proof -
  let ?v = "[CHR 0x22] @ newline @ ''api.prod 300 IN A 10.6.6.6'' @ newline @ ''x 300 IN TXT '' @ [CHR 0x22]"
  let ?r = "\<lparr>r_Name = n, r_Type = RecordTypeTXT, r_TTL = 0, r_Value = ?v\<rparr>"
  have "Render (AddRecord NewZoneFile ?r) now =
      render_header (now div 1000000000) @ n @ '' '' @ dec_int 300 @ '' IN TXT '' @ [CHR 0x22] @ ?v @ [CHR 0x22] @ newline"
    by (simp add: Render_def sorted_records_def AddRecord_def NewZoneFile_def render_record_def)
  also have "\<dots> = (render_header (now div 1000000000) @ n @ '' '' @ dec_int 300 @ '' IN TXT '' @ [CHR 0x22, CHR 0x22])
      @ newline @ ''api.prod 300 IN A 10.6.6.6'' @ newline @ (''x 300 IN TXT '' @ [CHR 0x22, CHR 0x22] @ newline)"
    by simp
  finally have rendered: "Render (AddRecord NewZoneFile ?r) now =
      (render_header (now div 1000000000) @ n @ '' '' @ dec_int 300 @ '' IN TXT '' @ [CHR 0x22, CHR 0x22])
      @ newline @ ''api.prod 300 IN A 10.6.6.6'' @ newline @ (''x 300 IN TXT '' @ [CHR 0x22, CHR 0x22] @ newline)" .
  have slot: "zone_lookup (AddRecord NewZoneFile ?r) (recordKey RecordTypeA ''api.prod'') = None"
    by (simp add: zone.lookup_add recordKey_def)
  show ?thesis by (intro exI conjI) (rule rendered, rule slot)
qed

end
