(* ===== verification/ConfigMapWriter.thy ===== *)
theory ConfigMapWriter
  imports Client Zone
begin

text \<open>
  \<^verbatim>\<open>src/internal/dns/configmap.go\<close>: the writer of the dsns-zone ConfigMap. The primary copy in
  ont-system is authoritative; the mirror in kube-system is best effort. Log output is not
  modelled.
\<close>

abbreviation (input) ZoneConfigMapName :: string where
  "ZoneConfigMapName \<equiv> ''dsns-zone''"

abbreviation (input) ZoneConfigMapNamespace :: string where
  "ZoneConfigMapNamespace \<equiv> ''ont-system''"

abbreviation (input) ZoneDataKey :: string where
  "ZoneDataKey \<equiv> ''zone.db''"

abbreviation (input) ZoneMirrorNamespace :: string where
  "ZoneMirrorNamespace \<equiv> ''kube-system''"

abbreviation (input) ZoneLabelKey :: string where
  "ZoneLabelKey \<equiv> ''seam.ontai.dev/dsns-zone''"

abbreviation (input) ZoneLabelValue :: string where
  "ZoneLabelValue \<equiv> ''true''"

abbreviation (input) ZoneOwnerAnnotationKey :: string where
  "ZoneOwnerAnnotationKey \<equiv> ''governance.infrastructure.ontai.dev/owner''"

abbreviation (input) ZoneOwnerAnnotationVal :: string where
  "ZoneOwnerAnnotationVal \<equiv> ''seam-core''"

definition zone_cm_key :: "string \<Rightarrow> NamespacedName" where
  "zone_cm_key ns = \<lparr>nn_Namespace = ns, nn_Name = ZoneConfigMapName\<rparr>"

text \<open>The ConfigMap literal both the primary and the mirror path create.\<close>

definition new_zone_cm :: "string \<Rightarrow> string \<Rightarrow> ConfigMap" where
  "new_zone_cm ns content =
     \<lparr>cm_Meta = \<lparr>om_Name = ZoneConfigMapName, om_Namespace = ns,
        om_Labels = [(ZoneLabelKey, ZoneLabelValue)],
        om_Annotations = [(ZoneOwnerAnnotationKey, ZoneOwnerAnnotationVal)],
        om_OwnerReferences = []\<rparr>,
      cm_Data = Some [(ZoneDataKey, content)]\<rparr>"

text \<open>\<^verbatim>\<open>existing.Data[ZoneDataKey] = content\<close>, making the map first when it is nil.\<close>

definition set_zone_data :: "string \<Rightarrow> ConfigMap \<Rightarrow> ConfigMap" where
  "set_zone_data content cm =
     cm\<lparr>cm_Data := Some (AList.update ZoneDataKey content
       (case cm_Data cm of None \<Rightarrow> [] | Some d \<Rightarrow> d))\<rparr>"

definition applyMirror :: "'w client \<Rightarrow> string \<Rightarrow> ('w, unit) state" where
  "applyMirror c content =
     try_state (GetCM c (zone_cm_key ZoneMirrorNamespace))
       (\<lambda>err. if IsNotFound err
          then do { _ \<leftarrow> CreateCM c (new_zone_cm ZoneMirrorNamespace content); ret () }
          else ret ())
       (\<lambda>existing. do { _ \<leftarrow> PatchCM c (set_zone_data content existing) existing; ret () })"

text \<open>The result is \<^const>\<open>None\<close> for a nil error.\<close>

definition ApplyContent :: "'w client \<Rightarrow> string \<Rightarrow> ('w, goerror option) state" where
  "ApplyContent c content =
     try_state (GetCM c (zone_cm_key ZoneConfigMapNamespace))
       (\<lambda>err. if IsNotFound err
          then try_state (CreateCM c (new_zone_cm ZoneConfigMapNamespace content))
            (\<lambda>err. ret (Some (ApiError err)))
            (\<lambda>_. do { applyMirror c content; ret None })
          else ret (Some (Errorf ''get dsns-zone ConfigMap: '' (ApiError err))))
       (\<lambda>existing. try_state (PatchCM c (set_zone_data content existing) existing)
            (\<lambda>err. ret (Some (ApiError err)))
            (\<lambda>_. do { applyMirror c content; ret None }))"

text \<open>\<^verbatim>\<open>ConfigMapZoneWriter.Apply\<close>: render, then write.\<close>

definition ZoneWriter_Apply :: "'w client \<Rightarrow> ZoneFile \<Rightarrow> ('w, goerror option) state" where
  "ZoneWriter_Apply c zf = do { now \<leftarrow> Now c; ApplyContent c (Render zf now) }"

text \<open>The primary write alone: the reference for what \<^const>\<open>ApplyContent\<close> returns.\<close>

definition write_primary :: "'w client \<Rightarrow> string \<Rightarrow> ('w, goerror option) state" where
  "write_primary c content = do {
     r \<leftarrow> GetCM c (zone_cm_key ZoneConfigMapNamespace);
     (case r of
        Inl NotFound \<Rightarrow> do {
          r \<leftarrow> CreateCM c (new_zone_cm ZoneConfigMapNamespace content);
          ret (case r of Inl err \<Rightarrow> Some (ApiError err) | Inr _ \<Rightarrow> None) }
      | Inl err \<Rightarrow> ret (Some (Errorf ''get dsns-zone ConfigMap: '' (ApiError err)))
      | Inr existing \<Rightarrow> do {
          r \<leftarrow> PatchCM c (set_zone_data content existing) existing;
          ret (case r of Inl err \<Rightarrow> Some (ApiError err) | Inr _ \<Rightarrow> None) }) }"

text \<open>What a reader of the ConfigMap finds: the zone text and the other data keys.\<close>

definition zone_text :: "'w view \<Rightarrow> 'w \<Rightarrow> string \<Rightarrow> string option" where
  "zone_text v w ns =
     (case vw_CM v w (zone_cm_key ns) of
        None \<Rightarrow> None
      | Some cm \<Rightarrow> (case cm_Data cm of None \<Rightarrow> None | Some d \<Rightarrow> map_of d ZoneDataKey))"

lemma cm_key_new [simp]: "cm_key (new_zone_cm ns content) = zone_cm_key ns"
  by (simp add: cm_key_def new_zone_cm_def zone_cm_key_def)

lemma cm_key_set [simp]: "cm_key (set_zone_data content cm) = cm_key cm"
  by (simp add: cm_key_def set_zone_data_def)

lemma zone_cm_key_inj [simp]: "zone_cm_key ns = zone_cm_key ns' \<longleftrightarrow> ns = ns'"
  by (simp add: zone_cm_key_def)

text \<open>For every API server, \<^verbatim>\<open>ApplyContent\<close> is the primary write followed by the mirror
  write exactly when the primary succeeded: the mirror is skipped after a primary failure, and a
  mirror failure never becomes an error of the call.\<close>

lemma ApplyContent_mirror_best_effort:
  "run_state (ApplyContent c content) w =
     (case run_state (write_primary c content) w of
        (None, w') \<Rightarrow> (None, snd (run_state (applyMirror c content) w'))
      | (Some err, w') \<Rightarrow> (Some err, w'))"
proof -
  obtain r w1 where get: "run_state (GetCM c (zone_cm_key ZoneConfigMapNamespace)) w = (r, w1)"
    by fastforce
  obtain r2 w2 where create: "run_state (CreateCM c (new_zone_cm ZoneConfigMapNamespace content)) w1 = (r2, w2)"
    by fastforce
  show ?thesis
  proof (cases r)
    case (Inl err)
    then show ?thesis
      by (cases err; cases r2) (simp_all add: ApplyContent_def write_primary_def get create split: prod.split)
  next
    case (Inr existing)
    obtain r3 w3 where "run_state (PatchCM c (set_zone_data content existing) existing) w1 = (r3, w3)"
      by fastforce
    with Inr show ?thesis
      by (cases r3) (simp_all add: ApplyContent_def write_primary_def get split: prod.split)
  qed
qed

lemma zone_text_put:
  "put_CM v (zone_cm_key ns) cm w w' \<Longrightarrow>
     zone_text v w' ns' =
       (if ns' = ns then (case cm_Data cm of None \<Rightarrow> None | Some d \<Rightarrow> map_of d ZoneDataKey)
        else zone_text v w ns')"
  by (simp add: zone_text_def put_CM_def)

lemma zone_text_same: "same_view v w w' \<Longrightarrow> zone_text v w' ns = zone_text v w ns"
  by (simp add: zone_text_def same_view_def)

lemma zone_data_written [simp]:
  "(case cm_Data (new_zone_cm ns content) of None \<Rightarrow> None | Some d \<Rightarrow> map_of d ZoneDataKey) = Some content"
  "(case cm_Data (set_zone_data content cm) of None \<Rightarrow> None | Some d \<Rightarrow> map_of d ZoneDataKey) = Some content"
  by (simp_all add: new_zone_cm_def set_zone_data_def)

text \<open>One copy of the zone is written; the other ConfigMaps and all other objects stay.\<close>

definition zone_written :: "'w view \<Rightarrow> string \<Rightarrow> string \<Rightarrow> 'w \<Rightarrow> 'w \<Rightarrow> bool" where
  "zone_written v ns content w w' \<longleftrightarrow>
     zone_text v w' ns = Some content \<and> vw_Obj v w' = vw_Obj v w \<and> vw_ILI v w' = vw_ILI v w \<and>
     (\<forall>k. k \<noteq> zone_cm_key ns \<longrightarrow> vw_CM v w' k = vw_CM v w k)"

lemma zone_written_other:
  "zone_written v ns content w w' \<Longrightarrow> ns' \<noteq> ns \<Longrightarrow> zone_text v w' ns' = zone_text v w ns'"
  by (simp add: zone_written_def zone_text_def)

lemma zone_written_same:
  "same_view v w w1 \<Longrightarrow> zone_written v ns content w1 w' \<Longrightarrow> zone_written v ns content w w'"
  by (simp add: zone_written_def same_view_def)

lemma create_zone_documented:
  assumes "documented c v" and "vw_CM v w (zone_cm_key ns) = None"
  shows "wp_of (CreateCM c (new_zone_cm ns content))
    (\<lambda>r w'. case r of Inl _ \<Rightarrow> same_view v w w' | Inr _ \<Rightarrow> zone_written v ns content w w') w"
proof (rule wp_CreateCM_documented [OF assms(1)])
  fix w'
  assume "put_CM v (cm_key (new_zone_cm ns content)) (new_zone_cm ns content) w w'"
  then show "case Inr (new_zone_cm ns content) of Inl _ \<Rightarrow> same_view v w w' | Inr _ \<Rightarrow> zone_written v ns content w w'"
    using zone_text_put [of v ns "new_zone_cm ns content" w w' ns]
    by (auto simp: put_CM_def zone_written_def)
qed (simp_all add: assms(2))

lemma patch_zone_documented:
  assumes "documented c v" and "vw_CM v w (zone_cm_key ns) = Some existing"
    and "cm_key existing = zone_cm_key ns"
  shows "wp_of (PatchCM c (set_zone_data content existing) existing)
    (\<lambda>r w'. case r of Inl _ \<Rightarrow> same_view v w w' | Inr _ \<Rightarrow> zone_written v ns content w w') w"
proof (rule wp_PatchCM_documented [OF assms(1)])
  fix w'
  assume "put_CM v (cm_key existing) (set_zone_data content existing) w w'"
  then show "case Inr (set_zone_data content existing) of Inl _ \<Rightarrow> same_view v w w' | Inr _ \<Rightarrow> zone_written v ns content w w'"
    using zone_text_put [of v ns "set_zone_data content existing" w w' ns]
    by (auto simp: assms(3) put_CM_def zone_written_def)
qed (simp_all add: assms)

lemma applyMirror_documented:
  assumes "documented c v"
  shows "wp_of (applyMirror c content)
    (\<lambda>_ w'. same_view v w w' \<or> zone_written v ZoneMirrorNamespace content w w') w"
  unfolding applyMirror_def wp
proof (rule wp_GetCM_documented [OF assms], goal_cases)
  case (1 existing w1)
  then have "vw_CM v w1 (zone_cm_key ZoneMirrorNamespace) = Some existing"
    by (simp add: same_view_def)
  from patch_zone_documented [OF assms this 1(2), of content] 1(3) show ?case
    by (auto simp: wp elim!: wp_mono_sum intro: same_view_trans zone_written_same)
next
  case (2 w1)
  then have "vw_CM v w1 (zone_cm_key ZoneMirrorNamespace) = None"
    by (simp add: same_view_def)
  from create_zone_documented [OF assms this, of content] 2(2) show ?case
    by (auto simp: wp elim!: wp_mono_sum intro: same_view_trans zone_written_same)
qed (auto simp: wp)

lemma mirror_after_primary:
  assumes "documented c v" and "same_view v w0 w" and "zone_written v ns content w w1"
  shows "wp_of (applyMirror c content)
    (\<lambda>_ w'. \<exists>w1. zone_written v ns content w0 w1 \<and>
       (same_view v w1 w' \<or> zone_written v ZoneMirrorNamespace content w1 w')) w1"
  using applyMirror_documented [OF assms(1)] zone_written_same [OF assms(2,3)]
  by (blast intro: wp_mono)

text \<open>The authoritative write of a documented server: the error reports that nothing was stored.\<close>

lemma ApplyContent_documented:
  assumes "documented c v"
  shows "wp_of (ApplyContent c content)
    (\<lambda>r w'. case r of
        None \<Rightarrow> \<exists>w1. zone_written v ZoneConfigMapNamespace content w w1 \<and>
          (same_view v w1 w' \<or> zone_written v ZoneMirrorNamespace content w1 w')
      | Some _ \<Rightarrow> same_view v w w') w"
  unfolding ApplyContent_def wp
proof (rule wp_GetCM_documented [OF assms], goal_cases)
  case (1 existing w1)
  then have "vw_CM v w1 (zone_cm_key ZoneConfigMapNamespace) = Some existing"
    by (simp add: same_view_def)
  from patch_zone_documented [OF assms this 1(2), of content] show ?case
    using mirror_after_primary [OF assms 1(3)] 1(3)
    by (auto simp: wp elim!: wp_mono_sum intro: same_view_trans)
next
  case (2 w1)
  then have "vw_CM v w1 (zone_cm_key ZoneConfigMapNamespace) = None"
    by (simp add: same_view_def)
  from create_zone_documented [OF assms this, of content] show ?case
    using mirror_after_primary [OF assms 2(2)] 2(2)
    by (auto simp: wp elim!: wp_mono_sum intro: same_view_trans)
qed (auto simp: wp)

lemma ApplyContent_effects:
  assumes "documented c v" and "run_state (ApplyContent c content) w = (r, w')"
  shows "(r = None \<longrightarrow> zone_text v w' ZoneConfigMapNamespace = Some content) \<and>
    (r \<noteq> None \<longrightarrow> same_view v w w') \<and>
    vw_Obj v w' = vw_Obj v w \<and> vw_ILI v w' = vw_ILI v w \<and>
    (\<forall>k. k \<noteq> zone_cm_key ZoneConfigMapNamespace \<and> k \<noteq> zone_cm_key ZoneMirrorNamespace \<longrightarrow>
       vw_CM v w' k = vw_CM v w k)"
proof (cases r)
  case None
  with wp_runD [OF ApplyContent_documented [OF assms(1)] assms(2)] obtain w1
    where primary: "zone_written v ZoneConfigMapNamespace content w w1"
      and mirror: "same_view v w1 w' \<or> zone_written v ZoneMirrorNamespace content w1 w'" by auto
  have "zone_text v w' ZoneConfigMapNamespace = zone_text v w1 ZoneConfigMapNamespace"
    using mirror zone_text_same zone_written_other [of v ZoneMirrorNamespace] by fastforce
  with None primary mirror show ?thesis
    by (auto simp: zone_written_def same_view_def)
next
  case (Some e)
  with wp_runD [OF ApplyContent_documented [OF assms(1)] assms(2)] have "same_view v w w'" by simp
  with Some show ?thesis by (simp add: same_view_def)
qed

text \<open>C18 (ApplyContent_authoritative): with an API server that behaves as documented, a nil result of \<^verbatim>\<open>ApplyContent\<close>
  means the primary ConfigMap carries exactly the given text, an error means nothing was stored,
  and in both cases no other ConfigMap than the two copies, no lineage index and no other object
  changed.\<close>

theorem ApplyContent_authoritative:
  assumes "documented c v" and "run_state (ApplyContent c content) w = (r, w')"
  shows "(r = None \<longrightarrow> zone_text v w' ZoneConfigMapNamespace = Some content) \<and>
    (r \<noteq> None \<longrightarrow> same_view v w w') \<and>
    vw_Obj v w' = vw_Obj v w \<and> vw_ILI v w' = vw_ILI v w \<and>
    (\<forall>k. k \<noteq> zone_cm_key ZoneConfigMapNamespace \<and> k \<noteq> zone_cm_key ZoneMirrorNamespace \<longrightarrow>
       vw_CM v w' k = vw_CM v w k)"
  by (rule ApplyContent_effects [OF assms])

theorem ApplyContent_authoritative_witness:
  "\<exists>w'. run_state (ApplyContent mem_client ''zone'') \<lparr>mem_Obj = (\<lambda>_ _. None), mem_ILI = Map.empty,
       mem_CM = Map.empty, mem_Now = 0\<rparr> = (None, w') \<and>
     zone_text mem_view w' ZoneConfigMapNamespace = Some ''zone''"
proof -
  let ?w = "\<lparr>mem_Obj = (\<lambda>_ _. None), mem_ILI = Map.empty, mem_CM = Map.empty, mem_Now = 0\<rparr>"
  obtain r w' where run: "run_state (ApplyContent mem_client ''zone'') ?w = (r, w')" by fastforce
  then have "r = None"
    by (auto simp: ApplyContent_def applyMirror_def client_call_defs mem_client_def mem_read_def visible_def
        zone_cm_key_def new_zone_cm_def cm_key_def)
  with ApplyContent_authoritative [OF mem_documented run] run show ?thesis by auto
qed

end
