(* ===== verification/DsnsState.thy ===== *)
theory DsnsState
  imports ConfigMapWriter
begin

text \<open>
  \<^verbatim>\<open>src/internal/dns/event.go\<close>, \<^verbatim>\<open>sink_registry.go\<close> and \<^verbatim>\<open>state.go\<close>: the events of the name
  service, the fan-out to notification sinks, and \<^verbatim>\<open>DSNSState\<close>, the zone with its ownership
  map that all DSNS reconcilers share. The theory relates it to an abstract zone, a union of the
  owners' contributions, and runs its critical sections interleaved.

  A critical section under \<^verbatim>\<open>mu\<close> is one function on the state. A sink is a number; launching
  its goroutine appends the pair of sink and event to the log of launched calls, which is all
  the caller can observe of it.
\<close>


section \<open>event.go\<close>

abbreviation (input) RecordCategoryClusterTopology :: string where
  "RecordCategoryClusterTopology \<equiv> ''cluster-topology''"

abbreviation (input) RecordCategoryIdentityPlane :: string where
  "RecordCategoryIdentityPlane \<equiv> ''identity-plane''"

abbreviation (input) RecordCategoryPackLineage :: string where
  "RecordCategoryPackLineage \<equiv> ''pack-lineage''"

abbreviation (input) RecordCategoryExecutionAuthority :: string where
  "RecordCategoryExecutionAuthority \<equiv> ''execution-authority''"

abbreviation (input) SeverityInformational :: string where
  "SeverityInformational \<equiv> ''informational''"

abbreviation (input) SeverityWarning :: string where
  "SeverityWarning \<equiv> ''warning''"

abbreviation (input) SeverityCritical :: string where
  "SeverityCritical \<equiv> ''critical''"

abbreviation (input) OperationCreated :: string where
  "OperationCreated \<equiv> ''created''"

abbreviation (input) OperationUpdated :: string where
  "OperationUpdated \<equiv> ''updated''"

abbreviation (input) OperationDeleted :: string where
  "OperationDeleted \<equiv> ''deleted''"

record SourceRef =
  sr_Group :: string
  sr_Version :: string
  sr_Kind :: string
  sr_Name :: string
  sr_Namespace :: string

record DSNSEvent =
  ev_RecordCategory :: string
  ev_Operation :: string
  ev_SourceRef :: SourceRef
  ev_ClusterContext :: string
  ev_DerivedRecords :: "string list"
  ev_Severity :: string


section \<open>sink_registry.go\<close>

record SinkRegistry =
  sinks :: "nat list"

definition NewSinkRegistry :: "nat list \<Rightarrow> SinkRegistry" where
  "NewSinkRegistry ss = \<lparr>sinks = ss\<rparr>"

text \<open>The calls \<^verbatim>\<open>Notify\<close> launches, one goroutine per sink; it returns nil always.\<close>

definition Notify :: "SinkRegistry \<Rightarrow> DSNSEvent \<Rightarrow> (nat \<times> DSNSEvent) list" where
  "Notify r event = (if length (sinks r) = 0 then [] else map (\<lambda>s. (s, event)) (sinks r))"


section \<open>state.go\<close>

record DSNSState =
  ds_zone :: ZoneFile
  ds_owned :: "(string, string list) gomap"
  ds_sinks :: "SinkRegistry option"

definition NewDSNSState :: DSNSState where
  "NewDSNSState = \<lparr>ds_zone = NewZoneFile, ds_owned = [], ds_sinks = Some (NewSinkRegistry [])\<rparr>"

definition SetSinks :: "SinkRegistry option \<Rightarrow> DSNSState \<Rightarrow> DSNSState" where
  "SetSinks sr s = s\<lparr>ds_sinks := sr\<rparr>"

definition SetStaticRecord :: "Record \<Rightarrow> DSNSState \<Rightarrow> DSNSState" where
  "SetStaticRecord r s = s\<lparr>ds_zone := AddRecord (ds_zone s) r\<rparr>"

definition remove_key :: "ZoneFile \<Rightarrow> string \<Rightarrow> ZoneFile" where
  "remove_key z key =
     (case IndexByte key (CHR '':'') of
        None \<Rightarrow> z
      | Some idx \<Rightarrow> RemoveRecord z (take idx key) (drop (idx + 1) key))"

definition removeOwnerLocked :: "string \<Rightarrow> DSNSState \<Rightarrow> DSNSState" where
  "removeOwnerLocked ownerID s =
     (let keys = (case map_of (ds_owned s) ownerID of None \<Rightarrow> [] | Some ks \<Rightarrow> ks)
      in s\<lparr>ds_zone := foldl remove_key (ds_zone s) keys,
           ds_owned := AList.delete ownerID (ds_owned s)\<rparr>)"

definition UpdateRecords :: "string \<Rightarrow> Record list \<Rightarrow> DSNSState \<Rightarrow> DSNSState" where
  "UpdateRecords ownerID records s =
     (let s = removeOwnerLocked ownerID s in
      if length records = 0 then s
      else s\<lparr>ds_zone := foldl AddRecord (ds_zone s) records,
             ds_owned := AList.update ownerID
               (map (\<lambda>r. recordKey (r_Type r) (r_Name r)) records) (ds_owned s)\<rparr>)"

definition RemoveRecords :: "string \<Rightarrow> DSNSState \<Rightarrow> DSNSState" where
  "RemoveRecords ownerID s = removeOwnerLocked ownerID s"

definition ZoneSnapshot :: "DSNSState \<Rightarrow> int \<Rightarrow> string" where
  "ZoneSnapshot s now = Render (ds_zone s) now"

text \<open>
  The process around the state: the world behind the API client, the shared state, and the sink
  calls launched so far. An action on the world alone leaves the rest unchanged.
\<close>

record 'w sys =
  sys_world :: 'w
  sys_dsns :: DSNSState
  sys_spawned :: "(nat \<times> DSNSEvent) list"

definition liftW :: "('w, 'a) state \<Rightarrow> ('w sys, 'a) state" where
  "liftW m = State (\<lambda>s. case run_state m (sys_world s) of (a, w) \<Rightarrow> (a, s\<lparr>sys_world := w\<rparr>))"

definition modify_dsns :: "(DSNSState \<Rightarrow> DSNSState) \<Rightarrow> ('w sys, unit) state" where
  "modify_dsns f = State (\<lambda>s. ((), s\<lparr>sys_dsns := f (sys_dsns s)\<rparr>))"

definition get_dsns :: "('w sys, DSNSState) state" where
  "get_dsns = State (\<lambda>s. (sys_dsns s, s))"

definition spawn :: "(nat \<times> DSNSEvent) list \<Rightarrow> ('w sys, unit) state" where
  "spawn calls = State (\<lambda>s. ((), s\<lparr>sys_spawned := sys_spawned s @ calls\<rparr>))"

definition DSNSState_Apply :: "'w client \<Rightarrow> DSNSEvent list \<Rightarrow> ('w sys, goerror option) state" where
  "DSNSState_Apply c events = do {
     s \<leftarrow> get_dsns;
     now \<leftarrow> liftW (Now c);
     let rendered = Render (ds_zone s) now;
     err \<leftarrow> liftW (ApplyContent c rendered);
     case err of
       Some e \<Rightarrow> ret (Some e)
     | None \<Rightarrow>
         (case (events, ds_sinks s) of
            (event # _, Some sr) \<Rightarrow> do { spawn (Notify sr event); ret None }
          | _ \<Rightarrow> ret None) }"

lemma wp_liftW [wp]:
  "wp_of (liftW m) Q s = wp_of m (\<lambda>a w. Q a (s\<lparr>sys_world := w\<rparr>)) (sys_world s)"
  by (simp add: liftW_def wp_of_def split: prod.splits)

lemma wp_modify_dsns [wp]: "wp_of (modify_dsns f) Q s = Q () (s\<lparr>sys_dsns := f (sys_dsns s)\<rparr>)"
  by (simp add: modify_dsns_def wp_of_def)

lemma wp_get_dsns [wp]: "wp_of get_dsns Q s = Q (sys_dsns s) s"
  by (simp add: get_dsns_def wp_of_def)

lemma wp_spawn [wp]: "wp_of (spawn calls) Q s = Q () (s\<lparr>sys_spawned := sys_spawned s @ calls\<rparr>)"
  by (simp add: spawn_def wp_of_def)

lemma run_liftW [simp]:
  "run_state (liftW m) s = (case run_state m (sys_world s) of (a, w) \<Rightarrow> (a, s\<lparr>sys_world := w\<rparr>))"
  by (simp add: liftW_def)

lemma run_modify_dsns [simp]: "run_state (modify_dsns f) s = ((), s\<lparr>sys_dsns := f (sys_dsns s)\<rparr>)"
  by (simp add: modify_dsns_def)

lemma run_get_dsns [simp]: "run_state get_dsns s = (sys_dsns s, s)"
  by (simp add: get_dsns_def)

lemma run_spawn [simp]: "run_state (spawn calls) s = ((), s\<lparr>sys_spawned := sys_spawned s @ calls\<rparr>)"
  by (simp add: spawn_def)


section \<open>Ownership\<close>

text \<open>A record whose type has no colon, as all three types: its key can be cut again.\<close>

definition typed :: "Record \<Rightarrow> bool" where
  "typed r \<longleftrightarrow> CHR '':'' \<notin> set (r_Type r)"

text \<open>What a list of records contributes: the last record of a key counts.\<close>

definition contribution :: "Record list \<Rightarrow> string \<Rightarrow> Record option" where
  "contribution rs = map_of (rev (map (\<lambda>r. (key_of r, with_ttl r)) rs))"

lemma dom_contribution [simp]: "dom (contribution rs) = key_of ` set rs"
  by (force simp: contribution_def dom_map_of_conv_image_fst)

lemma contribution_None: "contribution rs k = None \<longleftrightarrow> k \<notin> key_of ` set rs"
  by (metis domIff dom_contribution)

lemma contribution_Nil [simp]: "contribution [] = Map.empty"
  by (simp add: contribution_def)

lemma lookup_added: "zone_lookup (foldl AddRecord z rs) = zone_lookup z ++ contribution rs"
  using zone.lookup_adds [of z rs] by (simp add: contribution_def key_of_def [abs_def])

lemma lookup_remove_key:
  assumes "typed r"
  shows "zone_lookup (remove_key z (key_of r)) = (zone_lookup z)(key_of r := None)"
  using zone.rkey_cut [OF assms [unfolded typed_def], of "r_Name r"]
  by (simp add: remove_key_def key_of_def zone.lookup_remove)

lemma lookup_remove_keys:
  assumes "\<forall>r \<in> set rs. typed r"
  shows "zone_lookup (foldl remove_key z (map key_of rs)) = zone_lookup z |` (- key_of ` set rs)"
  using assms
proof (induction rs arbitrary: z)
  case (Cons r rs)
  then show ?case by (auto simp: lookup_remove_key restrict_map_def fun_eq_iff)
qed (simp add: restrict_map_def)

lemma zone_ok_remove_keys: "zone_ok z \<Longrightarrow> zone_ok (foldl remove_key z ks)"
  by (induction ks arbitrary: z) (simp_all add: remove_key_def zone_ok_Remove split: option.split)

lemma zone_ok_adds: "zone_ok z \<Longrightarrow> zone_ok (foldl AddRecord z rs)"
  by (induction rs arbitrary: z) (simp_all add: zone_ok_Add)

lemmas dsns_ops = SetSinks_def SetStaticRecord_def removeOwnerLocked_def UpdateRecords_def RemoveRecords_def

lemma zone_ok_dsns:
  assumes "zone_ok (ds_zone s)"
  shows "zone_ok (ds_zone (SetStaticRecord r s))" and "zone_ok (ds_zone (UpdateRecords ow rs s))"
    and "zone_ok (ds_zone (RemoveRecords ow s))"
  using assms by (simp_all add: dsns_ops zone_ok_Add zone_ok_adds zone_ok_remove_keys Let_def)


section \<open>The abstract zone\<close>

text \<open>
  The abstract state: the static records by key, and for every owner the list of records it
  contributes. Static and owned keys, and the keys of two owners, are kept apart. The concrete
  state implements it when the ownership map lists each contributing owner's keys and the zone
  is the union of everything.
\<close>

record abstract_zone =
  az_static :: "string \<Rightarrow> Record option"
  az_owner :: "string \<Rightarrow> Record list"

definition separate :: "abstract_zone \<Rightarrow> bool" where
  "separate a \<longleftrightarrow>
     (\<forall>ow. dom (az_static a) \<inter> key_of ` set (az_owner a ow) = {}) \<and>
     (\<forall>ow ow'. ow \<noteq> ow' \<longrightarrow> key_of ` set (az_owner a ow) \<inter> key_of ` set (az_owner a ow') = {}) \<and>
     (\<forall>ow. \<forall>r \<in> set (az_owner a ow). typed r)"

definition implements :: "DSNSState \<Rightarrow> abstract_zone \<Rightarrow> bool" where
  "implements s a \<longleftrightarrow> separate a \<and> zone_ok (ds_zone s) \<and>
     (\<forall>ow. map_of (ds_owned s) ow =
        (if az_owner a ow = [] then None else Some (map key_of (az_owner a ow)))) \<and>
     (\<forall>k r. zone_lookup (ds_zone s) k = Some r \<longleftrightarrow>
        az_static a k = Some r \<or> (\<exists>ow. contribution (az_owner a ow) k = Some r))"

definition empty_abstract :: abstract_zone where
  "empty_abstract = \<lparr>az_static = Map.empty, az_owner = (\<lambda>_. [])\<rparr>"

definition abs_update :: "string \<Rightarrow> Record list \<Rightarrow> abstract_zone \<Rightarrow> abstract_zone" where
  "abs_update ow rs a = a\<lparr>az_owner := (az_owner a)(ow := rs)\<rparr>"

definition abs_static :: "Record \<Rightarrow> abstract_zone \<Rightarrow> abstract_zone" where
  "abs_static r a = a\<lparr>az_static := (az_static a)(key_of r \<mapsto> with_ttl r)\<rparr>"

lemma separate_remove: "separate a \<Longrightarrow> separate (abs_update ow [] a)"
  by (simp add: separate_def abs_update_def)

lemma separate_static:
  assumes "separate a" and "az_static a k = Some r"
  shows "contribution (az_owner a ow) k = None"
proof -
  from assms have "k \<notin> key_of ` set (az_owner a ow)" unfolding separate_def by blast
  then show ?thesis by (simp add: contribution_None)
qed

lemma separate_owner:
  assumes "separate a" and "contribution (az_owner a ow) k = Some r" and "ow \<noteq> ow'"
  shows "contribution (az_owner a ow') k = None"
proof -
  from assms(2) have "k \<in> key_of ` set (az_owner a ow)" by (metis domI dom_contribution)
  with assms(1,3) have "k \<notin> key_of ` set (az_owner a ow')" unfolding separate_def by blast
  then show ?thesis by (simp add: contribution_None)
qed

lemma remove_implements:
  assumes "implements s a"
  shows "implements (removeOwnerLocked ow s) (abs_update ow [] a)"
proof -
  let ?s = "removeOwnerLocked ow s" and ?rs = "az_owner a ow"
  from assms have sep: "separate a" and typed: "\<forall>r \<in> set ?rs. typed r"
    and zone: "\<And>k r. zone_lookup (ds_zone s) k = Some r \<longleftrightarrow>
        az_static a k = Some r \<or> (\<exists>ow. contribution (az_owner a ow) k = Some r)"
    and owned: "\<And>o'. map_of (ds_owned s) o' =
        (if az_owner a o' = [] then None else Some (map key_of (az_owner a o')))"
    by (auto simp: implements_def separate_def)
  have "(case map_of (ds_owned s) ow of None \<Rightarrow> [] | Some ks \<Rightarrow> ks) = map key_of ?rs"
    by (simp add: owned)
  then have lookup: "zone_lookup (ds_zone ?s) = zone_lookup (ds_zone s) |` (- key_of ` set ?rs)"
    by (simp add: removeOwnerLocked_def lookup_remove_keys [OF typed])
  have "zone_lookup (ds_zone ?s) k = Some r \<longleftrightarrow>
      az_static (abs_update ow [] a) k = Some r \<or> (\<exists>o'. contribution (az_owner (abs_update ow [] a) o') k = Some r)" for k r
  proof (cases "contribution ?rs k")
    case None
    then have "k \<notin> key_of ` set ?rs" by (simp add: contribution_None)
    with None show ?thesis by (auto simp: lookup zone abs_update_def) (metis option.distinct(1))
  next
    case (Some r')
    then have "k \<in> key_of ` set ?rs" by (metis domI dom_contribution)
    with Some separate_static [OF sep] separate_owner [OF sep Some] show ?thesis
      by (force simp: lookup abs_update_def)
  qed
  moreover have "zone_ok (ds_zone ?s)"
    using assms by (simp add: implements_def removeOwnerLocked_def zone_ok_remove_keys)
  ultimately show ?thesis
    using separate_remove [OF sep] owned
    by (auto simp: implements_def removeOwnerLocked_def abs_update_def)
qed

lemma update_implements:
  assumes "implements s a" and "separate (abs_update ow rs a)"
  shows "implements (UpdateRecords ow rs s) (abs_update ow rs a)"
proof (cases "rs = []")
  case True
  then show ?thesis using remove_implements [OF assms(1)] by (simp add: UpdateRecords_def)
next
  case False
  let ?s = "removeOwnerLocked ow s" and ?a = "abs_update ow [] a" and ?b = "abs_update ow rs a"
  from remove_implements [OF assms(1)] have imp: "implements ?s ?a" .
  have b: "az_owner ?b = (az_owner ?a)(ow := rs)" "az_static ?b = az_static ?a" "az_owner ?a ow = []"
    by (simp_all add: abs_update_def)
  have lookup: "zone_lookup (ds_zone (UpdateRecords ow rs s)) = zone_lookup (ds_zone ?s) ++ contribution rs"
    using False by (simp add: UpdateRecords_def Let_def lookup_added)
  have fresh: "contribution rs k = None" if "az_static ?a k = Some r \<or> contribution (az_owner ?a o') k = Some r \<and> o' \<noteq> ow" for k r o'
    using that separate_static [OF assms(2), of k r ow] separate_owner [OF assms(2), of o' k r ow] by (auto simp: b)
  have "zone_lookup (ds_zone (UpdateRecords ow rs s)) k = Some r \<longleftrightarrow>
      az_static ?b k = Some r \<or> (\<exists>o'. contribution (az_owner ?b o') k = Some r)" for k r
  proof -
    have "zone_lookup (ds_zone ?s) k = Some r \<longleftrightarrow>
        az_static ?a k = Some r \<or> (\<exists>o'. contribution (az_owner ?a o') k = Some r)"
      using imp by (simp add: implements_def)
    then show ?thesis
      using fresh [of k r] b
      by (auto simp: lookup map_add_Some_iff) (metis contribution_Nil option.distinct(1))
  qed
  moreover have "zone_ok (ds_zone (UpdateRecords ow rs s))"
    using assms(1) zone_ok_dsns by (simp add: implements_def)
  moreover have "map_of (ds_owned (UpdateRecords ow rs s)) o' =
      (if az_owner ?b o' = [] then None else Some (map key_of (az_owner ?b o')))" for o'
    using imp False by (auto simp: implements_def UpdateRecords_def Let_def abs_update_def key_of_def)
  ultimately show ?thesis using assms(2) by (simp add: implements_def)
qed

lemma static_implements:
  assumes "implements s a" and "separate (abs_static r a)"
  shows "implements (SetStaticRecord r s) (abs_static r a)"
proof -
  have "contribution (az_owner a ow) (key_of r) = None" for ow
    using separate_static [OF assms(2), of "key_of r" "with_ttl r" ow] by (simp add: abs_static_def)
  moreover have "zone_lookup (ds_zone (SetStaticRecord r s)) = (zone_lookup (ds_zone s))(key_of r \<mapsto> with_ttl r)"
    by (simp add: SetStaticRecord_def zone.lookup_add key_of_def)
  ultimately show ?thesis
    using assms zone_ok_dsns(1) [of s r]
    by (auto simp: implements_def abs_static_def SetStaticRecord_def)
qed


section \<open>Properties of the shared state\<close>

text \<open>C7 (dsns_refines): the shared state implements the abstract zone: it starts as the empty one, and
  \<^verbatim>\<open>UpdateRecords\<close>, \<^verbatim>\<open>RemoveRecords\<close> and \<^verbatim>\<open>SetStaticRecord\<close> implement replacing one owner's
  contribution, dropping it, and setting one static record, as long as no two owners and no
  owner and a static record claim the same slot.\<close>

theorem dsns_refines:
  "implements NewDSNSState empty_abstract \<and>
   (implements s a \<longrightarrow>
      (separate (abs_update ow rs a) \<longrightarrow> implements (UpdateRecords ow rs s) (abs_update ow rs a)) \<and>
      implements (RemoveRecords ow s) (abs_update ow [] a) \<and>
      (separate (abs_static r a) \<longrightarrow> implements (SetStaticRecord r s) (abs_static r a)))"
proof -
  have "implements NewDSNSState empty_abstract"
    by (simp add: implements_def NewDSNSState_def empty_abstract_def separate_def)
  then show ?thesis
    using remove_implements update_implements static_implements by (simp add: RemoveRecords_def)
qed

theorem dsns_refines_witness:
  "implements (UpdateRecords ''o'' [\<lparr>r_Name = ''a'', r_Type = RecordTypeA, r_TTL = 0, r_Value = ''1''\<rparr>] NewDSNSState)
     (abs_update ''o'' [\<lparr>r_Name = ''a'', r_Type = RecordTypeA, r_TTL = 0, r_Value = ''1''\<rparr>] empty_abstract) \<and>
   implements (RemoveRecords ''o'' NewDSNSState) (abs_update ''o'' [] empty_abstract) \<and>
   implements (SetStaticRecord \<lparr>r_Name = ''ns'', r_Type = RecordTypeA, r_TTL = 0, r_Value = ''1''\<rparr> NewDSNSState)
     (abs_static \<lparr>r_Name = ''ns'', r_Type = RecordTypeA, r_TTL = 0, r_Value = ''1''\<rparr> empty_abstract)"
proof -
  let ?r = "\<lparr>r_Name = ''a'', r_Type = RecordTypeA, r_TTL = 0, r_Value = ''1''\<rparr>"
  let ?n = "\<lparr>r_Name = ''ns'', r_Type = RecordTypeA, r_TTL = 0, r_Value = ''1''\<rparr>"
  have "separate (abs_update ''o'' [?r] empty_abstract)" and "separate (abs_static ?n empty_abstract)"
    by (auto simp: separate_def abs_update_def abs_static_def empty_abstract_def typed_def)
  then show ?thesis
    using dsns_refines [of NewDSNSState empty_abstract "''o''" "[?r]" ?n] by blast
qed

text \<open>C19 (RemoveRecords_shared_slot): what the separation is needed for: when two owners contribute a record for
  the same slot, removing the second owner deletes the slot although the first one still
  contributes to it and is listed as its owner.\<close>

theorem RemoveRecords_shared_slot:
  assumes "ow \<noteq> ow'" and "typed r" and "typed r'" and "key_of r = key_of r'"
    and "s' = RemoveRecords ow' (UpdateRecords ow' [r'] (UpdateRecords ow [r] s))"
  shows "zone_lookup (ds_zone s') (key_of r) = None \<and> map_of (ds_owned s') ow = Some [key_of r]"
proof -
  have owned: "map_of (ds_owned (UpdateRecords o' [x] t)) = (map_of (ds_owned t))(o' \<mapsto> [key_of x])" for o' x t
    by (simp add: UpdateRecords_def Let_def removeOwnerLocked_def key_of_def fun_upd_twist)
  have "zone_lookup (ds_zone (RemoveRecords ow' t)) = zone_lookup (ds_zone t) |` (- {key_of r'})"
    if "map_of (ds_owned t) ow' = Some [key_of r']" for t
    using that lookup_remove_keys [of "[r']" "ds_zone t"] assms(3)
    by (simp add: RemoveRecords_def removeOwnerLocked_def)
  then show ?thesis
    using assms(1,4,5) by (simp add: owned RemoveRecords_def removeOwnerLocked_def)
qed

theorem RemoveRecords_shared_slot_witness:
  "let r = \<lparr>r_Name = ''prod'', r_Type = RecordTypeA, r_TTL = 0, r_Value = ''10.0.0.1''\<rparr>;
       s' = RemoveRecords ''K/b/prod'' (UpdateRecords ''K/b/prod'' [r] (UpdateRecords ''K/a/prod'' [r] NewDSNSState))
   in zone_lookup (ds_zone s') (key_of r) = None \<and> map_of (ds_owned s') ''K/a/prod'' = Some [key_of r]"
  unfolding Let_def
  by (rule RemoveRecords_shared_slot [OF _ _ _ refl refl]) (simp_all add: typed_def)

lemma run_DSNSState_Apply:
  "run_state (DSNSState_Apply c events) s =
     (case run_state (ApplyContent c (Render (ds_zone (sys_dsns s)) (cl_Now c (sys_world s)))) (sys_world s) of
        (err, w) \<Rightarrow>
          (err, s\<lparr>sys_world := w, sys_spawned := sys_spawned s @
             (if err = None \<and> events \<noteq> [] \<and> ds_sinks (sys_dsns s) \<noteq> None
              then map (\<lambda>i. (i, hd events)) (sinks (the (ds_sinks (sys_dsns s)))) else [])\<rparr>))"
proof -
  obtain err w where "run_state (ApplyContent c (Render (ds_zone (sys_dsns s)) (cl_Now c (sys_world s)))) (sys_world s) = (err, w)"
    by fastforce
  then show ?thesis
    by (cases err; cases events; cases "ds_sinks (sys_dsns s)")
      (auto simp: DSNSState_Apply_def Notify_def Let_def)
qed

text \<open>\<^verbatim>\<open>Apply\<close> writes the rendering of the shared zone, never changes the shared state, and
  launches one call per registered sink, for the first event given, exactly when the write
  reported no error; with no event or no sinks it launches nothing.\<close>

lemma DSNSState_Apply_notifies:
  "run_state (DSNSState_Apply c events) s =
     (case run_state (ApplyContent c (Render (ds_zone (sys_dsns s)) (cl_Now c (sys_world s)))) (sys_world s) of
        (err, w) \<Rightarrow>
          (err, s\<lparr>sys_world := w, sys_spawned := sys_spawned s @
             (if err = None \<and> events \<noteq> [] \<and> ds_sinks (sys_dsns s) \<noteq> None
              then map (\<lambda>i. (i, hd events)) (sinks (the (ds_sinks (sys_dsns s)))) else [])\<rparr>))"
  by (rule run_DSNSState_Apply)

end
