(* ===== verification/DsnsConcurrency.thy ===== *)
theory DsnsConcurrency
  imports DsnsState
begin

text \<open>
  \<^verbatim>\<open>DSNSState\<close> under concurrent reconcilers (\<^verbatim>\<open>src/internal/dns/state.go\<close>). Every exported
  method holds \<^verbatim>\<open>mu\<close> for its whole body except \<^verbatim>\<open>Apply\<close>, which renders under the lock and
  writes the ConfigMap after releasing it. A step of the process is therefore one critical
  section, or the end of one ConfigMap write; between its rendering and its write a text is in
  flight. The zones the state has had are recorded to state what readers can see.
\<close>

record dsns_run =
  run_state_of :: DSNSState
  run_inflight :: "string list"
  run_published :: "string option"
  run_history :: "ZoneFile list"

definition dsns_start :: dsns_run where
  "dsns_start = \<lparr>run_state_of = NewDSNSState, run_inflight = [], run_published = None,
     run_history = [ds_zone NewDSNSState]\<rparr>"

definition set_state :: "DSNSState \<Rightarrow> dsns_run \<Rightarrow> dsns_run" where
  "set_state s p = p\<lparr>run_state_of := s, run_history := ds_zone s # run_history p\<rparr>"

inductive dsns_step :: "dsns_run \<Rightarrow> dsns_run \<Rightarrow> bool" where
  Static: "dsns_step p (set_state (SetStaticRecord r (run_state_of p)) p)"
| Update: "dsns_step p (set_state (UpdateRecords ow rs (run_state_of p)) p)"
| Remove: "dsns_step p (set_state (RemoveRecords ow (run_state_of p)) p)"
| Rendered: "dsns_step p
    (p\<lparr>run_inflight := run_inflight p @ [Render (ds_zone (run_state_of p)) now]\<rparr>)"
| Written: "run_inflight p = before @ text # after \<Longrightarrow>
    dsns_step p (p\<lparr>run_inflight := before @ after, run_published := Some text\<rparr>)"
| WriteFailed: "run_inflight p = before @ text # after \<Longrightarrow>
    dsns_step p (p\<lparr>run_inflight := before @ after\<rparr>)"

inductive_cases dsns_stepE: "dsns_step p q"

inductive dsns_reachable :: "dsns_run \<Rightarrow> bool" where
  start: "dsns_reachable dsns_start"
| step: "dsns_reachable p \<Longrightarrow> dsns_step p q \<Longrightarrow> dsns_reachable q"

text \<open>A text some zone of the history renders to.\<close>

definition rendered_from :: "ZoneFile list \<Rightarrow> string \<Rightarrow> bool" where
  "rendered_from zs text \<longleftrightarrow> (\<exists>z \<in> set zs. \<exists>now. text = Render z now)"

definition run_ok :: "dsns_run \<Rightarrow> bool" where
  "run_ok p \<longleftrightarrow> ds_zone (run_state_of p) \<in> set (run_history p) \<and> (\<forall>z \<in> set (run_history p). zone_ok z) \<and>
     (\<forall>text \<in> set (run_inflight p). rendered_from (run_history p) text) \<and>
     (\<forall>text. run_published p = Some text \<longrightarrow> rendered_from (run_history p) text)"

lemma rendered_from_more: "rendered_from zs text \<Longrightarrow> rendered_from (z # zs) text"
  by (auto simp: rendered_from_def)

lemma run_ok_set_state:
  "run_ok p \<Longrightarrow> zone_ok (ds_zone s) \<Longrightarrow> run_ok (set_state s p)"
  by (auto simp: run_ok_def set_state_def intro: rendered_from_more)

lemma run_ok_step: "dsns_step p q \<Longrightarrow> run_ok p \<Longrightarrow> run_ok q"
proof (induction rule: dsns_step.induct)
  case (Rendered p now)
  then show ?case by (auto simp: run_ok_def rendered_from_def)
qed (auto simp: run_ok_def intro!: run_ok_set_state [unfolded run_ok_def] zone_ok_dsns)

lemma reachable_ok: "dsns_reachable p \<Longrightarrow> run_ok p"
proof (induction rule: dsns_reachable.induct)
  case start
  show ?case by (simp add: run_ok_def dsns_start_def NewDSNSState_def)
qed (rule run_ok_step)


text \<open>A run of two reconcilers whose writes arrive in the opposite order of their renderings.\<close>

definition stale_record :: Record where
  "stale_record = \<lparr>r_Name = ''a'', r_Type = RecordTypeA, r_TTL = 0, r_Value = ''1''\<rparr>"

definition stale_run :: "dsns_run" where
  "stale_run =
     (let s1 = UpdateRecords ''o'' [stale_record] NewDSNSState;
          s2 = RemoveRecords ''o'' s1
      in \<lparr>run_state_of = s2, run_inflight = [], run_published = Some (Render (ds_zone s1) 0),
          run_history = [ds_zone s2, ds_zone s1, ds_zone NewDSNSState]\<rparr>)"

lemma stale_run_reachable: "dsns_reachable stale_run"
proof -
  let ?s1 = "UpdateRecords ''o'' [stale_record] NewDSNSState"
  let ?s2 = "RemoveRecords ''o'' ?s1"
  let ?t1 = "Render (ds_zone ?s1) 0" and ?t2 = "Render (ds_zone ?s2) 0"
  let ?p = "\<lambda>s fl pub h. \<lparr>run_state_of = s, run_inflight = fl, run_published = pub, run_history = h\<rparr>"
  let ?h0 = "[ds_zone NewDSNSState]"
  let ?h1 = "ds_zone ?s1 # ?h0"
  let ?h2 = "ds_zone ?s2 # ?h1"
  have "dsns_reachable (?p NewDSNSState [] None ?h0)"
    using start by (simp add: dsns_start_def)
  then have "dsns_reachable (?p ?s1 [] None ?h1)"
    using step [OF _ Update [of _ "''o''" "[stale_record]"]] by (fastforce simp: set_state_def)
  then have "dsns_reachable (?p ?s1 [?t1] None ?h1)"
    using step [OF _ Rendered [of _ 0]] by fastforce
  then have "dsns_reachable (?p ?s2 [?t1] None ?h2)"
    using step [OF _ Remove [of _ "''o''"]] by (fastforce simp: set_state_def)
  then have "dsns_reachable (?p ?s2 [?t1, ?t2] None ?h2)"
    using step [OF _ Rendered [of _ 0]] by fastforce
  then have "dsns_reachable (?p ?s2 [?t1] (Some ?t2) ?h2)"
    using step [OF _ Written [of _ "[?t1]" ?t2 "[]"]] by fastforce
  then have "dsns_reachable (?p ?s2 [] (Some ?t1) ?h2)"
    using step [OF _ Written [of _ "[]" ?t1 "[]"]] by fastforce
  then show ?thesis by (simp add: stale_run_def Let_def)
qed

lemma header_end: "\<exists>xs. render_header n = xs @ [CHR 0x0A, CHR 0x0A]"
proof
  show "render_header n =
     (''$ORIGIN '' @ ZoneName @ ''.'' @ newline
     @ ''$TTL '' @ dec_int DefaultTTL @ newline @ newline
     @ ''@ '' @ dec_int DefaultTTL @ '' IN SOA '' @ DSNSNameserver @ ''. '' @ DSNSSOAContact @ ''. ('' @ newline
     @ ''    '' @ dec_int n @ '' ; serial'' @ newline
     @ ''    3600        ; refresh'' @ newline
     @ ''    900         ; retry'' @ newline
     @ ''    604800      ; expire'' @ newline
     @ ''    '' @ dec_int DefaultTTL @ ''         ; minimum TTL'' @ newline
     @ '')'' @ newline @ newline
     @ ''@ '' @ dec_int DefaultTTL @ '' IN NS '' @ DSNSNameserver @ ''.'') @ [CHR 0x0A, CHR 0x0A]"
    by (simp add: render_header_def)
qed



end
