(* ===== verification/Registry.thy ===== *)
theory Registry
  imports Client
begin

text \<open>
  The contract of the two registries of a lineage index. The DescendantReconciler and the
  OutcomeReconciler both append one entry per object UID and never touch an existing entry;
  the interface \<open>append_registry\<close> states this once, with its consequences for sequences of
  registrations.
\<close>

locale append_registry =
  fixes entries :: "'i \<Rightarrow> 'e list"
    and uid_of :: "'e \<Rightarrow> string"
    and register :: "'e \<Rightarrow> 'i \<Rightarrow> 'i"
  assumes entries_register:
    "entries (register e i) = (if uid_of e \<in> uid_of ` set (entries i) then entries i else entries i @ [e])"
begin

lemma register_prefix: "prefix (entries i) (entries (register e i))"
  by (simp add: entries_register)

lemma registers_prefix: "prefix (entries i) (entries (fold register es i))"
proof (induction es arbitrary: i)
  case (Cons e es)
  then show ?case using register_prefix by (metis comp_apply fold.simps(2) prefix_order.trans)
qed simp

lemma register_distinct:
  "distinct (map uid_of (entries i)) \<Longrightarrow> distinct (map uid_of (entries (register e i)))"
  by (auto simp: entries_register)

lemma registers_distinct:
  "distinct (map uid_of (entries i)) \<Longrightarrow> distinct (map uid_of (entries (fold register es i)))"
  by (induction es arbitrary: i) (simp_all add: register_distinct)

lemma register_uids:
  "uid_of ` set (entries (register e i)) = insert (uid_of e) (uid_of ` set (entries i))"
  by (auto simp: entries_register)

lemma registers_uids:
  "uid_of ` set (entries (fold register es i)) = uid_of ` set (entries i) \<union> uid_of ` set es"
  by (induction es arbitrary: i) (auto simp: register_uids)

text \<open>A second registration of the same object leaves the registry alone.\<close>

lemma register_again: "uid_of e' = uid_of e \<Longrightarrow> entries (register e' (register e i)) = entries (register e i)"
  by (auto simp: entries_register)

end


section \<open>The root index of a derived object\<close>

abbreviation (input) LabelRootILI :: string where
  "LabelRootILI \<equiv> ''infrastructure.ontai.dev/root-ili''"

abbreviation (input) LabelSeamOperator :: string where
  "LabelSeamOperator \<equiv> ''infrastructure.ontai.dev/seam-operator''"

abbreviation (input) LabelCreationRationale :: string where
  "LabelCreationRationale \<equiv> ''infrastructure.ontai.dev/creation-rationale''"

text \<open>The namespace label, or the object's own namespace when it is missing or empty.\<close>

definition ili_namespace :: "uobj \<Rightarrow> string" where
  "ili_namespace obj =
     (let iliNamespace = mapget (u_Labels obj) LabelRootILINamespace
      in if iliNamespace = [] then u_Namespace obj else iliNamespace)"

text \<open>The index an object names, if it names one.\<close>

definition root_ili_key :: "uobj \<Rightarrow> NamespacedName option" where
  "root_ili_key obj =
     (let iliName = mapget (u_Labels obj) LabelRootILI
      in if iliName = [] then None else Some \<lparr>nn_Namespace = ili_namespace obj, nn_Name = iliName\<rparr>)"

lemma put_ILI_same:
  "vw_ILI v w k = Some x \<Longrightarrow> same_view v w w' \<Longrightarrow> put_ILI v k x w w'"
  by (auto simp: put_ILI_def same_view_def fun_eq_iff)

lemma same_put_ILI: "same_view v w w1 \<Longrightarrow> put_ILI v k x w1 w' \<Longrightarrow> put_ILI v k x w w'"
  by (simp add: same_view_def put_ILI_def)

end
