(* ===== verification/DescendantReconciler.thy ===== *)
theory DescendantReconciler
  imports Registry
begin

text \<open>
  \<^verbatim>\<open>src/internal/controller/descendant_reconciler.go\<close>: every derived object that names an
  index in its labels is registered there once, by UID.
\<close>

definition DerivedObjectGVKs :: "GVK list" where
  "DerivedObjectGVKs =
     [\<lparr>gvk_Group = ''infrastructure.ontai.dev'', gvk_Version = ''v1alpha1'', gvk_Kind = ''InfrastructureRunnerConfig''\<rparr>,
      \<lparr>gvk_Group = ''infrastructure.ontai.dev'', gvk_Version = ''v1alpha1'', gvk_Kind = ''InfrastructurePackInstance''\<rparr>]"

definition descendant_entry :: "GVK \<Rightarrow> uobj \<Rightarrow> ILI \<Rightarrow> int \<Rightarrow> DescendantEntry" where
  "descendant_entry g obj ili now =
     (let actorRef = rb_DeclaringPrincipal (ili_RootBinding ili);
          actorRef = (if actorRef = [] then mapget (u_Labels obj) LabelActorRef else actorRef)
      in \<lparr>de_Group = gvk_Group g, de_Version = gvk_Version g, de_Kind = gvk_Kind g,
          de_Name = u_Name obj, de_Namespace = u_Namespace obj, de_UID = u_UID obj,
          de_SeamOperator = mapget (u_Labels obj) LabelSeamOperator,
          de_CreationRationale = mapget (u_Labels obj) LabelCreationRationale,
          de_RootGenerationAtCreation = u_Generation obj,
          de_CreatedAt = Some now, de_ActorRef = actorRef\<rparr>)"

definition Descendant_Reconcile :: "'w client \<Rightarrow> GVK \<Rightarrow> NamespacedName \<Rightarrow> ('w, Result \<times> goerror option) state" where
  "Descendant_Reconcile c g req =
     try_state (Get c g req)
       (\<lambda>err. if IsNotFound err then ret (done_result, None)
          else ret (done_result, Some (Errorf (''get '' @ gvk_Kind g @ '' '' @ nn_String req @ '': '') (ApiError err))))
       (\<lambda>obj. case map_of (u_Labels obj) LabelRootILI of
          None \<Rightarrow> ret (done_result, None)
        | Some iliName \<Rightarrow>
            if iliName = [] then ret (done_result, None)
            else
              try_state (GetILI c \<lparr>nn_Namespace = ili_namespace obj, nn_Name = iliName\<rparr>)
                (\<lambda>err. if IsNotFound err then ret (requeue_result, None)
                   else ret (done_result, Some (Errorf (''get InfrastructureLineageIndex '' @ iliName @ '': '') (ApiError err))))
                (\<lambda>ili.
                   if u_UID obj \<in> de_UID ` set (ili_Descendants ili) then ret (done_result, None)
                   else do {
                     now \<leftarrow> Now c;
                     let entry = descendant_entry g obj ili now;
                     try_state (PatchILI c (set_Descendants (ili_Descendants ili @ [entry]) ili) ili)
                       (\<lambda>err. ret (done_result,
                          Some (Errorf (''patch DescendantRegistry on ILI '' @ iliName @ '': '') (ApiError err))))
                       (\<lambda>_. ret (done_result, None)) }))"


section \<open>The descendant registry\<close>

definition register_descendant :: "DescendantEntry \<Rightarrow> ILI \<Rightarrow> ILI" where
  "register_descendant e ili =
     (if de_UID e \<in> de_UID ` set (ili_Descendants ili) then ili
      else set_Descendants (ili_Descendants ili @ [e]) ili)"

interpretation descendants: append_registry ili_Descendants de_UID register_descendant
  by unfold_locales (simp add: register_descendant_def)

text \<open>What one call does when the API server behaves as documented.\<close>

definition descendant_effect ::
  "'w view \<Rightarrow> GVK \<Rightarrow> NamespacedName \<Rightarrow> 'w \<Rightarrow> Result \<times> goerror option \<Rightarrow> 'w \<Rightarrow> bool" where
  "descendant_effect v g req w r w' \<longleftrightarrow>
     (case r of
        (res, Some _) \<Rightarrow> res = done_result \<and> same_view v w w'
      | (res, None) \<Rightarrow>
          (case vw_Obj v w g req of
             None \<Rightarrow> res = done_result \<and> same_view v w w'
           | Some obj \<Rightarrow>
               (case root_ili_key obj of
                  None \<Rightarrow> res = done_result \<and> same_view v w w'
                | Some k \<Rightarrow>
                    (case vw_ILI v w k of
                       None \<Rightarrow> res = requeue_result \<and> same_view v w w'
                     | Some ili \<Rightarrow> res = done_result \<and>
                         (\<exists>now. put_ILI v k (register_descendant (descendant_entry g obj ili now) ili) w w')))))"

lemma uid_descendant_entry [simp]: "de_UID (descendant_entry g obj ili now) = u_UID obj"
  by (simp add: descendant_entry_def Let_def)

lemma register_step_documented:
  assumes "documented c v" and "vw_ILI v w k = Some ili" and "ili_key ili = k"
    and "\<And>now w'. put_ILI v k (register_descendant (descendant_entry g obj ili now) ili) w w' \<Longrightarrow> Q (done_result, None) w'"
    and "\<And>e w'. same_view v w w' \<Longrightarrow> Q (done_result, Some e) w'"
  shows "wp_of (if u_UID obj \<in> de_UID ` set (ili_Descendants ili) then ret (done_result, None)
     else do {
       now \<leftarrow> Now c;
       let entry = descendant_entry g obj ili now;
       try_state (PatchILI c (set_Descendants (ili_Descendants ili @ [entry]) ili) ili)
         (\<lambda>err. ret (done_result, Some (f err))) (\<lambda>_. ret (done_result, None)) }) Q w"
proof (cases "u_UID obj \<in> de_UID ` set (ili_Descendants ili)")
  case True
  with assms(2) show ?thesis
    by (auto simp: wp register_descendant_def intro!: assms(4) put_ILI_same)
next
  case False
  then have entry: "set_Descendants (ili_Descendants ili @ [descendant_entry g obj ili (cl_Now c w)]) ili =
      register_descendant (descendant_entry g obj ili (cl_Now c w)) ili"
    by (simp add: register_descendant_def)
  have "wp_of (PatchILI c (register_descendant (descendant_entry g obj ili (cl_Now c w)) ili) ili)
      (\<lambda>r w'. case r of Inl e \<Rightarrow> wp_of (ret (done_result, Some (f e))) Q w' | Inr _ \<Rightarrow> wp_of (ret (done_result, None)) Q w') w"
    using assms(2,3) by (intro wp_PatchILI_documented [OF assms(1)])
      (auto simp: wp register_descendant_def intro: assms(4,5) [unfolded register_descendant_def])
  with False show ?thesis by (simp add: wp entry Let_def)
qed

lemma Descendant_Reconcile_documented:
  assumes "documented c v"
  shows "wp_of (Descendant_Reconcile c g req) (descendant_effect v g req w) w"
  unfolding Descendant_Reconcile_def wp_try
proof (rule wp_Get_documented [OF assms], goal_cases)
  case (1 obj w1)
  show ?case
  proof (cases "root_ili_key obj")
    case None
    then have "map_of (u_Labels obj) LabelRootILI = None \<or> map_of (u_Labels obj) LabelRootILI = Some []"
      by (auto simp: root_ili_key_def mapget_def Let_def split: option.splits if_splits)
    with None 1 show ?thesis by (auto simp: wp descendant_effect_def split: option.split)
  next
    case (Some k)
    then obtain n where n: "map_of (u_Labels obj) LabelRootILI = Some n" "n \<noteq> []"
      and k: "k = \<lparr>nn_Namespace = ili_namespace obj, nn_Name = n\<rparr>"
      by (auto simp: root_ili_key_def mapget_def Let_def split: option.splits if_splits)
    have "wp_of (try_state (GetILI c k)
        (\<lambda>err. if IsNotFound err then ret (requeue_result, None)
           else ret (done_result, Some (Errorf (''get InfrastructureLineageIndex '' @ n @ '': '') (ApiError err))))
        (\<lambda>ili. if u_UID obj \<in> de_UID ` set (ili_Descendants ili) then ret (done_result, None)
           else do {
             now \<leftarrow> Now c;
             let entry = descendant_entry g obj ili now;
             try_state (PatchILI c (set_Descendants (ili_Descendants ili @ [entry]) ili) ili)
               (\<lambda>err. ret (done_result, Some (Errorf (''patch DescendantRegistry on ILI '' @ n @ '': '') (ApiError err))))
               (\<lambda>_. ret (done_result, None)) })) (descendant_effect v g req w) w1"
      unfolding wp_try
    proof (rule wp_GetILI_documented [OF assms], goal_cases)
      case (1 ili w2)
      have view: "same_view v w w2" using \<open>same_view v w w1\<close> 1(3) by (rule same_view_trans)
      have stored: "vw_ILI v w2 k = Some ili" "vw_ILI v w k = Some ili" using 1 view by (simp_all add: same_view_def)
      show ?case
        unfolding sum.case
        using \<open>vw_Obj v w g req = Some obj\<close> Some stored same_put_ILI [OF view] same_view_trans [OF view]
        by (intro register_step_documented [OF assms stored(1) 1(2)]) (auto simp: descendant_effect_def)
    next
      case (2 w2)
      with \<open>vw_Obj v w g req = Some obj\<close> \<open>same_view v w w1\<close> Some show ?case
        by (auto simp: wp descendant_effect_def same_view_def)
    next
      case (3 e w2)
      with \<open>same_view v w w1\<close> show ?case
        by (auto simp: wp descendant_effect_def intro: same_view_trans)
    qed
    with n k show ?thesis by simp
  qed
qed (auto simp: wp descendant_effect_def)


section \<open>Properties of the descendant reconciler\<close>

text \<open>C27 (Descendant_Reconcile_registers): against an API server that behaves as documented, an error leaves everything
  unchanged; a missing or unlabelled object is ignored; a missing index asks for a requeue; else
  the index the labels name holds one entry for the object's UID, appended unless it was there,
  and nothing else is touched.\<close>

theorem Descendant_Reconcile_registers:
  assumes "documented c v" and "run_state (Descendant_Reconcile c g req) w = (r, w')"
  shows "descendant_effect v g req w r w'"
  by (rule wp_runD [OF Descendant_Reconcile_documented [OF assms(1)] assms(2)])

theorem Descendant_Reconcile_registers_witness:
  "\<exists>r w'. run_state (Descendant_Reconcile mem_client (DerivedObjectGVKs ! 0) \<lparr>nn_Namespace = ''a'', nn_Name = ''b''\<rparr>)
       \<lparr>mem_Obj = (\<lambda>_ _. None), mem_ILI = Map.empty, mem_CM = Map.empty, mem_Now = 0\<rparr> = (r, w') \<and>
     descendant_effect mem_view (DerivedObjectGVKs ! 0) \<lparr>nn_Namespace = ''a'', nn_Name = ''b''\<rparr>
       \<lparr>mem_Obj = (\<lambda>_ _. None), mem_ILI = Map.empty, mem_CM = Map.empty, mem_Now = 0\<rparr> r w'"
  using Descendant_Reconcile_registers [OF mem_documented] by (metis surj_pair)

text \<open>What a registration keeps of an index.\<close>

lemma register_descendant_keeps:
  "register_descendant e ili = set_Descendants (ili_Descendants (register_descendant e ili)) ili"
  by (simp add: register_descendant_def set_Descendants_def)

lemma descendant_effect_ili:
  assumes "descendant_effect v g req w r w'" and "vw_ILI v w k = Some ili"
  shows "\<exists>ili'. vw_ILI v w' k = Some ili' \<and> ili' = set_Descendants (ili_Descendants ili') ili \<and>
    prefix (ili_Descendants ili) (ili_Descendants ili') \<and>
    (distinct (map de_UID (ili_Descendants ili)) \<longrightarrow> distinct (map de_UID (ili_Descendants ili')))"
proof -
  have same: ?thesis if "same_view v w w'"
    using that assms(2) by (simp add: same_view_def set_Descendants_def)
  have put: ?thesis if "put_ILI v k' (register_descendant e ili0) w w'" "vw_ILI v w k' = Some ili0" for k' e ili0
    using that assms(2) descendants.register_prefix [of ili e] descendants.register_distinct [of ili e]
      register_descendant_keeps [of e ili]
    by (cases "k' = k") (auto simp: put_ILI_def set_Descendants_def)
  show ?thesis
    using assms(1) same put by (auto simp: descendant_effect_def split: prod.splits option.splits)
qed

lemma descendant_effect_objects:
  "descendant_effect v g req w r w' \<Longrightarrow> vw_Obj v w' = vw_Obj v w"
  by (auto simp: descendant_effect_def same_view_def put_ILI_def split: prod.splits option.splits)

end
