(* ===== verification/RegistryRaces.thy ===== *)
theory RegistryRaces
  imports DescendantReconciler
begin

text \<open>
  The descendant reconcilers of the two derived kinds run concurrently and may read one index
  before either writes. The patch is \<^verbatim>\<open>client.MergeFrom\<close> without an optimistic lock, and a
  JSON merge patch replaces an array as a whole: a write installs the list that was read plus its
  own entry. The state is the stored registry and the writes that are under way; reading includes
  the UID guard.
\<close>

record race =
  race_stored :: "DescendantEntry list"
  race_pending :: "(DescendantEntry list \<times> DescendantEntry) list"

inductive race_step :: "race \<Rightarrow> race \<Rightarrow> bool" where
  Known: "de_UID (e :: DescendantEntry) \<in> de_UID ` set (race_stored s) \<Longrightarrow> race_step s s"
| Read: "de_UID e \<notin> de_UID ` set (race_stored s) \<Longrightarrow>
    race_step s (s\<lparr>race_pending := race_pending s @ [(race_stored s, e)]\<rparr>)"
| Write: "race_pending s = before @ (base, e) # after \<Longrightarrow>
    race_step s (s\<lparr>race_stored := base @ [e], race_pending := before @ after\<rparr>)"
| WriteFailed: "race_pending s = before @ (base, e) # after \<Longrightarrow>
    race_step s (s\<lparr>race_pending := before @ after\<rparr>)"

inductive_cases race_stepE: "race_step s t"

inductive race_reachable :: "DescendantEntry list \<Rightarrow> race \<Rightarrow> bool" for init where
  start: "race_reachable init \<lparr>race_stored = init, race_pending = []\<rparr>"
| step: "race_reachable init s \<Longrightarrow> race_step s t \<Longrightarrow> race_reachable init t"

definition race_ok :: "DescendantEntry list \<Rightarrow> race \<Rightarrow> bool" where
  "race_ok init s \<longleftrightarrow> distinct (map de_UID (race_stored s)) \<and> prefix init (race_stored s) \<and>
     (\<forall>(base, e) \<in> set (race_pending s). distinct (map de_UID base) \<and> de_UID e \<notin> de_UID ` set base \<and> prefix init base)"

lemma race_ok_step: "race_step s t \<Longrightarrow> race_ok init s \<Longrightarrow> race_ok init t"
proof (induction rule: race_step.induct)
  case (Write s before base e after)
  then have "distinct (map de_UID base)" "de_UID e \<notin> de_UID ` set base" "prefix init base"
    by (auto simp: race_ok_def)
  with Write show ?case by (auto simp: race_ok_def intro: prefix_order.trans)
qed (auto simp: race_ok_def)

lemma race_reachable_ok: "race_reachable init s \<Longrightarrow> distinct (map de_UID init) \<Longrightarrow> race_ok init s"
proof (induction rule: race_reachable.induct)
  case start
  then show ?case by (simp add: race_ok_def)
next
  case (step s t)
  then show ?case by (blast intro: race_ok_step)
qed

text \<open>Under every interleaving of descendant reconcilers the registry never holds two
  entries with one UID and keeps, in order, the entries it had before the race began.\<close>

lemma race_keeps_registry:
  assumes "race_reachable init s" and "distinct (map de_UID init)"
  shows "distinct (map de_UID (race_stored s)) \<and> prefix init (race_stored s)"
  using race_reachable_ok [OF assms] by (simp add: race_ok_def)

lemma race_keeps_registry_sample:
  "distinct (map de_UID (race_stored \<lparr>race_stored = [], race_pending = []\<rparr>)) \<and>
   prefix [] (race_stored \<lparr>race_stored = [], race_pending = []\<rparr>)"
  by (rule race_keeps_registry [OF start]) simp


definition sample_descendant :: "string \<Rightarrow> DescendantEntry" where
  "sample_descendant uid = \<lparr>de_Group = ''g'', de_Version = ''v1'', de_Kind = ''K'', de_Name = uid, de_Namespace = ''ns'',
     de_UID = uid, de_SeamOperator = ''platform'', de_CreationRationale = ''PackExecution'',
     de_RootGenerationAtCreation = 1, de_CreatedAt = None, de_ActorRef = []\<rparr>"


end
