(* ===== verification/Sha256.thy ===== *)
theory Sha256
  imports Prelude
begin

text \<open>
  \<^verbatim>\<open>crypto/sha256\<close> and \<^verbatim>\<open>encoding/hex\<close> as the name service uses them: the SHA-256 digest of a
  byte string (FIPS 180-4) on 32-bit words, and its lower-case hexadecimal text. Only the length and
  the alphabet of the text are used by the proofs; the definition is executable.
\<close>

unbundle bit_operations_syntax

definition sha_rotr :: "nat \<Rightarrow> 32 word \<Rightarrow> 32 word" where
  "sha_rotr n x = drop_bit n x OR push_bit (32 - n) x"

text \<open>
  The constants, computed the way the standard defines them: the first 32 bits of the fractional
  parts of the cube roots of the first 64 primes, and of the square roots of the first eight.
  \<open>int_root\<close> finds the integer root bit by bit; 36 bits hold the largest one.
\<close>

fun int_root :: "nat \<Rightarrow> int \<Rightarrow> nat \<Rightarrow> int \<Rightarrow> int" where
  "int_root k n 0 r = r"
| "int_root k n (Suc b) r = int_root k n b (if (r + 2 ^ b) ^ k \<le> n then r + 2 ^ b else r)"

definition small_primes :: "int list" where
  "small_primes = filter (\<lambda>p. list_all (\<lambda>d. p mod d \<noteq> 0) [2..p - 1]) [2..311]"

definition sha_K :: "32 word list" where
  "sha_K = map (\<lambda>p. word_of_int (int_root 3 (p * 2 ^ 96) 36 0)) small_primes"

definition sha_init :: "32 word list" where
  "sha_init = map (\<lambda>p. word_of_int (int_root 2 (p * 2 ^ 64) 36 0)) [2, 3, 5, 7, 11, 13, 17, 19]"

text \<open>Padding: a one bit, zeros up to 56 modulo 64 bytes, the length in bits as eight bytes.\<close>

fun be_bytes :: "nat \<Rightarrow> int \<Rightarrow> int list" where
  "be_bytes 0 n = []"
| "be_bytes (Suc k) n = be_bytes k (n div 256) @ [n mod 256]"

definition sha_pad :: "int list \<Rightarrow> int list" where
  "sha_pad bs = bs @ [0x80] @ replicate ((119 - length bs mod 64) mod 64) 0 @ be_bytes 8 (8 * int (length bs))"

fun be_words :: "int list \<Rightarrow> 32 word list" where
  "be_words (a # b # c # d # bs) =
     word_of_int (a * 16777216 + b * 65536 + c * 256 + d) # be_words bs"
| "be_words _ = []"

text \<open>The message schedule, newest word first.\<close>

fun sha_schedule :: "nat \<Rightarrow> 32 word list \<Rightarrow> 32 word list" where
  "sha_schedule 0 ws = ws"
| "sha_schedule (Suc k) ws =
     (let w15 = ws ! 14; w2 = ws ! 1;
          s0 = sha_rotr 7 w15 XOR sha_rotr 18 w15 XOR drop_bit 3 w15;
          s1 = sha_rotr 17 w2 XOR sha_rotr 19 w2 XOR drop_bit 10 w2
      in sha_schedule k ((ws ! 15 + s0 + ws ! 6 + s1) # ws))"

fun sha_round :: "32 word list \<Rightarrow> 32 word \<times> 32 word \<Rightarrow> 32 word list" where
  "sha_round [a, b, c, d, e, f, g, h] (k, w) =
     (let t1 = h + (sha_rotr 6 e XOR sha_rotr 11 e XOR sha_rotr 25 e) + ((e AND f) XOR (NOT e AND g)) + k + w;
          t2 = (sha_rotr 2 a XOR sha_rotr 13 a XOR sha_rotr 22 a) + ((a AND b) XOR (a AND c) XOR (b AND c))
      in [t1 + t2, a, b, c, d + t1, e, f, g])"
| "sha_round hs _ = hs"

definition sha_block :: "32 word list \<Rightarrow> 32 word list \<Rightarrow> 32 word list" where
  "sha_block hs ws = map2 (+) hs (foldl sha_round hs (zip sha_K (rev (sha_schedule 48 (rev ws)))))"

fun sha_blocks :: "nat \<Rightarrow> 32 word list \<Rightarrow> 32 word list \<Rightarrow> 32 word list" where
  "sha_blocks 0 hs ws = hs"
| "sha_blocks (Suc n) hs ws = sha_blocks n (sha_block hs (take 16 ws)) (drop 16 ws)"

text \<open>\<^verbatim>\<open>sha256.Sum256\<close>: the 32 bytes of the digest.\<close>

definition Sum256 :: "string \<Rightarrow> int list" where
  "Sum256 s =
     (let ws = be_words (sha_pad (map of_char s))
      in concat (map (\<lambda>h. be_bytes 4 (uint h)) (sha_blocks (length ws div 16) sha_init ws)))"

text \<open>\<^verbatim>\<open>hex.EncodeToString\<close>.\<close>

definition EncodeToString :: "int list \<Rightarrow> string" where
  "EncodeToString bs = concat (map (\<lambda>b. [hex_digit (nat (b div 16)), hex_digit (nat (b mod 16))]) bs)"

lemma length_be_bytes [simp]: "length (be_bytes k n) = k"
  by (induction k arbitrary: n) auto

lemma be_bytes_bound: "b \<in> set (be_bytes k n) \<Longrightarrow> 0 \<le> b \<and> b < 256"
  by (induction k arbitrary: n) auto

lemma length_sha_round [simp]: "length (sha_round hs kw) = length hs"
  by (cases "(hs, kw)" rule: sha_round.cases) (simp_all add: Let_def)

lemma length_sha_rounds [simp]: "length (foldl sha_round hs kws) = length hs"
  by (induction kws arbitrary: hs) auto

lemma length_sha_block [simp]: "length (sha_block hs ws) = length hs"
  by (simp add: sha_block_def)

lemma length_sha_blocks [simp]: "length (sha_blocks n hs ws) = length hs"
  by (induction n arbitrary: hs ws) auto

lemma length_be_concat: "length (concat (map (\<lambda>h. be_bytes 4 (uint h)) hs)) = 4 * length hs"
  by (induction hs) auto

lemma length_sha_init: "4 * length sha_init = 32"
  by (simp add: sha_init_def)

lemma length_Sum256 [simp]: "length (Sum256 s) = 32"
  by (simp only: Sum256_def Let_def length_be_concat length_sha_blocks length_sha_init)

lemma Sum256_bytes: "b \<in> set (Sum256 s) \<Longrightarrow> 0 \<le> b \<and> b < 256"
  by (auto simp: Sum256_def Let_def dest: be_bytes_bound)

lemma length_EncodeToString [simp]: "length (EncodeToString bs) = 2 * length bs"
  by (induction bs) (simp_all add: EncodeToString_def)

text \<open>The hexadecimal alphabet.\<close>

definition hex_alphabet :: string where
  "hex_alphabet = ''0123456789abcdef''"

lemma hex_digit_alphabet: "n < 16 \<Longrightarrow> hex_digit n \<in> set hex_alphabet"
proof -
  have "\<forall>n < 16. hex_digit n \<in> set hex_alphabet" by code_simp
  then show "n < 16 \<Longrightarrow> hex_digit n \<in> set hex_alphabet" by blast
qed

lemma EncodeToString_alphabet:
  assumes "\<forall>b \<in> set bs. 0 \<le> b \<and> b < 256"
  shows "set (EncodeToString bs) \<subseteq> set hex_alphabet"
proof -
  have "set [hex_digit (nat (b div 16)), hex_digit (nat (b mod 16))] \<subseteq> set hex_alphabet" if "b \<in> set bs" for b
  proof -
    from assms that have "0 \<le> b" and "b < 256" by auto
    then have "nat (b div 16) < 16" and "nat (b mod 16) < 16" by auto
    then show ?thesis by (simp add: hex_digit_alphabet)
  qed
  then show ?thesis by (auto simp: EncodeToString_def)
qed

end
