(* ===== verification/DsnsRecords.thy ===== *)
theory DsnsRecords
  imports DsnsState Sha256
begin

text \<open>
  The pure part of \<^verbatim>\<open>src/internal/controller/dsns_reconciler.go\<close>: the watched kinds, the events,
  and the derivation of DNS records from an object, one function per kind. The theorems say which
  objects contribute which slots of the zone, and when two objects never compete for a slot.
\<close>


section \<open>Events\<close>

definition categoryForKind :: "string \<Rightarrow> string" where
  "categoryForKind kind =
     (if kind \<in> {''InfrastructureTalosCluster'', ''SeamInfrastructureCluster'', ''SeamInfrastructureMachine''}
      then RecordCategoryClusterTopology
      else if kind \<in> {''IdentityBinding'', ''IdentityProvider''} then RecordCategoryIdentityPlane
      else if kind \<in> {''InfrastructurePackInstance'', ''InfrastructureClusterPack'', ''InfrastructurePackExecution''}
      then RecordCategoryPackLineage
      else if kind = ''InfrastructureRunnerConfig'' then RecordCategoryExecutionAuthority
      else RecordCategoryClusterTopology)"

definition clusterFromNamespace :: "string \<Rightarrow> string" where
  "clusterFromNamespace ns =
     (if \<not> HasPrefix ns ''seam-tenant-'' then [] else TrimPrefix ns ''seam-tenant-'')"

definition clusterContextForNamespace :: "string \<Rightarrow> string" where
  "clusterContextForNamespace ns =
     (let c = clusterFromNamespace ns in if c \<noteq> [] then c else ''management'')"

definition recordStrings :: "Record list \<Rightarrow> string list" where
  "recordStrings records =
     map (\<lambda>r. let ttl = (if r_TTL r = 0 then DefaultTTL else r_TTL r)
              in r_Name r @ '' '' @ dec_int ttl @ '' IN '' @ r_Type r @ '' '' @ r_Value r) records"

definition hasConditionTrue :: "uobj \<Rightarrow> string \<Rightarrow> bool" where
  "hasConditionTrue obj condType = cond_true (u_Conditions obj) condType"

fun transition_time :: "elem list \<Rightarrow> string \<Rightarrow> string" where
  "transition_time [] condType = []"
| "transition_time (EOther _ # es) condType = transition_time es condType"
| "transition_time (EMap cond # es) condType =
     (if cond_is cond ''type'' condType
      then (case map_of cond ''lastTransitionTime'' of
              Some (GStr t) \<Rightarrow> t | _ \<Rightarrow> transition_time es condType)
      else transition_time es condType)"

definition conditionLastTransitionTime :: "uobj \<Rightarrow> string \<Rightarrow> string" where
  "conditionLastTransitionTime obj condType = transition_time (u_Conditions obj) condType"

definition severityForObject :: "uobj \<Rightarrow> string \<Rightarrow> string" where
  "severityForObject obj kind =
     (if kind = ''InfrastructureRunnerConfig'' \<and> hasConditionTrue obj ''Degraded''
      then SeverityWarning else SeverityInformational)"

definition deletionEvent :: "GVK \<Rightarrow> NamespacedName \<Rightarrow> DSNSEvent" where
  "deletionEvent gvk req =
     \<lparr>ev_RecordCategory = categoryForKind (gvk_Kind gvk),
      ev_Operation = OperationDeleted,
      ev_SourceRef = \<lparr>sr_Group = gvk_Group gvk, sr_Version = gvk_Version gvk, sr_Kind = gvk_Kind gvk,
        sr_Name = nn_Name req, sr_Namespace = nn_Namespace req\<rparr>,
      ev_ClusterContext = clusterContextForNamespace (nn_Namespace req),
      ev_DerivedRecords = [],
      ev_Severity = SeverityInformational\<rparr>"

definition updateEvent :: "GVK \<Rightarrow> NamespacedName \<Rightarrow> uobj \<Rightarrow> Record list \<Rightarrow> DSNSEvent" where
  "updateEvent gvk req obj records =
     \<lparr>ev_RecordCategory = categoryForKind (gvk_Kind gvk),
      ev_Operation = OperationUpdated,
      ev_SourceRef = \<lparr>sr_Group = gvk_Group gvk, sr_Version = gvk_Version gvk, sr_Kind = gvk_Kind gvk,
        sr_Name = nn_Name req, sr_Namespace = nn_Namespace req\<rparr>,
      ev_ClusterContext = clusterContextForNamespace (nn_Namespace req),
      ev_DerivedRecords = recordStrings records,
      ev_Severity = severityForObject obj (gvk_Kind gvk)\<rparr>"


section \<open>Kinds, owners and finalizers\<close>

abbreviation (input) DSNSFinalizer :: string where
  "DSNSFinalizer \<equiv> ''dsns.infrastructure.ontai.dev/cleanup''"

definition DSNSGVKs :: "GVK list" where
  "DSNSGVKs =
     [\<lparr>gvk_Group = ''infrastructure.ontai.dev'', gvk_Version = ''v1alpha1'', gvk_Kind = ''InfrastructureTalosCluster''\<rparr>,
      \<lparr>gvk_Group = ''infrastructure.ontai.dev'', gvk_Version = ''v1alpha1'', gvk_Kind = ''InfrastructurePackInstance''\<rparr>,
      \<lparr>gvk_Group = ''security.ontai.dev'', gvk_Version = ''v1alpha1'', gvk_Kind = ''IdentityBinding''\<rparr>,
      \<lparr>gvk_Group = ''security.ontai.dev'', gvk_Version = ''v1alpha1'', gvk_Kind = ''IdentityProvider''\<rparr>,
      \<lparr>gvk_Group = ''infrastructure.ontai.dev'', gvk_Version = ''v1alpha1'', gvk_Kind = ''InfrastructureRunnerConfig''\<rparr>]"

definition dsnsOwnerID :: "string \<Rightarrow> string \<Rightarrow> string \<Rightarrow> string" where
  "dsnsOwnerID kind namespace name = kind @ ''/'' @ namespace @ ''/'' @ name"

definition containsDSNSFinalizer :: "uobj \<Rightarrow> bool" where
  "containsDSNSFinalizer obj \<longleftrightarrow> DSNSFinalizer \<in> set (u_Finalizers obj)"

definition addDSNSFinalizer :: "uobj \<Rightarrow> uobj" where
  "addDSNSFinalizer obj = obj\<lparr>u_Finalizers := u_Finalizers obj @ [DSNSFinalizer]\<rparr>"

definition removeDSNSFinalizer :: "uobj \<Rightarrow> uobj" where
  "removeDSNSFinalizer obj = obj\<lparr>u_Finalizers := filter (\<lambda>f. f \<noteq> DSNSFinalizer) (u_Finalizers obj)\<rparr>"

definition clusterEndpointIP :: "string \<Rightarrow> string" where
  "clusterEndpointIP endpoint =
     (case SplitHostPort endpoint of Inl _ \<Rightarrow> endpoint | Inr (host, _) \<Rightarrow> host)"

definition subjectHash :: "string \<Rightarrow> string" where
  "subjectHash subject = take 16 (EncodeToString (Sum256 subject))"


section \<open>Record derivation\<close>

definition record_of :: "string \<Rightarrow> RecordType \<Rightarrow> string \<Rightarrow> Record" where
  "record_of name rtype val = \<lparr>r_Name = name, r_Type = rtype, r_TTL = 0, r_Value = val\<rparr>"

definition deriveTalosClusterRecords :: "uobj \<Rightarrow> Record list" where
  "deriveTalosClusterRecords obj =
     (if \<not> hasConditionTrue obj ''Ready'' then []
      else let name = u_Name obj;
               clusterEndpoint = NestedString obj [''spec'', ''clusterEndpoint'']
      in if clusterEndpoint = [] then []
      else let provider = NestedString obj [''spec'', ''infrastructureProvider''];
               endpointIP = clusterEndpointIP clusterEndpoint;
               records = [record_of name RecordTypeA endpointIP,
                          record_of (''api.'' @ name) RecordTypeA endpointIP]
      in if provider = ''screen'' then
           let nsFQDN = ''ns.'' @ name @ ''.'' @ ZoneName
           in records @ [record_of name RecordTypeNS nsFQDN,
                         record_of (''ns.'' @ name) RecordTypeA endpointIP]
         else
           let roleVal = NestedString obj [''status'', ''origin''];
               roleVal = (if roleVal = [] then NestedString obj [''spec'', ''mode''] else roleVal);
               roleVal = (if roleVal = [] then ''general'' else roleVal)
           in records @ [record_of (''role.'' @ name) RecordTypeTXT roleVal])"

definition deriveIdentityBindingRecords :: "uobj \<Rightarrow> Record list" where
  "deriveIdentityBindingRecords obj =
     (if \<not> hasConditionTrue obj ''TrustAnchorResolved'' then []
      else let clusterName = clusterFromNamespace (u_Namespace obj)
      in if clusterName = [] then []
      else let subject = NestedString obj [''spec'', ''subject'']
      in if subject = [] then []
      else let rbacProfile = NestedString obj [''spec'', ''rbacProfileRef'', ''name''];
               idpName = NestedString obj [''spec'', ''identityProviderRef'', ''name''];
               hash = subjectHash subject
      in [record_of (''identity.'' @ hash @ ''.guardian.'' @ clusterName) RecordTypeTXT
            (rbacProfile @ '' '' @ idpName)])"

definition deriveIdentityProviderRecords :: "uobj \<Rightarrow> Record list" where
  "deriveIdentityProviderRecords obj =
     (if \<not> hasConditionTrue obj ''Valid'' then []
      else let issuerURL = NestedString obj [''status'', ''issuerURL'']
      in if issuerURL = [] then []
      else [record_of (''idp.'' @ u_Name obj @ ''.guardian'') RecordTypeTXT issuerURL])"

definition derivePackInstanceRecords :: "uobj \<Rightarrow> Record list" where
  "derivePackInstanceRecords obj =
     (if \<not> hasConditionTrue obj ''Ready'' then []
      else let packName = NestedString obj [''spec'', ''clusterPackRef''];
               clusterName = NestedString obj [''spec'', ''targetClusterRef''];
               receiptDigest = NestedString obj [''status'', ''receiptDigest''];
               packName = (if packName = [] then u_Name obj else packName);
               packVersion = NestedString obj [''spec'', ''version''];
               packVersion = (if packVersion = [] then ''unknown'' else packVersion);
               clusterName = (if clusterName = [] then clusterFromNamespace (u_Namespace obj) else clusterName)
      in if clusterName = [] then []
      else [record_of (''pack.'' @ packName @ ''.'' @ packVersion @ ''.wrapper.'' @ clusterName) RecordTypeTXT
              (if receiptDigest = [] then ''delivered'' else receiptDigest)])"

definition deriveRunnerConfigRecords :: "uobj \<Rightarrow> Record list" where
  "deriveRunnerConfigRecords obj =
     (let clusterName = clusterFromNamespace (u_Namespace obj);
          clusterName = (if clusterName = [] then ''management'' else clusterName);
          emit = (\<lambda>phase completedAt.
            [record_of (''run.'' @ u_Name obj @ ''.conductor.'' @ clusterName) RecordTypeTXT
              (''phase='' @ phase @ '' completed='' @ completedAt)])
      in if hasConditionTrue obj ''Ready''
         then emit ''Completed'' (conditionLastTransitionTime obj ''Ready'')
         else if hasConditionTrue obj ''Degraded''
         then emit ''Failed'' (conditionLastTransitionTime obj ''Degraded'')
         else [])"

definition deriveRecords :: "GVK \<Rightarrow> uobj \<Rightarrow> Record list" where
  "deriveRecords gvk obj =
     (if gvk_Kind gvk = ''InfrastructureTalosCluster'' then deriveTalosClusterRecords obj
      else if gvk_Kind gvk = ''IdentityBinding'' then deriveIdentityBindingRecords obj
      else if gvk_Kind gvk = ''IdentityProvider'' then deriveIdentityProviderRecords obj
      else if gvk_Kind gvk = ''InfrastructurePackInstance'' then derivePackInstanceRecords obj
      else if gvk_Kind gvk = ''InfrastructureRunnerConfig'' then deriveRunnerConfigRecords obj
      else [])"

lemmas derive_defs = deriveTalosClusterRecords_def deriveIdentityBindingRecords_def
  deriveIdentityProviderRecords_def derivePackInstanceRecords_def deriveRunnerConfigRecords_def


section \<open>Slots\<close>

lemma lower_char_dot [simp]: "lower_char c = CHR ''.'' \<longleftrightarrow> c = CHR ''.''"
proof
  assume dot: "lower_char c = CHR ''.''"
  have "(of_char (lower_char c) :: nat) \<ge> 97 \<or> lower_char c = c"
    by (auto simp: lower_char_def)
  with dot show "c = CHR ''.''" by auto
qed (simp add: lower_char_def)

lemma dot_in_ToLower [simp]: "CHR ''.'' \<in> set (ToLower s) \<longleftrightarrow> CHR ''.'' \<in> set s"
proof -
  have "CHR ''.'' \<in> set (ToLower s) \<longleftrightarrow> (\<exists>c \<in> set s. lower_char c = CHR ''.'')"
    unfolding ToLower_def set_map image_iff by metis
  then show ?thesis by simp
qed

lemma ToLower_hex: "set s \<subseteq> set hex_alphabet \<Longrightarrow> ToLower s = s"
proof -
  have "\<forall>c \<in> set hex_alphabet. lower_char c = c"
    by (simp add: hex_alphabet_def lower_char_def)
  then show "set s \<subseteq> set hex_alphabet \<Longrightarrow> ToLower s = s"
    by (auto simp: ToLower_def intro!: map_idI)
qed

lemma length_subjectHash [simp]: "length (subjectHash s) = 16"
  by (simp add: subjectHash_def)

lemma subjectHash_alphabet: "set (subjectHash s) \<subseteq> set hex_alphabet"
  using EncodeToString_alphabet [of "Sum256 s"] Sum256_bytes set_take_subset
  unfolding subjectHash_def by fastforce

lemma ToLower_subjectHash [simp]: "ToLower (subjectHash s) = subjectHash s"
  by (rule ToLower_hex [OF subjectHash_alphabet])

text \<open>The fields a PackInstance record is named after, with the fallbacks of the code.\<close>

definition pack_name :: "uobj \<Rightarrow> string" where
  "pack_name obj = (let p = NestedString obj [''spec'', ''clusterPackRef''] in if p = [] then u_Name obj else p)"

definition pack_version :: "uobj \<Rightarrow> string" where
  "pack_version obj = (let v = NestedString obj [''spec'', ''version''] in if v = [] then ''unknown'' else v)"

definition pack_cluster :: "uobj \<Rightarrow> string" where
  "pack_cluster obj =
     (let c = NestedString obj [''spec'', ''targetClusterRef'']
      in if c = [] then clusterFromNamespace (u_Namespace obj) else c)"

text \<open>
  What identifies the slots of an object within its kind. The namespace counts only through the
  tenant cluster it names, and not at all for clusters and identity providers.
\<close>

definition slot_id :: "GVK \<Rightarrow> uobj \<Rightarrow> string list" where
  "slot_id gvk obj =
     (if gvk_Kind gvk = ''IdentityBinding''
      then [subjectHash (NestedString obj [''spec'', ''subject'']), ToLower (clusterFromNamespace (u_Namespace obj))]
      else if gvk_Kind gvk = ''InfrastructurePackInstance''
      then [ToLower (pack_name obj), ToLower (pack_version obj), ToLower (pack_cluster obj)]
      else if gvk_Kind gvk = ''InfrastructureRunnerConfig''
      then [ToLower (u_Name obj), ToLower (clusterContextForNamespace (u_Namespace obj))]
      else [ToLower (u_Name obj)])"

text \<open>Names without dots where a dot would make the record name ambiguous.\<close>

definition plain_names :: "GVK \<Rightarrow> uobj \<Rightarrow> bool" where
  "plain_names gvk obj \<longleftrightarrow>
     (gvk_Kind gvk \<in> {''InfrastructureTalosCluster'', ''InfrastructureRunnerConfig''} \<longrightarrow> CHR ''.'' \<notin> set (u_Name obj)) \<and>
     (gvk_Kind gvk = ''InfrastructurePackInstance'' \<longrightarrow>
        CHR ''.'' \<notin> set (pack_name obj) \<and> CHR ''.'' \<notin> set (pack_cluster obj))"

text \<open>The keys an object of each kind can contribute.\<close>

definition slot_keys :: "GVK \<Rightarrow> uobj \<Rightarrow> string list" where
  "slot_keys gvk obj =
     (if gvk_Kind gvk = ''InfrastructureTalosCluster''
      then let n = ToLower (u_Name obj) in [''A:'' @ n, ''A:api.'' @ n, ''NS:'' @ n, ''A:ns.'' @ n, ''TXT:role.'' @ n]
      else if gvk_Kind gvk = ''IdentityBinding''
      then [''TXT:identity.'' @ subjectHash (NestedString obj [''spec'', ''subject'']) @ ''.guardian.'' @
              ToLower (clusterFromNamespace (u_Namespace obj))]
      else if gvk_Kind gvk = ''IdentityProvider'' then [''TXT:idp.'' @ ToLower (u_Name obj) @ ''.guardian'']
      else if gvk_Kind gvk = ''InfrastructurePackInstance''
      then [''TXT:pack.'' @ ToLower (pack_name obj) @ ''.'' @ ToLower (pack_version obj) @ ''.wrapper.'' @
              ToLower (pack_cluster obj)]
      else if gvk_Kind gvk = ''InfrastructureRunnerConfig''
      then [''TXT:run.'' @ ToLower (u_Name obj) @ ''.conductor.'' @ ToLower (clusterContextForNamespace (u_Namespace obj))]
      else [])"

lemma key_of_record_of: "key_of (record_of n t v) = t @ '':'' @ ToLower n"
  by (simp add: key_of_def record_of_def recordKey_def)

lemma ToLower_lit: "ToLower (c # s) = lower_char c # ToLower s" "ToLower [] = []"
  by (simp_all add: ToLower_def)

lemmas lower_eval = key_of_record_of ToLower_lit lower_char_def

lemma derived_keys: "r \<in> set (deriveRecords gvk obj) \<Longrightarrow> key_of r \<in> set (slot_keys gvk obj)"
proof -
  have "r \<in> set (deriveTalosClusterRecords obj) \<Longrightarrow>
      (let n = ToLower (u_Name obj) in key_of r \<in> {''A:'' @ n, ''A:api.'' @ n, ''NS:'' @ n, ''A:ns.'' @ n, ''TXT:role.'' @ n})"
    by (auto simp: deriveTalosClusterRecords_def Let_def lower_eval split: if_splits)
  moreover have "r \<in> set (deriveIdentityBindingRecords obj) \<Longrightarrow>
      key_of r = ''TXT:identity.'' @ subjectHash (NestedString obj [''spec'', ''subject'']) @ ''.guardian.'' @
              ToLower (clusterFromNamespace (u_Namespace obj))"
    by (auto simp: deriveIdentityBindingRecords_def Let_def lower_eval split: if_splits)
  moreover have "r \<in> set (deriveIdentityProviderRecords obj) \<Longrightarrow> key_of r = ''TXT:idp.'' @ ToLower (u_Name obj) @ ''.guardian''"
    by (auto simp: deriveIdentityProviderRecords_def Let_def lower_eval split: if_splits)
  moreover have "r \<in> set (derivePackInstanceRecords obj) \<Longrightarrow>
      key_of r = ''TXT:pack.'' @ ToLower (pack_name obj) @ ''.'' @ ToLower (pack_version obj) @ ''.wrapper.'' @ ToLower (pack_cluster obj)"
    by (auto simp: derivePackInstanceRecords_def pack_name_def pack_version_def pack_cluster_def Let_def lower_eval
        split: if_splits)
  moreover have "r \<in> set (deriveRunnerConfigRecords obj) \<Longrightarrow>
      key_of r = ''TXT:run.'' @ ToLower (u_Name obj) @ ''.conductor.'' @ ToLower (clusterContextForNamespace (u_Namespace obj))"
    by (auto simp: deriveRunnerConfigRecords_def clusterContextForNamespace_def Let_def lower_eval split: if_splits)
  ultimately show "r \<in> set (deriveRecords gvk obj) \<Longrightarrow> key_of r \<in> set (slot_keys gvk obj)"
    by (simp add: deriveRecords_def slot_keys_def Let_def split: if_splits)
qed

lemma derived_typed: "r \<in> set (deriveRecords gvk obj) \<Longrightarrow> typed r"
  by (auto simp: deriveRecords_def derive_defs record_of_def typed_def Let_def split: if_splits)

section \<open>Properties of the derivation\<close>

lemma mid_inj:
  fixes s :: string
  assumes "s @ c # t @ u @ c # v = s' @ c # t' @ u @ c # v'"
    and "c \<notin> set s" and "c \<notin> set s'" and "c \<notin> set v" and "c \<notin> set v'"
  shows "s = s' \<and> t = t' \<and> v = v'"
  using split_at_inj [OF assms(1-3)] split_at_last_inj [of "t @ u" c v "t' @ u" v'] assms(4,5) by auto

text \<open>The kind of the object behind a key: only clusters have A and NS records.\<close>

definition key_class :: "string \<Rightarrow> string" where
  "key_class k = (if take 4 k = ''TXT:'' then take 3 (drop 4 k) else ''rol'')"

definition kind_class :: "string \<Rightarrow> string" where
  "kind_class kind =
     (if kind = ''InfrastructureTalosCluster'' then ''rol'' else if kind = ''IdentityBinding'' then ''ide''
      else if kind = ''IdentityProvider'' then ''idp'' else if kind = ''InfrastructurePackInstance'' then ''pac''
      else ''run'')"

lemma slot_keys_class: "k \<in> set (slot_keys g obj) \<Longrightarrow> key_class k = kind_class (gvk_Kind g)"
  by (auto simp: slot_keys_def key_class_def kind_class_def Let_def split: if_splits)

lemma kind_class_inj: "inj_on (\<lambda>g. kind_class (gvk_Kind g)) (set DSNSGVKs)"
  by (simp add: DSNSGVKs_def kind_class_def)

lemma slot_keys_identify:
  assumes "g \<in> set DSNSGVKs" and "g' \<in> set DSNSGVKs" and "plain_names g obj" and "plain_names g' obj'"
    and "k \<in> set (slot_keys g obj)" and "k \<in> set (slot_keys g' obj')"
  shows "g = g' \<and> slot_id g obj = slot_id g' obj'"
proof -
  have g: "g = g'"
    using kind_class_inj slot_keys_class [OF assms(5)] slot_keys_class [OF assms(6)] assms(1,2)
    by (simp add: inj_on_def)
  have dotfree: "CHR ''.'' \<notin> set s \<Longrightarrow> CHR ''.'' \<notin> set (ToLower s)" for s by simp
  have prefixed: "CHR ''.'' \<notin> set s \<Longrightarrow> ToLower s \<noteq> p @ CHR ''.'' # t" for s p t
    using dotfree [of s] by fastforce
  from assms(1) consider
      (talos) "gvk_Kind g = ''InfrastructureTalosCluster''" | (binding) "gvk_Kind g = ''IdentityBinding''"
    | (idp) "gvk_Kind g = ''IdentityProvider''" | (pack) "gvk_Kind g = ''InfrastructurePackInstance''"
    | (runner) "gvk_Kind g = ''InfrastructureRunnerConfig''"
    by (auto simp: DSNSGVKs_def)
  then have "slot_id g obj = slot_id g obj'"
  proof cases
    case talos
    then show ?thesis
      using assms(3-6) prefixed [of "u_Name obj" "''api''"] prefixed [of "u_Name obj'" "''api''"]
        prefixed [of "u_Name obj" "''ns''"] prefixed [of "u_Name obj'" "''ns''"]
      by (auto simp: g slot_keys_def slot_id_def plain_names_def Let_def)
  next
    case binding
    then show ?thesis using assms(5,6) by (auto simp: g slot_keys_def slot_id_def)
  next
    case idp
    then show ?thesis using assms(5,6) by (auto simp: g slot_keys_def slot_id_def)
  next
    case pack
    then show ?thesis
      using assms(3-6) mid_inj [of "ToLower (pack_name obj)" "CHR ''.''" "ToLower (pack_version obj)" "''.wrapper''"
          "ToLower (pack_cluster obj)" "ToLower (pack_name obj')" "ToLower (pack_version obj')" "ToLower (pack_cluster obj')"]
      by (auto simp: g slot_keys_def slot_id_def plain_names_def)
  next
    case runner
    then show ?thesis
      using assms(3-6) split_at_inj [of "ToLower (u_Name obj)" "CHR ''.''" "''conductor.'' @ ToLower (clusterContextForNamespace (u_Namespace obj))"
          "ToLower (u_Name obj')" "''conductor.'' @ ToLower (clusterContextForNamespace (u_Namespace obj'))"]
      by (auto simp: g slot_keys_def slot_id_def plain_names_def)
  qed
  with g show ?thesis by simp
qed


definition sample_runner :: uobj where
  "sample_runner = \<lparr>u_Name = ''day2'', u_Namespace = ''seam-tenant-prod'', u_UID = ''u1'', u_Generation = 1,
     u_Labels = [], u_Annotations = [], u_Finalizers = [], u_Deleting = False,
     u_Conditions = [EMap [(''type'', GStr ''Ready''), (''status'', GStr ''True''),
       (''lastTransitionTime'', GStr ''2026-01-01T00:00:00Z'')]],
     u_StatusIsMap = True, u_Ingress = [], u_Strings = []\<rparr>"

lemma sample_runner_records:
  "deriveRecords (DSNSGVKs ! 4) sample_runner =
     [record_of ''run.day2.conductor.prod'' RecordTypeTXT ''phase=Completed completed=2026-01-01T00:00:00Z'']"
  by (simp add: deriveRecords_def DSNSGVKs_def deriveRunnerConfigRecords_def sample_runner_def hasConditionTrue_def
      conditionLastTransitionTime_def cond_is_def clusterFromNamespace_def HasPrefix_def TrimPrefix_def Let_def)


text \<open>The address of a cluster's A records is the endpoint without its port: the host
  of \<^verbatim>\<open>host:port\<close>, the literal of \<^verbatim>\<open>[ipv6]:port\<close>, and the endpoint itself when it has no port.\<close>

lemma clusterEndpointIP_host:
  assumes "set port \<inter> {CHR '':'', CHR ''['', CHR '']''} = {}"
  shows "(set host \<inter> {CHR '':'', CHR ''['', CHR '']''} = {} \<longrightarrow>
      clusterEndpointIP (host @ '':'' @ port) = host \<and> clusterEndpointIP host = host) \<and>
    (set ip6 \<inter> {CHR ''['', CHR '']''} = {} \<longrightarrow> clusterEndpointIP (''['' @ ip6 @ '']:'' @ port) = ip6)"
proof (intro conjI impI)
  assume host: "set host \<inter> {CHR '':'', CHR ''['', CHR '']''} = {}"
  have last: "LastIndexByte (host @ CHR '':'' # port) (CHR '':'') = Some (length host)"
    using assms LastIndexByte_append [of "CHR '':''" port host] by simp
  have "(host @ CHR '':'' # port) ! 0 \<noteq> CHR ''[''"
    using host by (cases host) auto
  then show "clusterEndpointIP (host @ '':'' @ port) = host"
    using host assms last by (auto simp: clusterEndpointIP_def SplitHostPort_def Let_def)
  show "clusterEndpointIP host = host"
  proof -
    have none: "LastIndexByte host (CHR '':'') = None" using host by simp
    show ?thesis unfolding clusterEndpointIP_def SplitHostPort_def none by simp
  qed
next
  assume ip6: "set ip6 \<inter> {CHR ''['', CHR '']''} = {}"
  let ?hp = "''['' @ ip6 @ '']:'' @ port"
  have last: "LastIndexByte ?hp (CHR '':'') = Some (length ip6 + 2)"
    using assms LastIndexByte_append [of "CHR '':''" port "''['' @ ip6 @ '']''"] by simp
  have close: "IndexByte ?hp (CHR '']'') = Some (length ip6 + 1)"
    using ip6 IndexByte_append [of "CHR '']''" "''['' @ ip6" "'':'' @ port"] by simp
  show "clusterEndpointIP ?hp = ip6"
    using ip6 assms last close by (auto simp: clusterEndpointIP_def SplitHostPort_def Let_def)
qed

lemma clusterEndpointIP_host_sample:
  "clusterEndpointIP ''10.20.0.10:6443'' = ''10.20.0.10'' \<and> clusterEndpointIP ''[fd00::1]:6443'' = ''fd00::1''"
  using clusterEndpointIP_host [of "''6443''" "''10.20.0.10''" "''fd00::1''"] by simp

end
