(* ===== verification/DsnsReconciler.thy ===== *)
theory DsnsReconciler
  imports DsnsRecords
begin

text \<open>
  The control loop of \<^verbatim>\<open>src/internal/controller/dsns_reconciler.go\<close>: the ns glue record, the
  finalizer protocol and the projection of one object into the shared zone. \<open>dsns_outcome\<close>
  specifies what one call may do against an API server that behaves as documented, case by case,
  and the reconciler is shown to refine it.
\<close>

record DSNSReconciler =
  dr_GVK :: GVK
  dr_NsGlueFallbackIP :: string

definition service_gvk :: GVK where
  "service_gvk = \<lparr>gvk_Group = [], gvk_Version = ''v1'', gvk_Kind = ''Service''\<rparr>"

definition dsns_lb_key :: NamespacedName where
  "dsns_lb_key = \<lparr>nn_Namespace = ''kube-system'', nn_Name = ''dsns-loadbalancer''\<rparr>"

text \<open>The first ingress address of the Service, if it is a non-empty string.\<close>

definition ingress_ip :: "elem list \<Rightarrow> string \<Rightarrow> string" where
  "ingress_ip ingress ip =
     (case ingress of
        EMap ing # _ \<Rightarrow>
          (case map_of ing ''ip'' of Some (GStr lbIP) \<Rightarrow> if lbIP \<noteq> [] then lbIP else ip | _ \<Rightarrow> ip)
      | _ \<Rightarrow> ip)"

definition refreshNSGlue :: "'w client \<Rightarrow> DSNSReconciler \<Rightarrow> ('w sys, unit) state" where
  "refreshNSGlue c r = do {
     res \<leftarrow> liftW (Get c service_gvk dsns_lb_key);
     let ip = (case res of
        Inl _ \<Rightarrow> dr_NsGlueFallbackIP r
      | Inr svc \<Rightarrow> ingress_ip (u_Ingress svc) (dr_NsGlueFallbackIP r));
     if ip \<noteq> [] then modify_dsns (SetStaticRecord (record_of ''ns'' RecordTypeA ip)) else ret () }"

definition as_error :: "api_error + 'a \<Rightarrow> goerror option" where
  "as_error r = (case r of Inl e \<Rightarrow> Some (ApiError e) | Inr _ \<Rightarrow> None)"

text \<open>The last part: derive, replace the owner's records, publish.\<close>

definition project_object ::
  "'w client \<Rightarrow> DSNSReconciler \<Rightarrow> NamespacedName \<Rightarrow> string \<Rightarrow> uobj \<Rightarrow> ('w sys, Result \<times> goerror option) state" where
  "project_object c r req ownerID obj = do {
     let records = deriveRecords (dr_GVK r) obj;
     modify_dsns (UpdateRecords ownerID records);
     err \<leftarrow> DSNSState_Apply c [updateEvent (dr_GVK r) req obj records];
     case err of
       Some e \<Rightarrow> ret (done_result, Some (Errorf ''apply zone to ConfigMap: '' e))
     | None \<Rightarrow> ret (done_result, None) }"

definition DSNS_Reconcile ::
  "'w client \<Rightarrow> DSNSReconciler \<Rightarrow> NamespacedName \<Rightarrow> ('w sys, Result \<times> goerror option) state" where
  "DSNS_Reconcile c r req = do {
     refreshNSGlue c r;
     let ownerID = dsnsOwnerID (gvk_Kind (dr_GVK r)) (nn_Namespace req) (nn_Name req);
     try_state (liftW (Get c (dr_GVK r) req))
       (\<lambda>err. if IsNotFound err
          then do {
            modify_dsns (RemoveRecords ownerID);
            e \<leftarrow> DSNSState_Apply c [deletionEvent (dr_GVK r) req];
            ret (done_result, e) }
          else ret (done_result,
            Some (Errorf (''get '' @ gvk_Kind (dr_GVK r) @ '' '' @ nn_String req @ '': '') (ApiError err))))
       (\<lambda>obj.
          if u_Deleting obj then
            (if \<not> containsDSNSFinalizer obj then ret (done_result, None)
             else do {
               modify_dsns (RemoveRecords ownerID);
               err \<leftarrow> DSNSState_Apply c [deletionEvent (dr_GVK r) req];
               case err of
                 Some e \<Rightarrow> ret (done_result, Some e)
               | None \<Rightarrow> do {
                   u \<leftarrow> liftW (Update c (dr_GVK r) (removeDSNSFinalizer obj));
                   ret (done_result, as_error u) } })
          else if \<not> containsDSNSFinalizer obj then
            try_state (liftW (Update c (dr_GVK r) (addDSNSFinalizer obj)))
              (\<lambda>err. ret (done_result, Some (Errorf
                 (''add finalizer to '' @ gvk_Kind (dr_GVK r) @ '' '' @ nn_String req @ '': '') (ApiError err))))
              (\<lambda>_. try_state (liftW (Get c (dr_GVK r) req))
                 (\<lambda>err. ret (done_result, Some (Errorf ''re-fetch after finalizer: '' (ApiError err))))
                 (project_object c r req ownerID))
          else project_object c r req ownerID obj) }"


section \<open>What one call may do\<close>

definition glue_record :: "string \<Rightarrow> Record" where
  "glue_record ip = record_of ''ns'' RecordTypeA ip"

text \<open>The glue record may have been set; nothing else changed.\<close>

definition glued :: "'w view \<Rightarrow> 'w sys \<Rightarrow> 'w sys \<Rightarrow> bool" where
  "glued v s s' \<longleftrightarrow> same_view v (sys_world s) (sys_world s') \<and> sys_spawned s' = sys_spawned s \<and>
     (sys_dsns s' = sys_dsns s \<or> (\<exists>ip. ip \<noteq> [] \<and> sys_dsns s' = SetStaticRecord (glue_record ip) (sys_dsns s)))"

definition launched :: "DSNSEvent \<Rightarrow> DSNSState \<Rightarrow> (nat \<times> DSNSEvent) list" where
  "launched ev d = (case ds_sinks d of None \<Rightarrow> [] | Some sr \<Rightarrow> map (\<lambda>i. (i, ev)) (sinks sr))"

text \<open>The shared zone was published and the event announced, or neither.\<close>

definition published :: "'w view \<Rightarrow> DSNSEvent \<Rightarrow> 'w sys \<Rightarrow> goerror option \<Rightarrow> 'w sys \<Rightarrow> bool" where
  "published v ev s err s' \<longleftrightarrow> sys_dsns s' = sys_dsns s \<and>
     vw_Obj v (sys_world s') = vw_Obj v (sys_world s) \<and> vw_ILI v (sys_world s') = vw_ILI v (sys_world s) \<and>
     (case err of
        None \<Rightarrow> (\<exists>now. zone_text v (sys_world s') ZoneConfigMapNamespace = Some (Render (ds_zone (sys_dsns s)) now)) \<and>
          sys_spawned s' = sys_spawned s @ launched ev (sys_dsns s)
      | Some _ \<Rightarrow> same_view v (sys_world s) (sys_world s') \<and> sys_spawned s' = sys_spawned s)"

definition with_dsns :: "(DSNSState \<Rightarrow> DSNSState) \<Rightarrow> 'w sys \<Rightarrow> 'w sys" where
  "with_dsns f s = s\<lparr>sys_dsns := f (sys_dsns s)\<rparr>"

text \<open>The object in the store after the finalizer was released: gone if it was the last one.\<close>

definition released :: "uobj \<Rightarrow> uobj option" where
  "released obj =
     (let obj' = removeDSNSFinalizer obj in if u_Finalizers obj' = [] then None else Some obj')"

definition owner_of :: "DSNSReconciler \<Rightarrow> NamespacedName \<Rightarrow> string" where
  "owner_of r req = dsnsOwnerID (gvk_Kind (dr_GVK r)) (nn_Namespace req) (nn_Name req)"

definition same_process :: "'w sys \<Rightarrow> 'w sys \<Rightarrow> bool" where
  "same_process s s' \<longleftrightarrow> sys_dsns s' = sys_dsns s \<and> sys_spawned s' = sys_spawned s"

inductive dsns_outcome ::
  "'w view \<Rightarrow> DSNSReconciler \<Rightarrow> NamespacedName \<Rightarrow> 'w sys \<Rightarrow> goerror option \<Rightarrow> 'w sys \<Rightarrow> bool"
  for v r req s where
  Unread: "glued v s s' \<Longrightarrow> dsns_outcome v r req s (Some e) s'"
| Gone: "\<lbrakk>glued v s s1; vw_Obj v (sys_world s) (dr_GVK r) req = None;
     published v (deletionEvent (dr_GVK r) req) (with_dsns (RemoveRecords (owner_of r req)) s1) err s'\<rbrakk>
     \<Longrightarrow> dsns_outcome v r req s err s'"
| Ignored: "\<lbrakk>glued v s s'; vw_Obj v (sys_world s) (dr_GVK r) req = Some obj; u_Deleting obj; \<not> containsDSNSFinalizer obj\<rbrakk>
     \<Longrightarrow> dsns_outcome v r req s None s'"
| Kept: "\<lbrakk>glued v s s1; vw_Obj v (sys_world s) (dr_GVK r) req = Some obj; u_Deleting obj; containsDSNSFinalizer obj;
     published v (deletionEvent (dr_GVK r) req) (with_dsns (RemoveRecords (owner_of r req)) s1) (Some e) s'\<rbrakk>
     \<Longrightarrow> dsns_outcome v r req s (Some e) s'"
| Released: "\<lbrakk>glued v s s1; vw_Obj v (sys_world s) (dr_GVK r) req = Some obj; u_Deleting obj; containsDSNSFinalizer obj;
     published v (deletionEvent (dr_GVK r) req) (with_dsns (RemoveRecords (owner_of r req)) s1) None s2;
     same_process s2 s'; put_Obj v (dr_GVK r) req (released obj) (sys_world s2) (sys_world s')\<rbrakk>
     \<Longrightarrow> dsns_outcome v r req s None s'"
| NotReleased: "\<lbrakk>glued v s s1; vw_Obj v (sys_world s) (dr_GVK r) req = Some obj; u_Deleting obj; containsDSNSFinalizer obj;
     published v (deletionEvent (dr_GVK r) req) (with_dsns (RemoveRecords (owner_of r req)) s1) None s2;
     same_process s2 s'; same_view v (sys_world s2) (sys_world s')\<rbrakk>
     \<Longrightarrow> dsns_outcome v r req s (Some e) s'"
| Finalized: "\<lbrakk>glued v s s1; vw_Obj v (sys_world s) (dr_GVK r) req = Some obj; \<not> u_Deleting obj; \<not> containsDSNSFinalizer obj;
     same_process s1 s'; put_Obj v (dr_GVK r) req (Some (addDSNSFinalizer obj)) (sys_world s) (sys_world s')\<rbrakk>
     \<Longrightarrow> dsns_outcome v r req s (Some e) s'"
| Projected: "\<lbrakk>glued v s s1; vw_Obj v (sys_world s) (dr_GVK r) req = Some obj; \<not> u_Deleting obj;
     obj' = (if containsDSNSFinalizer obj then obj else addDSNSFinalizer obj);
     same_process s1 s2; put_Obj v (dr_GVK r) req (Some obj') (sys_world s) (sys_world s2);
     published v (updateEvent (dr_GVK r) req obj' (deriveRecords (dr_GVK r) obj'))
       (with_dsns (UpdateRecords (owner_of r req) (deriveRecords (dr_GVK r) obj')) s2) err s'\<rbrakk>
     \<Longrightarrow> dsns_outcome v r req s (map_option (Errorf ''apply zone to ConfigMap: '') err) s'"

inductive_cases dsns_outcomeE: "dsns_outcome v r req s err s'"


section \<open>The reconciler refines its specification\<close>

lemma wp_Apply_documented:
  assumes "documented c v" and "\<And>err s'. published v ev s err s' \<Longrightarrow> Q err s'"
  shows "wp_of (DSNSState_Apply c [ev]) Q s"
proof (rule wp_runI)
  fix err s'
  assume run: "run_state (DSNSState_Apply c [ev]) s = (err, s')"
  obtain e w where call: "run_state (ApplyContent c (Render (ds_zone (sys_dsns s)) (cl_Now c (sys_world s)))) (sys_world s) = (e, w)"
    by fastforce
  from run call have s': "e = err" "s' = s\<lparr>sys_world := w, sys_spawned := sys_spawned s @
      (if err = None then launched ev (sys_dsns s) else [])\<rparr>"
    by (auto simp: run_DSNSState_Apply launched_def split: option.splits)
  then show "Q err s'"
    using ApplyContent_effects [OF assms(1) call]
    by (intro assms(2)) (auto simp: published_def split: option.split)
qed

lemma wp_glue_documented:
  assumes "documented c v" and "\<And>s'. glued v s s' \<Longrightarrow> Q () s'"
  shows "wp_of (refreshNSGlue c r) Q s"
  unfolding refreshNSGlue_def Let_def wp
  by (rule wp_Get_documented [OF assms(1)])
    (auto simp: glued_def glue_record_def wp intro!: assms(2))

lemma glued_stored:
  "glued v s s1 \<Longrightarrow> vw_Obj v (sys_world s1) = vw_Obj v (sys_world s)"
  by (simp add: glued_def same_view_def)

lemma glued_same:
  "glued v s s1 \<Longrightarrow> same_view v (sys_world s1) w \<Longrightarrow> glued v s (s1\<lparr>sys_world := w\<rparr>)"
  by (auto simp: glued_def same_view_def)

lemma u_key_finalizers [simp]:
  "u_key (removeDSNSFinalizer obj) = u_key obj" "u_key (addDSNSFinalizer obj) = u_key obj"
  "u_Deleting (removeDSNSFinalizer obj) = u_Deleting obj" "u_Deleting (addDSNSFinalizer obj) = u_Deleting obj"
  by (simp_all add: u_key_def removeDSNSFinalizer_def addDSNSFinalizer_def)

lemma put_same:
  "vw_Obj v w g k = Some x \<Longrightarrow> same_view v w w' \<Longrightarrow> put_Obj v g k (Some x) w w'"
  by (auto simp: put_Obj_def same_view_def fun_eq_iff)

lemma project_documented:
  assumes "documented c v" and "glued v s s1" and "vw_Obj v (sys_world s) (dr_GVK r) req = Some obj"
    and "\<not> u_Deleting obj" and "obj' = (if containsDSNSFinalizer obj then obj else addDSNSFinalizer obj)"
    and "same_process s1 s2" and "put_Obj v (dr_GVK r) req (Some obj') (sys_world s) (sys_world s2)"
  shows "wp_of (project_object c r req (owner_of r req) obj') (\<lambda>(res, err) s'. dsns_outcome v r req s err s' \<and> res = done_result) s2"
proof -
  have "dsns_outcome v r req s (map_option (Errorf ''apply zone to ConfigMap: '') err) s'"
    if "published v (updateEvent (dr_GVK r) req obj' (deriveRecords (dr_GVK r) obj'))
       (with_dsns (UpdateRecords (owner_of r req) (deriveRecords (dr_GVK r) obj')) s2) err s'" for err s'
    by (rule Projected [OF assms(2-7) that])
  then show ?thesis
    unfolding project_object_def Let_def wp
    by (intro wp_Apply_documented [OF assms(1)]) (force simp: with_dsns_def wp split: option.splits)
qed

lemma deletion_documented:
  assumes "documented c v" and "glued v s s1" and "vw_Obj v (sys_world s) (dr_GVK r) req = Some obj"
    and "u_key obj = req" and "u_Deleting obj" and "containsDSNSFinalizer obj"
    and "published v (deletionEvent (dr_GVK r) req) (with_dsns (RemoveRecords (owner_of r req)) s1) None s2"
  shows "wp_of (liftW (Update c (dr_GVK r) (removeDSNSFinalizer obj)))
    (\<lambda>u s'. dsns_outcome v r req s (as_error u) s') s2"
proof -
  have stored: "vw_Obj v (sys_world s2) (dr_GVK r) req = Some obj"
    using assms(2,3,7) glued_stored [OF assms(2)] by (simp add: published_def with_dsns_def)
  show ?thesis
    unfolding wp
  proof (rule wp_Update_documented [OF assms(1)], goal_cases)
    case 1
    then show ?case using stored assms(4) by simp
  next
    case (2 w')
    then have "put_Obj v (dr_GVK r) req (released obj) (sys_world s2) w'"
      using assms(4,5) by (simp add: released_def Let_def)
    then show ?case
      using Released [OF assms(2,3,5,6,7), of "s2\<lparr>sys_world := w'\<rparr>"] by (simp add: as_error_def same_process_def)
  next
    case (3 e w')
    then show ?case
      using NotReleased [OF assms(2,3,5,6,7), of "s2\<lparr>sys_world := w'\<rparr>"] by (simp add: as_error_def same_process_def)
  qed
qed

lemma finalize_documented:
  assumes "documented c v" and "glued v s s1" and "vw_Obj v (sys_world s) (dr_GVK r) req = Some obj"
    and "u_key obj = req" and "\<not> u_Deleting obj" and "\<not> containsDSNSFinalizer obj"
    and "put_Obj v (dr_GVK r) req (Some (addDSNSFinalizer obj)) (sys_world s) w"
  shows "wp_of (try_state (liftW (Get c (dr_GVK r) req))
      (\<lambda>err. ret (done_result, Some (Errorf ''re-fetch after finalizer: '' (ApiError err))))
      (project_object c r req (owner_of r req)))
    (\<lambda>(res, err) s'. dsns_outcome v r req s err s' \<and> res = done_result) (s1\<lparr>sys_world := w\<rparr>)"
  unfolding wp
proof (rule wp_Get_documented [OF assms(1)], goal_cases)
  case (1 x w')
  then have x: "x = addDSNSFinalizer obj" and put: "put_Obj v (dr_GVK r) req (Some x) (sys_world s) w'"
    using assms(7) by (auto simp: put_Obj_def same_view_def)
  then show ?case
    using project_documented [OF assms(1-3,5), of x "s1\<lparr>sys_world := w'\<rparr>"] assms(6)
    by (simp add: same_process_def)
next
  case (2 w')
  then show ?case using assms(7) by (simp add: put_Obj_def)
next
  case (3 e w')
  then have "put_Obj v (dr_GVK r) req (Some (addDSNSFinalizer obj)) (sys_world s) w'"
    using assms(7) by (auto simp: put_Obj_def same_view_def)
  then show ?case
    by (auto simp: wp same_process_def intro!: Finalized [OF assms(2,3,5,6)])
qed

lemma DSNS_Reconcile_documented:
  assumes "documented c v"
  shows "wp_of (DSNS_Reconcile c r req) (\<lambda>(res, err) s'. dsns_outcome v r req s err s' \<and> res = done_result) s"
  unfolding DSNS_Reconcile_def Let_def wp owner_of_def [symmetric]
proof (rule wp_glue_documented [OF assms], rule wp_Get_documented [OF assms], goal_cases)
  case (1 s1 obj w)
  let ?s1 = "s1\<lparr>sys_world := w\<rparr>"
  have g: "glued v s ?s1" by (rule glued_same) (fact 1)+
  have stored: "vw_Obj v (sys_world s) (dr_GVK r) req = Some obj"
    using 1 glued_stored by metis
  have key: "u_key obj = req" by (rule 1)
  consider (ignored) "u_Deleting obj" "\<not> containsDSNSFinalizer obj" | (deleting) "u_Deleting obj" "containsDSNSFinalizer obj"
    | (fresh) "\<not> u_Deleting obj" "\<not> containsDSNSFinalizer obj" | (live) "\<not> u_Deleting obj" "containsDSNSFinalizer obj"
    by blast
  then show ?case
  proof cases
    case ignored
    then show ?thesis using Ignored [OF g stored] by (simp add: wp)
  next
    case deleting
    have "wp_of (DSNSState_Apply c [deletionEvent (dr_GVK r) req])
        (\<lambda>err. wp_of (case err of Some e \<Rightarrow> ret (done_result, Some e)
           | None \<Rightarrow> do { u \<leftarrow> liftW (Update c (dr_GVK r) (removeDSNSFinalizer obj)); ret (done_result, as_error u) })
          (\<lambda>(res, err) s'. dsns_outcome v r req s err s' \<and> res = done_result))
        (with_dsns (RemoveRecords (owner_of r req)) ?s1)"
    proof (rule wp_Apply_documented [OF assms], goal_cases)
      case (1 err s2)
      show ?case
      proof (cases err)
        case None
        with 1 deletion_documented [OF assms g stored key deleting, of s2] show ?thesis by (simp add: wp)
      next
        case (Some e)
        with 1 Kept [OF g stored deleting, of e s2] show ?thesis by (simp add: wp)
      qed
    qed
    then show ?thesis using deleting by (simp add: wp with_dsns_def)
  next
    case fresh
    have "wp_of (Update c (dr_GVK r) (addDSNSFinalizer obj))
      (\<lambda>x w. case x of
         Inl e \<Rightarrow> dsns_outcome v r req s (Some (Errorf
           (''add finalizer to '' @ gvk_Kind (dr_GVK r) @ '' '' @ nn_String req @ '': '') (ApiError e))) (s1\<lparr>sys_world := w\<rparr>)
       | Inr y \<Rightarrow> wp_of (try_state (liftW (Get c (dr_GVK r) req))
            (\<lambda>err. ret (done_result, Some (Errorf ''re-fetch after finalizer: '' (ApiError err))))
            (project_object c r req (owner_of r req)))
          (\<lambda>(res, err) s'. dsns_outcome v r req s err s' \<and> res = done_result) (s1\<lparr>sys_world := w\<rparr>)) w"
    proof (rule wp_Update_documented [OF assms], goal_cases)
      case (2 w')
      then have "put_Obj v (dr_GVK r) req (Some (addDSNSFinalizer obj)) (sys_world s) w'"
        using fresh 1 g by (auto simp: put_Obj_def glued_def same_view_def)
      then show ?case
        using finalize_documented [OF assms g stored key fresh, of w'] by simp
    next
      case (3 e w')
      then show ?case using Unread [OF glued_same [OF g, of w']] by simp
    qed (use 1 g in \<open>simp add: same_view_def\<close>)
    then show ?thesis using fresh by (simp add: wp sum.case_distrib cong: sum.case_cong)
  next
    case live
    then have "put_Obj v (dr_GVK r) req (Some obj) (sys_world s) w"
      using g put_same [OF stored] by (simp add: glued_def)
    with live show ?thesis
      using project_documented [OF assms g stored live(1), of obj ?s1] by (simp add: same_process_def)
  qed
next
  case (2 s1 w)
  have "glued v s (s1\<lparr>sys_world := w\<rparr>)" by (rule glued_same) (fact 2)+
  then show ?case
    using 2 Gone [of v s "s1\<lparr>sys_world := w\<rparr>" r req] glued_stored [OF 2(1)]
    by (auto simp: wp with_dsns_def intro!: wp_Apply_documented [OF assms])
next
  case (3 s1 e w)
  then show ?case using Unread [OF glued_same [of v s s1 w]] by (simp add: wp)
qed


section \<open>Properties of the reconciler\<close>

lemma owned_after:
  "map_of (ds_owned (RemoveRecords ow d)) ow = None"
  "map_of (ds_owned (UpdateRecords ow rs d)) ow = (if rs = [] then None else Some (map key_of rs))"
  by (simp_all add: RemoveRecords_def UpdateRecords_def removeOwnerLocked_def Let_def key_of_def)

lemma name_prefix_neq: "x \<noteq> p @ x" if "p \<noteq> []" for x p :: string
  using that by (metis append_self_conv2)

lemma distinct_derived_keys: "distinct (map key_of (deriveRecords gvk obj))"
proof -
  have "distinct (map key_of (deriveTalosClusterRecords obj))"
    using name_prefix_neq [of "''api.''" "ToLower (u_Name obj)"] name_prefix_neq [of "''ns.''" "ToLower (u_Name obj)"]
    by (simp add: deriveTalosClusterRecords_def Let_def lower_eval)
  then show ?thesis
    by (auto simp: deriveRecords_def derive_defs(2-5) Let_def)
qed

lemma contribution_distinct:
  assumes "distinct (map key_of rs)" and "r \<in> set rs"
  shows "contribution rs (key_of r) = Some (with_ttl r)"
proof -
  have "distinct (map fst (rev (map (\<lambda>r. (key_of r, with_ttl r)) rs)))"
    using assms(1) by (simp add: comp_def rev_map [symmetric])
  with assms(2) show ?thesis unfolding contribution_def by (auto simp: map_of_eq_Some_iff)
qed

lemma updated_lookup:
  assumes "r \<in> set (deriveRecords g obj)"
  shows "zone_lookup (ds_zone (UpdateRecords ow (deriveRecords g obj) d)) (key_of r) = Some (with_ttl r)"
proof -
  have "deriveRecords g obj \<noteq> []" using assms by auto
  with contribution_distinct [OF distinct_derived_keys assms] show ?thesis
    by (simp add: UpdateRecords_def Let_def lookup_added)
qed

text \<open>C1 (DSNS_Reconcile_refines): against an API server that behaves as documented, a DSNS reconcile does exactly one
  of what its specification lists (object unreadable, gone, deleted by others, cleaned up and
  released, cleaned up and kept, finalizer added, projected), with the stated effect on the shared
  zone, the store, the published zone and the notified sinks, and never asks for a requeue.\<close>

theorem DSNS_Reconcile_refines:
  assumes "documented c v" and "run_state (DSNS_Reconcile c r req) s = ((res, err), s')"
  shows "dsns_outcome v r req s err s' \<and> res = done_result"
  using wp_runD [OF DSNS_Reconcile_documented [OF assms(1)] assms(2)] by simp

definition sample_world :: mem where
  "sample_world = \<lparr>mem_Obj = (\<lambda>g k. if g = DSNSGVKs ! 4 \<and> k = u_key sample_runner then Some sample_runner else None),
     mem_ILI = Map.empty, mem_CM = Map.empty, mem_Now = 0\<rparr>"

definition sample_sys :: "mem sys" where
  "sample_sys = \<lparr>sys_world = sample_world, sys_dsns = NewDSNSState, sys_spawned = []\<rparr>"

definition sample_reconciler :: DSNSReconciler where
  "sample_reconciler = \<lparr>dr_GVK = DSNSGVKs ! 4, dr_NsGlueFallbackIP = ''10.0.0.53''\<rparr>"

theorem DSNS_Reconcile_refines_witness:
  "\<exists>res err s'. run_state (DSNS_Reconcile mem_client sample_reconciler (u_key sample_runner)) sample_sys = ((res, err), s') \<and>
     dsns_outcome mem_view sample_reconciler (u_key sample_runner) sample_sys err s'"
proof -
  obtain res err s' where run:
    "run_state (DSNS_Reconcile mem_client sample_reconciler (u_key sample_runner)) sample_sys = ((res, err), s')"
    by (metis surj_pair)
  with DSNS_Reconcile_refines [OF mem_documented run] show ?thesis by blast
qed

lemma sample_GVK [simp]: "dr_GVK sample_reconciler = DSNSGVKs ! 4"
  by (simp add: sample_reconciler_def)

text \<open>Reconciling the sample object in memory, live and deleted.\<close>

definition sample_deleted :: uobj where
  "sample_deleted = sample_runner\<lparr>u_Finalizers := [DSNSFinalizer], u_Deleting := True\<rparr>"

definition sample_store :: "uobj \<Rightarrow> mem sys" where
  "sample_store obj = \<lparr>sys_world = \<lparr>mem_Obj = (\<lambda>g k. if g = DSNSGVKs ! 4 \<and> k = u_key sample_runner then Some obj else None),
     mem_ILI = Map.empty, mem_CM = Map.empty, mem_Now = 0\<rparr>, sys_dsns = NewDSNSState, sys_spawned = []\<rparr>"

lemma sample_keys:
  "u_key sample_deleted = u_key sample_runner" "service_gvk \<noteq> DSNSGVKs ! 4" "dsns_lb_key \<noteq> u_key sample_runner"
  "u_key (addDSNSFinalizer sample_runner) = u_key sample_runner"
  by (simp_all add: sample_deleted_def u_key_def service_gvk_def DSNSGVKs_def dsns_lb_key_def sample_runner_def addDSNSFinalizer_def)

lemma ApplyContent_mem_empty:
  "mem_CM w = Map.empty \<Longrightarrow> \<exists>w'. run_state (ApplyContent mem_client content) w = (None, w') \<and> mem_Obj w' = mem_Obj w"
  by (simp add: ApplyContent_def applyMirror_def client_call_defs mem_client_def mem_read_def visible_def
      zone_cm_key_def new_zone_cm_def cm_key_def)

lemma Apply_mem_empty:
  assumes "mem_CM (sys_world s) = Map.empty"
  shows "\<exists>s'. run_state (DSNSState_Apply mem_client evs) s = (None, s') \<and> mem_Obj (sys_world s') = mem_Obj (sys_world s)"
proof -
  obtain w' where "run_state (ApplyContent mem_client (Render (ds_zone (sys_dsns s)) (cl_Now mem_client (sys_world s)))) (sys_world s) = (None, w')"
    and "mem_Obj w' = mem_Obj (sys_world s)"
    using ApplyContent_mem_empty [OF assms] by blast
  then show ?thesis by (simp add: run_DSNSState_Apply)
qed

lemma sample_glue:
  assumes "u_key obj = u_key sample_runner"
  shows "\<exists>s. run_state (refreshNSGlue mem_client sample_reconciler) (sample_store obj) = ((), s) \<and>
    sys_world s = sys_world (sample_store obj)"
  using sample_keys assms
  by (simp add: refreshNSGlue_def Let_def Get_def mem_client_def mem_read_def visible_def sample_store_def
      sample_reconciler_def)

lemma sample_deleted_run:
  "\<exists>res s'. run_state (DSNS_Reconcile mem_client sample_reconciler (u_key sample_runner)) (sample_store sample_deleted)
     = ((res, None), s') \<and> vw_Obj mem_view (sys_world s') (DSNSGVKs ! 4) (u_key sample_runner) = None"
proof -
  obtain s where glue: "run_state (refreshNSGlue mem_client sample_reconciler) (sample_store sample_deleted) = ((), s)"
    and w: "sys_world s = sys_world (sample_store sample_deleted)"
    using sample_glue [OF sample_keys(1)] by blast
  have get: "run_state (Get mem_client (DSNSGVKs ! 4) (u_key sample_runner)) (sys_world s) = (Inr sample_deleted, sys_world s)"
    by (simp add: w Get_def mem_client_def mem_read_def visible_def sample_store_def sample_keys)
  let ?s = "s\<lparr>sys_dsns := RemoveRecords (dsnsOwnerID (gvk_Kind (DSNSGVKs ! 4)) (nn_Namespace (u_key sample_runner))
      (nn_Name (u_key sample_runner))) (sys_dsns s)\<rparr>"
  obtain s2 where pub: "run_state (DSNSState_Apply mem_client [deletionEvent (DSNSGVKs ! 4) (u_key sample_runner)]) ?s = (None, s2)"
    and w2: "mem_Obj (sys_world s2) = mem_Obj (sys_world s)"
    using Apply_mem_empty [of ?s] by (auto simp: w sample_store_def)
  have fin: "u_Deleting sample_deleted" "containsDSNSFinalizer sample_deleted"
    "u_Finalizers (removeDSNSFinalizer sample_deleted) = []" "u_key (removeDSNSFinalizer sample_deleted) = u_key sample_runner"
    "u_Deleting (removeDSNSFinalizer sample_deleted)"
    by (simp_all add: sample_deleted_def containsDSNSFinalizer_def removeDSNSFinalizer_def u_key_def)
  have "\<exists>s3. run_state (liftW (Update mem_client (DSNSGVKs ! 4) (removeDSNSFinalizer sample_deleted))) s2 = (Inr (removeDSNSFinalizer sample_deleted), s3) \<and>
      vw_Obj mem_view (sys_world s3) (DSNSGVKs ! 4) (u_key sample_runner) = None"
    by (simp add: Update_def mem_client_def mem_update_def visible_def w2 w fin sample_store_def sample_keys mem_set_def mem_view_def)
  then show ?thesis
    by (auto simp: DSNS_Reconcile_def Let_def glue get pub fin as_error_def)
qed

lemma sample_live_run:
  "\<exists>res s'. run_state (DSNS_Reconcile mem_client sample_reconciler (u_key sample_runner)) (sample_store (addDSNSFinalizer sample_runner))
     = ((res, None), s')"
proof -
  let ?o = "addDSNSFinalizer sample_runner"
  obtain s where glue: "run_state (refreshNSGlue mem_client sample_reconciler) (sample_store ?o) = ((), s)"
    and w: "sys_world s = sys_world (sample_store ?o)"
    using sample_glue [OF sample_keys(4)] by blast
  have get: "run_state (Get mem_client (DSNSGVKs ! 4) (u_key sample_runner)) (sys_world s) = (Inr ?o, sys_world s)"
    by (simp add: w Get_def mem_client_def mem_read_def visible_def sample_store_def sample_keys)
  have "\<not> u_Deleting ?o" and "containsDSNSFinalizer ?o"
    by (simp_all add: addDSNSFinalizer_def containsDSNSFinalizer_def sample_runner_def)
  moreover have "\<exists>s'. run_state (DSNSState_Apply mem_client evs) (s\<lparr>sys_dsns := d\<rparr>) = (None, s')" for evs d
    using Apply_mem_empty [of "s\<lparr>sys_dsns := d\<rparr>" evs] by (auto simp: w sample_store_def)
  ultimately show ?thesis
    by (simp add: DSNS_Reconcile_def project_object_def Let_def glue get split: prod.split option.split)
      (metis Pair_inject option.distinct(1))
qed



text \<open>C9 (live_object_projected): when a reconcile of a live object reports no error, the stored object carries the
  finalizer, every record derived from it is in the shared zone with its value, the ownership map
  lists their keys, and the published text is the rendering of that zone.\<close>

theorem live_object_projected:
  assumes "documented c v" and "run_state (DSNS_Reconcile c r req) s = ((res, None), s')"
    and "vw_Obj v (sys_world s) (dr_GVK r) req = Some obj" and "\<not> u_Deleting obj"
  shows "\<exists>obj'. vw_Obj v (sys_world s') (dr_GVK r) req = Some obj' \<and> containsDSNSFinalizer obj' \<and>
    (\<forall>x \<in> set (deriveRecords (dr_GVK r) obj').
       zone_lookup (ds_zone (sys_dsns s')) (key_of x) = Some (with_ttl x)) \<and>
    map_of (ds_owned (sys_dsns s')) (owner_of r req) =
      (if deriveRecords (dr_GVK r) obj' = [] then None else Some (map key_of (deriveRecords (dr_GVK r) obj'))) \<and>
    (\<exists>now. zone_text v (sys_world s') ZoneConfigMapNamespace = Some (Render (ds_zone (sys_dsns s')) now))"
proof -
  from wp_runD [OF DSNS_Reconcile_documented [OF assms(1)] assms(2)]
  have "dsns_outcome v r req s None s'" by simp
  then show ?thesis
  proof cases
    case (Projected s1 obj0 obj' s2 err)
    then have "err = None" by (cases err) auto
    moreover have "containsDSNSFinalizer obj'"
      using Projected by (auto simp: containsDSNSFinalizer_def addDSNSFinalizer_def)
    ultimately show ?thesis
      using Projected
      by (intro exI [of _ obj']) (auto simp: published_def put_Obj_def with_dsns_def updated_lookup owned_after)
  qed (use assms(3,4) in auto)
qed

theorem live_object_projected_witness:
  "\<exists>(s' :: mem sys) obj'. vw_Obj mem_view (sys_world s') (DSNSGVKs ! 4) (u_key sample_runner) = Some obj' \<and> containsDSNSFinalizer obj' \<and>
     (\<exists>now. zone_text mem_view (sys_world s') ZoneConfigMapNamespace = Some (Render (ds_zone (sys_dsns s')) now))"
proof -
  let ?o = "addDSNSFinalizer sample_runner"
  obtain res s' where run: "run_state (DSNS_Reconcile mem_client sample_reconciler (u_key sample_runner)) (sample_store ?o) = ((res, None), s')"
    using sample_live_run by blast
  have stored: "vw_Obj mem_view (sys_world (sample_store ?o)) (dr_GVK sample_reconciler) (u_key sample_runner) = Some ?o"
    by (simp add: mem_view_def visible_def sample_store_def sample_keys)
  have "\<not> u_Deleting ?o" by (simp add: addDSNSFinalizer_def sample_runner_def)
  from live_object_projected [OF mem_documented run stored this] show ?thesis by auto
qed


section \<open>The zone of a population\<close>

text \<open>The state after every object of a list was projected once, in the list's order.\<close>

definition object_owner :: "GVK \<times> uobj \<Rightarrow> string" where
  "object_owner p = dsnsOwnerID (gvk_Kind (fst p)) (u_Namespace (snd p)) (u_Name (snd p))"

definition project_all :: "(GVK \<times> uobj) list \<Rightarrow> DSNSState \<Rightarrow> DSNSState" where
  "project_all ps s = foldl (\<lambda>s p. UpdateRecords (object_owner p) (deriveRecords (fst p) (snd p)) s) s ps"

text \<open>
  A population whose objects do not compete: watched kinds, unambiguous names, distinct slot
  identities and distinct names, and no cluster called ns, the name of the glue record.
\<close>

definition good_object :: "GVK \<times> uobj \<Rightarrow> bool" where
  "good_object p \<longleftrightarrow> fst p \<in> set DSNSGVKs \<and> plain_names (fst p) (snd p) \<and>
     ''A:ns'' \<notin> set (slot_keys (fst p) (snd p)) \<and> CHR ''/'' \<notin> set (u_Namespace (snd p))"

definition good_population :: "(GVK \<times> uobj) list \<Rightarrow> bool" where
  "good_population ps \<longleftrightarrow> (\<forall>p \<in> set ps. good_object p) \<and>
     distinct (map (\<lambda>p. (fst p, slot_id (fst p) (snd p))) ps) \<and>
     distinct (map (\<lambda>p. (fst p, u_key (snd p))) ps)"

lemma dsnsOwnerID_inj:
  assumes "dsnsOwnerID k ns n = dsnsOwnerID k' ns' n'"
    and "CHR ''/'' \<notin> set k" "CHR ''/'' \<notin> set k'" "CHR ''/'' \<notin> set ns" "CHR ''/'' \<notin> set ns'"
  shows "k = k' \<and> ns = ns' \<and> n = n'"
  using assms split_at_inj [of k "CHR ''/''" "ns @ ''/'' @ n" k' "ns' @ ''/'' @ n'"]
    split_at_inj [of ns "CHR ''/''" n ns' n'] by (simp add: dsnsOwnerID_def)

lemma object_owner_inj:
  assumes "good_object p" and "good_object q" and "object_owner p = object_owner q"
  shows "fst p = fst q \<and> u_key (snd p) = u_key (snd q)"
proof -
  have "CHR ''/'' \<notin> set (gvk_Kind g)" if "g \<in> set DSNSGVKs" for g
    using that by (auto simp: DSNSGVKs_def)
  with assms have "gvk_Kind (fst p) = gvk_Kind (fst q) \<and> u_Namespace (snd p) = u_Namespace (snd q) \<and> u_Name (snd p) = u_Name (snd q)"
    by (intro dsnsOwnerID_inj) (auto simp: object_owner_def good_object_def)
  moreover have "fst p = fst q" if "gvk_Kind (fst p) = gvk_Kind (fst q)"
    using kind_class_inj assms(1,2) that by (auto simp: inj_on_def good_object_def)
  ultimately show ?thesis by (simp add: u_key_def)
qed

lemma project_all_implements:
  assumes "good_population ps" and "key_of glue = ''A:ns''"
  shows "\<exists>a. implements (project_all ps (SetStaticRecord glue NewDSNSState)) a \<and>
    az_static a = [''A:ns'' \<mapsto> with_ttl glue] \<and>
    (\<forall>ow. az_owner a ow \<noteq> [] \<longrightarrow> (\<exists>p \<in> set ps. ow = object_owner p)) \<and>
    (\<forall>p \<in> set ps. az_owner a (object_owner p) = deriveRecords (fst p) (snd p))"
  using assms(1)
proof (induction ps rule: rev_induct)
  case Nil
  let ?a = "abs_static glue empty_abstract"
  have "separate ?a" by (simp add: separate_def abs_static_def empty_abstract_def)
  then have "implements (SetStaticRecord glue NewDSNSState) ?a"
    by (intro static_implements)
      (simp_all add: implements_def NewDSNSState_def empty_abstract_def separate_def)
  then show ?case
    by (intro exI [of _ ?a]) (simp add: project_all_def abs_static_def empty_abstract_def assms(2))
next
  case (snoc p ps)
  then have "good_population ps" and good: "good_object p" "\<forall>q \<in> set ps. good_object q"
    by (auto simp: good_population_def)
  from snoc.IH [OF this(1)] obtain a where imp: "implements (project_all ps (SetStaticRecord glue NewDSNSState)) a"
    and static: "az_static a = [''A:ns'' \<mapsto> with_ttl glue]"
    and owners: "\<forall>ow. az_owner a ow \<noteq> [] \<longrightarrow> (\<exists>q \<in> set ps. ow = object_owner q)"
    and derived: "\<forall>q \<in> set ps. az_owner a (object_owner q) = deriveRecords (fst q) (snd q)" by blast
  have other: "object_owner q \<noteq> object_owner p" if "q \<in> set ps" for q
    using that object_owner_inj [of q p] good snoc.prems by (fastforce simp: good_population_def image_iff)
  let ?rs = "deriveRecords (fst p) (snd p)" and ?a = "abs_update (object_owner p) (deriveRecords (fst p) (snd p)) a"
  have apart: "key_of ` set ?rs \<inter> key_of ` set (deriveRecords (fst q) (snd q)) = {}" if "q \<in> set ps" for q
  proof -
    have "(fst q, slot_id (fst q) (snd q)) \<noteq> (fst p, slot_id (fst p) (snd p))"
      using that snoc.prems by (auto simp: good_population_def image_iff)
    then show ?thesis
      using slot_keys_identify [of "fst p" "fst q" "snd p" "snd q"] derived_keys good that
      by (fastforce simp: good_object_def)
  qed
  have "key_of ` set ?rs \<inter> key_of ` set (az_owner a ow) = {}" for ow
  proof (cases "az_owner a ow = []")
    case False
    with owners obtain q where "q \<in> set ps" "ow = object_owner q" by blast
    with apart [of q] derived show ?thesis by simp
  qed simp
  moreover have "''A:ns'' \<notin> key_of ` set ?rs"
    using good(1) derived_keys by (auto simp: good_object_def)
  ultimately have "separate ?a"
    using imp derived_typed by (auto simp: separate_def implements_def abs_update_def static)
  from update_implements [OF imp this] have "implements (project_all (ps @ [p]) (SetStaticRecord glue NewDSNSState)) ?a"
    by (simp add: project_all_def)
  then show ?case
    using static owners derived other by (intro exI [of _ ?a]) (auto simp: abs_update_def)
qed

text \<open>C3 (population_projected): projecting a population of objects that do not compete for slots, in any order,
  leaves exactly the glue record and the records derived from the objects in the zone, each with
  its value and default TTL: nothing is lost and nothing else appears.\<close>

theorem population_projected:
  assumes "good_population ps" and "key_of glue = ''A:ns''"
  shows "zone_lookup (ds_zone (project_all ps (SetStaticRecord glue NewDSNSState))) k = Some x \<longleftrightarrow>
    k = ''A:ns'' \<and> x = with_ttl glue \<or>
    (\<exists>(g, obj) \<in> set ps. \<exists>r \<in> set (deriveRecords g obj). k = key_of r \<and> x = with_ttl r)"
proof -
  from project_all_implements [OF assms] obtain a
    where imp: "implements (project_all ps (SetStaticRecord glue NewDSNSState)) a"
    and static: "az_static a = [''A:ns'' \<mapsto> with_ttl glue]"
    and owners: "\<forall>ow. az_owner a ow \<noteq> [] \<longrightarrow> (\<exists>p \<in> set ps. ow = object_owner p)"
    and derived: "\<forall>p \<in> set ps. az_owner a (object_owner p) = deriveRecords (fst p) (snd p)" by blast
  have one: "contribution (deriveRecords g obj) k = Some x \<longleftrightarrow>
      (\<exists>r \<in> set (deriveRecords g obj). k = key_of r \<and> x = with_ttl r)" for g obj
  proof (cases "k \<in> key_of ` set (deriveRecords g obj)")
    case True
    then obtain r where "r \<in> set (deriveRecords g obj)" "k = key_of r" by blast
    with contribution_distinct [OF distinct_derived_keys] show ?thesis by (metis option.inject)
  next
    case False
    then have "contribution (deriveRecords g obj) k = None" by (simp only: contribution_None not_False_eq_True)
    with False show ?thesis by auto
  qed
  have "(\<exists>ow. contribution (az_owner a ow) k = Some x) \<longleftrightarrow>
      (\<exists>(g, obj) \<in> set ps. contribution (deriveRecords g obj) k = Some x)"
  proof
    assume "\<exists>ow. contribution (az_owner a ow) k = Some x"
    then obtain ow where ow: "contribution (az_owner a ow) k = Some x" by blast
    then have "az_owner a ow \<noteq> []" by auto
    with owners obtain p where "p \<in> set ps" "ow = object_owner p" by blast
    with derived ow show "\<exists>(g, obj) \<in> set ps. contribution (deriveRecords g obj) k = Some x"
      by (intro bexI [of _ p]) auto
  next
    assume "\<exists>(g, obj) \<in> set ps. contribution (deriveRecords g obj) k = Some x"
    then obtain p where "p \<in> set ps" "contribution (deriveRecords (fst p) (snd p)) k = Some x" by auto
    with derived show "\<exists>ow. contribution (az_owner a ow) k = Some x"
      by (intro exI [of _ "object_owner p"]) simp
  qed
  then show ?thesis using imp by (auto simp: implements_def static one)
qed

theorem population_projected_witness:
  "zone_lookup (ds_zone (project_all [(DSNSGVKs ! 4, sample_runner)] (SetStaticRecord (glue_record ''10.0.0.53'') NewDSNSState)))
     ''TXT:run.day2.conductor.prod'' =
   Some \<lparr>r_Name = ''run.day2.conductor.prod'', r_Type = ''TXT'', r_TTL = 300,
     r_Value = ''phase=Completed completed=2026-01-01T00:00:00Z''\<rparr>"
proof -
  have "good_population [(DSNSGVKs ! 4, sample_runner)]"
    by (simp add: good_population_def good_object_def DSNSGVKs_def plain_names_def slot_keys_def sample_runner_def)
  moreover have "key_of (glue_record ''10.0.0.53'') = ''A:ns''"
    by (simp add: glue_record_def lower_eval)
  ultimately show ?thesis
    by (subst population_projected) (simp_all add: sample_runner_records lower_eval record_of_def with_ttl_def key_of_def recordKey_def)
qed

end
