(* ===== verification/LineageController.thy ===== *)
theory LineageController
  imports Registry
begin

text \<open>
  \<^verbatim>\<open>src/internal/controller/lineage_controller.go\<close>: the LineageReconciler, which keeps one
  InfrastructureLineageIndex per root declaration, prunes stale descendants, annotates the root and
  sets its LineageSynced condition. \<open>lineage_outcome\<close> specifies what one call may do against an
  API server that behaves as documented.
\<close>


section \<open>Constants and kinds\<close>

abbreviation (input) GovernanceAnnotationPrefix :: string where
  "GovernanceAnnotationPrefix \<equiv> ''governance.infrastructure.ontai.dev''"

abbreviation (input) GovernanceAnnotationLineageIndexRef :: string where
  "GovernanceAnnotationLineageIndexRef \<equiv> ''governance.infrastructure.ontai.dev/lineage-index-ref''"

abbreviation (input) GovernanceAnnotationControllerAuthored :: string where
  "GovernanceAnnotationControllerAuthored \<equiv> ''governance.infrastructure.ontai.dev/controller-authored''"

abbreviation (input) ReasonLineageIndexCreated :: string where
  "ReasonLineageIndexCreated \<equiv> ''LineageIndexCreated''"

abbreviation (input) InfrastructureDomainRef :: string where
  "InfrastructureDomainRef \<equiv> ''infrastructure.core.ontai.dev''"

text \<open>\<^verbatim>\<open>seamv1alpha1.ConditionTypeLineageSynced\<close> (infrastructurelineageindex_types.go).\<close>

abbreviation (input) ConditionTypeLineageSynced_v1alpha1 :: string where
  "ConditionTypeLineageSynced_v1alpha1 \<equiv> ''LineageSynced''"

definition mk_gvk :: "string \<Rightarrow> string \<Rightarrow> string \<Rightarrow> GVK" where
  "mk_gvk grp version kind = \<lparr>gvk_Group = grp, gvk_Version = version, gvk_Kind = kind\<rparr>"

definition RootDeclarationGVKs :: "GVK list" where
  "RootDeclarationGVKs =
     [mk_gvk ''infrastructure.ontai.dev'' ''v1alpha1'' ''InfrastructureTalosCluster'',
      mk_gvk ''platform.ontai.dev'' ''v1alpha1'' ''UpgradePolicy'',
      mk_gvk ''platform.ontai.dev'' ''v1alpha1'' ''NodeMaintenance'',
      mk_gvk ''platform.ontai.dev'' ''v1alpha1'' ''ClusterMaintenance'',
      mk_gvk ''platform.ontai.dev'' ''v1alpha1'' ''PKIRotation'',
      mk_gvk ''platform.ontai.dev'' ''v1alpha1'' ''ClusterReset'',
      mk_gvk ''platform.ontai.dev'' ''v1alpha1'' ''NodeOperation'',
      mk_gvk ''platform.ontai.dev'' ''v1alpha1'' ''EtcdMaintenance'',
      mk_gvk ''platform.ontai.dev'' ''v1alpha1'' ''TalosMachineConfigBackup'',
      mk_gvk ''platform.ontai.dev'' ''v1alpha1'' ''TalosMachineConfigRestore'',
      mk_gvk ''platform.ontai.dev'' ''v1alpha1'' ''HardeningProfile'',
      mk_gvk ''infrastructure.ontai.dev'' ''v1alpha1'' ''SeamInfrastructureCluster'',
      mk_gvk ''infrastructure.ontai.dev'' ''v1alpha1'' ''SeamInfrastructureMachine'',
      mk_gvk ''infrastructure.ontai.dev'' ''v1alpha1'' ''InfrastructureClusterPack'',
      mk_gvk ''infrastructure.ontai.dev'' ''v1alpha1'' ''InfrastructurePackExecution'',
      mk_gvk ''infrastructure.ontai.dev'' ''v1alpha1'' ''InfrastructurePackInstance'',
      mk_gvk ''security.ontai.dev'' ''v1alpha1'' ''RBACPolicy'',
      mk_gvk ''security.ontai.dev'' ''v1alpha1'' ''RBACProfile'',
      mk_gvk ''security.ontai.dev'' ''v1alpha1'' ''IdentityBinding'',
      mk_gvk ''security.ontai.dev'' ''v1alpha1'' ''IdentityProvider'',
      mk_gvk ''security.ontai.dev'' ''v1alpha1'' ''PermissionSet'']"

definition lineageIndexName :: "string \<Rightarrow> string \<Rightarrow> string" where
  "lineageIndexName kind name = ToLower kind @ ''-'' @ name"

text \<open>\<^verbatim>\<open>GroupVersion.String\<close>: the group is left out when it is empty.\<close>

definition gv_String :: "GVK \<Rightarrow> string" where
  "gv_String g = (if gvk_Group g = [] then gvk_Version g else gvk_Group g @ ''/'' @ gvk_Version g)"


section \<open>Time\<close>

text \<open>\<^verbatim>\<open>Format(time.RFC3339)\<close> of a UTC time given in nanoseconds since the epoch.\<close>

definition pad2 :: "int \<Rightarrow> string" where
  "pad2 i = (if i < 10 then ''0'' else []) @ dec_int i"

definition pad4 :: "int \<Rightarrow> string" where
  "pad4 i = (if i < 10 then ''000'' else if i < 100 then ''00'' else if i < 1000 then ''0'' else []) @ dec_int i"

definition civil :: "int \<Rightarrow> int \<times> int \<times> int" where
  "civil days =
     (let z = days + 719468; era = z div 146097; doe = z mod 146097;
          yoe = (doe - doe div 1460 + doe div 36524 - doe div 146096) div 365;
          doy = doe - (365 * yoe + yoe div 4 - yoe div 100);
          mp = (5 * doy + 2) div 153;
          m = (if mp < 10 then mp + 3 else mp - 9)
      in (yoe + era * 400 + (if m \<le> 2 then 1 else 0), m, doy - (153 * mp + 2) div 5 + 1))"

definition rfc3339 :: "int \<Rightarrow> string" where
  "rfc3339 ns =
     (let secs = ns div 1000000000; sod = secs mod 86400
      in case civil (secs div 86400) of (y, m, d) \<Rightarrow>
        pad4 y @ ''-'' @ pad2 m @ ''-'' @ pad2 d @ ''T'' @ pad2 (sod div 3600) @ '':'' @
        pad2 (sod mod 3600 div 60) @ '':'' @ pad2 (sod mod 60) @ ''Z'')"

text \<open>\<^verbatim>\<open>time.Since\<close>: the difference as a 64-bit duration, saturating.\<close>

definition saturate64 :: "int \<Rightarrow> int" where
  "saturate64 d = max (- (2 ^ 63)) (min (2 ^ 63 - 1) d)"

definition Since :: "int \<Rightarrow> int \<Rightarrow> int" where
  "Since now t = saturate64 (now - t)"


section \<open>Building and updating the index\<close>

definition buildILI :: "GVK \<Rightarrow> uobj \<Rightarrow> string \<Rightarrow> ILI" where
  "buildILI g root iliName =
     (let declaringPrincipal = mapget (u_Annotations root) AnnotationDeclaringPrincipal;
          declaringPrincipal = (if declaringPrincipal = [] then ''system:unknown'' else declaringPrincipal)
      in \<lparr>ili_Meta = \<lparr>om_Name = iliName, om_Namespace = u_Namespace root,
             om_Labels = [(''infrastructure.ontai.dev/root-kind'', ToLower (gvk_Kind g)),
                          (''infrastructure.ontai.dev/root-name'', u_Name root)],
             om_Annotations = [(GovernanceAnnotationControllerAuthored, ''true''),
                               (GovernanceAnnotationPrefix @ ''/root-kind'', gvk_Kind g),
                               (GovernanceAnnotationPrefix @ ''/root-name'', u_Name root),
                               (GovernanceAnnotationPrefix @ ''/root-namespace'', u_Namespace root)],
             om_OwnerReferences = []\<rparr>,
          ili_Spec = \<lparr>spec_RootBinding = \<lparr>rb_RootKind = gvk_Kind g, rb_RootName = u_Name root,
               rb_RootNamespace = u_Namespace root, rb_RootUID = u_UID root,
               rb_RootObservedGeneration = u_Generation root, rb_DeclaringPrincipal = declaringPrincipal\<rparr>,
             spec_DomainRef = InfrastructureDomainRef, spec_DescendantRegistry = [],
             spec_PolicyBindingStatus = None, spec_OutcomeRegistry = [], spec_RetentionPolicy = None\<rparr>,
          ili_Status = \<lparr>status_ObservedGeneration = 0, status_Conditions = []\<rparr>\<rparr>)"

text \<open>Returns the error, or the root as the server answered it.\<close>

definition writeGovernanceAnnotation :: "'w client \<Rightarrow> GVK \<Rightarrow> uobj \<Rightarrow> string \<Rightarrow> ('w, api_error + uobj) state" where
  "writeGovernanceAnnotation c g root iliName =
     (if map_of (u_Annotations root) GovernanceAnnotationLineageIndexRef = Some iliName then ret (Inr root)
      else Patch c g
        (root\<lparr>u_Annotations := AList.update GovernanceAnnotationLineageIndexRef iliName (u_Annotations root)\<rparr>) root)"

definition new_condition :: "string \<Rightarrow> int \<Rightarrow> int \<Rightarrow> (string, gval) gomap" where
  "new_condition iliName now generation =
     [(''type'', GStr ConditionTypeLineageSynced_v1alpha1), (''status'', GStr ''True''),
      (''reason'', GStr ReasonLineageIndexCreated),
      (''message'', GStr (''InfrastructureLineageIndex '' @ Quote iliName @ '' created by InfrastructureLineageController.'')),
      (''lastTransitionTime'', GStr (rfc3339 now)), (''observedGeneration'', GInt generation)]"

definition is_synced_cond :: "elem \<Rightarrow> bool" where
  "is_synced_cond e = (case e of EMap cond \<Rightarrow> cond_is cond ''type'' ConditionTypeLineageSynced_v1alpha1 | EOther _ \<Rightarrow> False)"

text \<open>Replace every LineageSynced entry, or append one.\<close>

definition put_synced :: "elem \<Rightarrow> elem list \<Rightarrow> elem list" where
  "put_synced new rawConditions =
     (let updated = map (\<lambda>e. if is_synced_cond e then new else e) rawConditions;
          replaced = list_ex is_synced_cond rawConditions
      in if \<not> replaced then updated @ [new] else updated)"

definition ensureLineageSyncedTrue :: "'w client \<Rightarrow> GVK \<Rightarrow> uobj \<Rightarrow> string \<Rightarrow> ('w, goerror option) state" where
  "ensureLineageSyncedTrue c g root iliName =
     try_state (Get c g \<lparr>nn_Namespace = u_Namespace root, nn_Name = u_Name root\<rparr>)
       (\<lambda>err. ret (Some (Errorf ''re-fetch root for LineageSynced patch: '' (ApiError err))))
       (\<lambda>fresh.
          if cond_true (u_Conditions fresh) ConditionTypeLineageSynced_v1alpha1 then ret None
          else do {
            now \<leftarrow> Now c;
            let updated = put_synced (EMap (new_condition iliName now (u_Generation fresh))) (u_Conditions fresh);
            if \<not> u_StatusIsMap fresh
            then ret (Some (Errorf ''failed to set conditions in unstructured: '' (ErrorString ''status'')))
            else do {
              r \<leftarrow> StatusPatch c g (fresh\<lparr>u_Conditions := updated\<rparr>) fresh;
              ret (case r of Inl e \<Rightarrow> Some (ApiError e) | Inr _ \<Rightarrow> None) } })"

abbreviation (input) defaultDescendantRetentionDays :: "32 word" where
  "defaultDescendantRetentionDays \<equiv> 30"

definition retentionDays :: "ILI \<Rightarrow> 32 word" where
  "retentionDays ili =
     (case spec_RetentionPolicy (ili_Spec ili) of
        Some p \<Rightarrow> if 0 < sint (rp_DescendantRetentionDays p) then rp_DescendantRetentionDays p
                  else defaultDescendantRetentionDays
      | None \<Rightarrow> defaultDescendantRetentionDays)"

text \<open>\<^verbatim>\<open>time.Duration(retentionDays) * 24 * time.Hour\<close>: 64-bit, wrapping.\<close>

definition retentionWindow :: "32 word \<Rightarrow> int" where
  "retentionWindow days = sint ((word_of_int (sint days) :: 64 word) * 24 * 3600000000000)"

definition entry_gvk :: "DescendantEntry \<Rightarrow> GVK" where
  "entry_gvk e = \<lparr>gvk_Group = de_Group e, gvk_Version = de_Version e, gvk_Kind = de_Kind e\<rparr>"

definition entry_key :: "DescendantEntry \<Rightarrow> NamespacedName" where
  "entry_key e = \<lparr>nn_Namespace = de_Namespace e, nn_Name = de_Name e\<rparr>"

definition keep_entry :: "'w client \<Rightarrow> int \<Rightarrow> DescendantEntry \<Rightarrow> ('w, bool) state" where
  "keep_entry c window e =
     (case de_CreatedAt e of
        None \<Rightarrow> ret True
      | Some createdAt \<Rightarrow> do {
          now \<leftarrow> Now c;
          if Since now createdAt < window then ret True
          else try_state (Get c (entry_gvk e) (entry_key e)) (\<lambda>err. ret (\<not> IsNotFound err)) (\<lambda>_. ret True) })"

fun prune_loop ::
  "'w client \<Rightarrow> int \<Rightarrow> DescendantEntry list \<Rightarrow> DescendantEntry list \<Rightarrow> bool \<Rightarrow> ('w, DescendantEntry list \<times> bool) state" where
  "prune_loop c window [] kept pruned = ret (kept, pruned)"
| "prune_loop c window (e # es) kept pruned = do {
     keep \<leftarrow> keep_entry c window e;
     if keep then prune_loop c window es (kept @ [e]) pruned
     else prune_loop c window es kept True }"

text \<open>Returns the error, or the index as the server answered it.\<close>

definition pruneStaleDescendants :: "'w client \<Rightarrow> ILI \<Rightarrow> ('w, api_error + ILI) state" where
  "pruneStaleDescendants c ili =
     (if length (ili_Descendants ili) = 0 then ret (Inr ili)
      else do {
        (kept, pruned) \<leftarrow> prune_loop c (retentionWindow (retentionDays ili)) (ili_Descendants ili) [] False;
        if \<not> pruned then ret (Inr ili) else PatchILI c (set_Descendants kept ili) ili })"

definition owner_ref :: "GVK \<Rightarrow> uobj \<Rightarrow> OwnerReference" where
  "owner_ref g root = \<lparr>or_APIVersion = gv_String g, or_Kind = gvk_Kind g, or_Name = u_Name root,
     or_UID = u_UID root, or_BlockOwnerDeletion = Some True\<rparr>"

definition deleteWithRoot :: "ILI \<Rightarrow> bool" where
  "deleteWithRoot ili =
     (case spec_RetentionPolicy (ili_Spec ili) of None \<Rightarrow> True | Some p \<Rightarrow> rp_DeleteWithRoot p)"

definition ensureOwnerReferenceIfDeleteWithRoot ::
  "'w client \<Rightarrow> GVK \<Rightarrow> uobj \<Rightarrow> ILI \<Rightarrow> ('w, goerror option) state" where
  "ensureOwnerReferenceIfDeleteWithRoot c g root ili =
     (if \<not> deleteWithRoot ili then ret None
      else if u_UID root \<in> or_UID ` set (om_OwnerReferences (ili_Meta ili)) then ret None
      else do {
        r \<leftarrow> PatchILI c (set_OwnerReferences (om_OwnerReferences (ili_Meta ili) @ [owner_ref g root]) ili) ili;
        ret (case r of Inl e \<Rightarrow> Some (ApiError e) | Inr _ \<Rightarrow> None) })"


section \<open>Reconcile\<close>

definition ili_key_of :: "GVK \<Rightarrow> uobj \<Rightarrow> NamespacedName" where
  "ili_key_of g root = \<lparr>nn_Namespace = u_Namespace root, nn_Name = lineageIndexName (gvk_Kind g) (u_Name root)\<rparr>"

text \<open>Step C: get or create; \<^const>\<open>Inl\<close> is an early return of Reconcile.\<close>

definition get_or_create_ili ::
  "'w client \<Rightarrow> GVK \<Rightarrow> uobj \<Rightarrow> string \<Rightarrow> ('w, (Result \<times> goerror option) + ILI) state" where
  "get_or_create_ili c g root iliName =
     (let iliKey = \<lparr>nn_Namespace = u_Namespace root, nn_Name = iliName\<rparr>;
          refetch = try_state (GetILI c iliKey)
            (\<lambda>err. if IsNotFound err then ret (Inl (requeue_result, None))
               else ret (Inl (done_result, Some (Errorf (''re-fetch InfrastructureLineageIndex '' @ iliName @ '': '') (ApiError err)))))
            (\<lambda>ili. ret (Inr ili))
      in try_state (GetILI c iliKey)
       (\<lambda>err. if \<not> IsNotFound err
          then ret (Inl (done_result, Some (Errorf (''failed to get InfrastructureLineageIndex '' @ iliName @ '': '') (ApiError err))))
          else try_state (CreateILI c (buildILI g root iliName))
            (\<lambda>err. if IsAlreadyExists err then refetch
               else ret (Inl (done_result,
                 Some (Errorf (''failed to create InfrastructureLineageIndex '' @ iliName @ '': '') (ApiError err)))))
            (\<lambda>_. refetch))
       (\<lambda>ili. ret (Inr ili)))"

text \<open>Steps C to Eg.\<close>

definition sync_root :: "'w client \<Rightarrow> GVK \<Rightarrow> uobj \<Rightarrow> string \<Rightarrow> ('w, Result \<times> goerror option) state" where
  "sync_root c g root iliName =
     try_state (get_or_create_ili c g root iliName) ret
       (\<lambda>ili. try_state (pruneStaleDescendants c ili)
         (\<lambda>err. ret (done_result, Some (Errorf ''failed to prune stale descendants: '' (ApiError err))))
         (\<lambda>ili. try_state (writeGovernanceAnnotation c g root iliName)
           (\<lambda>err. ret (done_result, Some (Errorf ''failed to write governance annotation: '' (ApiError err))))
           (\<lambda>root. do {
              e \<leftarrow> ensureLineageSyncedTrue c g root iliName;
              case e of
                Some err \<Rightarrow> ret (done_result, Some (Errorf ''failed to set LineageSynced=True: '' err))
              | None \<Rightarrow> do {
                  e \<leftarrow> ensureOwnerReferenceIfDeleteWithRoot c g root ili;
                  case e of
                    Some err \<Rightarrow> ret (done_result, Some (Errorf ''failed to ensure ownerReference: '' err))
                  | None \<Rightarrow> ret (done_result, None) } })))"

definition Lineage_Reconcile :: "'w client \<Rightarrow> GVK \<Rightarrow> NamespacedName \<Rightarrow> ('w, Result \<times> goerror option) state" where
  "Lineage_Reconcile c g req =
     try_state (Get c g req)
       (\<lambda>err. if IsNotFound err then ret (done_result, None)
          else ret (done_result, Some (Errorf (''failed to get '' @ gvk_Kind g @ '' '' @ nn_String req @ '': '') (ApiError err))))
       (\<lambda>root.
          let iliName = lineageIndexName (gvk_Kind g) (u_Name root)
          in if map_of (u_Annotations root) GovernanceAnnotationLineageIndexRef = Some iliName
             then try_state (GetILI c \<lparr>nn_Namespace = u_Namespace root, nn_Name = iliName\<rparr>)
               (\<lambda>err. if \<not> IsNotFound err
                  then ret (done_result, Some (Errorf (''failed to get InfrastructureLineageIndex '' @ iliName @ '': '') (ApiError err)))
                  else sync_root c g root iliName)
               (\<lambda>_. do { e \<leftarrow> ensureLineageSyncedTrue c g root iliName; ret (done_result, e) })
             else sync_root c g root iliName)"


section \<open>The LineageSynced condition\<close>

text \<open>The key of a list element: is it a LineageSynced condition?\<close>

lemma is_synced_new [simp]: "is_synced_cond (EMap (new_condition n now g))"
  by (simp add: is_synced_cond_def cond_is_def new_condition_def)

lemma put_synced_keys:
  assumes "is_synced_cond new"
  shows "map is_synced_cond (put_synced new cs) =
    (if True \<in> set (map is_synced_cond cs) then map is_synced_cond cs else map is_synced_cond cs @ [True])"
proof -
  have "map (is_synced_cond \<circ> (\<lambda>e. if is_synced_cond e then new else e)) cs = map is_synced_cond cs"
    using assms by simp
  then show ?thesis
    using assms by (auto simp: put_synced_def Let_def list_ex_iff image_iff)
qed

lemma put_synced_others:
  assumes "is_synced_cond new"
  shows "filter (\<lambda>c. \<not> is_synced_cond c) (put_synced new cs) = filter (\<lambda>c. \<not> is_synced_cond c) cs"
proof -
  have "filter (\<lambda>c. \<not> is_synced_cond c) (map (\<lambda>e. if is_synced_cond e then new else e) cs) =
      filter (\<lambda>c. \<not> is_synced_cond c) cs"
    using assms by (induction cs) auto
  then show ?thesis using assms by (simp add: put_synced_def Let_def)
qed

interpretation synced: condition_writer is_synced_cond True "put_synced (EMap (new_condition n now g))" for n now g
  by unfold_locales (simp_all add: put_synced_keys put_synced_others)

lemma put_synced_true:
  "cond_true (put_synced (EMap (new_condition n now g)) cs) ConditionTypeLineageSynced_v1alpha1"
proof -
  have in_set: "EMap (new_condition n now g) \<in> set (put_synced (EMap (new_condition n now g)) cs)"
    by (auto simp: put_synced_def Let_def list_ex_iff image_iff)
  have "EMap (new_condition n now g) \<in> set es \<Longrightarrow> cond_true es ConditionTypeLineageSynced_v1alpha1" for es
    by (induction es ConditionTypeLineageSynced_v1alpha1 rule: cond_true.induct)
      (auto simp: cond_is_def new_condition_def)
  then show ?thesis using in_set by blast
qed


section \<open>Pruning\<close>

text \<open>One list comes from another by dropping some elements that satisfy \<open>P\<close>.\<close>

inductive dropped :: "('a \<Rightarrow> bool) \<Rightarrow> 'a list \<Rightarrow> 'a list \<Rightarrow> bool" for P where
  Nil: "dropped P [] []"
| Keep: "dropped P xs ys \<Longrightarrow> dropped P (x # xs) (x # ys)"
| Drop: "P x \<Longrightarrow> dropped P xs ys \<Longrightarrow> dropped P (x # xs) ys"

lemma dropped_refl [simp]: "dropped P xs xs"
  by (induction xs) (auto intro: dropped.intros)

lemma dropped_subseq: "dropped P xs ys \<Longrightarrow> subseq ys xs"
  by (induction rule: dropped.induct) auto

lemma dropped_distinct: "dropped P xs ys \<Longrightarrow> distinct (map f xs) \<Longrightarrow> distinct (map f ys)"
proof (induction rule: dropped.induct)
  case (Keep xs ys x)
  from Keep(1) have "set ys \<subseteq> set xs" by (induction rule: dropped.induct) auto
  with Keep show ?case by auto
qed simp_all

lemma dropped_filter: "dropped P xs ys \<Longrightarrow> filter (\<lambda>x. \<not> P x) ys = filter (\<lambda>x. \<not> P x) xs"
  by (induction rule: dropped.induct) auto

inductive_cases dropped_ConsE: "dropped P (x # xs) ys"

lemma dropped_insert: "dropped P (xs @ ys) zs \<Longrightarrow> P x \<Longrightarrow> dropped P (xs @ x # ys) zs"
proof (induction xs arbitrary: zs)
  case (Cons a xs)
  then show ?case by (auto elim!: dropped_ConsE intro: dropped.intros)
qed (auto intro: dropped.intros)

text \<open>An entry that may go: it has a creation time, the window has passed, its object is gone.\<close>

definition prunable :: "'w view \<Rightarrow> 'w \<Rightarrow> int \<Rightarrow> DescendantEntry \<Rightarrow> bool" where
  "prunable v w window e \<longleftrightarrow>
     (\<exists>t now. de_CreatedAt e = Some t \<and> window \<le> Since now t) \<and> vw_Obj v w (entry_gvk e) (entry_key e) = None"

lemma prunable_same: "same_view v w w' \<Longrightarrow> prunable v w' = prunable v w"
  by (simp add: prunable_def same_view_def fun_eq_iff)

lemma keep_entry_documented:
  assumes "documented c v" and "\<And>b w'. same_view v w w' \<Longrightarrow> (\<not> b \<Longrightarrow> prunable v w window e) \<Longrightarrow> Q b w'"
  shows "wp_of (keep_entry c window e) Q w"
proof (cases "de_CreatedAt e")
  case None
  then show ?thesis using assms(2) [of w True] by (simp add: keep_entry_def wp)
next
  case (Some t)
  show ?thesis
  proof (cases "Since (cl_Now c w) t < window")
    case True
    with Some show ?thesis using assms(2) [of w True] by (simp add: keep_entry_def wp)
  next
    case False
    then have "wp_of (try_state (Get c (entry_gvk e) (entry_key e)) (\<lambda>err. ret (\<not> IsNotFound err)) (\<lambda>_. ret True)) Q w"
      unfolding wp using Some
      by (intro wp_Get_documented [OF assms(1)]) (auto simp: wp prunable_def not_less intro!: assms(2))
    with Some False show ?thesis by (simp add: keep_entry_def wp)
  qed
qed

lemma prune_loop_documented:
  assumes "documented c v"
    and "\<And>kept' pruned' w'. same_view v w w' \<Longrightarrow> dropped (prunable v w window) (kept @ es) kept' \<Longrightarrow>
      (\<not> pruned' \<Longrightarrow> \<not> pruned \<and> kept' = kept @ es) \<Longrightarrow> Q (kept', pruned') w'"
  shows "wp_of (prune_loop c window es kept pruned) Q w"
  using assms(2)
proof (induction es arbitrary: kept pruned w)
  case Nil
  then show ?case by (simp add: wp)
next
  case (Cons e es)
  have "wp_of (if b then prune_loop c window es (kept @ [e]) pruned else prune_loop c window es kept True) Q w1"
    if "same_view v w w1" and "\<not> b \<Longrightarrow> prunable v w window e" for b w1
  proof (cases b)
    case True
    have "wp_of (prune_loop c window es (kept @ [e]) pruned) Q w1"
      by (rule Cons.IH, rule Cons.prems) (use that(1) in \<open>auto simp: prunable_same intro: same_view_trans\<close>)
    with True show ?thesis by simp
  next
    case False
    have "wp_of (prune_loop c window es kept True) Q w1"
      by (rule Cons.IH, rule Cons.prems)
        (use that False in \<open>auto simp: prunable_same intro: same_view_trans dropped_insert\<close>)
    with False show ?thesis by simp
  qed
  then show ?case
    unfolding prune_loop.simps wp_bind by (intro keep_entry_documented [OF assms(1)]) auto
qed

lemma set_Descendants_same [simp]: "set_Descendants (ili_Descendants ili) ili = ili"
  by (simp add: set_Descendants_def)

lemma prune_documented:
  assumes "documented c v" and "vw_ILI v w (ili_key ili) = Some ili"
    and "\<And>kept w'. dropped (prunable v w (retentionWindow (retentionDays ili))) (ili_Descendants ili) kept \<Longrightarrow>
      put_ILI v (ili_key ili) (set_Descendants kept ili) w w' \<Longrightarrow> Q (Inr (set_Descendants kept ili)) w'"
    and "\<And>e w'. same_view v w w' \<Longrightarrow> Q (Inl e) w'"
  shows "wp_of (pruneStaleDescendants c ili) Q w"
proof (cases "ili_Descendants ili = []")
  case True
  then have "Q (Inr (set_Descendants [] ili)) w"
    using assms(2) by (intro assms(3)) (simp_all add: dropped.Nil put_ILI_same [of v w "ili_key ili"] set_Descendants_def)
  moreover have "set_Descendants [] ili = ili" using True set_Descendants_same [of ili] by simp
  ultimately show ?thesis using True by (simp add: pruneStaleDescendants_def wp)
next
  case False
  let ?win = "retentionWindow (retentionDays ili)"
  have go: "wp_of (if \<not> pruned then ret (Inr ili) else PatchILI c (set_Descendants kept ili) ili) Q w1"
    if view: "same_view v w w1" and d: "dropped (prunable v w ?win) (ili_Descendants ili) kept"
      and np: "\<not> pruned \<Longrightarrow> kept = ili_Descendants ili" for kept pruned w1
  proof (cases pruned)
    case True
    have stored: "vw_ILI v w1 (ili_key ili) = Some ili" using assms(2) view by (simp add: same_view_def)
    have "wp_of (PatchILI c (set_Descendants kept ili) ili) Q w1"
      by (rule wp_PatchILI_documented [OF assms(1) stored])
        (auto intro: assms(3) [OF d] assms(4) same_view_trans [OF view] same_put_ILI [OF view])
    with True show ?thesis by simp
  next
    case False
    with np d have "Q (Inr (set_Descendants (ili_Descendants ili) ili)) w1"
      using put_ILI_same [OF assms(2) view] by (intro assms(3)) simp_all
    with False show ?thesis by (simp add: wp)
  qed
  have "wp_of (prune_loop c ?win (ili_Descendants ili) [] False)
      (\<lambda>p. wp_of (case p of (kept, pruned) \<Rightarrow> if \<not> pruned then ret (Inr ili) else PatchILI c (set_Descendants kept ili) ili) Q) w"
    by (rule prune_loop_documented [OF assms(1)], unfold prod.case, rule go) simp_all
  with False show ?thesis by (simp add: pruneStaleDescendants_def wp_bind)
qed


section \<open>What one call may do\<close>

definition annotate :: "string \<Rightarrow> uobj \<Rightarrow> uobj" where
  "annotate iliName root =
     (if map_of (u_Annotations root) GovernanceAnnotationLineageIndexRef = Some iliName then root
      else root\<lparr>u_Annotations := AList.update GovernanceAnnotationLineageIndexRef iliName (u_Annotations root)\<rparr>)"

definition set_synced :: "string \<Rightarrow> int \<Rightarrow> uobj \<Rightarrow> uobj" where
  "set_synced iliName now root =
     (if cond_true (u_Conditions root) ConditionTypeLineageSynced_v1alpha1 then root
      else root\<lparr>u_Conditions := put_synced (EMap (new_condition iliName now (u_Generation root))) (u_Conditions root)\<rparr>)"

definition own :: "GVK \<Rightarrow> uobj \<Rightarrow> ILI \<Rightarrow> ILI" where
  "own g root ili =
     (if \<not> deleteWithRoot ili \<or> u_UID root \<in> or_UID ` set (om_OwnerReferences (ili_Meta ili)) then ili
      else set_OwnerReferences (om_OwnerReferences (ili_Meta ili) @ [owner_ref g root]) ili)"

text \<open>The root and its index are stored, everything else is as before.\<close>

definition lineage_stored ::
  "'w view \<Rightarrow> GVK \<Rightarrow> NamespacedName \<Rightarrow> uobj \<Rightarrow> NamespacedName \<Rightarrow> ILI \<Rightarrow> 'w \<Rightarrow> 'w \<Rightarrow> bool" where
  "lineage_stored v g k root k' ili w w' \<longleftrightarrow>
     vw_Obj v w' = (vw_Obj v w)(g := (vw_Obj v w g)(k \<mapsto> root)) \<and>
     vw_ILI v w' = (vw_ILI v w)(k' \<mapsto> ili) \<and> vw_CM v w' = vw_CM v w"

text \<open>The index Step C ends with: the stored one, or a new one.\<close>

definition initial_ili :: "'w view \<Rightarrow> 'w \<Rightarrow> GVK \<Rightarrow> uobj \<Rightarrow> ILI" where
  "initial_ili v w g root =
     (case vw_ILI v w (ili_key_of g root) of
        Some ili \<Rightarrow> ili | None \<Rightarrow> buildILI g root (lineageIndexName (gvk_Kind g) (u_Name root)))"

inductive lineage_outcome :: "'w view \<Rightarrow> GVK \<Rightarrow> NamespacedName \<Rightarrow> 'w \<Rightarrow> goerror option \<Rightarrow> 'w \<Rightarrow> bool"
  for v g req w where
  Failed: "same_view v w w' \<Longrightarrow> lineage_outcome v g req w (Some e) w'"
| Missing: "\<lbrakk>vw_Obj v w g req = None; same_view v w w'\<rbrakk> \<Longrightarrow> lineage_outcome v g req w None w'"
| Guarded: "\<lbrakk>vw_Obj v w g req = Some root; u_key root = req; n = lineageIndexName (gvk_Kind g) (u_Name root);
     map_of (u_Annotations root) GovernanceAnnotationLineageIndexRef = Some n; vw_ILI v w (ili_key_of g root) = Some ili;
     lineage_stored v g req (set_synced n now root) (ili_key_of g root) ili w w'\<rbrakk>
     \<Longrightarrow> lineage_outcome v g req w None w'"
| Partial: "\<lbrakk>vw_Obj v w g req = Some root; u_key root = req; n = lineageIndexName (gvk_Kind g) (u_Name root);
     map_of (u_Annotations root) GovernanceAnnotationLineageIndexRef \<noteq> Some n \<or> vw_ILI v w (ili_key_of g root) = None;
     ili = initial_ili v w g root;
     dropped (prunable v w (retentionWindow (retentionDays ili))) (ili_Descendants ili) kept;
     root' \<in> {root, annotate n root, set_synced n now (annotate n root)};
     lineage_stored v g req root' (ili_key_of g root) (set_Descendants kept ili) w w'\<rbrakk>
     \<Longrightarrow> lineage_outcome v g req w (Some e) w'"
| Complete: "\<lbrakk>vw_Obj v w g req = Some root; u_key root = req; n = lineageIndexName (gvk_Kind g) (u_Name root);
     map_of (u_Annotations root) GovernanceAnnotationLineageIndexRef \<noteq> Some n \<or> vw_ILI v w (ili_key_of g root) = None;
     ili = initial_ili v w g root;
     dropped (prunable v w (retentionWindow (retentionDays ili))) (ili_Descendants ili) kept;
     lineage_stored v g req (set_synced n now (annotate n root)) (ili_key_of g root)
       (own g root (set_Descendants kept ili)) w w'\<rbrakk>
     \<Longrightarrow> lineage_outcome v g req w None w'"

inductive_cases lineage_outcomeE: "lineage_outcome v g req w err w'"

lemma u_key_roots [simp]:
  "u_key (annotate n root) = u_key root" "u_key (set_synced n now root) = u_key root"
  "u_Name (annotate n root) = u_Name root" "u_Namespace (annotate n root) = u_Namespace root"
  "u_UID (annotate n root) = u_UID root"
  by (simp_all add: annotate_def set_synced_def u_key_def)

lemma ili_key_build [simp]: "ili_key (buildILI g root n) = \<lparr>nn_Namespace = u_Namespace root, nn_Name = n\<rparr>"
  by (simp add: ili_key_def buildILI_def Let_def)

lemma annotate_documented:
  assumes "documented c v" and "vw_Obj v w g (u_key root) = Some root"
    and "\<And>w'. put_Obj v g (u_key root) (Some (annotate n root)) w w' \<Longrightarrow> Q (Inr (annotate n root)) w'"
    and "\<And>e w'. same_view v w w' \<Longrightarrow> Q (Inl e) w'"
  shows "wp_of (writeGovernanceAnnotation c g root n) Q w"
proof (cases "map_of (u_Annotations root) GovernanceAnnotationLineageIndexRef = Some n")
  case True
  have "put_Obj v g (u_key root) (Some root) w w"
    using assms(2) by (auto simp: put_Obj_def fun_eq_iff)
  with True assms(3) [of w] show ?thesis
    by (simp add: writeGovernanceAnnotation_def wp annotate_def)
next
  case False
  have key: "u_key (root\<lparr>u_Annotations := as\<rparr>) = u_key root" for as by (simp add: u_key_def)
  have "wp_of (Patch c g (annotate n root) root) Q w"
    using False by (intro wp_Patch_documented [OF assms(1,2)]) (auto intro: assms(3,4))
  with False show ?thesis by (simp add: writeGovernanceAnnotation_def annotate_def)
qed

lemma synced_documented:
  assumes "documented c v" and "vw_Obj v w g (u_key root) = Some root"
    and "\<And>now w'. put_Obj v g (u_key root) (Some (set_synced n now root)) w w' \<Longrightarrow> Q None w'"
    and "\<And>e w'. same_view v w w' \<Longrightarrow> Q (Some e) w'"
  shows "wp_of (ensureLineageSyncedTrue c g root n) Q w"
  unfolding ensureLineageSyncedTrue_def wp u_key_def [symmetric]
proof (rule wp_Get_documented [OF assms(1)], goal_cases)
  case (1 fresh w1)
  then have fresh: "fresh = root" and stored: "vw_Obj v w1 g (u_key root) = Some root"
    using assms(2) by (auto simp: same_view_def)
  have put: "put_Obj v g (u_key root) x w1 w' \<Longrightarrow> put_Obj v g (u_key root) x w w'" for x w'
    using 1 by (simp add: put_Obj_def same_view_def)
  show ?case
  proof (cases "cond_true (u_Conditions root) ConditionTypeLineageSynced_v1alpha1")
    case True
    have "put_Obj v g (u_key root) (Some root) w1 w1" using stored by (auto simp: put_Obj_def fun_eq_iff)
    with True assms(3) [OF put, of 0 w1] show ?thesis by (simp add: fresh wp set_synced_def)
  next
    case False
    let ?x = "set_synced n (cl_Now c w1) root"
    have x: "root\<lparr>u_Conditions := put_synced (EMap (new_condition n (cl_Now c w1) (u_Generation root))) (u_Conditions root)\<rparr> = ?x"
      using False by (simp add: set_synced_def)
    have "wp_of (StatusPatch c g ?x root) (\<lambda>r. Q (case r of Inl e \<Rightarrow> Some (ApiError e) | Inr _ \<Rightarrow> None)) w1"
      using 1 by (intro wp_StatusPatch_documented [OF assms(1) stored])
        (auto intro: assms(3) [OF put] assms(4) same_view_trans)
    then show ?thesis
      using False 1 assms(4) by (simp add: fresh wp x Let_def)
  qed
qed (use assms(2,4) in \<open>auto simp: wp\<close>)

lemma own_documented:
  assumes "documented c v" and "vw_ILI v w (ili_key ili) = Some ili"
    and "\<And>w'. put_ILI v (ili_key ili) (own g root ili) w w' \<Longrightarrow> Q None w'"
    and "\<And>e w'. same_view v w w' \<Longrightarrow> Q (Some e) w'"
  shows "wp_of (ensureOwnerReferenceIfDeleteWithRoot c g root ili) Q w"
proof (cases "\<not> deleteWithRoot ili \<or> u_UID root \<in> or_UID ` set (om_OwnerReferences (ili_Meta ili))")
  case True
  with assms(3) [of w] put_ILI_same [OF assms(2), of w] show ?thesis
    by (auto simp: ensureOwnerReferenceIfDeleteWithRoot_def wp own_def)
next
  case False
  have "wp_of (PatchILI c (own g root ili) ili) (\<lambda>r. Q (case r of Inl e \<Rightarrow> Some (ApiError e) | Inr _ \<Rightarrow> None)) w"
    using False by (intro wp_PatchILI_documented [OF assms(1,2)]) (auto simp: own_def intro: assms(3,4))
  with False show ?thesis
    by (simp add: ensureOwnerReferenceIfDeleteWithRoot_def wp own_def)
qed

lemma get_or_create_documented:
  assumes "documented c v" and "n = lineageIndexName (gvk_Kind g) (u_Name root)"
    and "\<And>w'. put_ILI v (ili_key_of g root) (initial_ili v w g root) w w' \<Longrightarrow>
      ili_key (initial_ili v w g root) = ili_key_of g root \<Longrightarrow> Q (Inr (initial_ili v w g root)) w'"
    and "\<And>e w'. same_view v w w' \<Longrightarrow> Q (Inl (done_result, Some e)) w'"
    and "\<And>e w'. put_ILI v (ili_key_of g root) (initial_ili v w g root) w w' \<Longrightarrow> Q (Inl (done_result, Some e)) w'"
  shows "wp_of (get_or_create_ili c g root n) Q w"
proof -
  let ?k = "ili_key_of g root" and ?i = "initial_ili v w g root"
  have k: "\<lparr>nn_Namespace = u_Namespace root, nn_Name = n\<rparr> = ?k" by (simp add: ili_key_of_def assms(2))
  define refetch where "refetch = try_state (GetILI c ?k)
     (\<lambda>err. if IsNotFound err then ret (Inl (requeue_result, None))
        else ret (Inl (done_result, Some (Errorf (''re-fetch InfrastructureLineageIndex '' @ n @ '': '') (ApiError err)))))
     (\<lambda>ili. ret (Inr ili))"
  have again: "wp_of refetch Q w1" if put: "put_ILI v ?k ?i w w1" for w1
    unfolding refetch_def wp
  proof (rule wp_GetILI_documented [OF assms(1)], goal_cases)
    case (1 x w2)
    with put have "x = ?i" "put_ILI v ?k ?i w w2" by (auto simp: put_ILI_def same_view_def)
    with 1 assms(3) show ?case by (simp add: wp)
  next
    case (2 w2)
    with put show ?case by (simp add: put_ILI_def)
  next
    case (3 e w2)
    with put have "put_ILI v ?k ?i w w2" by (auto simp: put_ILI_def same_view_def)
    with 3 assms(5) show ?case by (simp add: wp)
  qed
  show ?thesis
    unfolding get_or_create_ili_def Let_def k refetch_def [symmetric] wp_try
  proof (rule wp_GetILI_documented [OF assms(1)], goal_cases)
    case (1 x w1)
    then have "?i = x" "put_ILI v ?k ?i w w1"
      by (auto simp: initial_ili_def intro: put_ILI_same)
    with 1 assms(3) show ?case by (simp add: wp)
  next
    case (2 w1)
    then have i: "?i = buildILI g root n" by (simp add: initial_ili_def assms(2))
    have key: "ili_key (buildILI g root n) = ?k" by (simp add: k)
    have none: "vw_ILI v w1 (ili_key (buildILI g root n)) = None"
      unfolding key using 2 by (simp add: same_view_def)
    have "wp_of (CreateILI c (buildILI g root n))
      (\<lambda>r w'. case r of
          Inl e \<Rightarrow> wp_of (if IsAlreadyExists e then refetch else ret (Inl (done_result,
            Some (Errorf (''failed to create InfrastructureLineageIndex '' @ n @ '': '') (ApiError e))))) Q w'
        | Inr _ \<Rightarrow> wp_of refetch Q w') w1"
    proof (rule wp_CreateILI_documented [OF assms(1) none], goal_cases)
      case (1 w2)
      then have "put_ILI v ?k ?i w1 w2" by (simp only: key i)
      from again [OF same_put_ILI [OF 2(2) this]] show ?case by simp
    next
      case (2 e w2)
      with \<open>same_view v w w1\<close> have "same_view v w w2" by (blast intro: same_view_trans)
      with 2 assms(4) show ?case by (simp add: wp)
    qed
    then show ?case by (simp only: sum.case IsNotFound.simps not_True_eq_False if_False wp_try)
  next
    case (3 e w1)
    with assms(4) show ?case by (simp add: wp)
  qed
qed


section \<open>The reconciler refines its specification\<close>

lemma stored_put_Obj:
  "lineage_stored v g k root k' ili w w1 \<Longrightarrow> put_Obj v g k (Some root') w1 w' \<Longrightarrow>
     lineage_stored v g k root' k' ili w w'"
  by (auto simp: lineage_stored_def put_Obj_def)

lemma stored_put_ILI:
  "lineage_stored v g k root k' ili w w1 \<Longrightarrow> put_ILI v k' ili' w1 w' \<Longrightarrow>
     lineage_stored v g k root k' ili' w w'"
  by (auto simp: lineage_stored_def put_ILI_def)

lemma stored_same:
  "lineage_stored v g k root k' ili w w1 \<Longrightarrow> same_view v w1 w' \<Longrightarrow> lineage_stored v g k root k' ili w w'"
  by (simp add: lineage_stored_def same_view_def)

lemma stored_reads:
  "lineage_stored v g k root k' ili w w1 \<Longrightarrow> vw_Obj v w1 g k = Some root"
  "lineage_stored v g k root k' ili w w1 \<Longrightarrow> vw_ILI v w1 k' = Some ili"
  by (simp_all add: lineage_stored_def)

text \<open>Pruning looks at the objects other than the index, which creating the index does not touch.\<close>

lemma prunable_stored:
  assumes "vw_Obj v w g k = Some root" and "lineage_stored v g k root k' ili w w1"
  shows "prunable v w1 = prunable v w"
proof -
  have "vw_Obj v w1 = vw_Obj v w"
    using assms by (auto simp: lineage_stored_def fun_eq_iff)
  then show ?thesis by (simp add: prunable_def fun_eq_iff)
qed

text \<open>The situation in which Steps C to Eg run, and the index after pruning.\<close>

definition needs_sync :: "'w view \<Rightarrow> GVK \<Rightarrow> NamespacedName \<Rightarrow> 'w \<Rightarrow> uobj \<Rightarrow> string \<Rightarrow> bool" where
  "needs_sync v g req w root n \<longleftrightarrow> vw_Obj v w g req = Some root \<and> u_key root = req \<and>
     n = lineageIndexName (gvk_Kind g) (u_Name root) \<and>
     (map_of (u_Annotations root) GovernanceAnnotationLineageIndexRef \<noteq> Some n \<or> vw_ILI v w (ili_key_of g root) = None)"

definition pruned_ili :: "'w view \<Rightarrow> 'w \<Rightarrow> GVK \<Rightarrow> uobj \<Rightarrow> ILI \<Rightarrow> bool" where
  "pruned_ili v w g root ili \<longleftrightarrow> ili_key ili = ili_key_of g root \<and>
     (\<exists>kept. ili = set_Descendants kept (initial_ili v w g root) \<and>
       dropped (prunable v w (retentionWindow (retentionDays (initial_ili v w g root))))
         (ili_Descendants (initial_ili v w g root)) kept)"

abbreviation lineage_post :: "'w view \<Rightarrow> GVK \<Rightarrow> NamespacedName \<Rightarrow> 'w \<Rightarrow> Result \<times> goerror option \<Rightarrow> 'w \<Rightarrow> bool" where
  "lineage_post v g req w r w' \<equiv> lineage_outcome v g req w (snd r) w' \<and> fst r = done_result"

lemma outcome_partial:
  assumes "needs_sync v g req w root n" and "pruned_ili v w g root ili"
    and "root' \<in> {root, annotate n root, set_synced n now (annotate n root)}"
    and "lineage_stored v g req root' (ili_key_of g root) ili w w'"
  shows "lineage_outcome v g req w (Some e) w'"
  using assms by (auto simp: needs_sync_def pruned_ili_def intro: Partial)

lemma finish_documented:
  assumes "documented c v" and "needs_sync v g req w root n" and "pruned_ili v w g root ili"
    and "lineage_stored v g req (set_synced n now (annotate n root)) (ili_key_of g root) ili w w1"
  shows "wp_of (ensureOwnerReferenceIfDeleteWithRoot c g (annotate n root) ili)
    (\<lambda>e. wp_of (case e of Some err \<Rightarrow> ret (done_result, Some (Errorf ''failed to ensure ownerReference: '' err))
       | None \<Rightarrow> ret (done_result, None)) (lineage_post v g req w)) w1"
proof (rule own_documented [OF assms(1)], goal_cases)
  case 1
  then show ?case using stored_reads(2) [OF assms(4)] assms(3) by (simp add: pruned_ili_def)
next
  case (2 w2)
  moreover have "own g (annotate n root) ili = own g root ili" by (simp add: own_def owner_ref_def)
  ultimately have "lineage_stored v g req (set_synced n now (annotate n root)) (ili_key_of g root) (own g root ili) w w2"
    using stored_put_ILI [OF assms(4)] assms(3) by (simp add: pruned_ili_def)
  then have "lineage_outcome v g req w None w2"
    using assms(2,3) by (auto simp: needs_sync_def pruned_ili_def intro: Complete)
  then show ?case by (simp add: wp)
next
  case (3 e w2)
  with outcome_partial [OF assms(2,3) _ stored_same [OF assms(4)], of now] show ?case by (simp add: wp)
qed

lemma sync_stage_documented:
  assumes "documented c v" and "needs_sync v g req w root n" and "pruned_ili v w g root ili"
    and "lineage_stored v g req (annotate n root) (ili_key_of g root) ili w w1"
  shows "wp_of (ensureLineageSyncedTrue c g (annotate n root) n)
    (\<lambda>e. wp_of (case e of
         Some err \<Rightarrow> ret (done_result, Some (Errorf ''failed to set LineageSynced=True: '' err))
       | None \<Rightarrow> do {
           e \<leftarrow> ensureOwnerReferenceIfDeleteWithRoot c g (annotate n root) ili;
           case e of
             Some err \<Rightarrow> ret (done_result, Some (Errorf ''failed to ensure ownerReference: '' err))
           | None \<Rightarrow> ret (done_result, None) }) (lineage_post v g req w)) w1"
proof (rule synced_documented [OF assms(1)], goal_cases)
  case 1
  then show ?case using stored_reads(1) [OF assms(4)] assms(2) by (simp add: needs_sync_def)
next
  case (2 now w2)
  then have "lineage_stored v g req (set_synced n now (annotate n root)) (ili_key_of g root) ili w w2"
    using stored_put_Obj [OF assms(4)] assms(2) by (simp add: needs_sync_def)
  from finish_documented [OF assms(1-3) this] show ?case by (simp add: wp_bind)
next
  case (3 e w2)
  with outcome_partial [OF assms(2,3) _ stored_same [OF assms(4)]] show ?case by (simp add: wp)
qed

lemma annotate_stage_documented:
  assumes "documented c v" and "needs_sync v g req w root n" and "pruned_ili v w g root ili"
    and "lineage_stored v g req root (ili_key_of g root) ili w w1"
  shows "wp_of (try_state (writeGovernanceAnnotation c g root n)
           (\<lambda>err. ret (done_result, Some (Errorf ''failed to write governance annotation: '' (ApiError err))))
           (\<lambda>root. do {
              e \<leftarrow> ensureLineageSyncedTrue c g root n;
              case e of
                Some err \<Rightarrow> ret (done_result, Some (Errorf ''failed to set LineageSynced=True: '' err))
              | None \<Rightarrow> do {
                  e \<leftarrow> ensureOwnerReferenceIfDeleteWithRoot c g root ili;
                  case e of
                    Some err \<Rightarrow> ret (done_result, Some (Errorf ''failed to ensure ownerReference: '' err))
                  | None \<Rightarrow> ret (done_result, None) } })) (lineage_post v g req w) w1"
  unfolding wp_try
proof (rule annotate_documented [OF assms(1)], goal_cases)
  case 1
  then show ?case using stored_reads(1) [OF assms(4)] assms(2) by (simp add: needs_sync_def)
next
  case (2 w2)
  then have "lineage_stored v g req (annotate n root) (ili_key_of g root) ili w w2"
    using stored_put_Obj [OF assms(4)] assms(2) by (simp add: needs_sync_def)
  from sync_stage_documented [OF assms(1-3) this] show ?case by (simp add: wp_bind)
next
  case (3 e w2)
  with outcome_partial [OF assms(2,3) _ stored_same [OF assms(4)]] show ?case by (simp add: wp)
qed

lemma initial_ili_key:
  assumes "documented c v"
  shows "ili_key (initial_ili v w g root) = ili_key_of g root"
proof (cases "vw_ILI v w (ili_key_of g root)")
  case (Some x)
  then show ?thesis
    using assms by (auto simp: initial_ili_def documented_def documented_keys_def)
qed (simp add: initial_ili_def ili_key_of_def)

lemma sync_root_documented:
  assumes "documented c v" and sync: "needs_sync v g req w root n" and view: "same_view v w w0"
  shows "wp_of (sync_root c g root n) (lineage_post v g req w) w0"
proof -
  let ?k = "ili_key_of g root" and ?i = "initial_ili v w g root"
  have i0: "initial_ili v w0 g root = ?i" using view by (simp add: initial_ili_def same_view_def)
  have ik: "ili_key ?i = ?k" by (rule initial_ili_key [OF assms(1)])
  have start: "lineage_stored v g req root ?k ?i w w1" if "put_ILI v ?k ?i w0 w1" for w1
    using that view sync by (auto simp: lineage_stored_def put_ILI_def same_view_def fun_eq_iff needs_sync_def)
  have whole: "pruned_ili v w g root ?i"
    unfolding pruned_ili_def
    by (intro conjI exI [of _ "ili_Descendants ?i"]) (simp_all add: ik)
  show ?thesis
    unfolding sync_root_def wp_try
  proof (rule get_or_create_documented [OF assms(1)], goal_cases)
    case 1
    then show ?case using sync by (simp add: needs_sync_def)
  next
    case (2 w1)
    then have st: "lineage_stored v g req root ?k ?i w w1" using start by (simp add: i0)
    have same: "prunable v w1 = prunable v w"
      using prunable_stored [OF _ st] sync by (simp add: needs_sync_def)
    show ?case
      unfolding i0 sum.case wp_try
    proof (rule prune_documented [OF assms(1)], goal_cases)
      case 1
      then show ?case using stored_reads(2) [OF st] by (simp add: ik)
    next
      case (2 kept w2)
      then have "pruned_ili v w g root (set_Descendants kept ?i)" by (auto simp: pruned_ili_def same ik)
      moreover have "lineage_stored v g req root ?k (set_Descendants kept ?i) w w2"
        using stored_put_ILI [OF st] 2(2) by (simp add: ik)
      ultimately show ?case using annotate_stage_documented [OF assms(1) sync] by (simp add: wp_try)
    next
      case (3 e w2)
      with outcome_partial [OF sync whole _ stored_same [OF st]] show ?case by (simp add: wp)
    qed
  next
    case (3 e w1)
    with view Failed [of v w w1 g req] show ?case by (simp add: wp same_view_trans)
  next
    case (4 e w1)
    with outcome_partial [OF sync whole _ start] show ?case by (simp add: wp i0)
  qed
qed

lemma Lineage_Reconcile_documented:
  assumes "documented c v"
  shows "wp_of (Lineage_Reconcile c g req) (lineage_post v g req w) w"
  unfolding Lineage_Reconcile_def Let_def wp_try
proof (rule wp_Get_documented [OF assms], goal_cases)
  case (1 root w1)
  let ?n = "lineageIndexName (gvk_Kind g) (u_Name root)"
  have k: "\<lparr>nn_Namespace = u_Namespace root, nn_Name = ?n\<rparr> = ili_key_of g root" by (simp add: ili_key_of_def)
  have stored: "vw_Obj v w1 g (u_key root) = Some root" using 1 by (simp add: same_view_def)
  show ?case
  proof (cases "map_of (u_Annotations root) GovernanceAnnotationLineageIndexRef = Some ?n")
    case False
    with 1 have "needs_sync v g req w root ?n" by (simp add: needs_sync_def)
    from sync_root_documented [OF assms this 1(3)] False show ?thesis by simp
  next
    case True
    have "wp_of (try_state (GetILI c (ili_key_of g root))
        (\<lambda>err. if \<not> IsNotFound err
           then ret (done_result, Some (Errorf (''failed to get InfrastructureLineageIndex '' @ ?n @ '': '') (ApiError err)))
           else sync_root c g root ?n)
        (\<lambda>_. do { e \<leftarrow> ensureLineageSyncedTrue c g root ?n; ret (done_result, e) })) (lineage_post v g req w) w1"
      unfolding wp_try
    proof (rule wp_GetILI_documented [OF assms], goal_cases)
      case (1 ili w2)
      have view: "same_view v w w2" using \<open>same_view v w w1\<close> 1(3) by (rule same_view_trans)
      have root: "vw_Obj v w2 g (u_key root) = Some root" using stored 1(3) by (simp add: same_view_def)
      have ili: "vw_ILI v w (ili_key_of g root) = Some ili" using 1 \<open>same_view v w w1\<close> by (simp add: same_view_def)
      have "lineage_outcome v g req w None w3" if "put_Obj v g (u_key root) (Some (set_synced ?n now root)) w2 w3" for now w3
        by (rule Guarded [OF \<open>vw_Obj v w g req = Some root\<close> \<open>u_key root = req\<close> refl True ili])
          (use that view ili \<open>u_key root = req\<close> in \<open>auto simp: lineage_stored_def put_Obj_def same_view_def fun_eq_iff\<close>)
      moreover have "lineage_outcome v g req w (Some e) w3" if "same_view v w2 w3" for e w3
        by (rule Failed) (rule same_view_trans [OF view that])
      ultimately show ?case
        unfolding sum.case wp by (intro synced_documented [OF assms root]) simp_all
    next
      case (2 w2)
      have view: "same_view v w w2" using \<open>same_view v w w1\<close> 2(2) by (rule same_view_trans)
      have "needs_sync v g req w root ?n"
        using \<open>vw_Obj v w g req = Some root\<close> \<open>u_key root = req\<close> 2(1) \<open>same_view v w w1\<close>
        by (simp add: needs_sync_def same_view_def)
      from sync_root_documented [OF assms this view] show ?case by simp
    next
      case (3 e w2)
      have "same_view v w w2" using \<open>same_view v w w1\<close> 3(2) by (rule same_view_trans)
      with 3(1) show ?case by (simp add: wp Failed)
    qed
    with True show ?thesis by (simp add: k)
  qed
next
  case (2 w1)
  then show ?case by (simp add: wp Missing)
next
  case (3 e w1)
  then show ?case by (simp add: wp Failed)
qed


section \<open>A sample root\<close>

definition sample_root :: uobj where
  "sample_root = \<lparr>u_Name = ''p'', u_Namespace = ''seam-system'', u_UID = ''u1'', u_Generation = 3,
     u_Labels = [], u_Annotations = [], u_Finalizers = [], u_Deleting = False, u_Conditions = [],
     u_StatusIsMap = True, u_Ingress = [], u_Strings = []\<rparr>"

definition rbac_policy :: GVK where
  "rbac_policy = mk_gvk ''security.ontai.dev'' ''v1alpha1'' ''RBACPolicy''"

definition root_world :: mem where
  "root_world = \<lparr>mem_Obj = (\<lambda>g k. if g = rbac_policy \<and> k = u_key sample_root then Some sample_root else None),
     mem_ILI = Map.empty, mem_CM = Map.empty, mem_Now = 0\<rparr>"

abbreviation sample_index_name :: string where
  "sample_index_name \<equiv> lineageIndexName (gvk_Kind rbac_policy) (u_Name sample_root)"

lemma sample_root_run:
  "\<exists>w'. run_state (Lineage_Reconcile mem_client rbac_policy (u_key sample_root)) root_world = ((done_result, None), w')"
proof -
  let ?n = sample_index_name and ?g = rbac_policy and ?r1 = "annotate sample_index_name sample_root"
  let ?ili = "buildILI ?g sample_root ?n" and ?r2 = "set_synced sample_index_name 0 (annotate sample_index_name sample_root)"
  let ?w1 = "root_world\<lparr>mem_ILI := [\<lparr>nn_Namespace = u_Namespace sample_root, nn_Name = ?n\<rparr> \<mapsto> ?ili]\<rparr>"
  let ?w2 = "mem_set ?g (u_key sample_root) (Some ?r1) ?w1"
  let ?w3 = "mem_set ?g (u_key sample_root) (Some ?r2) ?w2"
  have plain: "u_Annotations sample_root = []" "u_Conditions sample_root = []" "u_StatusIsMap sample_root"
    by (simp_all add: sample_root_def)
  have there: "visible u_key (mem_Obj root_world ?g) (u_key sample_root) = Some sample_root"
    by (simp add: root_world_def visible_def)
  have none: "visible ili_key (mem_ILI root_world) k = None" for k
    by (simp add: root_world_def visible_def)
  have create: "run_state (get_or_create_ili mem_client ?g sample_root ?n) root_world = (Inr ?ili, ?w1)"
    by (simp add: get_or_create_ili_def Let_def mem_eval none root_world_def visible_def)
  have prune: "run_state (pruneStaleDescendants mem_client ?ili) ?w1 = (Inr ?ili, ?w1)"
    by (simp add: pruneStaleDescendants_def buildILI_def Let_def)
  have annot: "run_state (writeGovernanceAnnotation mem_client ?g sample_root ?n) ?w1 = (Inr ?r1, ?w2)"
    using there by (simp add: writeGovernanceAnnotation_def plain mem_eval annotate_def)
  have "u_Conditions ?r1 = []" "u_StatusIsMap ?r1" by (simp_all add: annotate_def plain)
  then have sync: "run_state (ensureLineageSyncedTrue mem_client ?g ?r1 ?n) ?w2 = (None, ?w3)"
    by (simp add: ensureLineageSyncedTrue_def u_key_def [symmetric] mem_eval Let_def set_synced_def root_world_def)
  have own: "\<exists>w'. run_state (ensureOwnerReferenceIfDeleteWithRoot mem_client ?g ?r1 ?ili) ?w3 = (None, w')"
    by (simp add: ensureOwnerReferenceIfDeleteWithRoot_def mem_eval)
  show ?thesis
    using there plain own
    by (auto simp: Lineage_Reconcile_def sync_root_def mem_eval Let_def create prune annot sync)
qed

lemma sample_root_stored: "vw_Obj mem_view root_world rbac_policy (u_key sample_root) = Some sample_root"
  by (simp add: mem_view_def root_world_def visible_def)


section \<open>Properties of the lineage controller\<close>

text \<open>C2 (Lineage_Reconcile_refines): against an API server that behaves as documented, one call of the lineage
  reconciler does one of what its specification lists: nothing before an error, nothing for a
  missing root, only the condition for a root that is already annotated and indexed, a prefix of
  the steps create, prune, annotate, set condition before an error, or all steps and the owner
  reference. It never asks for a requeue there.\<close>

theorem Lineage_Reconcile_refines:
  assumes "documented c v" and "run_state (Lineage_Reconcile c g req) w = ((res, err), w')"
  shows "lineage_outcome v g req w err w' \<and> res = done_result"
  using wp_runD [OF Lineage_Reconcile_documented [OF assms(1)] assms(2)] by simp

theorem Lineage_Reconcile_refines_witness:
  "\<exists>w'. run_state (Lineage_Reconcile mem_client rbac_policy (u_key sample_root)) root_world = ((done_result, None), w') \<and>
     lineage_outcome mem_view rbac_policy (u_key sample_root) root_world None w'"
  using sample_root_run Lineage_Reconcile_refines [OF mem_documented] by blast

lemma lineage_outcome_run:
  "documented c v \<Longrightarrow> run_state (Lineage_Reconcile c g req) w = ((res, err), w') \<Longrightarrow> lineage_outcome v g req w err w'"
  using wp_runD [OF Lineage_Reconcile_documented] by fastforce

text \<open>What a synchronised root differs in from the root before.\<close>

definition synced_root :: "uobj \<Rightarrow> string \<Rightarrow> uobj \<Rightarrow> bool" where
  "synced_root root n root' \<longleftrightarrow>
     map_of (u_Annotations root') = (map_of (u_Annotations root))(GovernanceAnnotationLineageIndexRef \<mapsto> n) \<and>
     cond_true (u_Conditions root') ConditionTypeLineageSynced_v1alpha1 \<and>
     filter (\<lambda>e. \<not> is_synced_cond e) (u_Conditions root') = filter (\<lambda>e. \<not> is_synced_cond e) (u_Conditions root) \<and>
     root' = root\<lparr>u_Annotations := u_Annotations root', u_Conditions := u_Conditions root'\<rparr>"

lemma synced_rootD:
  assumes "synced_root root n root'"
  shows "u_Name root' = u_Name root" and "u_Namespace root' = u_Namespace root"
    and "map_of (u_Annotations root') GovernanceAnnotationLineageIndexRef = Some n"
    and "cond_true (u_Conditions root') ConditionTypeLineageSynced_v1alpha1"
proof -
  from assms have eq: "root' = root\<lparr>u_Annotations := u_Annotations root', u_Conditions := u_Conditions root'\<rparr>"
    by (simp add: synced_root_def)
  show "u_Name root' = u_Name root" by (subst eq) simp
  show "u_Namespace root' = u_Namespace root" by (subst eq) simp
qed (use assms in \<open>simp_all add: synced_root_def\<close>)

lemma annotated: "map_of (u_Annotations (annotate n root)) = (map_of (u_Annotations root))(GovernanceAnnotationLineageIndexRef \<mapsto> n)"
  by (auto simp: annotate_def fun_eq_iff)

lemma synced_root_annotate: "synced_root root n (set_synced n now (annotate n root))"
  using put_synced_true
  by (auto simp: synced_root_def set_synced_def annotated synced.put_others [simplified])
    (auto simp: annotate_def)

lemma synced_root_guarded:
  assumes "map_of (u_Annotations root) GovernanceAnnotationLineageIndexRef = Some n"
  shows "synced_root root n (set_synced n now root)"
  using synced_root_annotate [of root n now] assms by (simp add: annotate_def)

lemma own_spec [simp]: "ili_Spec (own g root ili) = ili_Spec ili"
  by (simp add: own_def)



text \<open>An index that a call creates is the one built for the root.\<close>

lemma lineage_outcome_created:
  assumes "lineage_outcome v g req w err w'" and "vw_ILI v w k = None" and "vw_ILI v w' k = Some ili"
  shows "\<exists>root n. ili_Spec ili = ili_Spec (buildILI g root n) \<and> vw_Obj v w g req = Some root"
  using assms(1)
proof cases
  case (Partial root n ili0 kept root' now e)
  then have "k = ili_key_of g root" "ili = set_Descendants kept (buildILI g root n)"
    using assms(2,3) by (auto simp: lineage_stored_def initial_ili_def split: if_splits)
  moreover have "kept = []"
    using dropped_subseq [OF Partial(7)] assms(2) Partial(6) calculation(1)
    by (simp add: initial_ili_def buildILI_def Let_def)
  ultimately show ?thesis
    using Partial(2) by (auto simp: set_Descendants_def buildILI_def Let_def)
next
  case (Complete root n ili0 kept now)
  then have "k = ili_key_of g root" "ili_Spec ili = ili_Spec (set_Descendants kept (buildILI g root n))"
    using assms(2,3) by (auto simp: lineage_stored_def initial_ili_def split: if_splits)
  moreover have "kept = []"
    using dropped_subseq [OF Complete(7)] assms(2) Complete(6) calculation(1)
    by (simp add: initial_ili_def buildILI_def Let_def)
  ultimately show ?thesis
    using Complete(2) by (auto simp: set_Descendants_def buildILI_def Let_def)
next
  case (Guarded root n ili0 now)
  then show ?thesis using assms(2,3) by (auto simp: lineage_stored_def split: if_splits)
qed (use assms(2,3) in \<open>auto simp: same_view_def\<close>)

text \<open>What any outcome keeps of a stored index.\<close>

lemma lineage_outcome_ili:
  assumes "lineage_outcome v g req w err w'" and "vw_ILI v w k = Some ili"
  shows "\<exists>ili'. vw_ILI v w' k = Some ili' \<and>
    ili_Spec ili' = (ili_Spec ili)\<lparr>spec_DescendantRegistry := ili_Descendants ili'\<rparr> \<and>
    dropped (prunable v w (retentionWindow (retentionDays ili))) (ili_Descendants ili) (ili_Descendants ili')"
  using assms(1)
proof cases
  case (Partial root n ili0 kept root' now e)
  then show ?thesis
    using assms(2) by (cases "k = ili_key_of g root") (auto simp: lineage_stored_def initial_ili_def set_Descendants_def)
next
  case (Complete root n ili0 kept now)
  then show ?thesis
    using assms(2) by (cases "k = ili_key_of g root") (auto simp: lineage_stored_def initial_ili_def set_Descendants_def)
next
  case (Guarded root n ili0 now)
  then show ?thesis
    using assms(2) by (cases "k = ili_key_of g root") (auto simp: lineage_stored_def)
qed (use assms(2) in \<open>auto simp: same_view_def\<close>)


definition indexed_world :: mem where
  "indexed_world = root_world\<lparr>mem_ILI := [ili_key_of rbac_policy sample_root \<mapsto> buildILI rbac_policy sample_root sample_index_name]\<rparr>"

lemma indexed_world_ili:
  "vw_ILI mem_view indexed_world (ili_key_of rbac_policy sample_root) = Some (buildILI rbac_policy sample_root sample_index_name)"
  by (simp add: mem_view_def indexed_world_def visible_def ili_key_of_def)


text \<open>C8 (synchronised_is_stable): the loop converges: after a call that reported no error for an existing root, a
  second call changes nothing at all, whatever it returns.\<close>

theorem synchronised_is_stable:
  assumes "documented c v" and "run_state (Lineage_Reconcile c g req) w = ((res, None), w')"
    and "vw_Obj v w g req = Some root" and "run_state (Lineage_Reconcile c g req) w' = ((res', err'), w'')"
  shows "same_view v w' w''"
proof -
  have key: "u_key root = req" using assms(1,3) by (auto simp: documented_def documented_keys_def)
  obtain root' ili now n where root': "vw_Obj v w' g req = Some root'" and ili: "vw_ILI v w' (ili_key_of g root) = Some ili"
    and sr: "synced_root root (lineageIndexName (gvk_Kind g) (u_Name root)) root'"
    using lineage_outcome_run [OF assms(1,2)]
  proof cases
    case (Guarded root0 n ili now)
    then show ?thesis
      using assms(3) synced_root_guarded that [of "set_synced n now root" ili] by (auto simp: lineage_stored_def)
  next
    case (Complete root0 n ili kept now)
    then show ?thesis
      using assms(3) synced_root_annotate that [of "set_synced n now (annotate n root)" "own g root (set_Descendants kept ili)"]
      by (auto simp: lineage_stored_def)
  qed (use assms(3) in auto)
  note sr = synced_rootD [OF sr]
  then have eq: "u_Name root' = u_Name root" "ili_key_of g root' = ili_key_of g root"
    by (simp_all add: ili_key_of_def)
  from lineage_outcome_run [OF assms(1,4)] show ?thesis
  proof cases
    case (Guarded root0 n ili0 now)
    with root' sr(4) have "set_synced n now root0 = root'" by (simp add: set_synced_def)
    with Guarded root' ili eq show ?thesis by (auto simp: lineage_stored_def same_view_def fun_eq_iff)
  qed (use root' ili eq sr(3) in auto)
qed

theorem synchronised_is_stable_witness:
  "\<exists>w' r w''. run_state (Lineage_Reconcile mem_client rbac_policy (u_key sample_root)) root_world = ((done_result, None), w') \<and>
     run_state (Lineage_Reconcile mem_client rbac_policy (u_key sample_root)) w' = (r, w'') \<and> same_view mem_view w' w''"
proof -
  obtain w' where run: "run_state (Lineage_Reconcile mem_client rbac_policy (u_key sample_root)) root_world = ((done_result, None), w')"
    using sample_root_run by blast
  obtain res err w'' where again: "run_state (Lineage_Reconcile mem_client rbac_policy (u_key sample_root)) w' = ((res, err), w'')"
    by (metis surj_pair)
  from synchronised_is_stable [OF mem_documented run sample_root_stored again] run again show ?thesis by blast
qed

text \<open>C22 (guard_skips_maintenance): once a root is annotated and its index exists, no call ever changes an index again:
  neither the retention window nor a changed deleteWithRoot policy takes effect, since the guard
  returns before the pruning and the owner reference steps.\<close>

theorem guard_skips_maintenance:
  assumes "documented c v" and "run_state (Lineage_Reconcile c g req) w = ((res, err), w')"
    and "vw_Obj v w g req = Some root"
    and "map_of (u_Annotations root) GovernanceAnnotationLineageIndexRef = Some (lineageIndexName (gvk_Kind g) (u_Name root))"
    and "vw_ILI v w (ili_key_of g root) = Some ili"
  shows "vw_ILI v w' = vw_ILI v w"
  using lineage_outcome_run [OF assms(1,2)]
proof cases
  case (Guarded root0 n ili0 now)
  then show ?thesis using assms(3,5) by (auto simp: lineage_stored_def fun_eq_iff)
qed (use assms(3-5) in \<open>auto simp: same_view_def\<close>)

theorem guard_skips_maintenance_witness:
  "\<exists>r w'. run_state (Lineage_Reconcile mem_client rbac_policy (u_key sample_root))
       (mem_set rbac_policy (u_key sample_root) (Some (annotate sample_index_name sample_root)) indexed_world) = (r, w') \<and>
     vw_ILI mem_view w' = vw_ILI mem_view indexed_world"
proof -
  let ?root = "annotate sample_index_name sample_root"
  let ?w = "mem_set rbac_policy (u_key sample_root) (Some ?root) indexed_world"
  obtain res err w' where run: "run_state (Lineage_Reconcile mem_client rbac_policy (u_key sample_root)) ?w = ((res, err), w')"
    by (metis surj_pair)
  have root: "vw_Obj mem_view ?w rbac_policy (u_key sample_root) = Some ?root"
    by (simp add: mem_view_def)
  have ili: "vw_ILI mem_view ?w = vw_ILI mem_view indexed_world" by (simp add: mem_view_def)
  have "ili_key_of rbac_policy ?root = ili_key_of rbac_policy sample_root" by (simp add: ili_key_of_def)
  then have "vw_ILI mem_view ?w (ili_key_of rbac_policy ?root) = Some (buildILI rbac_policy sample_root sample_index_name)"
    using indexed_world_ili ili by simp
  from guard_skips_maintenance [OF mem_documented run root _ this] ili run show ?thesis
    by (auto simp: annotated)
qed

text \<open>C23 (retentionWindow_range): up to 106751 days the retention window is the intended number of nanoseconds; at
  106752 days, which the CRD admits, the 64-bit product wraps to a negative window, so that an
  entry whose object is gone is pruned however young it is.\<close>

theorem retentionWindow_range:
  "(0 < sint days \<and> sint days \<le> 106751 \<longrightarrow> retentionWindow days = sint days * 86400000000000) \<and>
   retentionWindow 106752 < 0"
proof -
  have "retentionWindow days = sint days * 86400000000000" if "0 < sint days" "sint days \<le> 106751"
  proof -
    have "(word_of_int (sint days) :: 64 word) * 24 * 3600000000000 =
        word_of_int (sint days) * word_of_int 24 * word_of_int 3600000000000" by simp
    also have "\<dots> = word_of_int (sint days * 86400000000000)"
      unfolding wi_hom_mult by (simp add: mult.assoc)
    finally have "retentionWindow days = signed_take_bit 63 (sint days * 86400000000000)"
      by (simp only: retentionWindow_def sint_sbintrunc') simp
    also have "\<dots> = sint days * 86400000000000"
      using that by (intro signed_take_bit_int_eq_self) simp_all
    finally show ?thesis .
  qed
  moreover have "retentionWindow 106752 < 0" by (simp add: retentionWindow_def)
  ultimately show ?thesis by blast
qed

theorem retentionWindow_range_witness: "retentionWindow 30 = 2592000000000000"
  using retentionWindow_range [of 30] by simp

text \<open>Within a namespace the index name determines the root: over the 21 watched kinds
  two different roots never share one, and the name the controller computes is the one the lineage
  package gives to the operators.\<close>

lemma index_names_unique:
  assumes "g \<in> set RootDeclarationGVKs" and "g' \<in> set RootDeclarationGVKs"
    and "lineageIndexName (gvk_Kind g) n = lineageIndexName (gvk_Kind g') n'"
  shows "g = g' \<and> n = n' \<and> lineageIndexName (gvk_Kind g) n = IndexName (gvk_Kind g) n"
proof -
  have hyphen: "\<forall>g \<in> set RootDeclarationGVKs. CHR ''-'' \<notin> set (ToLower (gvk_Kind g))"
    by (simp add: RootDeclarationGVKs_def mk_gvk_def ToLower_def lower_letters)
  have "distinct (map (\<lambda>g. ToLower (gvk_Kind g)) RootDeclarationGVKs)"
    by (simp add: RootDeclarationGVKs_def mk_gvk_def ToLower_def lower_letters)
  then have inj: "inj_on (\<lambda>g. ToLower (gvk_Kind g)) (set RootDeclarationGVKs)"
    by (simp add: distinct_map)
  have "lineageIndexName = IndexName" by (simp add: fun_eq_iff lineageIndexName_def IndexName_def)
  then have "ToLower (gvk_Kind g) = ToLower (gvk_Kind g') \<and> n = n'"
    using IndexName_inj [of "gvk_Kind g" "gvk_Kind g'" n n'] hyphen assms by simp
  with inj assms(1,2) show ?thesis
    by (auto simp: inj_on_def lineageIndexName_def IndexName_def)
qed

lemma index_names_unique_sample:
  "lineageIndexName ''RBACPolicy'' ''p'' = IndexName ''RBACPolicy'' ''p''"
proof -
  have "rbac_policy \<in> set RootDeclarationGVKs" by (simp add: rbac_policy_def RootDeclarationGVKs_def)
  from index_names_unique [OF this this refl, of "''p''"] show ?thesis by (simp add: rbac_policy_def mk_gvk_def)
qed

end
