(* ===== verification/OutcomeReconciler.thy ===== *)
theory OutcomeReconciler
  imports Registry
begin

text \<open>
  \<^verbatim>\<open>src/internal/controller/outcome_reconciler.go\<close>: the terminal outcome of a derived object is
  recorded in its index once, by UID. The classification reads the conditions in the order of the
  array.
\<close>

definition classify_condition :: "(string, gval) gomap \<Rightarrow> (OutcomeType \<times> string \<times> string) option" where
  "classify_condition cond =
     (let condType = cond_str cond ''type''; condStatus = cond_str cond ''status'';
          condReason = cond_str cond ''reason''; condMessage = cond_str cond ''message''
      in if condType = ''Ready'' then
           (if condStatus \<noteq> ''True'' \<and> condStatus \<noteq> ''False'' then None
            else if condStatus = ''True'' then Some (OutcomeTypeSucceeded, condReason, condMessage)
            else let reasonLower = ToLower condReason
              in if Contains reasonLower ''drift'' then Some (OutcomeTypeDrifted, condReason, condMessage)
                 else if Contains reasonLower ''superseded'' then Some (OutcomeTypeSuperseded, condReason, condMessage)
                 else Some (OutcomeTypeFailed, condReason, condMessage))
         else if condType = ''Drifted'' then
           (if condStatus = ''True'' then Some (OutcomeTypeDrifted, condReason, condMessage) else None)
         else if condType = ''Succeeded'' then
           (if condStatus = ''True'' then Some (OutcomeTypeSucceeded, condReason, condMessage) else None)
         else if condType = ''Failed'' then
           (if condStatus = ''True'' then Some (OutcomeTypeFailed, condReason, condMessage) else None)
         else None)"

text \<open>The loop: the first condition that decides; three empty strings when none does.\<close>

fun classify_loop :: "elem list \<Rightarrow> OutcomeType \<times> string \<times> string" where
  "classify_loop [] = ([], [], [])"
| "classify_loop (EOther _ # es) = classify_loop es"
| "classify_loop (EMap cond # es) =
     (case classify_condition cond of Some r \<Rightarrow> r | None \<Rightarrow> classify_loop es)"

definition classifyTerminalOutcome :: "uobj \<Rightarrow> OutcomeType \<times> string \<times> string" where
  "classifyTerminalOutcome obj = classify_loop (u_Conditions obj)"

definition outcome_entry :: "uobj \<Rightarrow> int \<Rightarrow> OutcomeEntry" where
  "outcome_entry obj now =
     (case classifyTerminalOutcome obj of (outcomeType, reason, message) \<Rightarrow>
        \<lparr>oe_DerivedObjectUID = u_UID obj, oe_OutcomeType = outcomeType, oe_OutcomeTimestamp = now,
         oe_OutcomeRef = reason, oe_OutcomeDetail = message\<rparr>)"

definition Outcome_Reconcile :: "'w client \<Rightarrow> GVK \<Rightarrow> NamespacedName \<Rightarrow> ('w, Result \<times> goerror option) state" where
  "Outcome_Reconcile c g req =
     try_state (Get c g req)
       (\<lambda>err. if IsNotFound err then ret (done_result, None)
          else ret (done_result, Some (Errorf (''get '' @ gvk_Kind g @ '' '' @ nn_String req @ '': '') (ApiError err))))
       (\<lambda>obj.
          let iliName = mapget (u_Labels obj) LabelRootILI
          in if iliName = [] then ret (done_result, None)
          else try_state (GetILI c \<lparr>nn_Namespace = ili_namespace obj, nn_Name = iliName\<rparr>)
            (\<lambda>err. if IsNotFound err then ret (done_result, None)
               else ret (done_result, Some (Errorf (''get ILI '' @ iliName @ '': '') (ApiError err))))
            (\<lambda>ili.
               if u_UID obj \<in> oe_DerivedObjectUID ` set (ili_Outcomes ili) then ret (done_result, None)
               else if fst (classifyTerminalOutcome obj) = [] then ret (done_result, None)
               else do {
                 now \<leftarrow> Now c;
                 try_state (PatchILI c (set_Outcomes (ili_Outcomes ili @ [outcome_entry obj now]) ili) ili)
                   (\<lambda>err. ret (done_result,
                      Some (Errorf (''patch outcomeRegistry on ILI '' @ iliName @ '': '') (ApiError err))))
                   (\<lambda>_. ret (done_result, None)) }))"


section \<open>The outcome registry\<close>

definition register_outcome :: "OutcomeEntry \<Rightarrow> ILI \<Rightarrow> ILI" where
  "register_outcome e ili =
     (if oe_DerivedObjectUID e \<in> oe_DerivedObjectUID ` set (ili_Outcomes ili) then ili
      else set_Outcomes (ili_Outcomes ili @ [e]) ili)"

interpretation outcomes: append_registry ili_Outcomes oe_DerivedObjectUID register_outcome
  by unfold_locales (simp add: register_outcome_def)

text \<open>What one call does when the API server behaves as documented.\<close>

definition outcome_effect ::
  "'w view \<Rightarrow> GVK \<Rightarrow> NamespacedName \<Rightarrow> 'w \<Rightarrow> Result \<times> goerror option \<Rightarrow> 'w \<Rightarrow> bool" where
  "outcome_effect v g req w r w' \<longleftrightarrow> fst r = done_result \<and>
     (case vw_Obj v w g req of
        None \<Rightarrow> same_view v w w'
      | Some obj \<Rightarrow>
          (case root_ili_key obj of
             None \<Rightarrow> same_view v w w'
           | Some k \<Rightarrow>
               (case vw_ILI v w k of
                  None \<Rightarrow> same_view v w w'
                | Some ili \<Rightarrow>
                    if snd r \<noteq> None \<or> fst (classifyTerminalOutcome obj) = [] then same_view v w w'
                    else \<exists>now. put_ILI v k (register_outcome (outcome_entry obj now) ili) w w')))"

lemma uid_outcome_entry [simp]: "oe_DerivedObjectUID (outcome_entry obj now) = u_UID obj"
  by (simp add: outcome_entry_def split: prod.split)

lemma outcome_step_documented:
  assumes "documented c v" and "vw_ILI v w k = Some ili" and "ili_key ili = k"
    and "\<And>now w'. fst (classifyTerminalOutcome obj) \<noteq> [] \<Longrightarrow>
      put_ILI v k (register_outcome (outcome_entry obj now) ili) w w' \<Longrightarrow> Q (done_result, None) w'"
    and "fst (classifyTerminalOutcome obj) = [] \<Longrightarrow> Q (done_result, None) w"
    and "\<And>e w'. same_view v w w' \<Longrightarrow> Q (done_result, Some e) w'"
  shows "wp_of (if u_UID obj \<in> oe_DerivedObjectUID ` set (ili_Outcomes ili) then ret (done_result, None)
     else if fst (classifyTerminalOutcome obj) = [] then ret (done_result, None)
     else do {
       now \<leftarrow> Now c;
       try_state (PatchILI c (set_Outcomes (ili_Outcomes ili @ [outcome_entry obj now]) ili) ili)
         (\<lambda>err. ret (done_result, Some (f err))) (\<lambda>_. ret (done_result, None)) }) Q w"
proof (cases "u_UID obj \<in> oe_DerivedObjectUID ` set (ili_Outcomes ili) \<or> fst (classifyTerminalOutcome obj) = []")
  case True
  have "Q (done_result, None) w"
    if "u_UID obj \<in> oe_DerivedObjectUID ` set (ili_Outcomes ili)" "fst (classifyTerminalOutcome obj) \<noteq> []"
    using that assms(2) by (intro assms(4)) (auto simp: register_outcome_def intro: put_ILI_same)
  with True assms(5) show ?thesis by (auto simp: wp)
next
  case False
  then have entry: "set_Outcomes (ili_Outcomes ili @ [outcome_entry obj (cl_Now c w)]) ili =
      register_outcome (outcome_entry obj (cl_Now c w)) ili"
    by (simp add: register_outcome_def)
  have "wp_of (PatchILI c (register_outcome (outcome_entry obj (cl_Now c w)) ili) ili)
      (\<lambda>r w'. case r of Inl e \<Rightarrow> wp_of (ret (done_result, Some (f e))) Q w' | Inr _ \<Rightarrow> wp_of (ret (done_result, None)) Q w') w"
    using assms(2,3) False by (intro wp_PatchILI_documented [OF assms(1)])
      (auto simp: wp register_outcome_def intro: assms(4,6) [unfolded register_outcome_def])
  with False show ?thesis by (simp add: wp entry)
qed

lemma Outcome_Reconcile_documented:
  assumes "documented c v"
  shows "wp_of (Outcome_Reconcile c g req) (outcome_effect v g req w) w"
  unfolding Outcome_Reconcile_def wp_try
proof (rule wp_Get_documented [OF assms], goal_cases)
  case (1 obj w1)
  let ?n = "mapget (u_Labels obj) LabelRootILI"
  let ?k = "\<lparr>nn_Namespace = ili_namespace obj, nn_Name = ?n\<rparr>"
  show ?case
  proof (cases "?n = []")
    case True
    with 1 show ?thesis by (simp add: wp outcome_effect_def root_ili_key_def)
  next
    case False
    then have key: "root_ili_key obj = Some ?k" by (simp add: root_ili_key_def)
    have "wp_of (try_state (GetILI c ?k)
        (\<lambda>err. if IsNotFound err then ret (done_result, None)
           else ret (done_result, Some (Errorf (''get ILI '' @ ?n @ '': '') (ApiError err))))
        (\<lambda>ili. if u_UID obj \<in> oe_DerivedObjectUID ` set (ili_Outcomes ili) then ret (done_result, None)
           else if fst (classifyTerminalOutcome obj) = [] then ret (done_result, None)
           else do {
             now \<leftarrow> Now c;
             try_state (PatchILI c (set_Outcomes (ili_Outcomes ili @ [outcome_entry obj now]) ili) ili)
               (\<lambda>err. ret (done_result, Some (Errorf (''patch outcomeRegistry on ILI '' @ ?n @ '': '') (ApiError err))))
               (\<lambda>_. ret (done_result, None)) })) (outcome_effect v g req w) w1"
      unfolding wp_try
    proof (rule wp_GetILI_documented [OF assms], goal_cases)
      case (1 ili w2)
      have view: "same_view v w w2" using \<open>same_view v w w1\<close> 1(3) by (rule same_view_trans)
      have stored: "vw_ILI v w2 ?k = Some ili" "vw_ILI v w ?k = Some ili" using 1 view by (simp_all add: same_view_def)
      show ?case
        unfolding sum.case
        using \<open>vw_Obj v w g req = Some obj\<close> key stored view same_put_ILI [OF view] same_view_trans [OF view]
        by (intro outcome_step_documented [OF assms stored(1) 1(2)]) (auto simp: outcome_effect_def)
    next
      case (2 w2)
      with \<open>vw_Obj v w g req = Some obj\<close> \<open>same_view v w w1\<close> key show ?case
        by (auto simp: wp outcome_effect_def same_view_def)
    next
      case (3 e w2)
      with \<open>vw_Obj v w g req = Some obj\<close> \<open>same_view v w w1\<close> key show ?case
        by (auto simp: wp outcome_effect_def intro: same_view_trans split: option.split)
    qed
    with False show ?thesis by (simp add: Let_def)
  qed
qed (auto simp: wp outcome_effect_def split: option.split)


section \<open>Properties of the outcome reconciler\<close>

text \<open>C28 (Outcome_Reconcile_records): against an API server that behaves as documented, an outcome reconcile changes
  nothing unless the object exists, names an existing index and is terminal; then, when it reports
  no error, the index holds one outcome entry for the object's UID, appended unless one was there,
  with the classified type, reason and message. It never asks for a requeue.\<close>

theorem Outcome_Reconcile_records:
  assumes "documented c v" and "run_state (Outcome_Reconcile c g req) w = (r, w')"
  shows "outcome_effect v g req w r w'"
  by (rule wp_runD [OF Outcome_Reconcile_documented [OF assms(1)] assms(2)])

theorem Outcome_Reconcile_records_witness:
  "\<exists>r w'. run_state (Outcome_Reconcile mem_client \<lparr>gvk_Group = [], gvk_Version = ''v1'', gvk_Kind = ''K''\<rparr> \<lparr>nn_Namespace = ''a'', nn_Name = ''b''\<rparr>)
       \<lparr>mem_Obj = (\<lambda>_ _. None), mem_ILI = Map.empty, mem_CM = Map.empty, mem_Now = 0\<rparr> = (r, w') \<and>
     outcome_effect mem_view \<lparr>gvk_Group = [], gvk_Version = ''v1'', gvk_Kind = ''K''\<rparr> \<lparr>nn_Namespace = ''a'', nn_Name = ''b''\<rparr>
       \<lparr>mem_Obj = (\<lambda>_ _. None), mem_ILI = Map.empty, mem_CM = Map.empty, mem_Now = 0\<rparr> r w'"
  using Outcome_Reconcile_records [OF mem_documented] by (metis surj_pair)

text \<open>What a registration keeps of an index.\<close>

lemma register_outcome_keeps:
  "register_outcome e ili = set_Outcomes (ili_Outcomes (register_outcome e ili)) ili"
  by (simp add: register_outcome_def set_Outcomes_def)

lemma outcome_effect_ili:
  assumes "outcome_effect v g req w r w'" and "vw_ILI v w k = Some ili"
  shows "\<exists>ili'. vw_ILI v w' k = Some ili' \<and> ili' = set_Outcomes (ili_Outcomes ili') ili \<and>
    prefix (ili_Outcomes ili) (ili_Outcomes ili') \<and>
    (distinct (map oe_DerivedObjectUID (ili_Outcomes ili)) \<longrightarrow> distinct (map oe_DerivedObjectUID (ili_Outcomes ili')))"
proof -
  have same: ?thesis if "same_view v w w'"
    using that assms(2) by (simp add: same_view_def set_Outcomes_def)
  have put: ?thesis if "put_ILI v k' (register_outcome e ili0) w w'" "vw_ILI v w k' = Some ili0" for k' e ili0
    using that assms(2) outcomes.register_prefix [of ili e] outcomes.register_distinct [of ili e]
      register_outcome_keeps [of e ili]
    by (cases "k' = k") (auto simp: put_ILI_def set_Outcomes_def)
  show ?thesis
    using assms(1) same put by (auto simp: outcome_effect_def split: option.splits if_splits)
qed


section \<open>Classification\<close>

text \<open>The conditions that decide, in the order of the array.\<close>

definition decision :: "elem \<Rightarrow> (OutcomeType \<times> string \<times> string) list" where
  "decision e = (case e of EOther _ \<Rightarrow> []
     | EMap cond \<Rightarrow> (case classify_condition cond of None \<Rightarrow> [] | Some r \<Rightarrow> [r]))"

definition first_decision :: "(OutcomeType \<times> string \<times> string) list \<Rightarrow> OutcomeType \<times> string \<times> string" where
  "first_decision rs = (case rs of [] \<Rightarrow> ([], [], []) | r # _ \<Rightarrow> r)"

text \<open>
  The rules as the comment on \<^verbatim>\<open>classifyTerminalOutcome\<close> states them: first any Ready
  condition, then Drifted, then Succeeded, then Failed.
\<close>

definition of_type :: "string \<Rightarrow> elem \<Rightarrow> bool" where
  "of_type t e = (case e of EOther _ \<Rightarrow> False | EMap cond \<Rightarrow> cond_str cond ''type'' = t)"

definition classify_by_rules :: "elem list \<Rightarrow> OutcomeType \<times> string \<times> string" where
  "classify_by_rules es =
     first_decision (concat (map (\<lambda>t. concat (map decision (filter (of_type t) es)))
       [''Ready'', ''Drifted'', ''Succeeded'', ''Failed'']))"

lemma classify_loop_first: "classify_loop es = first_decision (concat (map decision es))"
  by (induction es rule: classify_loop.induct) (auto simp: first_decision_def decision_def split: option.split)

lemma decision_type: "decision e \<noteq> [] \<Longrightarrow> \<exists>t \<in> {''Ready'', ''Drifted'', ''Succeeded'', ''Failed''}. of_type t e"
  by (auto simp: decision_def of_type_def classify_condition_def Let_def split: elem.splits option.splits if_splits)

lemma of_type_unique: "of_type t e \<Longrightarrow> of_type t' e \<Longrightarrow> t = t'"
  by (auto simp: of_type_def split: elem.splits)

lemma single_decision:
  assumes "concat (map decision es) = [r]"
  obtains xs e ys where "es = xs @ e # ys" and "decision e = [r]" and "\<forall>x \<in> set xs \<union> set ys. decision x = []"
  using assms
proof (induction es arbitrary: thesis)
  case (Cons a es)
  show ?case
  proof (cases "decision a = []")
    case True
    with Cons.prems(2) have "concat (map decision es) = [r]" by simp
    from Cons.IH [OF _ this] obtain xs e ys where "es = xs @ e # ys" "decision e = [r]" "\<forall>x \<in> set xs \<union> set ys. decision x = []"
      by blast
    with True show ?thesis by (intro Cons.prems(1) [of "a # xs" e ys]) auto
  next
    case False
    with Cons.prems(2) have "decision a = [r]" "concat (map decision es) = []" by (auto simp: append_eq_Cons_conv)
    then show ?thesis by (intro Cons.prems(1) [of "[]" a es]) auto
  qed
qed simp

lemma rules_agree:
  assumes "length (concat (map decision es)) \<le> 1"
  shows "classify_loop es = classify_by_rules es"
proof (cases "concat (map decision es)")
  case Nil
  then have none: "concat (map decision (filter P es)) = []" for P by auto
  show ?thesis unfolding classify_loop_first classify_by_rules_def list.map none Nil by simp
next
  case (Cons r rs)
  with assms have one: "concat (map decision es) = [r]" by simp
  then obtain xs e ys where es: "es = xs @ e # ys" "decision e = [r]" "\<forall>x \<in> set xs \<union> set ys. decision x = []"
    by (rule single_decision)
  have none: "concat (map decision (filter P zs)) = []" if "zs \<in> {xs, ys}" for P zs
    using that es(3) by auto
  have "concat (map decision (filter P es)) = (if P e then [r] else [])" for P
    using none [of xs P] none [of ys P] es(1,2)
    by (simp del: concat_eq_Nil_conv)
  moreover obtain t where "t \<in> {''Ready'', ''Drifted'', ''Succeeded'', ''Failed''}" "of_type t e"
    using decision_type [of e] es(2) by auto
  ultimately have "classify_by_rules es = r"
    using of_type_unique [of _ e] by (auto simp: classify_by_rules_def first_decision_def)
  with one show ?thesis by (simp add: classify_loop_first first_decision_def)
qed


definition sample_done :: uobj where
  "sample_done = \<lparr>u_Name = ''x'', u_Namespace = ''ns'', u_UID = ''u'', u_Generation = 1, u_Labels = [], u_Annotations = [],
     u_Finalizers = [], u_Deleting = False,
     u_Conditions = [EMap [(''type'', GStr ''Ready''), (''status'', GStr ''False''), (''reason'', GStr ''DriftDetected'')]],
     u_StatusIsMap = True, u_Ingress = [], u_Strings = []\<rparr>"


end
