(* ===== verification/GoJson.thy ===== *)
theory GoJson
  imports Complex_Main Prelude "HOL-Library.Log_Nat"
begin

text \<open>
  The part of Go's \<^verbatim>\<open>encoding/json\<close>, \<^verbatim>\<open>unicode/utf8\<close> and \<^verbatim>\<open>strconv\<close> that the
  admission handlers (\<^verbatim>\<open>src/internal/webhook\<close>) use: \<^verbatim>\<open>json.Unmarshal\<close> of raw bytes, first
  checked and split into values, then stored into a struct field, a \<^verbatim>\<open>json.RawMessage\<close> or an
  \<^verbatim>\<open>interface{}\<close>, and \<^verbatim>\<open>reflect.DeepEqual\<close> on the results. Numbers stored in an
  \<^verbatim>\<open>interface{}\<close> become \<^verbatim>\<open>float64\<close>, with the rounding of \<^verbatim>\<open>strconv.ParseFloat\<close>.

  The parser recurses with fuel. It uses at most two units per byte of the text, so twice the
  length of the text plus one is enough: more fuel gives the same answer (\<open>parse_fuel\<close>).
\<close>


section \<open>Strings\<close>

abbreviation byte :: "char \<Rightarrow> nat" where
  "byte c \<equiv> of_char c"

definition cont_byte :: "char \<Rightarrow> bool" where
  "cont_byte c \<longleftrightarrow> 128 \<le> byte c \<and> byte c \<le> 191"

text \<open>The bytes of U+FFFD, which replace an invalid encoding.\<close>

definition replacement :: string where
  "replacement = [CHR 0xEF, CHR 0xBF, CHR 0xBD]"

text \<open>
  \<^verbatim>\<open>utf8.DecodeRune\<close>: the length of the valid multi-byte encoding at the start of the text,
  or \<open>0\<close> if there is none.
\<close>

fun rune_len :: "string \<Rightarrow> nat" where
  "rune_len (a # b # s) =
     (let x = byte a; y = byte b in
      if 194 \<le> x \<and> x \<le> 223 \<and> cont_byte b then 2
      else if 224 \<le> x \<and> x \<le> 239 then
        (if (if x = 224 then 160 else 128) \<le> y \<and> y \<le> (if x = 237 then 159 else 191) \<and>
            (case s of c # _ \<Rightarrow> cont_byte c | [] \<Rightarrow> False) then 3 else 0)
      else if 240 \<le> x \<and> x \<le> 244 then
        (if (if x = 240 then 144 else 128) \<le> y \<and> y \<le> (if x = 244 then 143 else 191) \<and>
            (case s of c # d # _ \<Rightarrow> cont_byte c \<and> cont_byte d | _ \<Rightarrow> False) then 4 else 0)
      else 0)"
| "rune_len _ = 0"

text \<open>\<^verbatim>\<open>utf8.EncodeRune\<close>.\<close>

definition encode_rune :: "nat \<Rightarrow> string" where
  "encode_rune r =
     (if r < 128 then [char_of r]
      else if r < 2048 then [char_of (192 + r div 64), char_of (128 + r mod 64)]
      else if r < 65536 then
        [char_of (224 + r div 4096), char_of (128 + r div 64 mod 64), char_of (128 + r mod 64)]
      else [char_of (240 + r div 262144), char_of (128 + r div 4096 mod 64),
            char_of (128 + r div 64 mod 64), char_of (128 + r mod 64)])"

definition hex_value :: "char \<Rightarrow> nat option" where
  "hex_value c =
     (let n = byte c in
      if 48 \<le> n \<and> n \<le> 57 then Some (n - 48)
      else if 97 \<le> n \<and> n \<le> 102 then Some (n - 87)
      else if 65 \<le> n \<and> n \<le> 70 then Some (n - 55)
      else None)"

definition hex4 :: "char \<Rightarrow> char \<Rightarrow> char \<Rightarrow> char \<Rightarrow> nat option" where
  "hex4 a b c d =
     (case (hex_value a, hex_value b, hex_value c, hex_value d) of
        (Some w, Some x, Some y, Some z) \<Rightarrow> Some (((w * 16 + x) * 16 + y) * 16 + z)
      | _ \<Rightarrow> None)"

text \<open>\<^verbatim>\<open>getu4\<close>: the code of a \<^verbatim>\<open>\u\<close> escape at the start of the text.\<close>

fun getu4 :: "string \<Rightarrow> nat option" where
  "getu4 (e # u # a # b # c # d # _) = (if e = CHR 0x5C \<and> u = CHR ''u'' then hex4 a b c d else None)"
| "getu4 _ = None"

definition is_high :: "nat \<Rightarrow> bool" where
  "is_high r \<longleftrightarrow> 55296 \<le> r \<and> r < 56320"

definition is_low :: "nat \<Rightarrow> bool" where
  "is_low r \<longleftrightarrow> 56320 \<le> r \<and> r < 57344"

text \<open>The one-character escapes.\<close>

definition unescape :: "char \<Rightarrow> char option" where
  "unescape c =
     (if c \<in> {CHR 0x22, CHR 0x5C, CHR ''/''} then Some c
      else if c = CHR ''b'' then Some (CHR 0x08)
      else if c = CHR ''f'' then Some (CHR 0x0C)
      else if c = CHR ''n'' then Some (CHR 0x0A)
      else if c = CHR ''r'' then Some (CHR 0x0D)
      else if c = CHR ''t'' then Some (CHR 0x09)
      else None)"

text \<open>
  The body of a string literal and the text after its closing quote: control bytes and unknown
  escapes are syntax errors, any other byte is accepted.
\<close>

fun scan_string :: "string \<Rightarrow> (string \<times> string) option" where
  "scan_string [] = None"
| "scan_string (c # s) =
     (if c = CHR 0x22 then Some ([], s)
      else if c = CHR 0x5C then
        (case s of
           e # s' \<Rightarrow>
             if e = CHR ''u'' then
               (case s' of
                  x # y # z # w # s'' \<Rightarrow>
                    if hex4 x y z w = None then None
                    else map_option (\<lambda>(b, r). (c # e # x # y # z # w # b, r)) (scan_string s'')
                | _ \<Rightarrow> None)
             else if unescape e = None then None
             else map_option (\<lambda>(b, r). (c # e # b, r)) (scan_string s')
         | [] \<Rightarrow> None)
      else if byte c < 32 then None
      else map_option (\<lambda>(b, r). (c # b, r)) (scan_string s))"

text \<open>
  \<^verbatim>\<open>unquoteBytes\<close>: escapes are resolved, a surrogate pair is joined, a lone surrogate and
  every byte that does not start a valid encoding become U+FFFD.
\<close>

function unquote :: "string \<Rightarrow> string" where
  "unquote [] = []"
| "unquote (c # s) =
     (if c = CHR 0x5C then
        (case getu4 (c # s) of
           Some r \<Rightarrow>
             if is_high r \<or> is_low r then
               (case getu4 (drop 5 s) of
                  Some r2 \<Rightarrow>
                    if is_high r \<and> is_low r2
                    then encode_rune ((r - 55296) * 1024 + (r2 - 56320) + 65536) @ unquote (drop 11 s)
                    else replacement @ unquote (drop 5 s)
                | None \<Rightarrow> replacement @ unquote (drop 5 s))
             else encode_rune r @ unquote (drop 5 s)
         | None \<Rightarrow>
             (case s of
                e # s' \<Rightarrow> (case unescape e of Some x \<Rightarrow> x # unquote s' | None \<Rightarrow> unquote s')
              | [] \<Rightarrow> []))
      else if byte c < 128 then c # unquote s
      else if rune_len (c # s) = 0 then replacement @ unquote s
      else take (rune_len (c # s)) (c # s) @ unquote (drop (rune_len (c # s) - 1) s))"
  by pat_completeness auto
termination by (relation "measure length") auto


section \<open>Values\<close>

text \<open>
  A JSON value as the decoder sees it. Numbers keep their text, since their meaning depends on
  the target; an object keeps its members in order and with repetitions, each with the raw text of
  its value, which is what a \<^verbatim>\<open>json.RawMessage\<close> receives.
\<close>

datatype json =
    JNull
  | JBool bool
  | JNumber string
  | JString string
  | JArray "json list"
  | JObject "(string \<times> string \<times> json) list"

definition is_digit :: "char \<Rightarrow> bool" where
  "is_digit c \<longleftrightarrow> 48 \<le> byte c \<and> byte c \<le> 57"

definition is_ws :: "char \<Rightarrow> bool" where
  "is_ws c \<longleftrightarrow> c \<in> {CHR '' '', CHR 0x09, CHR 0x0A, CHR 0x0D}"

abbreviation skip_ws :: "string \<Rightarrow> string" where
  "skip_ws \<equiv> dropWhile is_ws"

abbreviation digits :: "string \<Rightarrow> string" where
  "digits \<equiv> takeWhile is_digit"

abbreviation after_digits :: "string \<Rightarrow> string" where
  "after_digits \<equiv> dropWhile is_digit"

text \<open>
  The scanner of numbers: a sign, an integer part without leading zeros, a fraction and an
  exponent, both optional. A result \<open>None\<close> is a syntax error; a part that is absent is empty.
\<close>

definition scan_int :: "string \<Rightarrow> (string \<times> string) option" where
  "scan_int s =
     (case s of
        c # t \<Rightarrow> if c = CHR ''0'' then Some ([c], t)
                else if is_digit c then Some (digits s, after_digits s)
                else None
      | [] \<Rightarrow> None)"

definition scan_frac :: "string \<Rightarrow> (string \<times> string) option" where
  "scan_frac s =
     (case s of
        c # t \<Rightarrow> if c \<noteq> CHR ''.'' then Some ([], s)
                else if digits t = [] then None
                else Some (c # digits t, after_digits t)
      | [] \<Rightarrow> Some ([], []))"

definition scan_exp :: "string \<Rightarrow> (string \<times> string) option" where
  "scan_exp s =
     (case s of
        c # t \<Rightarrow>
          if c \<noteq> CHR ''e'' \<and> c \<noteq> CHR ''E'' then Some ([], s)
          else (let sgn = (case t of d # _ \<Rightarrow> if d = CHR ''+'' \<or> d = CHR ''-'' then [d] else [] | [] \<Rightarrow> []);
                    u = drop (length sgn) t
                in if digits u = [] then None else Some (c # sgn @ digits u, after_digits u))
      | [] \<Rightarrow> Some ([], []))"

definition scan_number :: "string \<Rightarrow> (string \<times> string) option" where
  "scan_number s =
     (let sgn = (case s of c # _ \<Rightarrow> if c = CHR ''-'' then [c] else [] | [] \<Rightarrow> [])
      in case scan_int (drop (length sgn) s) of
           None \<Rightarrow> None
         | Some (i, s1) \<Rightarrow>
             (case scan_frac s1 of
                None \<Rightarrow> None
              | Some (f, s2) \<Rightarrow>
                  (case scan_exp s2 of
                     None \<Rightarrow> None
                   | Some (e, s3) \<Rightarrow> Some (sgn @ i @ f @ e, s3))))"

definition scan_word :: "string \<Rightarrow> json \<Rightarrow> string \<Rightarrow> (json \<times> string) option" where
  "scan_word w v s = (if take (length w) s = w then Some (v, drop (length w) s) else None)"

text \<open>\<^verbatim>\<open>maxNestingDepth\<close> of the scanner.\<close>

definition max_depth :: nat where
  "max_depth = 10000"

text \<open>
  The value at the start of the text, and what follows it: \<open>parse_value\<close> at its first byte,
  \<open>parse_elems\<close> at the first byte of an array element, \<open>parse_members\<close> at the quote of a key.
\<close>

fun parse_value :: "nat \<Rightarrow> nat \<Rightarrow> string \<Rightarrow> (json \<times> string) option"
  and parse_elems :: "nat \<Rightarrow> nat \<Rightarrow> string \<Rightarrow> (json list \<times> string) option"
  and parse_members :: "nat \<Rightarrow> nat \<Rightarrow> string \<Rightarrow> ((string \<times> string \<times> json) list \<times> string) option" where
  "parse_value 0 d s = None"
| "parse_value (Suc n) d s =
     (case s of
        [] \<Rightarrow> None
      | c # t \<Rightarrow>
          if c = CHR 0x22 then map_option (\<lambda>(b, r). (JString (unquote b), r)) (scan_string t)
          else if c = CHR ''{'' then
            (if max_depth \<le> d then None
             else case skip_ws t of
                    e # r \<Rightarrow> if e = CHR ''}'' then Some (JObject [], r)
                            else map_option (\<lambda>(ms, r). (JObject ms, r)) (parse_members n (Suc d) (e # r))
                  | [] \<Rightarrow> None)
          else if c = CHR ''['' then
            (if max_depth \<le> d then None
             else case skip_ws t of
                    e # r \<Rightarrow> if e = CHR '']'' then Some (JArray [], r)
                            else map_option (\<lambda>(vs, r). (JArray vs, r)) (parse_elems n (Suc d) (e # r))
                  | [] \<Rightarrow> None)
          else if c = CHR ''t'' then scan_word ''true'' (JBool True) s
          else if c = CHR ''f'' then scan_word ''false'' (JBool False) s
          else if c = CHR ''n'' then scan_word ''null'' JNull s
          else map_option (\<lambda>(x, r). (JNumber x, r)) (scan_number s))"
| "parse_elems 0 d s = None"
| "parse_elems (Suc n) d s =
     (case parse_value n d s of
        None \<Rightarrow> None
      | Some (v, r) \<Rightarrow>
          (case skip_ws r of
             e # r' \<Rightarrow> if e = CHR '']'' then Some ([v], r')
                      else if e = CHR '','' then map_option (\<lambda>(vs, r''). (v # vs, r'')) (parse_elems n d (skip_ws r'))
                      else None
           | [] \<Rightarrow> None))"
| "parse_members 0 d s = None"
| "parse_members (Suc n) d s =
     (case s of
        [] \<Rightarrow> None
      | q # t \<Rightarrow>
          if q \<noteq> CHR 0x22 then None
          else
            (case scan_string t of
               None \<Rightarrow> None
             | Some (b, r) \<Rightarrow>
                 (case skip_ws r of
                    [] \<Rightarrow> None
                  | k # r1 \<Rightarrow>
                      if k \<noteq> CHR '':'' then None
                      else
                        (case parse_value n d (skip_ws r1) of
                           None \<Rightarrow> None
                         | Some (v, r2) \<Rightarrow>
                             (let m = (unquote b, take (length (skip_ws r1) - length r2) (skip_ws r1), v)
                              in case skip_ws r2 of
                                   [] \<Rightarrow> None
                                 | e # r3 \<Rightarrow>
                                     if e = CHR ''}'' then Some ([m], r3)
                                     else if e = CHR '','' then
                                       map_option (\<lambda>(ms, r4). (m # ms, r4)) (parse_members n d (skip_ws r3))
                                     else None)))))"

text \<open>\<^verbatim>\<open>checkValid\<close> and the split into values: one value between white space.\<close>

definition json_parse :: "string \<Rightarrow> json option" where
  "json_parse s =
     (case parse_value (2 * length s + 1) 0 (skip_ws s) of
        None \<Rightarrow> None
      | Some (v, r) \<Rightarrow> if skip_ws r = [] then Some v else None)"


section \<open>Numbers\<close>

text \<open>Division of integers rounded to the nearest, ties to even, for a positive divisor.\<close>

definition div_even :: "int \<Rightarrow> int \<Rightarrow> int" where
  "div_even a b =
     (let q = a div b; r = a mod b
      in if 2 * r < b then q else if b < 2 * r then q + 1 else if even q then q else q + 1)"

text \<open>
  The \<^verbatim>\<open>float64\<close> nearest to \<open>num / den\<close>, for positive arguments: the binary exponent \<open>k\<close> of the
  quotient, the exponent of the last place (52 bits below it, at least \<open>-1074\<close>), and the
  significand. \<open>None\<close> is the range error of \<^verbatim>\<open>strconv.ParseFloat\<close>.
\<close>

definition round_float64 :: "int \<Rightarrow> int \<Rightarrow> rat option" where
  "round_float64 num den =
     (let k0 = bitlen num - bitlen den;
          k = (if num * 2 ^ nat (- k0) < den * 2 ^ nat k0 then k0 - 1 else k0);
          q = max (k - 52) (- 1074);
          m = div_even (num * 2 ^ nat (- q)) (den * 2 ^ nat q);
          x = of_int (m * 2 ^ nat q) / of_int (2 ^ nat (- q))
      in if 2 ^ 1024 \<le> x then None else Some x)"

definition digit_value :: "char \<Rightarrow> int" where
  "digit_value c = int (byte c) - 48"

definition digits_value :: "string \<Rightarrow> int" where
  "digits_value s = foldl (\<lambda>a c. 10 * a + digit_value c) 0 s"

text \<open>The parts of a number text that \<open>scan_number\<close> accepted: is it negative, its integer and
  fraction digits, its exponent.\<close>

definition number_parts :: "string \<Rightarrow> bool \<times> string \<times> string \<times> int" where
  "number_parts s =
     (let neg = (case s of c # _ \<Rightarrow> c = CHR ''-'' | [] \<Rightarrow> False);
          s0 = (if neg then tl s else s);
          i = digits s0; s1 = after_digits s0;
          f = (case s1 of c # t \<Rightarrow> if c = CHR ''.'' then digits t else [] | [] \<Rightarrow> []);
          s2 = (case s1 of c # t \<Rightarrow> if c = CHR ''.'' then after_digits t else s1 | [] \<Rightarrow> []);
          e = (case s2 of
                 c # d # u \<Rightarrow> if d = CHR ''-'' then - digits_value u
                            else if d = CHR ''+'' then digits_value u
                            else digits_value (d # u)
               | _ \<Rightarrow> 0)
      in (neg, i, f, e))"

definition parse_float64 :: "string \<Rightarrow> rat option" where
  "parse_float64 s =
     (case number_parts s of (neg, i, f, e) \<Rightarrow>
        (let m = digits_value (i @ f); p = e - int (length f)
         in if m = 0 then Some 0
            else map_option (\<lambda>x. if neg then - x else x) (round_float64 (m * 10 ^ nat p) (10 ^ nat (- p)))))"


section \<open>Unmarshalling\<close>

text \<open>The values an \<^verbatim>\<open>interface{}\<close> receives.\<close>

datatype gointf =
    INil
  | IBool bool
  | IFloat rat
  | IStr string
  | ISlice "gointf list"
  | IMap "(string, gointf) gomap"

text \<open>
  \<^verbatim>\<open>valueInterface\<close>: a number out of range is the only failure; a repeated key is
  overwritten by the later one.
\<close>

fun to_interface :: "json \<Rightarrow> gointf option"
  and to_interfaces :: "json list \<Rightarrow> gointf list option"
  and to_members :: "(string \<times> string \<times> json) list \<Rightarrow> (string, gointf) gomap \<Rightarrow> (string, gointf) gomap option" where
  "to_interface JNull = Some INil"
| "to_interface (JBool b) = Some (IBool b)"
| "to_interface (JNumber x) = map_option IFloat (parse_float64 x)"
| "to_interface (JString x) = Some (IStr x)"
| "to_interface (JArray vs) = map_option ISlice (to_interfaces vs)"
| "to_interface (JObject ms) = map_option IMap (to_members ms [])"
| "to_interfaces [] = Some []"
| "to_interfaces (v # vs) =
     (case to_interface v of None \<Rightarrow> None | Some x \<Rightarrow> map_option (\<lambda>xs. x # xs) (to_interfaces vs))"
| "to_members [] m = Some m"
| "to_members ((k, raw, v) # ms) m =
     (case to_interface v of None \<Rightarrow> None | Some x \<Rightarrow> to_members ms (AList.update k x m))"

text \<open>\<^verbatim>\<open>json.Unmarshal(data, &v)\<close> for an \<^verbatim>\<open>interface{}\<close>.\<close>

definition unmarshal_interface :: "string \<Rightarrow> gointf option" where
  "unmarshal_interface s = (case json_parse s of None \<Rightarrow> None | Some v \<Rightarrow> to_interface v)"

text \<open>
  \<^verbatim>\<open>reflect.DeepEqual\<close> on such values. Slices and maps made by the decoder are never nil, so
  only their contents matter; two maps are equal if they have as many keys and every key of the
  first has an equal value in the second.
\<close>

function deep_equal :: "gointf \<Rightarrow> gointf \<Rightarrow> bool" where
  "deep_equal (ISlice xs) (ISlice ys) = (length xs = length ys \<and> list_all (\<lambda>(x, y). deep_equal x y) (zip xs ys))"
| "deep_equal (IMap m) (IMap m') =
     (length m = length m' \<and>
      list_all (\<lambda>(k, x). case map_of m' k of None \<Rightarrow> False | Some y \<Rightarrow> deep_equal x y) m)"
| "deep_equal INil y = (y = INil)"
| "deep_equal (IBool b) y = (y = IBool b)"
| "deep_equal (IFloat x) y = (y = IFloat x)"
| "deep_equal (IStr x) y = (y = IStr x)"
| "deep_equal (ISlice xs) INil = False"
| "deep_equal (ISlice xs) (IBool b) = False"
| "deep_equal (ISlice xs) (IFloat y) = False"
| "deep_equal (ISlice xs) (IStr y) = False"
| "deep_equal (ISlice xs) (IMap m) = False"
| "deep_equal (IMap m) INil = False"
| "deep_equal (IMap m) (IBool b) = False"
| "deep_equal (IMap m) (IFloat y) = False"
| "deep_equal (IMap m) (IStr y) = False"
| "deep_equal (IMap m) (ISlice ys) = False"
  by pat_completeness auto
termination
proof (relation "measure (size \<circ> fst)", goal_cases)
  case (2 xs ys z x y)
  then have "x \<in> set xs" by (auto dest: set_zip_leftD)
  then show ?case by (simp add: less_Suc_eq_le size_list_estimation')
next
  case (3 m m' z k x y)
  then have "(k, x) \<in> set m" by simp
  then have "size x < Suc (size_list (size_prod (\<lambda>_. 0) size) m)"
    using size_list_estimation' [of "(k, x)" m "size x" "size_prod (\<lambda>_. 0) size"] by simp
  then show ?case by simp
qed simp

text \<open>
  \<^verbatim>\<open>foldName\<close>: field names are matched without regard to case. Field names are ASCII; the
  letters with a third form are S, with U+017F, and K, with U+212A.
\<close>

fun fold_name :: "string \<Rightarrow> string" where
  "fold_name [] = []"
| "fold_name (a # s) =
     (if a = CHR 0xC5 \<and> take 1 s = [CHR 0xBF] then CHR ''s'' # fold_name (drop 1 s)
      else if a = CHR 0xE2 \<and> take 2 s = [CHR 0x84, CHR 0xAA] then CHR ''k'' # fold_name (drop 2 s)
      else lower_char a # fold_name s)"

definition field_match :: "string \<Rightarrow> string \<Rightarrow> bool" where
  "field_match field key \<longleftrightarrow> fold_name key = fold_name field"

datatype json_error = SyntaxError | UnmarshalTypeError

text \<open>
  Storing an object into a struct with one field: every member whose key matches the field is
  stored in turn, other members are ignored; null leaves the struct alone, any other value is a
  type error. A type error does not stop the decoder, but it is what \<^verbatim>\<open>Unmarshal\<close> returns.
\<close>

fun decode_members :: "string \<Rightarrow> (string \<Rightarrow> json \<Rightarrow> 'a \<Rightarrow> 'a option) \<Rightarrow> (string \<times> string \<times> json) list \<Rightarrow> 'a \<Rightarrow> 'a option" where
  "decode_members field store [] x = Some x"
| "decode_members field store ((k, raw, v) # ms) x =
     (if field_match field k
      then (case store raw v x of None \<Rightarrow> None | Some y \<Rightarrow> decode_members field store ms y)
      else decode_members field store ms x)"

fun decode_struct :: "string \<Rightarrow> (string \<Rightarrow> json \<Rightarrow> 'a \<Rightarrow> 'a option) \<Rightarrow> string \<Rightarrow> json \<Rightarrow> 'a \<Rightarrow> 'a option" where
  "decode_struct field store raw (JObject ms) x = decode_members field store ms x"
| "decode_struct field store raw JNull x = Some x"
| "decode_struct field store raw _ x = None"

text \<open>A \<^verbatim>\<open>*json.RawMessage\<close> field: nil for null, else the raw text. A \<^verbatim>\<open>string\<close> field.\<close>

definition store_raw :: "string \<Rightarrow> json \<Rightarrow> string option \<Rightarrow> string option option" where
  "store_raw raw v x = Some (if v = JNull then None else Some raw)"

fun store_string :: "string \<Rightarrow> json \<Rightarrow> string \<Rightarrow> string option" where
  "store_string raw (JString s) x = Some s"
| "store_string raw JNull x = Some x"
| "store_string raw _ x = None"

text \<open>\<^verbatim>\<open>json.Unmarshal\<close> into such a struct.\<close>

definition unmarshal_struct :: "string \<Rightarrow> (string \<Rightarrow> json \<Rightarrow> 'a \<Rightarrow> 'a option) \<Rightarrow> string \<Rightarrow> 'a \<Rightarrow> json_error + 'a" where
  "unmarshal_struct field store s x =
     (case json_parse s of
        None \<Rightarrow> Inl SyntaxError
      | Some v \<Rightarrow> (case decode_struct field store s v x of None \<Rightarrow> Inl UnmarshalTypeError | Some y \<Rightarrow> Inr y))"


section \<open>Integers up to two to the 53 are exact\<close>

lemma round_float64_int:
  assumes "0 < n"
  shows "round_float64 n 1 =
    (let q = max (bitlen n - 53) (- 1074); m = div_even (n * 2 ^ nat (- q)) (2 ^ nat q);
         x = of_int (m * 2 ^ nat q) / of_int (2 ^ nat (- q))
     in if 2 ^ 1024 \<le> x then None else Some x)"
proof -
  have one: "bitlen 1 = 1" by (simp add: bitlen_alt_def)
  have b: "2 ^ nat (bitlen n - 1) \<le> n" "1 \<le> bitlen n"
    using bitlen_bounds [OF assms] assms by (auto simp: bitlen_alt_def)
  then have "\<not> n * 2 ^ nat (- (bitlen n - 1)) < 1 * 2 ^ nat (bitlen n - 1)" by simp
  then show ?thesis unfolding round_float64_def one Let_def by (simp add: one)
qed

lemma div_even_1 [simp]: "div_even a 1 = a"
  by (simp add: div_even_def)

lemma round_float64_exact:
  assumes "0 < n" and "n < 2 ^ 53"
  shows "round_float64 n 1 = Some (of_int n)"
proof -
  have le: "bitlen n \<le> 53" using assms by (simp add: bitlen_le_iff_power)
  have "1 \<le> bitlen n" using assms(1) bitlen_nonneg [of n] bitlen_eq_zero_iff [of n] by linarith
  define q where "q = max (bitlen n - 53) (- 1074)"
  have q: "q \<le> 0" "nat q = 0" using le by (auto simp: q_def)
  have "(2 :: rat) ^ 53 \<le> 2 ^ 1024" by (rule power_increasing) simp_all
  moreover have "(of_int n :: rat) < of_int (2 ^ 53)" using assms(2) by (simp only: of_int_less_iff)
  ultimately have "\<not> (2 :: rat) ^ 1024 \<le> of_int n" by simp
  then show ?thesis
    unfolding round_float64_int [OF assms(1)] q_def [symmetric] Let_def q(2) by simp
qed

lemma round_float64_even:
  assumes "2 ^ 53 \<le> n" and "n < 2 ^ 54"
  shows "round_float64 n 1 = Some (of_int (2 * div_even n 2))"
proof -
  have le: "bitlen n = 54"
    using bitlen_ge_iff_power [of 54 n] bitlen_le_iff_power [of n 54] assms by simp
  have q: "max (bitlen n - 53) (- 1074) = 1" unfolding le by simp
  have "div_even n 2 \<le> n" using assms by (auto simp: div_even_def Let_def)
  with assms(2) have "2 * div_even n 2 < 2 ^ 55" by simp
  then have "(of_int (2 * div_even n 2) :: rat) < of_int (2 ^ 55)" by (simp only: of_int_less_iff)
  moreover have "(2 :: rat) ^ 55 \<le> 2 ^ 1024" by (rule power_increasing) simp_all
  ultimately have "\<not> (2 :: rat) ^ 1024 \<le> of_int (2 * div_even n 2)" by simp
  moreover have "0 < n" using assms(1) by (rule less_le_trans [rotated]) simp
  ultimately show ?thesis unfolding round_float64_int [OF \<open>0 < n\<close>] q Let_def by (simp add: mult.commute)
qed

lemma is_digit_dec_nat: "c \<in> set (dec_nat n) \<Longrightarrow> is_digit c"
  using dec_nat_chars by (simp add: is_digit_def)

lemma digits_value_snoc: "digits_value (s @ [c]) = 10 * digits_value s + digit_value c"
  by (simp add: digits_value_def)

lemma digits_value_dec_nat: "digits_value (dec_nat n) = int n"
proof (induction n rule: dec_nat.induct)
  case (1 n)
  show ?case
  proof (cases "n < 10")
    case True
    then show ?thesis by (simp add: dec_nat.simps [of n] digits_value_def digit_value_def)
  next
    case False
    have "10 * int (n div 10) + int (n mod 10) = int n" by presburger
    with 1 False show ?thesis
      by (simp add: dec_nat.simps [of n] digits_value_snoc digit_value_def del: of_nat_div of_nat_mod)
  qed
qed

lemma digits_all: "(\<And>c. c \<in> set s \<Longrightarrow> is_digit c) \<Longrightarrow> digits (s @ r) = s @ digits r \<and> after_digits (s @ r) = after_digits r"
  by (induction s) auto

lemma number_parts_dec_int: "number_parts (dec_int i) = (i < 0, dec_nat (nat \<bar>i\<bar>), [], 0)"
proof -
  have d: "digits (dec_nat n) = dec_nat n" "after_digits (dec_nat n) = []" for n
    using digits_all [of "dec_nat n" "[]"] is_digit_dec_nat by auto
  obtain c t where ct: "dec_nat (nat \<bar>i\<bar>) = c # t"
    by (metis dec_nat.simps list.exhaust list.simps(3) snoc_eq_iff_butlast)
  then have "is_digit c" using is_digit_dec_nat [of c "nat \<bar>i\<bar>"] by simp
  then have "c \<noteq> CHR ''-''" by (auto simp: is_digit_def)
  with ct d [of "nat \<bar>i\<bar>"] show ?thesis
    by (cases "i < 0") (simp_all add: number_parts_def dec_int_def)
qed

lemma parse_float64_dec_int:
  "parse_float64 (dec_int i) =
     (if i = 0 then Some 0 else map_option (\<lambda>x. if i < 0 then - x else x) (round_float64 \<bar>i\<bar> 1))"
  by (simp add: parse_float64_def number_parts_dec_int digits_value_dec_nat)

lemma parse_float64_exact:
  assumes "\<bar>i\<bar> \<le> 2 ^ 53"
  shows "parse_float64 (dec_int i) = Some (of_int i)"
proof (cases "\<bar>i\<bar> = 2 ^ 53")
  case True
  have "div_even (2 ^ 53) 2 = 2 ^ 52" by (simp add: div_even_def)
  with True round_float64_even [of "\<bar>i\<bar>"] show ?thesis
    by (cases "i < 0") (simp_all add: parse_float64_dec_int)
next
  case False
  with assms round_float64_exact [of "\<bar>i\<bar>"] show ?thesis
    by (auto simp: parse_float64_dec_int)
qed


section \<open>The fuel of the parser is enough\<close>

lemma skip_ws_le: "length (skip_ws s) \<le> length s"
  by (rule length_dropWhile_le)

lemma scan_string_shorter: "scan_string s = Some (b, r) \<Longrightarrow> length r < length s"
  by (induction s arbitrary: b r rule: scan_string.induct)
    (fastforce split: if_splits list.splits)+

lemma scan_number_shorter:
  assumes "scan_number s = Some (x, r)"
  shows "length r < length s"
proof -
  have frac: "length s2 \<le> length s1" if "scan_frac s1 = Some (f, s2)" for f s1 s2
    using that length_dropWhile_le [of is_digit "tl s1"] by (auto simp: scan_frac_def split: list.splits if_splits)
  have ex: "length s3 \<le> length s2" if "scan_exp s2 = Some (e, s3)" for e s2 s3
    using that by (auto simp: scan_exp_def Let_def split: list.splits if_splits intro: le_SucI length_dropWhile_le le_trans [OF length_dropWhile_le])
  have int: "length s1 < length s0" if "scan_int s0 = Some (i, s1)" for i s0 s1
    using that by (auto simp: scan_int_def less_Suc_eq_le length_dropWhile_le split: list.splits if_splits)
  show ?thesis
    using assms by (auto simp: scan_number_def Let_def split: option.splits prod.splits list.splits if_splits dest!: frac ex int)
qed

lemma parse_shorter:
  "parse_value n d s = Some (v, r) \<Longrightarrow> length r < length s"
  "parse_elems n d s = Some (vs, r) \<Longrightarrow> length r < length s"
  "parse_members n d s = Some (ms, r) \<Longrightarrow> length r < length s"
proof (induction n d s and n d s and n d s arbitrary: v r and vs r and ms r
    rule: parse_value_parse_elems_parse_members.induct)
  case (2 n d s)
  have ws: "Suc (length u) \<le> length t" if "skip_ws t = e # u" for t e u
    using skip_ws_le [of t] that by simp
  show ?case
  proof (cases s)
    case (Cons c t)
    consider (q) "c = CHR 0x22" | (o) "c = CHR ''{''" | (a) "c = CHR ''[''" | (rest) "c \<notin> {CHR 0x22, CHR ''{'', CHR ''[''}"
      by blast
    then show ?thesis
    proof cases
      case q
      with 2 Cons show ?thesis by (auto dest!: scan_string_shorter)
    next
      case o
      with 2(1,3) Cons show ?thesis
        by (fastforce split: if_splits list.splits dest: ws)
    next
      case a
      with 2(2,3) Cons show ?thesis
        by (fastforce split: if_splits list.splits dest: ws)
    next
      case rest
      with 2(3) Cons show ?thesis
        by (auto simp: scan_word_def split: if_splits dest!: scan_number_shorter)
    qed
  qed (use 2 in simp)
next
  case (4 n d s)
  from 4(3) obtain v r1 e r2 where v: "parse_value n d s = Some (v, r1)" and e: "skip_ws r1 = e # r2"
    by (auto split: option.splits list.splits)
  from 4(1) [OF v] skip_ws_le [of r1] e have le: "Suc (Suc (length r2)) \<le> length s" by simp
  show ?case
    using 4(2,3) v e le skip_ws_le [of r2] by (fastforce split: if_splits)
next
  case (6 n d s)
  from 6(3) obtain t b r1 r2 v r3 e r4 where s: "s = CHR 0x22 # t" and b: "scan_string t = Some (b, r1)"
    and k: "skip_ws r1 = CHR '':'' # r2" and v: "parse_value n d (skip_ws r2) = Some (v, r3)" and e: "skip_ws r3 = e # r4"
    by (auto simp: Let_def split: option.splits list.splits if_splits)
  have "Suc (length r2) \<le> length r1" "Suc (length r4) \<le> length r3" "length (skip_ws r2) \<le> length r2"
    using skip_ws_le [of r1] skip_ws_le [of r2] skip_ws_le [of r3] k e by simp_all
  with 6(1) [OF s _ b refl k _ v] scan_string_shorter [OF b] s have le: "Suc (Suc (length r4)) \<le> length s" by simp
  show ?case
    using 6(2,3) s b k v e le skip_ws_le [of r4] by (fastforce simp: Let_def split: if_splits)
qed simp_all

text \<open>More fuel gives the same answer.\<close>

lemma parse_fuel:
  "2 * length s < n \<Longrightarrow> 2 * length s < m \<Longrightarrow> parse_value n d s = parse_value m d s"
  "2 * length s + 1 < n \<Longrightarrow> 2 * length s + 1 < m \<Longrightarrow> parse_elems n d s = parse_elems m d s"
  "2 * length s < n \<Longrightarrow> 2 * length s < m \<Longrightarrow> parse_members n d s = parse_members m d s"
proof (induction n d s and n d s and n d s arbitrary: m and m and m
    rule: parse_value_parse_elems_parse_members.induct)
  case (2 n d s)
  from 2(4) obtain m' where m: "m = Suc m'" by (cases m) simp_all
  have ws: "Suc (length u) \<le> length t" if "skip_ws t = e # u" for t e u
    using skip_ws_le [of t] that by simp
  show ?case
  proof (cases s)
    case (Cons c t)
    have members: "parse_members n (Suc d) (e # r) = parse_members m' (Suc d) (e # r)"
      if "c = CHR ''{''" "\<not> max_depth \<le> d" "skip_ws t = e # r" "e \<noteq> CHR ''}''" for e r
      using 2(1) [OF Cons _ that(1,2) that(3,4), of m'] 2(3,4) Cons m ws [OF that(3)] that(1) by simp
    have elems: "parse_elems n (Suc d) (e # r) = parse_elems m' (Suc d) (e # r)"
      if "c = CHR ''[''" "\<not> max_depth \<le> d" "skip_ws t = e # r" "e \<noteq> CHR '']''" for e r
      using 2(2) [OF Cons _ _ that(1,2) that(3,4), of m'] 2(3,4) Cons m ws [OF that(3)] that(1) by simp
    show ?thesis
      using members elems unfolding Cons m by (cases "skip_ws t") (simp_all del: dropWhile_eq_Nil_conv)
  qed (simp add: m)
next
  case (4 n d s)
  from 4(4) obtain m' where m: "m = Suc m'" by (cases m) simp_all
  have v: "parse_value n d s = parse_value m' d s" by (rule 4(1)) (use 4(3,4) m in simp_all)
  have "parse_elems n d (skip_ws r') = parse_elems m' d (skip_ws r')"
    if "parse_value n d s = Some (x, r)" "skip_ws r = e # r'" "e \<noteq> CHR '']''" "e = CHR '',''" for x r e r'
  proof -
    have "length (skip_ws r') + 2 \<le> length s"
      using parse_shorter(1) [OF that(1)] skip_ws_le [of r] skip_ws_le [of r'] that(2) by simp
    with 4(2) [OF that(1) refl that(2-4), of m'] 4(3,4) m show ?thesis by simp
  qed
  then show ?case unfolding m parse_elems.simps v [symmetric] by (auto split: option.split list.split simp del: dropWhile_eq_Nil_conv)
next
  case (6 n d s)
  from 6(4) obtain m' where m: "m = Suc m'" by (cases m) simp_all
  have v: "parse_value n d (skip_ws r1) = parse_value m' d (skip_ws r1)"
    if "s = q # t" "\<not> q \<noteq> CHR 0x22" "scan_string t = Some (b, r)" "skip_ws r = k # r1" "\<not> k \<noteq> CHR '':''" for q t b r k r1
  proof -
    have "length (skip_ws r1) + 2 \<le> length s"
      using scan_string_shorter [OF that(3)] skip_ws_le [of r] skip_ws_le [of r1] that(1,4) by simp
    with 6(1) [OF that(1-3) refl that(4,5), of m'] 6(3,4) m show ?thesis by simp
  qed
  have "parse_members n d (skip_ws r3) = parse_members m' d (skip_ws r3)"
    if "s = q # t" "\<not> q \<noteq> CHR 0x22" "scan_string t = Some (b, r)" "skip_ws r = k # r1" "\<not> k \<noteq> CHR '':''"
      "parse_value n d (skip_ws r1) = Some (x, r2)" "skip_ws r2 = e # r3" "e \<noteq> CHR ''}''" "e = CHR '',''"
    for q t b r k r1 x r2 e r3
  proof -
    have "length (skip_ws r3) + 2 \<le> length s"
      using scan_string_shorter [OF that(3)] parse_shorter(1) [OF that(6)] skip_ws_le [of r] skip_ws_le [of r1]
        skip_ws_le [of r2] skip_ws_le [of r3] that(1,4,7) by simp
    with 6(2) [OF that(1-3) refl that(4-6) refl refl that(7-9), of m'] 6(3,4) m show ?thesis by simp
  qed
  with v show ?case
    unfolding m by (auto simp: Let_def split: option.split list.split simp del: dropWhile_eq_Nil_conv)
qed simp_all


section \<open>Documents and their text\<close>

text \<open>Documents with integer numbers, and their compact text.\<close>

datatype doc =
    DNull
  | DBool bool
  | DInt int
  | DStr string
  | DArray "doc list"
  | DObject "(string \<times> doc) list"

text \<open>
  \<^verbatim>\<open>appendString\<close> of the encoder: quotes, backslashes, control bytes and the HTML characters are
  escaped, so are U+2028 and U+2029; a byte that starts no valid encoding is written as U+FFFD.
\<close>

definition escape_ascii :: "char \<Rightarrow> string" where
  "escape_ascii c =
     (if c \<in> {CHR 0x22, CHR 0x5C} then [CHR 0x5C, c]
      else if c = CHR 0x08 then [CHR 0x5C, CHR ''b''] else if c = CHR 0x0C then [CHR 0x5C, CHR ''f'']
      else if c = CHR 0x0A then [CHR 0x5C, CHR ''n''] else if c = CHR 0x0D then [CHR 0x5C, CHR ''r'']
      else if c = CHR 0x09 then [CHR 0x5C, CHR ''t'']
      else if byte c < 32 \<or> c \<in> {CHR ''<'', CHR ''>'', CHR ''&''}
      then [CHR 0x5C, CHR ''u'', CHR ''0'', CHR ''0'', hex_digit (byte c div 16), hex_digit (byte c mod 16)]
      else [c])"

definition escape_rune :: "string \<Rightarrow> string" where
  "escape_rune bs =
     (if bs = [CHR 0xE2, CHR 0x80, CHR 0xA8] then CHR 0x5C # ''u2028''
      else if bs = [CHR 0xE2, CHR 0x80, CHR 0xA9] then CHR 0x5C # ''u2029'' else bs)"

function escape :: "string \<Rightarrow> string" where
  "escape [] = []"
| "escape (c # s) =
     (if byte c < 128 then escape_ascii c @ escape s
      else if rune_len (c # s) = 0 then CHR 0x5C # ''ufffd'' @ escape s
      else escape_rune (take (rune_len (c # s)) (c # s)) @ escape (drop (rune_len (c # s) - 1) s))"
  by pat_completeness auto
termination by (relation "measure length") auto

text \<open>Text that is valid UTF-8.\<close>

function valid_utf8 :: "string \<Rightarrow> bool" where
  "valid_utf8 [] = True"
| "valid_utf8 (c # s) =
     (if byte c < 128 then valid_utf8 s
      else rune_len (c # s) \<noteq> 0 \<and> valid_utf8 (drop (rune_len (c # s) - 1) s))"
  by pat_completeness auto
termination by (relation "measure length") auto

lemma valid_utf8_ascii: "(\<And>c. c \<in> set s \<Longrightarrow> byte c < 128) \<Longrightarrow> valid_utf8 s"
  by (induction s) auto

definition quoted :: "string \<Rightarrow> string" where
  "quoted s = CHR 0x22 # escape s @ [CHR 0x22]"

fun render :: "doc \<Rightarrow> string"
  and render_elems :: "doc list \<Rightarrow> string"
  and render_members :: "(string \<times> doc) list \<Rightarrow> string" where
  "render DNull = ''null''"
| "render (DBool b) = (if b then ''true'' else ''false'')"
| "render (DInt i) = dec_int i"
| "render (DStr s) = quoted s"
| "render (DArray xs) = CHR ''['' # render_elems xs"
| "render (DObject ms) = CHR ''{'' # render_members ms"
| "render_elems [] = '']''"
| "render_elems (x # xs) = render x @ (if xs = [] then '']'' else CHR '','' # render_elems xs)"
| "render_members [] = ''}''"
| "render_members ((k, x) # ms) = quoted k @ CHR '':'' # render x @ (if ms = [] then ''}'' else CHR '','' # render_members ms)"

fun json_of :: "doc \<Rightarrow> json" where
  "json_of DNull = JNull"
| "json_of (DBool b) = JBool b"
| "json_of (DInt i) = JNumber (dec_int i)"
| "json_of (DStr s) = JString s"
| "json_of (DArray xs) = JArray (map json_of xs)"
| "json_of (DObject ms) = JObject (map (\<lambda>(k, x). (k, render x, json_of x)) ms)"

text \<open>Documents whose strings are valid, nested at most \<open>n\<close> deep.\<close>

fun utf8_doc :: "nat \<Rightarrow> doc \<Rightarrow> bool" where
  "utf8_doc n (DStr s) = valid_utf8 s"
| "utf8_doc n (DArray xs) = (0 < n \<and> list_all (utf8_doc (n - 1)) xs)"
| "utf8_doc n (DObject ms) = (0 < n \<and> list_all (\<lambda>(k, x). valid_utf8 k \<and> utf8_doc (n - 1) x) ms)"
| "utf8_doc n _ = True"

lemma hex_value_digit: "n < 16 \<Longrightarrow> hex_value (hex_digit n) = Some n"
  by (simp add: hex_value_def hex_digit_def Let_def)

lemma hex4_byte:
  assumes "byte c < 128"
  shows "hex4 (CHR ''0'') (CHR ''0'') (hex_digit (byte c div 16)) (hex_digit (byte c mod 16)) = Some (byte c)"
proof -
  have "hex_value (CHR ''0'') = Some 0" by (simp add: hex_value_def)
  moreover have "byte c div 16 < 16" "byte c mod 16 < 16" using assms by simp_all
  ultimately show ?thesis by (simp add: hex4_def hex_value_digit)
qed

text \<open>The three forms of an ASCII character.\<close>

lemma escape_ascii_cases:
  assumes "byte c < 128"
  obtains (short) e where "escape_ascii c = [CHR 0x5C, e]" and "e \<noteq> CHR ''u''" and "unescape e = Some c"
  | (code) a b where "escape_ascii c = CHR 0x5C # CHR ''u'' # [CHR ''0'', CHR ''0'', a, b]" and "hex4 (CHR ''0'') (CHR ''0'') a b = Some (byte c)"
  | (self) "escape_ascii c = [c]" and "c \<noteq> CHR 0x22" and "c \<noteq> CHR 0x5C" and "32 \<le> byte c"
proof -
  consider (1) "c \<in> {CHR 0x22, CHR 0x5C}" | (2) "c \<in> {CHR 0x08, CHR 0x0C, CHR 0x0A, CHR 0x0D, CHR 0x09}"
    | (3) "c \<notin> {CHR 0x22, CHR 0x5C}" "c \<notin> {CHR 0x08, CHR 0x0C, CHR 0x0A, CHR 0x0D, CHR 0x09}" by blast
  then show thesis
  proof cases
    case 1
    show thesis by (rule short [of c]) (use 1 in \<open>auto simp: escape_ascii_def unescape_def\<close>)
  next
    case 2
    then show thesis using short by (auto simp: escape_ascii_def unescape_def)
  next
    case 3
    show thesis
    proof (cases "byte c < 32 \<or> c \<in> {CHR ''<'', CHR ''>'', CHR ''&''}")
      case True
      show thesis by (rule code [OF _ hex4_byte [OF assms]]) (use 3 True in \<open>simp add: escape_ascii_def\<close>)
    next
      case False
      with 3 show thesis by (intro self) (simp_all add: escape_ascii_def)
    qed
  qed
qed

lemma map_pair_Cons: "map_option (\<lambda>(b, r). (x # b, r)) (map_option (\<lambda>(b, r). (xs @ b, r)) o1) = map_option (\<lambda>(b, r). (x # xs @ b, r)) o1"
  by (simp add: option.map_comp comp_def case_prod_unfold)

lemma scan_escape_ascii:
  assumes "byte c < 128"
  shows "scan_string (escape_ascii c @ t) = map_option (\<lambda>(b, r). (escape_ascii c @ b, r)) (scan_string t)"
  using assms by (cases rule: escape_ascii_cases) simp_all

lemma unquote_escape_ascii:
  assumes "byte c < 128"
  shows "unquote (escape_ascii c @ t) = c # unquote t"
proof (cases rule: escape_ascii_cases [OF assms, case_names short code self])
  case (short e)
  then have "getu4 (CHR 0x5C # e # t) = None" by (cases t rule: getu4.cases) (auto split: list.split)
  with short show ?thesis by simp
next
  case (code a b)
  then have "getu4 (CHR 0x5C # CHR ''u'' # CHR ''0'' # CHR ''0'' # a # b # t) = Some (byte c)" by simp
  with code assms show ?thesis by (simp add: is_high_def is_low_def encode_rune_def)
next
  case self
  with assms show ?thesis by simp
qed

text \<open>The bytes of an encoding decide its length, and none of them is ASCII.\<close>

lemma rune_len_cases:
  assumes "rune_len s \<noteq> 0"
  obtains a b t where "s = [a, b] @ t" and "194 \<le> byte a" and "byte a \<le> 223" and "cont_byte b"
  | a b c t where "s = [a, b, c] @ t" and "224 \<le> byte a" and "byte a \<le> 239"
      and "(if byte a = 224 then 160 else 128) \<le> byte b" and "byte b \<le> (if byte a = 237 then 159 else 191)" and "cont_byte c"
  | a b c d t where "s = [a, b, c, d] @ t" and "240 \<le> byte a" and "byte a \<le> 244"
      and "(if byte a = 240 then 144 else 128) \<le> byte b" and "byte b \<le> (if byte a = 244 then 143 else 191)"
      and "cont_byte c" and "cont_byte d"
proof -
  obtain a b r where s: "s = a # b # r"
    using assms by (cases s rule: rune_len.cases) simp_all
  consider (2) "194 \<le> byte a \<and> byte a \<le> 223 \<and> cont_byte b"
    | (3) "224 \<le> byte a \<and> byte a \<le> 239" "\<not> byte a \<le> 223"
    | (4) "240 \<le> byte a \<and> byte a \<le> 244" "\<not> byte a \<le> 239"
    using assms unfolding s rune_len.simps Let_def by (auto split: if_split_asm)
  then show thesis
  proof cases
    case 2
    then show thesis using that(1) [of a b r] s by simp
  next
    case 3
    with assms obtain c r' where "r = c # r'" "(if byte a = 224 then 160 else 128) \<le> byte b"
        "byte b \<le> (if byte a = 237 then 159 else 191)" "cont_byte c"
      unfolding s rune_len.simps Let_def by (cases r) (auto split: if_split_asm)
    with 3 show thesis using that(2) [of a b c r'] s by simp
  next
    case 4
    with assms obtain c d r' where "r = c # d # r'" "(if byte a = 240 then 144 else 128) \<le> byte b"
        "byte b \<le> (if byte a = 244 then 143 else 191)" "cont_byte c" "cont_byte d"
      unfolding s rune_len.simps Let_def by (auto split: if_split_asm list.split_asm)
    with 4 show thesis using that(3) [of a b c d r'] s by simp
  qed
qed

lemma rune_len_bytes:
  assumes "rune_len s \<noteq> 0"
  shows "rune_len s \<le> length s \<and> (\<forall>b \<in> set (take (rune_len s) s). 128 \<le> byte b) \<and> rune_len (take (rune_len s) s @ t) = rune_len s"
proof (cases rule: rune_len_cases [OF assms, case_names two three four])
  case (two a b r)
  then have "rune_len ([a, b] @ x) = 2" for x by simp
  with two show ?thesis by (simp add: cont_byte_def)
next
  case (three a b c r)
  then have "rune_len ([a, b, c] @ x) = 3" for x by simp
  moreover have "128 \<le> byte b" using three by (simp split: if_splits)
  ultimately show ?thesis using three by (simp add: cont_byte_def)
next
  case (four a b c d r)
  then have "rune_len ([a, b, c, d] @ x) = 4" for x by simp
  moreover have "128 \<le> byte b" using four by (simp split: if_splits)
  ultimately show ?thesis using four by (simp add: cont_byte_def)
qed

lemma scan_high: "(\<And>b. b \<in> set bs \<Longrightarrow> 128 \<le> byte b) \<Longrightarrow>
    scan_string (bs @ t) = map_option (\<lambda>(b, r). (bs @ b, r)) (scan_string t)"
proof (induction bs)
  case Nil
  show ?case by (cases "scan_string t") auto
next
  case (Cons c bs)
  then have "128 \<le> byte c" by simp
  then have "c \<noteq> CHR 0x22" "c \<noteq> CHR 0x5C" "\<not> byte c < 32" by auto
  with Cons show ?case by (simp add: map_pair_Cons)
qed

lemma scan_escape_rune:
  "(\<And>b. b \<in> set bs \<Longrightarrow> 128 \<le> byte b) \<Longrightarrow>
    scan_string (escape_rune bs @ t) = map_option (\<lambda>(b, r). (escape_rune bs @ b, r)) (scan_string t)"
  using scan_high [of bs t] by (auto simp: escape_rune_def hex4_def hex_value_def option.map_comp comp_def case_prod_unfold)

lemma scan_escape: "scan_string (escape s @ CHR 0x22 # r) = Some (escape s, r)"
proof (induction s rule: escape.induct)
  case (2 c s)
  show ?case
  proof (cases "byte c < 128")
    case True
    with 2(1) show ?thesis by (simp add: scan_escape_ascii)
  next
    case False
    show ?thesis
    proof (cases "rune_len (c # s) = 0")
      case True
      with False 2(2) show ?thesis by (simp add: hex4_def hex_value_def)
    next
      case rune: False
      have "scan_string (escape_rune (take (rune_len (c # s)) (c # s)) @ t) =
          map_option (\<lambda>(b, r). (escape_rune (take (rune_len (c # s)) (c # s)) @ b, r)) (scan_string t)" for t
        using rune_len_bytes [OF rune, of t] by (intro scan_escape_rune) blast
      with False rune 2(3) show ?thesis by simp
    qed
  qed
qed simp

lemma char_of_bytes:
  "char_of (226 :: nat) = CHR 0xE2" "char_of (128 :: nat) = CHR 0x80" "char_of (168 :: nat) = CHR 0xA8" "char_of (169 :: nat) = CHR 0xA9"
  by (rule of_char_eq_iff [where 'a = nat, THEN iffD1], simp)+

lemma unquote_escape: "valid_utf8 s \<Longrightarrow> unquote (escape s) = s"
proof (induction s rule: escape.induct)
  case (2 c s)
  show ?case
  proof (cases "byte c < 128")
    case True
    with 2(1,4) show ?thesis by (simp add: unquote_escape_ascii)
  next
    case False
    let ?n = "rune_len (c # s)"
    from False 2(4) have rune: "?n \<noteq> 0" "valid_utf8 (drop (?n - 1) s)" by simp_all
    have IH: "unquote (escape (drop (?n - 1) s)) = drop (?n - 1) s" by (rule 2(3)) (use False rune in simp_all)
    have split: "take ?n (c # s) @ drop (?n - 1) s = c # s"
      using rune(1) by (cases ?n) simp_all
    have "unquote (escape_rune (take ?n (c # s)) @ t) = take ?n (c # s) @ unquote t" for t
    proof (cases "take ?n (c # s) = [CHR 0xE2, CHR 0x80, CHR 0xA8] \<or> take ?n (c # s) = [CHR 0xE2, CHR 0x80, CHR 0xA9]")
      case True
      then show ?thesis by (auto simp: escape_rune_def hex4_def hex_value_def is_high_def is_low_def encode_rune_def char_of_bytes)
    next
      case raw: False
      obtain m where m: "?n = Suc m" using rune(1) by (cases ?n) simp_all
      then have "rune_len (c # take m s @ t) = Suc m" "m \<le> length s"
        using rune_len_bytes [OF rune(1), of t] by simp_all
      with raw m False show ?thesis by (auto simp: escape_rune_def)
    qed
    with False rune IH split show ?thesis by simp
  qed
qed simp

definition delimited :: "string \<Rightarrow> bool" where
  "delimited r \<longleftrightarrow> (case r of [] \<Rightarrow> True | c # _ \<Rightarrow> c \<in> {CHR '','', CHR '']'', CHR ''}''})"

lemma dec_nat_head:
  obtains c t where "dec_nat n = c # t" and "is_digit c" and "c = CHR ''0'' \<Longrightarrow> t = []"
proof -
  have "\<exists>c t. dec_nat n = c # t \<and> is_digit c \<and> (c = CHR ''0'' \<longrightarrow> n = 0 \<and> t = [])"
  proof (induction n rule: dec_nat.induct)
    case (1 n)
    show ?case
    proof (cases "n < 10")
      case True
      then have "n = 0" if "digit n = CHR ''0''" using of_char_digit [OF True] that by simp
      with True show ?thesis by (simp add: dec_nat.simps [of n] is_digit_def)
    next
      case False
      with 1 show ?thesis by (auto simp: dec_nat.simps [of n])
    qed
  qed
  with that show thesis by blast
qed

lemma scan_dec_int:
  assumes "delimited r"
  shows "scan_number (dec_int i @ r) = Some (dec_int i, r)"
proof -
  obtain c t where ct: "dec_nat (nat \<bar>i\<bar>) = c # t" "is_digit c" "c = CHR ''0'' \<Longrightarrow> t = []"
    using dec_nat_head [of "nat \<bar>i\<bar>"] by blast
  have r: "digits r = []" "after_digits r = r" "scan_frac r = Some ([], r)" "scan_exp r = Some ([], r)"
    using assms by (auto simp: delimited_def is_digit_def scan_frac_def scan_exp_def split: list.splits)
  have d: "digits (c # t @ r) = c # t" "after_digits (c # t @ r) = r"
    using digits_all [of "dec_nat (nat \<bar>i\<bar>)" r, OF is_digit_dec_nat [of _ "nat \<bar>i\<bar>"]] r(1,2)
    by (simp_all add: ct(1))
  have int: "scan_int (dec_nat (nat \<bar>i\<bar>) @ r) = Some (dec_nat (nat \<bar>i\<bar>), r)"
  proof (cases "c = CHR ''0''")
    case True
    with ct show ?thesis by (simp add: scan_int_def)
  next
    case False
    with ct(2) d show ?thesis unfolding ct(1) scan_int_def by simp
  qed
  have "c \<noteq> CHR ''-''" using ct(2) by (auto simp: is_digit_def)
  with int ct(1) r show ?thesis
    by (cases "i < 0") (simp_all add: scan_number_def dec_int_def)
qed

lemma render_head: "\<exists>c t. render x = c # t \<and> \<not> is_ws c \<and> c \<notin> {CHR ''}'', CHR '']''}"
proof (cases x)
  case (DInt i)
  obtain c t where "dec_nat (nat \<bar>i\<bar>) = c # t" "is_digit c"
    using dec_nat_head [of "nat \<bar>i\<bar>"] by blast
  with DInt show ?thesis by (cases "i < 0") (auto simp: dec_int_def is_ws_def is_digit_def)
qed (auto simp: quoted_def is_ws_def)

lemma skip_ws_render [simp]: "skip_ws (render x @ r) = render x @ r"
  using render_head [of x] by auto

lemma skip_ws_delim [simp]: "delimited r \<Longrightarrow> skip_ws r = r"
  by (auto simp: delimited_def is_ws_def split: list.splits)

lemma quoted_head: "quoted k @ r = CHR 0x22 # escape k @ CHR 0x22 # r"
  by (simp add: quoted_def)

lemma parse_render:
  "utf8_doc (max_depth - d) x \<Longrightarrow> delimited r \<Longrightarrow> 2 * length (render x) < n \<Longrightarrow>
     parse_value n d (render x @ r) = Some (json_of x, r)"
  "xs \<noteq> [] \<Longrightarrow> list_all (utf8_doc (max_depth - d)) xs \<Longrightarrow> 2 * length (render_elems xs) < n \<Longrightarrow>
     parse_elems n d (render_elems xs @ r) = Some (map json_of xs, r)"
  "ms \<noteq> [] \<Longrightarrow> list_all (\<lambda>(k, x). valid_utf8 k \<and> utf8_doc (max_depth - d) x) ms \<Longrightarrow> 2 * length (render_members ms) < n \<Longrightarrow>
     parse_members n d (render_members ms @ r) = Some (map (\<lambda>(k, x). (k, render x, json_of x)) ms, r)"
proof (induction x and xs and ms arbitrary: n d r and n d r and n d r rule: render_render_elems_render_members.induct)
  case 1
  then show ?case by (cases n) (simp_all add: scan_word_def)
next
  case (2 b)
  then show ?case by (cases n) (simp_all add: scan_word_def)
next
  case (3 i)
  then obtain m where n: "n = Suc m" by (cases n) simp_all
  have "\<exists>c t. dec_int i @ r = c # t \<and> (c = CHR ''-'' \<or> is_digit c)"
    by (rule dec_nat_head [of "nat \<bar>i\<bar>"]) (auto simp: dec_int_def)
  then obtain c t where ct: "dec_int i @ r = c # t" "c = CHR ''-'' \<or> is_digit c" by blast
  then have "c \<notin> {CHR 0x22, CHR ''{'', CHR ''['', CHR ''t'', CHR ''f'', CHR ''n''}" by (auto simp: is_digit_def)
  with ct(1) scan_dec_int [OF 3(2), of i] show ?case by (simp add: n)
next
  case (4 s)
  then show ?case by (cases n) (simp_all add: quoted_head scan_escape unquote_escape)
next
  case (5 xs)
  then obtain m where n: "n = Suc m" by (cases n) simp_all
  have depth: "\<not> max_depth \<le> d" using 5(2) by auto
  show ?case
  proof (cases xs)
    case (Cons x xs')
    obtain c t where ct: "render_elems xs @ r = c # t" "\<not> is_ws c" "c \<noteq> CHR '']''"
      using render_head [of x] Cons by auto
    have "parse_elems m (Suc d) (render_elems xs @ r) = Some (map json_of xs, r)"
      by (rule 5(1)) (use 5(2,4) Cons n in simp_all)
    with ct depth show ?thesis by (simp add: n)
  qed (simp add: n depth is_ws_def)
next
  case (6 ms)
  then obtain m where n: "n = Suc m" by (cases n) simp_all
  have depth: "\<not> max_depth \<le> d" using 6(2) by auto
  show ?case
  proof (cases ms)
    case (Cons km ms')
    obtain t where ct: "render_members ms @ r = CHR 0x22 # t"
      using Cons by (cases km) (simp add: quoted_head)
    have "parse_members m (Suc d) (render_members ms @ r) = Some (map (\<lambda>(k, x). (k, render x, json_of x)) ms, r)"
      by (rule 6(1)) (use 6(2,4) Cons n in simp_all)
    with ct depth show ?thesis by (simp add: n is_ws_def)
  qed (simp add: n depth is_ws_def)
next
  case (8 x xs)
  then obtain m where n: "n = Suc m" by (cases n) simp_all
  show ?case
  proof (cases "xs = []")
    case True
    with 8 n show ?thesis by (simp add: delimited_def is_ws_def)
  next
    case False
    then obtain y ys where "xs = y # ys" by (cases xs) auto
    then have ws: "skip_ws (render_elems xs @ r) = render_elems xs @ r" by simp
    have "parse_value m d (render x @ CHR '','' # render_elems xs @ r) = Some (json_of x, CHR '','' # render_elems xs @ r)"
      using 8 False n by (simp add: delimited_def)
    with False 8 n ws show ?thesis by (simp add: is_ws_def)
  qed
next
  case (10 k x ms)
  then obtain m where n: "n = Suc m" by (cases n) simp_all
  show ?case
  proof (cases "ms = []")
    case True
    with 10 n show ?thesis by (simp add: quoted_head scan_escape unquote_escape delimited_def is_ws_def)
  next
    case False
    then obtain k' y ys where "ms = (k', y) # ys" by (cases ms) auto
    then have ws: "skip_ws (render_members ms @ r) = render_members ms @ r" by (simp add: quoted_head is_ws_def)
    have "parse_value m d (render x @ CHR '','' # render_members ms @ r) = Some (json_of x, CHR '','' # render_members ms @ r)"
      using 10 False n by (simp add: delimited_def quoted_def)
    moreover have "parse_members m d (render_members ms @ r) = Some (map (\<lambda>(k, x). (k, render x, json_of x)) ms, r)"
      using 10 False n by (simp add: quoted_def)
    ultimately show ?thesis using False 10 n ws
      by (simp add: quoted_head scan_escape unquote_escape is_ws_def)
  qed
qed simp_all

text \<open>Parsing gives back the document that was rendered.\<close>

lemma json_parse_render:
  assumes "utf8_doc max_depth x"
  shows "json_parse (render x) = Some (json_of x)"
  using parse_render(1) [of 0 x "[]" "2 * length (render x) + 1"] assms skip_ws_render [of x "[]"]
  by (simp add: json_parse_def delimited_def)

end
