(* ===== verification/Webhook.thy ===== *)
theory Webhook
  imports GoJson LineageTypes
begin

text \<open>
  \<^verbatim>\<open>src/internal/webhook\<close>: the three admission gates on InfrastructureLineageIndex, their
  decision functions (\<^verbatim>\<open>authorship_gate.go\<close>, \<^verbatim>\<open>rootbinding_immutability.go\<close>,
  \<^verbatim>\<open>domainref_validation.go\<close>) and the handlers that extract the inputs from the raw request
  (\<^verbatim>\<open>lineage_index_handler.go\<close>). The interface \<open>admission_gate\<close> is what all three promise.
\<close>


section \<open>rootbinding\_immutability.go\<close>

abbreviation (input) RootBindingWebhookPath :: string where
  "RootBindingWebhookPath \<equiv> ''/validate-lineage-index-immutability''"

abbreviation (input) InfrastructureLineageIndexKind :: string where
  "InfrastructureLineageIndexKind \<equiv> ''InfrastructureLineageIndex''"

type_synonym AdmissionOperation = string

abbreviation (input) OperationCreate :: AdmissionOperation where
  "OperationCreate \<equiv> ''CREATE''"

abbreviation (input) OperationUpdate :: AdmissionOperation where
  "OperationUpdate \<equiv> ''UPDATE''"

abbreviation (input) OperationDelete :: AdmissionOperation where
  "OperationDelete \<equiv> ''DELETE''"

text \<open>The bytes of the em dash and the section sign in the reasons.\<close>

abbreviation (input) em_dash :: string where
  "em_dash \<equiv> [CHR 0xE2, CHR 0x80, CHR 0x94]"

abbreviation (input) section_sign :: string where
  "section_sign \<equiv> [CHR 0xC2, CHR 0xA7]"

record RootBindingImmutabilityRequest =
  ri_Kind :: string
  ri_Operation :: AdmissionOperation
  ri_OldRootBindingRaw :: string
  ri_NewRootBindingRaw :: string

record RootBindingImmutabilityDecision =
  rd_Allowed :: bool
  rd_Reason :: string

definition rootBindingRawEqual :: "string \<Rightarrow> string \<Rightarrow> bool" where
  "rootBindingRawEqual a b =
     (let aEmpty = (length a = 0 \<or> a = ''null''); bEmpty = (length b = 0 \<or> b = ''null'')
      in if aEmpty \<and> bEmpty then True
         else if aEmpty \<noteq> bEmpty then False
         else case unmarshal_interface a of
                None \<Rightarrow> False
              | Some va \<Rightarrow>
                  (case unmarshal_interface b of
                     None \<Rightarrow> False
                   | Some vb \<Rightarrow> deep_equal va vb))"

definition EvaluateRootBindingImmutability :: "RootBindingImmutabilityRequest \<Rightarrow> RootBindingImmutabilityDecision" where
  "EvaluateRootBindingImmutability req =
     (if ri_Kind req \<noteq> InfrastructureLineageIndexKind then \<lparr>rd_Allowed = True, rd_Reason = []\<rparr>
      else if ri_Operation req \<noteq> OperationUpdate then \<lparr>rd_Allowed = True, rd_Reason = []\<rparr>
      else if rootBindingRawEqual (ri_OldRootBindingRaw req) (ri_NewRootBindingRaw req)
        then \<lparr>rd_Allowed = True, rd_Reason = []\<rparr>
      else \<lparr>rd_Allowed = False,
        rd_Reason = ''spec.rootBinding on '' @ InfrastructureLineageIndexKind @
          '' is immutable after creation and cannot be modified; '' @
          ''the rootBinding section identifies the root declaration that anchors this '' @
          ''lineage index and is sealed at admission '' @ em_dash @ '' any field change is rejected '' @
          ''(seam-core-schema.md '' @ section_sign @ ''3.1, domain-core-schema.md '' @ section_sign @ ''2.1); '' @
          ''to record a different root binding, create a new InfrastructureLineageIndex''\<rparr>)"


section \<open>authorship\_gate.go\<close>

abbreviation (input) AuthorshipWebhookPath :: string where
  "AuthorshipWebhookPath \<equiv> ''/validate-lineage-index-authorship''"

abbreviation (input) LineageControllerIdentity :: string where
  "LineageControllerIdentity \<equiv> ''system:serviceaccount:seam-system:lineage-controller''"

record AuthorshipGateRequest =
  ag_Kind :: string
  ag_Operation :: AdmissionOperation
  ag_RequestingUser :: string

record AuthorshipGateDecision =
  ad_Allowed :: bool
  ad_Reason :: string

definition EvaluateAuthorshipGate :: "AuthorshipGateRequest \<Rightarrow> AuthorshipGateDecision" where
  "EvaluateAuthorshipGate req =
     (if ag_Kind req \<noteq> InfrastructureLineageIndexKind then \<lparr>ad_Allowed = True, ad_Reason = []\<rparr>
      else if ag_Operation req = OperationDelete then \<lparr>ad_Allowed = True, ad_Reason = []\<rparr>
      else if ag_RequestingUser req = LineageControllerIdentity then \<lparr>ad_Allowed = True, ad_Reason = []\<rparr>
      else \<lparr>ad_Allowed = False,
        ad_Reason = ''InfrastructureLineageIndex instances are controller-authored exclusively; '' @
          ''only the InfrastructureLineageController ServiceAccount ('' @ Quote LineageControllerIdentity @
          '') may create or '' @ ''update them '' @ em_dash @ '' no human operator, automation pipeline, or other controller '' @
          ''is authorized to write InfrastructureLineageIndex resources '' @
          ''(CLAUDE.md '' @ section_sign @ ''14 Decision 3, seam-core-schema.md '' @ section_sign @ ''7 Declaration 4); '' @
          ''requesting user '' @ Quote (ag_RequestingUser req) @ '' is not authorized''\<rparr>)"


section \<open>domainref\_validation.go\<close>

abbreviation (input) DomainRefWebhookPath :: string where
  "DomainRefWebhookPath \<equiv> ''/validate-lineage-index-domainref''"

abbreviation (input) ValidInfrastructureDomainRef :: string where
  "ValidInfrastructureDomainRef \<equiv> ''infrastructure.core.ontai.dev''"

record DomainRefValidationRequest =
  dv_Kind :: string
  dv_Operation :: AdmissionOperation
  dv_DomainRef :: string

record DomainRefValidationDecision =
  dd_Allowed :: bool
  dd_Reason :: string

definition EvaluateDomainRefValidation :: "DomainRefValidationRequest \<Rightarrow> DomainRefValidationDecision" where
  "EvaluateDomainRefValidation req =
     (if dv_Kind req \<noteq> InfrastructureLineageIndexKind then \<lparr>dd_Allowed = True, dd_Reason = []\<rparr>
      else if dv_Operation req \<noteq> OperationCreate then \<lparr>dd_Allowed = True, dd_Reason = []\<rparr>
      else if dv_DomainRef req = [] then \<lparr>dd_Allowed = True, dd_Reason = []\<rparr>
      else if dv_DomainRef req = ValidInfrastructureDomainRef then \<lparr>dd_Allowed = True, dd_Reason = []\<rparr>
      else \<lparr>dd_Allowed = False,
        dd_Reason = ''spec.domainRef must be '' @ Quote ValidInfrastructureDomainRef @ '' for infrastructure domain ILIs; '' @
          ''unknown domain ref '' @ Quote (dv_DomainRef req) @ '' '' @ em_dash @ '' the only valid traceability link for '' @
          ''InfrastructureLineageIndex is the infrastructure domain root at core.ontai.dev '' @
          ''(seam-core-schema.md '' @ section_sign @ ''3, CLAUDE.md '' @ section_sign @ ''14 Decision 2)''\<rparr>)"


section \<open>lineage\_index\_handler.go\<close>

text \<open>What the handlers read of an \<^verbatim>\<open>admission.Request\<close>, and the responses they give.\<close>

record AdmissionRequest =
  ar_Kind :: string
  ar_Operation :: string
  ar_Username :: string
  ar_ObjectRaw :: string
  ar_OldObjectRaw :: string

datatype Response = Allowed string | Denied string | Errored nat json_error

abbreviation (input) StatusBadRequest :: nat where
  "StatusBadRequest \<equiv> 400"

definition extractRootBinding :: "string \<Rightarrow> json_error + string option" where
  "extractRootBinding raw =
     (if length raw = 0 then Inr None
      else unmarshal_struct ''spec'' (decode_struct ''rootBinding'' store_raw) raw None)"

definition RootBindingImmutability_Handle :: "AdmissionRequest \<Rightarrow> Response" where
  "RootBindingImmutability_Handle req =
     (case extractRootBinding (ar_ObjectRaw req) of
        Inl err \<Rightarrow> Errored StatusBadRequest err
      | Inr newRootBinding \<Rightarrow>
          (case extractRootBinding (ar_OldObjectRaw req) of
             Inl err \<Rightarrow> Errored StatusBadRequest err
           | Inr oldRootBinding \<Rightarrow>
               (let oldBytes = (case oldRootBinding of None \<Rightarrow> [] | Some b \<Rightarrow> b);
                    newBytes = (case newRootBinding of None \<Rightarrow> [] | Some b \<Rightarrow> b);
                    decision = EvaluateRootBindingImmutability
                      \<lparr>ri_Kind = ar_Kind req, ri_Operation = ar_Operation req,
                       ri_OldRootBindingRaw = oldBytes, ri_NewRootBindingRaw = newBytes\<rparr>
                in if rd_Allowed decision then Allowed [] else Denied (rd_Reason decision))))"

definition extractDomainRef :: "string \<Rightarrow> json_error + string" where
  "extractDomainRef raw =
     (if length raw = 0 then Inr []
      else unmarshal_struct ''spec'' (decode_struct ''domainRef'' store_string) raw [])"

definition DomainRefValidation_Handle :: "AdmissionRequest \<Rightarrow> Response" where
  "DomainRefValidation_Handle req =
     (case extractDomainRef (ar_ObjectRaw req) of
        Inl err \<Rightarrow> Errored StatusBadRequest err
      | Inr domainRef \<Rightarrow>
          (let decision = EvaluateDomainRefValidation
                 \<lparr>dv_Kind = ar_Kind req, dv_Operation = ar_Operation req, dv_DomainRef = domainRef\<rparr>
           in if dd_Allowed decision then Allowed [] else Denied (dd_Reason decision)))"

definition AuthorshipGate_Handle :: "AdmissionRequest \<Rightarrow> Response" where
  "AuthorshipGate_Handle req =
     (let decision = EvaluateAuthorshipGate
            \<lparr>ag_Kind = ar_Kind req, ag_Operation = ar_Operation req, ag_RequestingUser = ar_Username req\<rparr>
      in if ad_Allowed decision then Allowed [] else Denied (ad_Reason decision))"


section \<open>What a gate promises\<close>

text \<open>
  A gate covers some operations on lineage indexes and applies a policy to them: it denies exactly
  the covered requests that violate the policy, and explains every denial.
\<close>

locale admission_gate =
  fixes evaluate :: "'r \<Rightarrow> 'd"
    and allowed :: "'d \<Rightarrow> bool"
    and reason :: "'d \<Rightarrow> string"
    and kind :: "'r \<Rightarrow> string"
    and operation :: "'r \<Rightarrow> AdmissionOperation"
    and covered :: "AdmissionOperation set"
    and policy :: "'r \<Rightarrow> bool"
  assumes allowed_iff:
      "allowed (evaluate r) \<longleftrightarrow> kind r \<noteq> InfrastructureLineageIndexKind \<or> operation r \<notin> covered \<or> policy r"
    and explained: "reason (evaluate r) = [] \<longleftrightarrow> allowed (evaluate r)"
begin

definition respond :: "'r \<Rightarrow> Response" where
  "respond r = (if allowed (evaluate r) then Allowed [] else Denied (reason (evaluate r)))"

lemma respond_Allowed: "respond r = Allowed x \<longleftrightarrow>
    x = [] \<and> (kind r \<noteq> InfrastructureLineageIndexKind \<or> operation r \<notin> covered \<or> policy r)"
  by (auto simp: respond_def allowed_iff)

lemma respond_Denied: "respond r = Denied x \<Longrightarrow>
    x \<noteq> [] \<and> kind r = InfrastructureLineageIndexKind \<and> operation r \<in> covered \<and> \<not> policy r"
  by (auto simp: respond_def allowed_iff explained split: if_splits)

lemma respond_cases: "respond r = Allowed [] \<or> (\<exists>x. x \<noteq> [] \<and> respond r = Denied x)"
  by (auto simp: respond_def explained)

end

interpretation immutability: admission_gate EvaluateRootBindingImmutability rd_Allowed rd_Reason ri_Kind ri_Operation
  "{OperationUpdate}" "\<lambda>r. rootBindingRawEqual (ri_OldRootBindingRaw r) (ri_NewRootBindingRaw r)"
  by unfold_locales (simp_all add: EvaluateRootBindingImmutability_def)

interpretation authorship: admission_gate EvaluateAuthorshipGate ad_Allowed ad_Reason ag_Kind ag_Operation
  "- {OperationDelete}" "\<lambda>r. ag_RequestingUser r = LineageControllerIdentity"
  by unfold_locales (simp_all add: EvaluateAuthorshipGate_def)

interpretation domainref: admission_gate EvaluateDomainRefValidation dd_Allowed dd_Reason dv_Kind dv_Operation
  "{OperationCreate}" "\<lambda>r. dv_DomainRef r = [] \<or> dv_DomainRef r = ValidInfrastructureDomainRef"
  by unfold_locales (simp_all add: EvaluateDomainRefValidation_def)


section \<open>Documents that carry a root binding\<close>

definition no_field :: "string \<Rightarrow> (string \<times> string \<times> json) list \<Rightarrow> bool" where
  "no_field field ms \<longleftrightarrow> list_all (\<lambda>(k, _). \<not> field_match field k) ms"

text \<open>An object whose spec has one member for a field, with its raw text and value.\<close>

definition carries :: "string \<Rightarrow> string \<Rightarrow> string \<Rightarrow> json \<Rightarrow> bool" where
  "carries field s raw v \<longleftrightarrow>
     (\<exists>pre post sraw spre spost.
        json_parse s = Some (JObject (pre @ (''spec'', sraw, JObject (spre @ (field, raw, v) # spost)) # post)) \<and>
        no_field ''spec'' pre \<and> no_field ''spec'' post \<and> no_field field spre \<and> no_field field spost)"

text \<open>
  The members of the JSON form of a root binding, by the struct tags: all fields, except the
  declaring principal when it is empty.
\<close>

definition binding_json :: "InfrastructureLineageIndexRootBinding \<Rightarrow> string \<rightharpoonup> json" where
  "binding_json rb = map_of
     ([(''rootKind'', JString (rb_RootKind rb)), (''rootName'', JString (rb_RootName rb)),
       (''rootNamespace'', JString (rb_RootNamespace rb)), (''rootUID'', JString (rb_RootUID rb)),
       (''rootObservedGeneration'', JNumber (dec_int (rb_RootObservedGeneration rb)))] @
      (if rb_DeclaringPrincipal rb = [] then []
       else [(''declaringPrincipal'', JString (rb_DeclaringPrincipal rb))]))"

definition members_map :: "(string \<times> string \<times> json) list \<Rightarrow> string \<rightharpoonup> json" where
  "members_map ms = map_of (map (\<lambda>(k, raw, v). (k, v)) ms)"

definition carries_binding :: "string \<Rightarrow> InfrastructureLineageIndexRootBinding \<Rightarrow> bool" where
  "carries_binding s rb \<longleftrightarrow>
     (\<exists>raw ms. carries ''rootBinding'' s raw (JObject ms) \<and> json_parse raw = Some (JObject ms) \<and>
        distinct (map fst ms) \<and> members_map ms = binding_json rb)"

lemma decode_skip: "no_field field ms \<Longrightarrow> decode_members field store (ms @ r) x = decode_members field store r x"
  by (induction ms) (auto simp: no_field_def)

lemma decode_skip_all [simp]: "no_field field ms \<Longrightarrow> decode_members field store ms x = Some x"
  using decode_skip [of field ms store "[]" x] by simp

lemma field_match_refl [simp]: "field_match f f"
  by (simp add: field_match_def)

lemma decode_carried:
  assumes "carries field s raw v" and "store raw v x = Some y"
  shows "unmarshal_struct ''spec'' (decode_struct field store) s x = Inr y"
  using assms by (auto simp: carries_def unmarshal_struct_def decode_skip)

lemma carries_nonempty: "carries field s raw v \<Longrightarrow> s \<noteq> []"
  by (auto simp: carries_def json_parse_def)

lemma json_parse_empty [simp]: "json_parse [] = None"
  by (simp add: json_parse_def)

lemma extractRootBinding_carried:
  "carries ''rootBinding'' s raw v \<Longrightarrow> v \<noteq> JNull \<Longrightarrow> extractRootBinding s = Inr (Some raw)"
  using carries_nonempty by (auto simp: extractRootBinding_def store_raw_def intro!: decode_carried)

lemma extractDomainRef_carried:
  "carries ''domainRef'' s raw (JString d) \<Longrightarrow> extractDomainRef s = Inr d"
  using carries_nonempty by (auto simp: extractDomainRef_def intro!: decode_carried)


section \<open>Comparing root bindings\<close>

definition scalar :: "gointf \<Rightarrow> bool" where
  "scalar x \<longleftrightarrow> (case x of ISlice _ \<Rightarrow> False | IMap _ \<Rightarrow> False | _ \<Rightarrow> True)"

lemma deep_equal_scalar: "scalar x \<Longrightarrow> deep_equal x y \<longleftrightarrow> x = y"
  by (cases x) (auto simp: scalar_def)

text \<open>Maps with as many keys, one included in the other, are equal.\<close>

lemma map_of_eqI:
  assumes "distinct (map fst m)" and "distinct (map fst m')" and "length m = length m'" and "map_of m \<subseteq>\<^sub>m map_of m'"
  shows "map_of m = map_of m'"
proof -
  have "card (fst ` set m) = card (fst ` set m')"
    using assms(1-3) by (metis distinct_card length_map set_map)
  moreover have "fst ` set m \<subseteq> fst ` set m'"
    using map_le_implies_dom_le [OF assms(4)] by (simp add: dom_map_of_conv_image_fst)
  ultimately have "dom (map_of m) = dom (map_of m')"
    by (simp add: dom_map_of_conv_image_fst card_subset_eq)
  with assms(4) show ?thesis
    by (metis map_le_antisym map_le_def)
qed

lemma deep_equal_maps:
  assumes "distinct (map fst m)" and "distinct (map fst m')" and "\<forall>x \<in> snd ` set m. scalar x"
  shows "deep_equal (IMap m) (IMap m') \<longleftrightarrow> map_of m = map_of m'"
proof
  assume eq: "deep_equal (IMap m) (IMap m')"
  then have "map_of m' k = Some x" if "map_of m k = Some x" for k x
    using assms(3) map_of_SomeD [OF that] by (fastforce simp: list_all_iff deep_equal_scalar split: option.splits)
  then have "map_of m \<subseteq>\<^sub>m map_of m'" by (auto simp: map_le_def)
  with eq assms(1,2) show "map_of m = map_of m'" by (intro map_of_eqI) simp_all
next
  assume eq: "map_of m = map_of m'"
  then have "fst ` set m = fst ` set m'" by (metis dom_map_of_conv_image_fst)
  with assms(1,2) have "length m = length m'" by (metis distinct_card length_map set_map)
  moreover have "map_of m' k = Some x" if "(k, x) \<in> set m" for k x
    using that eq assms(1) by (metis map_of_eq_Some_iff)
  ultimately show "deep_equal (IMap m) (IMap m')"
    using assms(3) by (force simp: list_all_iff deep_equal_scalar)
qed

text \<open>The map an object with distinct keys is decoded into.\<close>

lemma to_members_map:
  assumes "distinct (map fst ms)" and "to_members ms m = Some m'" and "distinct (map fst m)"
  shows "distinct (map fst m') \<and> (\<forall>k. map_of m' k = (case members_map ms k of None \<Rightarrow> map_of m k | Some v \<Rightarrow> to_interface v))"
  using assms
proof (induction ms arbitrary: m)
  case Nil
  then show ?case by (simp add: members_map_def)
next
  case (Cons x ms)
  obtain k raw v where x: "x = (k, raw, v)" by (cases x)
  from Cons.prems(2) obtain y where y: "to_interface v = Some y" "to_members ms (AList.update k y m) = Some m'"
    by (auto simp: x split: option.splits)
  have IH: "distinct (map fst m') \<and>
      (\<forall>k'. map_of m' k' = (case members_map ms k' of None \<Rightarrow> map_of (AList.update k y m) k' | Some v \<Rightarrow> to_interface v))"
    by (rule Cons.IH) (use Cons.prems y in \<open>simp_all add: x distinct_update\<close>)
  have "members_map ms k = None"
    using Cons.prems(1) by (force simp: x members_map_def map_of_eq_None_iff)
  with IH y(1) show ?case by (auto simp: x members_map_def split: option.split)
qed

lemma to_members_total:
  "\<forall>(k, raw, v) \<in> set ms. to_interface v \<noteq> None \<Longrightarrow> \<exists>m'. to_members ms m = Some m'"
  by (induction ms arbitrary: m) auto

lemma members_map_Some:
  "distinct (map fst ms) \<Longrightarrow> (k, raw, v) \<in> set ms \<Longrightarrow> members_map ms k = Some v"
  unfolding members_map_def by (rule map_of_is_SomeI) (force simp: comp_def case_prod_beta')+

text \<open>What a root binding is decoded into; only its generation may change on the way.\<close>

definition binding_value :: "InfrastructureLineageIndexRootBinding \<Rightarrow> string \<rightharpoonup> gointf" where
  "binding_value rb k = (case binding_json rb k of None \<Rightarrow> None | Some v \<Rightarrow> to_interface v)"

definition generation_value :: "InfrastructureLineageIndexRootBinding \<Rightarrow> rat option" where
  "generation_value rb = parse_float64 (dec_int (rb_RootObservedGeneration rb))"

lemma binding_json_range:
  "binding_json rb k = Some v \<Longrightarrow> (\<exists>s. v = JString s) \<or> v = JNumber (dec_int (rb_RootObservedGeneration rb))"
  by (auto simp: binding_json_def split: if_splits)

lemma unmarshal_binding:
  assumes "json_parse raw = Some (JObject ms)" and "distinct (map fst ms)" and "members_map ms = binding_json rb"
    and "generation_value rb \<noteq> None"
  shows "\<exists>m. unmarshal_interface raw = Some (IMap m) \<and> distinct (map fst m) \<and> map_of m = binding_value rb \<and>
    (\<forall>x \<in> snd ` set m. scalar x)"
proof -
  have total: "to_interface v \<noteq> None" if "(k, r, v) \<in> set ms" for k r v
    using binding_json_range [of rb k v] members_map_Some [OF assms(2) that] assms(3,4)
    by (auto simp: generation_value_def)
  then obtain m where m: "to_members ms [] = Some m"
    using to_members_total [of ms "[]"] by blast
  with to_members_map [OF assms(2) m] assms(3) have dm: "distinct (map fst m)" "map_of m = binding_value rb"
    by (auto simp: fun_eq_iff binding_value_def split: option.split)
  have "scalar x" if "(k, x) \<in> set m" for k x
    using map_of_is_SomeI [OF dm(1) that] binding_json_range [of rb k] unfolding dm(2)
    by (fastforce simp: binding_value_def scalar_def split: option.splits)
  with m dm assms(1) show ?thesis by (auto simp: unmarshal_interface_def)
qed

lemma binding_value_inj:
  assumes "binding_value rb = binding_value rb'" and "generation_value rb = Some g" and "generation_value rb' = Some g'"
  shows "g = g' \<and> rb\<lparr>rb_RootObservedGeneration := 0\<rparr> = rb'\<lparr>rb_RootObservedGeneration := 0\<rparr>"
proof -
  have at: "binding_value rb k = binding_value rb' k" for k using assms(1) by simp
  show ?thesis
    using at [of "''rootKind''"] at [of "''rootName''"] at [of "''rootNamespace''"] at [of "''rootUID''"]
      at [of "''rootObservedGeneration''"] at [of "''declaringPrincipal''"] assms(2,3)
    by (cases rb; cases rb') (auto simp: binding_value_def binding_json_def generation_value_def split: if_splits)
qed

lemma binding_value_eqI:
  assumes "generation_value rb = generation_value rb'"
    and "rb\<lparr>rb_RootObservedGeneration := 0\<rparr> = rb'\<lparr>rb_RootObservedGeneration := 0\<rparr>"
  shows "binding_value rb = binding_value rb'"
  using assms
  by (cases rb; cases rb') (auto simp: binding_value_def binding_json_def generation_value_def fun_eq_iff split: option.split)

lemma compare_bindings:
  assumes "json_parse a = Some (JObject ms)" "distinct (map fst ms)" "members_map ms = binding_json rb"
    and "json_parse b = Some (JObject ms')" "distinct (map fst ms')" "members_map ms' = binding_json rb'"
    and "generation_value rb \<noteq> None" "generation_value rb' \<noteq> None"
  shows "rootBindingRawEqual a b \<longleftrightarrow> generation_value rb = generation_value rb' \<and>
    rb\<lparr>rb_RootObservedGeneration := 0\<rparr> = rb'\<lparr>rb_RootObservedGeneration := 0\<rparr>"
proof -
  have "json_parse ''null'' = Some JNull" using json_parse_render [of DNull] by simp
  with assms(1,4) have nonempty: "a \<noteq> []" "a \<noteq> ''null''" "b \<noteq> []" "b \<noteq> ''null''" by auto
  obtain m where m: "unmarshal_interface a = Some (IMap m)" "distinct (map fst m)" "map_of m = binding_value rb"
      "\<forall>x \<in> snd ` set m. scalar x"
    using unmarshal_binding [OF assms(1-3,7)] by blast
  obtain m' where m': "unmarshal_interface b = Some (IMap m')" "distinct (map fst m')" "map_of m' = binding_value rb'"
    using unmarshal_binding [OF assms(4-6,8)] by blast
  have "rootBindingRawEqual a b \<longleftrightarrow> binding_value rb = binding_value rb'"
    using nonempty deep_equal_maps [OF m(2) m'(2) m(4)] m(1,3) m'(1,3)
    by (simp add: rootBindingRawEqual_def del: deep_equal.simps)
  with assms(7,8) binding_value_inj [of rb rb'] binding_value_eqI [of rb rb'] show ?thesis by auto
qed

lemma immutability_handle:
  assumes "carries_binding (ar_OldObjectRaw req) rb" and "carries_binding (ar_ObjectRaw req) rb'"
    and "generation_value rb \<noteq> None" and "generation_value rb' \<noteq> None"
    and "ar_Kind req = InfrastructureLineageIndexKind" and "ar_Operation req = OperationUpdate"
  shows "if generation_value rb = generation_value rb' \<and> rb\<lparr>rb_RootObservedGeneration := 0\<rparr> = rb'\<lparr>rb_RootObservedGeneration := 0\<rparr>
    then RootBindingImmutability_Handle req = Allowed [] else \<exists>reason. reason \<noteq> [] \<and> RootBindingImmutability_Handle req = Denied reason"
proof -
  obtain raw ms where old: "carries ''rootBinding'' (ar_OldObjectRaw req) raw (JObject ms)" "json_parse raw = Some (JObject ms)"
      "distinct (map fst ms)" "members_map ms = binding_json rb"
    using assms(1) by (auto simp: carries_binding_def)
  obtain raw' ms' where new: "carries ''rootBinding'' (ar_ObjectRaw req) raw' (JObject ms')" "json_parse raw' = Some (JObject ms')"
      "distinct (map fst ms')" "members_map ms' = binding_json rb'"
    using assms(2) by (auto simp: carries_binding_def)
  let ?r = "\<lparr>ri_Kind = InfrastructureLineageIndexKind, ri_Operation = OperationUpdate, ri_OldRootBindingRaw = raw, ri_NewRootBindingRaw = raw'\<rparr>"
  have "RootBindingImmutability_Handle req = immutability.respond ?r"
    using extractRootBinding_carried [OF old(1)] extractRootBinding_carried [OF new(1)] assms(5,6)
    by (simp add: RootBindingImmutability_Handle_def immutability.respond_def Let_def)
  with compare_bindings [OF old(2-4) new(2-4) assms(3,4)] immutability.respond_cases [of ?r] immutability.respond_Allowed [of ?r "[]"]
  show ?thesis by auto
qed

section \<open>Sample documents\<close>

definition binding_doc :: "InfrastructureLineageIndexRootBinding \<Rightarrow> doc" where
  "binding_doc rb = DObject
     ([(''rootKind'', DStr (rb_RootKind rb)), (''rootName'', DStr (rb_RootName rb)),
       (''rootNamespace'', DStr (rb_RootNamespace rb)), (''rootUID'', DStr (rb_RootUID rb)),
       (''rootObservedGeneration'', DInt (rb_RootObservedGeneration rb))] @
      (if rb_DeclaringPrincipal rb = [] then []
       else [(''declaringPrincipal'', DStr (rb_DeclaringPrincipal rb))]))"

definition index_doc :: "InfrastructureLineageIndexRootBinding \<Rightarrow> string \<Rightarrow> doc" where
  "index_doc rb domainRef = DObject
     [(''kind'', DStr InfrastructureLineageIndexKind),
      (''spec'', DObject [(''rootBinding'', binding_doc rb), (''domainRef'', DStr domainRef)])]"

definition utf8_binding :: "InfrastructureLineageIndexRootBinding \<Rightarrow> bool" where
  "utf8_binding rb \<longleftrightarrow> valid_utf8 (rb_RootKind rb) \<and> valid_utf8 (rb_RootName rb) \<and> valid_utf8 (rb_RootNamespace rb) \<and>
     valid_utf8 (rb_RootUID rb) \<and> valid_utf8 (rb_DeclaringPrincipal rb)"

lemma utf8_binding_doc: "utf8_binding rb \<Longrightarrow> 0 < n \<Longrightarrow> utf8_doc n (binding_doc rb)"
  by (simp add: utf8_binding_def binding_doc_def)

lemma binding_doc_members:
  obtains ms where "json_of (binding_doc rb) = JObject ms" and "distinct (map fst ms)" and "members_map ms = binding_json rb"
proof -
  obtain ms where ms: "json_of (binding_doc rb) = JObject ms" by (simp add: binding_doc_def)
  moreover from ms have "distinct (map fst ms)" by (auto simp: binding_doc_def)
  moreover have "members_map ms = binding_json rb"
    using ms unfolding members_map_def binding_json_def
    by (intro arg_cong [of _ _ map_of]) (auto simp: binding_doc_def)
  ultimately show thesis using ms that by blast
qed

lemma index_doc_carries:
  assumes "utf8_binding rb" and "valid_utf8 d"
  shows "carries ''rootBinding'' (render (index_doc rb d)) (render (binding_doc rb)) (json_of (binding_doc rb))"
    and "carries ''domainRef'' (render (index_doc rb d)) (render (DStr d)) (JString d)"
proof -
  have "utf8_doc max_depth (index_doc rb d)"
    using utf8_binding_doc [OF assms(1)] assms(2) by (simp add: index_doc_def max_depth_def)
  then have parse: "json_parse (render (index_doc rb d)) = Some (json_of (index_doc rb d))" by (rule json_parse_render)
  have fields: "\<not> field_match ''spec'' ''kind''" "\<not> field_match ''rootBinding'' ''domainRef''" "\<not> field_match ''domainRef'' ''rootBinding''"
    by (simp_all add: field_match_def lower_char_def)
  show "carries ''rootBinding'' (render (index_doc rb d)) (render (binding_doc rb)) (json_of (binding_doc rb))"
    unfolding carries_def parse
    by (rule exI [of _ "[(''kind'', render (DStr InfrastructureLineageIndexKind), JString InfrastructureLineageIndexKind)]"], rule exI [of _ "[]"],
        rule exI, rule exI [of _ "[]"], rule exI [of _ "[(''domainRef'', render (DStr d), JString d)]"])
      (simp add: index_doc_def no_field_def fields)
  show "carries ''domainRef'' (render (index_doc rb d)) (render (DStr d)) (JString d)"
    unfolding carries_def parse
    by (rule exI [of _ "[(''kind'', render (DStr InfrastructureLineageIndexKind), JString InfrastructureLineageIndexKind)]"], rule exI [of _ "[]"],
        rule exI, rule exI [of _ "[(''rootBinding'', render (binding_doc rb), json_of (binding_doc rb))]"], rule exI [of _ "[]"])
      (simp add: index_doc_def no_field_def fields)
qed

lemma index_doc_carries_binding:
  assumes "utf8_binding rb" and "valid_utf8 d"
  shows "carries_binding (render (index_doc rb d)) rb"
proof -
  obtain ms where ms: "json_of (binding_doc rb) = JObject ms" "distinct (map fst ms)" "members_map ms = binding_json rb"
    by (rule binding_doc_members)
  have "json_parse (render (binding_doc rb)) = Some (json_of (binding_doc rb))"
    by (rule json_parse_render [OF utf8_binding_doc [OF assms(1)]]) (simp add: max_depth_def)
  with index_doc_carries(1) [OF assms] ms show ?thesis unfolding carries_binding_def by metis
qed

definition sample_binding :: InfrastructureLineageIndexRootBinding where
  "sample_binding = \<lparr>rb_RootKind = ''TalosCluster'', rb_RootName = ''c1'', rb_RootNamespace = ''seam-system'', rb_RootUID = ''u1'',
     rb_RootObservedGeneration = 2 ^ 53, rb_DeclaringPrincipal = ''alice''\<rparr>"

definition sample_update :: "InfrastructureLineageIndexRootBinding \<Rightarrow> InfrastructureLineageIndexRootBinding \<Rightarrow> AdmissionRequest" where
  "sample_update rb rb' = \<lparr>ar_Kind = InfrastructureLineageIndexKind, ar_Operation = OperationUpdate,
     ar_Username = LineageControllerIdentity, ar_ObjectRaw = render (index_doc rb' ValidInfrastructureDomainRef),
     ar_OldObjectRaw = render (index_doc rb ValidInfrastructureDomainRef)\<rparr>"

lemma sample_utf8: "utf8_binding (sample_binding\<lparr>rb_RootObservedGeneration := g\<rparr>)" "utf8_binding sample_binding"
    "utf8_binding (sample_binding\<lparr>rb_RootName := ''c2''\<rparr>)" "valid_utf8 ValidInfrastructureDomainRef"
  by (simp_all add: utf8_binding_def sample_binding_def)


section \<open>Properties of the gates\<close>

text \<open>C33 (rootBinding_gate_exact): for every pair of JSON texts of an old and a new lineage index, whatever their
  layout and other members, the immutability handler admits an update exactly when the root
  binding is unchanged and denies it with a reason otherwise, for generations up to two to the 53.\<close>

theorem rootBinding_gate_exact:
  assumes "carries_binding (ar_OldObjectRaw req) rb" and "carries_binding (ar_ObjectRaw req) rb'"
    and "\<bar>rb_RootObservedGeneration rb\<bar> \<le> 2 ^ 53" and "\<bar>rb_RootObservedGeneration rb'\<bar> \<le> 2 ^ 53"
    and "ar_Kind req = InfrastructureLineageIndexKind" and "ar_Operation req = OperationUpdate"
  shows "if rb' = rb then RootBindingImmutability_Handle req = Allowed []
    else \<exists>reason. reason \<noteq> [] \<and> RootBindingImmutability_Handle req = Denied reason"
proof -
  have gen: "generation_value rb = Some (of_int (rb_RootObservedGeneration rb))"
    "generation_value rb' = Some (of_int (rb_RootObservedGeneration rb'))"
    using assms(3,4) by (simp_all add: generation_value_def parse_float64_exact)
  moreover have "rb' = rb \<longleftrightarrow> rb_RootObservedGeneration rb = rb_RootObservedGeneration rb' \<and>
      rb\<lparr>rb_RootObservedGeneration := 0\<rparr> = rb'\<lparr>rb_RootObservedGeneration := 0\<rparr>"
    by (cases rb; cases rb') auto
  ultimately show ?thesis using immutability_handle [OF assms(1,2) _ _ assms(5,6)] by simp
qed

theorem rootBinding_gate_exact_witness:
  "RootBindingImmutability_Handle (sample_update sample_binding sample_binding) = Allowed [] \<and>
   (\<exists>reason. reason \<noteq> [] \<and>
      RootBindingImmutability_Handle (sample_update sample_binding (sample_binding\<lparr>rb_RootName := ''c2''\<rparr>)) = Denied reason)"
proof
  let ?c = "\<lambda>rb. carries_binding (render (index_doc rb ValidInfrastructureDomainRef)) rb"
  have c: "?c sample_binding" "?c (sample_binding\<lparr>rb_RootName := ''c2''\<rparr>)"
    by (intro index_doc_carries_binding sample_utf8)+
  show "RootBindingImmutability_Handle (sample_update sample_binding sample_binding) = Allowed []"
    using rootBinding_gate_exact [of "sample_update sample_binding sample_binding" sample_binding sample_binding] c(1)
    by (simp add: sample_update_def sample_binding_def)
  show "\<exists>reason. reason \<noteq> [] \<and>
      RootBindingImmutability_Handle (sample_update sample_binding (sample_binding\<lparr>rb_RootName := ''c2''\<rparr>)) = Denied reason"
    using rootBinding_gate_exact [of "sample_update sample_binding (sample_binding\<lparr>rb_RootName := ''c2''\<rparr>)" sample_binding "sample_binding\<lparr>rb_RootName := ''c2''\<rparr>"] c
    by (simp add: sample_update_def sample_binding_def)
qed



text \<open>C37 (authorship_gate_exact): a write of a lineage index by anyone but the LineageController service account is
  denied, whatever its contents, with a reason that names the user; every other request passes the
  gate: other kinds, deletions, and the controller's own writes.\<close>

theorem authorship_gate_exact:
  "if ar_Kind req = InfrastructureLineageIndexKind \<and> ar_Operation req \<noteq> OperationDelete \<and> ar_Username req \<noteq> LineageControllerIdentity
   then \<exists>pre post. AuthorshipGate_Handle req = Denied (pre @ ''requesting user '' @ Quote (ar_Username req) @ post)
   else AuthorshipGate_Handle req = Allowed []"
proof -
  let ?r = "\<lparr>ag_Kind = ar_Kind req, ag_Operation = ar_Operation req, ag_RequestingUser = ar_Username req\<rparr>"
  have handle: "AuthorshipGate_Handle req = authorship.respond ?r"
    by (simp add: AuthorshipGate_Handle_def authorship.respond_def Let_def)
  show ?thesis
  proof (cases "authorship.respond ?r = Allowed []")
    case True
    with handle authorship.respond_Allowed [of ?r "[]"] show ?thesis by auto
  next
    case False
    then have denied: "ar_Kind req = InfrastructureLineageIndexKind" "ar_Operation req \<noteq> OperationDelete" "ar_Username req \<noteq> LineageControllerIdentity"
      using authorship.respond_Allowed [of ?r "[]"] by simp_all
    then have "\<exists>pre post. authorship.respond ?r = Denied (pre @ ''requesting user '' @ Quote (ar_Username req) @ post)"
      unfolding authorship.respond_def EvaluateAuthorshipGate_def
      by (simp only: if_True if_False simp_thms AuthorshipGateRequest.simps AuthorshipGateDecision.simps append_assoc [symmetric])
        (intro exI, rule refl)
    with denied handle show ?thesis by simp
  qed
qed

text \<open>For every JSON text of a lineage index, the domainRef handler admits its creation
  exactly when the domain reference is empty or the infrastructure domain, and denies it with a
  reason otherwise.\<close>

lemma domainRef_gate_exact:
  assumes "carries ''domainRef'' (ar_ObjectRaw req) raw (JString d)"
    and "ar_Kind req = InfrastructureLineageIndexKind" and "ar_Operation req = OperationCreate"
  shows "if d = [] \<or> d = ValidInfrastructureDomainRef then DomainRefValidation_Handle req = Allowed []
    else \<exists>reason. reason \<noteq> [] \<and> DomainRefValidation_Handle req = Denied reason"
proof -
  let ?r = "\<lparr>dv_Kind = ar_Kind req, dv_Operation = ar_Operation req, dv_DomainRef = d\<rparr>"
  have "DomainRefValidation_Handle req = domainref.respond ?r"
    using extractDomainRef_carried [OF assms(1)] by (simp add: DomainRefValidation_Handle_def domainref.respond_def Let_def)
  with domainref.respond_cases [of ?r] domainref.respond_Allowed [of ?r "[]"] assms(2,3) show ?thesis by auto
qed

lemma domainRef_gate_exact_sample:
  "\<exists>reason. DomainRefValidation_Handle \<lparr>ar_Kind = InfrastructureLineageIndexKind, ar_Operation = OperationCreate,
     ar_Username = [], ar_ObjectRaw = render (index_doc sample_binding ''core''), ar_OldObjectRaw = []\<rparr> = Denied reason"
proof -
  have "valid_utf8 ''core''" by simp
  from domainRef_gate_exact [of "\<lparr>ar_Kind = InfrastructureLineageIndexKind, ar_Operation = OperationCreate,
     ar_Username = [], ar_ObjectRaw = render (index_doc sample_binding ''core''), ar_OldObjectRaw = []\<rparr>"]
    index_doc_carries(2) [OF sample_utf8(2) this] show ?thesis by fastforce
qed

text \<open>A text that is not JSON, or whose spec is neither an object nor null, is answered with
  status 400 by both handlers that look into it; no such request is admitted.\<close>

lemma malformed_index_rejected:
  assumes "ar_ObjectRaw req \<noteq> []"
    and "json_parse (ar_ObjectRaw req) = None \<or>
      (\<exists>raw v. json_parse (ar_ObjectRaw req) = Some (JObject [(''spec'', raw, v)]) \<and> v \<noteq> JNull \<and> (\<forall>ms. v \<noteq> JObject ms))"
  shows "\<exists>err. RootBindingImmutability_Handle req = Errored StatusBadRequest err \<and>
    DomainRefValidation_Handle req = Errored StatusBadRequest err"
proof -
  have "\<exists>err. extractRootBinding (ar_ObjectRaw req) = Inl err \<and> extractDomainRef (ar_ObjectRaw req) = Inl err"
    using assms(2)
  proof
    assume "\<exists>raw v. json_parse (ar_ObjectRaw req) = Some (JObject [(''spec'', raw, v)]) \<and> v \<noteq> JNull \<and> (\<forall>ms. v \<noteq> JObject ms)"
    then obtain raw v where v: "json_parse (ar_ObjectRaw req) = Some (JObject [(''spec'', raw, v)])" "v \<noteq> JNull" "\<forall>ms. v \<noteq> JObject ms"
      by blast
    then have "decode_struct ''rootBinding'' store_raw raw v None = None" "decode_struct ''domainRef'' store_string raw v [] = None"
      by (cases v; auto)+
    with assms(1) v(1) show ?thesis by (simp add: extractRootBinding_def extractDomainRef_def unmarshal_struct_def)
  qed (use assms(1) in \<open>simp add: extractRootBinding_def extractDomainRef_def unmarshal_struct_def\<close>)
  then show ?thesis by (auto simp: RootBindingImmutability_Handle_def DomainRefValidation_Handle_def)
qed

lemma malformed_index_rejected_sample:
  "\<exists>err. RootBindingImmutability_Handle \<lparr>ar_Kind = InfrastructureLineageIndexKind, ar_Operation = OperationUpdate,
     ar_Username = [], ar_ObjectRaw = ''{'', ar_OldObjectRaw = []\<rparr> = Errored StatusBadRequest err"
proof -
  have "json_parse ''{'' = None" by code_simp
  with malformed_index_rejected [of "\<lparr>ar_Kind = InfrastructureLineageIndexKind, ar_Operation = OperationUpdate,
     ar_Username = [], ar_ObjectRaw = ''{'', ar_OldObjectRaw = []\<rparr>"] show ?thesis by auto
qed

end
