(* ===== verification/Startup.thy ===== *)
theory Startup
  imports DsnsReconciler LineageController DescendantReconciler OutcomeReconciler Webhook
begin

text \<open>
  \<^verbatim>\<open>src/cmd/seam-core/main.go\<close>, the \<^verbatim>\<open>SetupWithManager\<close> methods of the four reconcilers
  and \<^verbatim>\<open>src/internal/webhook/server.go\<close>: what the process registers with the
  controller-runtime manager before it starts. The manager is not part of the repository, so its
  operations are a parameter (\<open>runtime\<close>); what the code relies on is \<open>documented_runtime\<close>.
\<close>


section \<open>The manager\<close>

text \<open>The reconciler value handed to the controller builder, with the fields the code sets.\<close>

datatype reconciler =
    LineageReconciler GVK
  | DescendantReconciler GVK
  | OutcomeReconciler GVK
  | DSNSReconciler DSNSReconciler

datatype webhook_handler = RootBindingImmutabilityHandler | AuthorshipGateHandler | DomainRefValidationHandler

record controller =
  ct_Name :: string
  ct_For :: GVK
  ct_Reconciler :: reconciler

record manager =
  mg_Controllers :: "controller list"
  mg_Webhooks :: "(string \<times> webhook_handler) list"
  mg_Healthz :: "string list"
  mg_Readyz :: "string list"

definition new_manager :: manager where
  "new_manager = \<lparr>mg_Controllers = [], mg_Webhooks = [], mg_Healthz = [], mg_Readyz = []\<rparr>"

text \<open>The options main passes, and the command line after \<^verbatim>\<open>flag.Parse\<close> (\<open>None\<close> where a flag is not given).\<close>

record Options =
  opt_MetricsBindAddress :: string
  opt_HealthProbeBindAddress :: string
  opt_LeaderElection :: bool
  opt_LeaderElectionID :: string
  opt_LeaderElectionNamespace :: string
  opt_WebhookPort :: int

record Flags =
  fl_metrics_bind_address :: "string option"
  fl_health_probe_bind_address :: "string option"
  fl_leader_elect :: "bool option"
  fl_webhook_port :: "int option"

text \<open>The operations of the manager that can fail: an error, or nil.\<close>

record runtime =
  rt_NewManager :: "Options \<Rightarrow> goerror option"
  rt_Complete :: "string \<Rightarrow> manager \<Rightarrow> goerror option"
  rt_AddHealthzCheck :: "string \<Rightarrow> manager \<Rightarrow> goerror option"
  rt_AddReadyzCheck :: "string \<Rightarrow> manager \<Rightarrow> goerror option"
  rt_Start :: "manager \<Rightarrow> goerror option"

text \<open>
  What controller-runtime documents: a controller is refused when its name is taken, checks can be
  added before the manager is started.
\<close>

definition documented_runtime :: "runtime \<Rightarrow> bool" where
  "documented_runtime rt \<longleftrightarrow>
     (\<forall>n m. rt_Complete rt n m = None \<longleftrightarrow> n \<notin> ct_Name ` set (mg_Controllers m)) \<and>
     (\<forall>n m. rt_AddHealthzCheck rt n m = None) \<and> (\<forall>n m. rt_AddReadyzCheck rt n m = None)"


section \<open>SetupWithManager\<close>

definition build_controller :: "runtime \<Rightarrow> string \<Rightarrow> GVK \<Rightarrow> reconciler \<Rightarrow> manager \<Rightarrow> goerror + manager" where
  "build_controller rt name g r mgr =
     (case rt_Complete rt name mgr of
        Some err \<Rightarrow> Inl err
      | None \<Rightarrow> Inr (mgr\<lparr>mg_Controllers := mg_Controllers mgr @ [\<lparr>ct_Name = name, ct_For = g, ct_Reconciler = r\<rparr>]\<rparr>))"

definition Lineage_SetupWithManager :: "runtime \<Rightarrow> GVK \<Rightarrow> manager \<Rightarrow> goerror + manager" where
  "Lineage_SetupWithManager rt g mgr = build_controller rt (''lineage-'' @ ToLower (gvk_Kind g)) g (LineageReconciler g) mgr"

definition Descendant_SetupWithManager :: "runtime \<Rightarrow> GVK \<Rightarrow> manager \<Rightarrow> goerror + manager" where
  "Descendant_SetupWithManager rt g mgr = build_controller rt (''descendant-'' @ ToLower (gvk_Kind g)) g (DescendantReconciler g) mgr"

definition Outcome_SetupWithManager :: "runtime \<Rightarrow> GVK \<Rightarrow> manager \<Rightarrow> goerror + manager" where
  "Outcome_SetupWithManager rt g mgr = build_controller rt (''outcome-'' @ ToLower (gvk_Kind g)) g (OutcomeReconciler g) mgr"

definition DSNS_SetupWithManager :: "runtime \<Rightarrow> DSNSReconciler \<Rightarrow> manager \<Rightarrow> goerror + manager" where
  "DSNS_SetupWithManager rt r mgr =
     build_controller rt (''dsns-'' @ ToLower (gvk_Kind (dr_GVK r))) (dr_GVK r) (DSNSReconciler r) mgr"


section \<open>server.go\<close>

text \<open>
  \<^verbatim>\<open>Register\<close> of the webhook server panics on a path that is taken (\<open>None\<close>).
\<close>

definition Register :: "string \<Rightarrow> webhook_handler \<Rightarrow> manager \<Rightarrow> manager option" where
  "Register path h mgr =
     (if path \<in> fst ` set (mg_Webhooks mgr) then None
      else Some (mgr\<lparr>mg_Webhooks := mg_Webhooks mgr @ [(path, h)]\<rparr>))"

definition RegisterImmutability :: "manager \<Rightarrow> manager option" where
  "RegisterImmutability = Register RootBindingWebhookPath RootBindingImmutabilityHandler"

definition RegisterAuthorship :: "manager \<Rightarrow> manager option" where
  "RegisterAuthorship = Register AuthorshipWebhookPath AuthorshipGateHandler"

definition RegisterDomainRef :: "manager \<Rightarrow> manager option" where
  "RegisterDomainRef = Register DomainRefWebhookPath DomainRefValidationHandler"

text \<open>A request that arrives at a path is answered by the handler registered there.\<close>

fun Handle :: "webhook_handler \<Rightarrow> AdmissionRequest \<Rightarrow> Response" where
  "Handle RootBindingImmutabilityHandler req = RootBindingImmutability_Handle req"
| "Handle AuthorshipGateHandler req = AuthorshipGate_Handle req"
| "Handle DomainRefValidationHandler req = DomainRefValidation_Handle req"

definition serve :: "manager \<Rightarrow> string \<Rightarrow> AdmissionRequest \<Rightarrow> Response option" where
  "serve mgr path req = map_option (\<lambda>h. Handle h req) (map_of (mg_Webhooks mgr) path)"

text \<open>A request is admitted when no webhook that is served answers otherwise.\<close>

definition admitted :: "manager \<Rightarrow> AdmissionRequest \<Rightarrow> bool" where
  "admitted mgr req \<longleftrightarrow> (\<forall>path resp. serve mgr path req = Some resp \<longrightarrow> resp = Allowed [])"


section \<open>main.go\<close>

text \<open>\<^verbatim>\<open>os.Getenv\<close>: the empty string for a variable that is not set.\<close>

type_synonym environment = "string \<Rightarrow> string"

definition manager_options :: "environment \<Rightarrow> Flags \<Rightarrow> Options" where
  "manager_options env fl =
     (let metricsDefault = (if env ''METRICS_ADDR'' \<noteq> [] then env ''METRICS_ADDR'' else '':8080'')
      in \<lparr>opt_MetricsBindAddress = (case fl_metrics_bind_address fl of Some a \<Rightarrow> a | None \<Rightarrow> metricsDefault),
          opt_HealthProbeBindAddress = (case fl_health_probe_bind_address fl of Some a \<Rightarrow> a | None \<Rightarrow> '':8081''),
          opt_LeaderElection = (case fl_leader_elect fl of Some b \<Rightarrow> b | None \<Rightarrow> True),
          opt_LeaderElectionID = ''seam-core-leader'', opt_LeaderElectionNamespace = ''seam-system'',
          opt_WebhookPort = (case fl_webhook_port fl of Some p \<Rightarrow> p | None \<Rightarrow> 9443)\<rparr>)"

text \<open>A registration loop: the first failing setup ends the process.\<close>

fun setup_all :: "('r \<Rightarrow> manager \<Rightarrow> goerror + manager) \<Rightarrow> 'r list \<Rightarrow> manager \<Rightarrow> goerror + manager" where
  "setup_all setup [] mgr = Inr mgr"
| "setup_all setup (r # rs) mgr = (case setup r mgr of Inl err \<Rightarrow> Inl err | Inr mgr' \<Rightarrow> setup_all setup rs mgr')"

definition seed_state :: "environment \<Rightarrow> DSNSState" where
  "seed_state env =
     (let dsnsState = SetSinks (Some (NewSinkRegistry [])) NewDSNSState;
          fingerprint = env ''CONDUCTOR_SIGNING_KEY_FINGERPRINT'';
          dsnsState = (if fingerprint \<noteq> []
            then SetStaticRecord (record_of ''authority.conductor'' RecordTypeTXT fingerprint) dsnsState else dsnsState);
          dsnsIP = env ''DSNS_SERVICE_IP'';
          dsnsState = (if dsnsIP \<noteq> [] then SetStaticRecord (record_of ''ns'' RecordTypeA dsnsIP) dsnsState else dsnsState)
      in dsnsState)"

definition dsns_reconcilers :: "environment \<Rightarrow> DSNSReconciler list" where
  "dsns_reconcilers env = map (\<lambda>g. \<lparr>dr_GVK = g, dr_NsGlueFallbackIP = env ''DSNS_SERVICE_IP''\<rparr>) DSNSGVKs"

text \<open>How the process ends: \<^verbatim>\<open>os.Exit(1)\<close> after logging, a panic, or a manager that ran until it was signalled.\<close>

datatype outcome = Exit string goerror | Panic | Served manager DSNSState

definition start_manager :: "runtime \<Rightarrow> DSNSState \<Rightarrow> manager \<Rightarrow> outcome" where
  "start_manager rt dsnsState mgr =
     (case rt_AddHealthzCheck rt ''healthz'' mgr of
        Some err \<Rightarrow> Exit ''unable to set up health check'' err
      | None \<Rightarrow>
          (let mgr = mgr\<lparr>mg_Healthz := mg_Healthz mgr @ [''healthz'']\<rparr>
           in case rt_AddReadyzCheck rt ''readyz'' mgr of
                Some err \<Rightarrow> Exit ''unable to set up ready check'' err
              | None \<Rightarrow>
                  (let mgr = mgr\<lparr>mg_Readyz := mg_Readyz mgr @ [''readyz'']\<rparr>
                   in case rt_Start rt mgr of
                        Some err \<Rightarrow> Exit ''problem running manager'' err
                      | None \<Rightarrow> Served mgr dsnsState)))"

definition seam_core_main :: "runtime \<Rightarrow> environment \<Rightarrow> Flags \<Rightarrow> outcome" where
  "seam_core_main rt env fl =
     (case rt_NewManager rt (manager_options env fl) of
        Some err \<Rightarrow> Exit ''unable to start manager'' err
      | None \<Rightarrow>
          (case setup_all (Lineage_SetupWithManager rt) RootDeclarationGVKs new_manager of
             Inl err \<Rightarrow> Exit ''unable to create LineageReconciler'' err
           | Inr mgr \<Rightarrow>
               (case setup_all (Descendant_SetupWithManager rt) DerivedObjectGVKs mgr of
                  Inl err \<Rightarrow> Exit ''unable to create DescendantReconciler'' err
                | Inr mgr \<Rightarrow>
                    (case setup_all (DSNS_SetupWithManager rt) (dsns_reconcilers env) mgr of
                       Inl err \<Rightarrow> Exit ''unable to create DSNSReconciler'' err
                     | Inr mgr \<Rightarrow>
                         (case RegisterImmutability mgr of
                            None \<Rightarrow> Panic
                          | Some mgr \<Rightarrow>
                              (case RegisterAuthorship mgr of
                                 None \<Rightarrow> Panic
                               | Some mgr \<Rightarrow> start_manager rt (seed_state env) mgr))))))"


section \<open>Registration\<close>

lemma setup_all_names:
  assumes "documented_runtime rt"
    and "\<And>r mgr. setup r mgr = build_controller rt (name r) (for r) (rec r) mgr"
    and "distinct (map ct_Name (mg_Controllers mgr) @ map name rs)"
  shows "setup_all setup rs mgr = Inr (mgr\<lparr>mg_Controllers := mg_Controllers mgr @
    map (\<lambda>r. \<lparr>ct_Name = name r, ct_For = for r, ct_Reconciler = rec r\<rparr>) rs\<rparr>)"
  using assms(3)
proof (induction rs arbitrary: mgr)
  case (Cons r rs)
  then have "name r \<notin> ct_Name ` set (mg_Controllers mgr)" by auto
  then have "rt_Complete rt (name r) mgr = None" using assms(1) by (simp add: documented_runtime_def)
  then have "setup r mgr = Inr (mgr\<lparr>mg_Controllers := mg_Controllers mgr @ [\<lparr>ct_Name = name r, ct_For = for r, ct_Reconciler = rec r\<rparr>]\<rparr>)"
    by (simp add: assms(2) build_controller_def)
  with Cons show ?case by simp
qed simp

text \<open>The controllers main registers, in order.\<close>

definition controllers_of_main :: "environment \<Rightarrow> controller list" where
  "controllers_of_main env =
     map (\<lambda>g. \<lparr>ct_Name = ''lineage-'' @ ToLower (gvk_Kind g), ct_For = g, ct_Reconciler = LineageReconciler g\<rparr>) RootDeclarationGVKs @
     map (\<lambda>g. \<lparr>ct_Name = ''descendant-'' @ ToLower (gvk_Kind g), ct_For = g, ct_Reconciler = DescendantReconciler g\<rparr>) DerivedObjectGVKs @
     map (\<lambda>r. \<lparr>ct_Name = ''dsns-'' @ ToLower (gvk_Kind (dr_GVK r)), ct_For = dr_GVK r, ct_Reconciler = DSNSReconciler r\<rparr>) (dsns_reconcilers env)"

definition controller_names :: "string list" where
  "controller_names =
     map (\<lambda>g. ''lineage-'' @ ToLower (gvk_Kind g)) RootDeclarationGVKs @
     map (\<lambda>g. ''descendant-'' @ ToLower (gvk_Kind g)) DerivedObjectGVKs @
     map (\<lambda>g. ''dsns-'' @ ToLower (gvk_Kind g)) DSNSGVKs"

lemma controller_names_distinct: "distinct controller_names"
  by (simp add: controller_names_def RootDeclarationGVKs_def DerivedObjectGVKs_def DSNSGVKs_def mk_gvk_def ToLower_def
      lower_char_upper lower_char_def)

lemma names_of_main: "map ct_Name (controllers_of_main env) = controller_names"
  by (simp add: controllers_of_main_def controller_names_def dsns_reconcilers_def)

definition manager_of_main :: "environment \<Rightarrow> manager" where
  "manager_of_main env = \<lparr>mg_Controllers = controllers_of_main env,
     mg_Webhooks = [(RootBindingWebhookPath, RootBindingImmutabilityHandler), (AuthorshipWebhookPath, AuthorshipGateHandler)],
     mg_Healthz = [''healthz''], mg_Readyz = [''readyz'']\<rparr>"

lemma main_runs:
  assumes "documented_runtime rt" and "rt_NewManager rt (manager_options env fl) = None"
  shows "seam_core_main rt env fl =
    (case rt_Start rt (manager_of_main env) of
       Some err \<Rightarrow> Exit ''problem running manager'' err
     | None \<Rightarrow> Served (manager_of_main env) (seed_state env))"
proof -
  have dist: "distinct (map ct_Name (controllers_of_main env))"
    by (simp only: names_of_main controller_names_distinct)
  let ?l = "map (\<lambda>g. \<lparr>ct_Name = ''lineage-'' @ ToLower (gvk_Kind g), ct_For = g, ct_Reconciler = LineageReconciler g\<rparr>) RootDeclarationGVKs"
  let ?d = "map (\<lambda>g. \<lparr>ct_Name = ''descendant-'' @ ToLower (gvk_Kind g), ct_For = g, ct_Reconciler = DescendantReconciler g\<rparr>) DerivedObjectGVKs"
  have l: "setup_all (Lineage_SetupWithManager rt) RootDeclarationGVKs new_manager = Inr (new_manager\<lparr>mg_Controllers := ?l\<rparr>)"
    by (subst setup_all_names [OF assms(1) Lineage_SetupWithManager_def])
      (use dist in \<open>simp_all add: new_manager_def controllers_of_main_def comp_def\<close>)
  have "distinct (map ct_Name ?l @ map (\<lambda>g. ''descendant-'' @ ToLower (gvk_Kind g)) DerivedObjectGVKs)"
    using dist unfolding controllers_of_main_def append_assoc [symmetric] map_append
    by (simp only: distinct_append map_map comp_def controller.select_convs)
  then have d: "setup_all (Descendant_SetupWithManager rt) DerivedObjectGVKs (new_manager\<lparr>mg_Controllers := ?l\<rparr>) =
      Inr (new_manager\<lparr>mg_Controllers := ?l @ ?d\<rparr>)"
    by (subst setup_all_names [OF assms(1) Descendant_SetupWithManager_def]) (simp_all add: new_manager_def)
  have n: "setup_all (DSNS_SetupWithManager rt) (dsns_reconcilers env) (new_manager\<lparr>mg_Controllers := ?l @ ?d\<rparr>) =
      Inr (new_manager\<lparr>mg_Controllers := controllers_of_main env\<rparr>)"
    by (subst setup_all_names [OF assms(1) DSNS_SetupWithManager_def])
      (use dist in \<open>simp_all add: new_manager_def controllers_of_main_def comp_def\<close>)
  show ?thesis
    unfolding seam_core_main_def assms(2) option.case l sum.case d n
    using assms(1) by (simp add: RegisterImmutability_def RegisterAuthorship_def Register_def new_manager_def start_manager_def
        manager_of_main_def documented_runtime_def Let_def split: option.split)
qed


lemma main_served:
  assumes "documented_runtime rt" and "seam_core_main rt env fl = Served mgr dsns"
  shows "mgr = manager_of_main env \<and> dsns = seed_state env"
proof (cases "rt_NewManager rt (manager_options env fl)")
  case None
  then show ?thesis using main_runs [OF assms(1) None] assms(2) by (auto split: option.splits)
qed (use assms(2) in \<open>simp add: seam_core_main_def\<close>)


section \<open>Properties of the startup\<close>

text \<open>C39 (startup_registers): with a manager that behaves as documented the process never exits during setup: the names
  of all controllers differ, so each of the 21 root kinds gets its lineage reconciler, each of the
  two derived kinds its descendant reconciler and each of the five DSNS kinds its DSNS reconciler,
  over one shared seeded state, and the two webhooks are served.\<close>

theorem startup_registers:
  assumes "documented_runtime rt" and "rt_NewManager rt (manager_options env fl) = None"
    and "\<And>mgr. rt_Start rt mgr = None"
  shows "seam_core_main rt env fl = Served (manager_of_main env) (seed_state env) \<and>
    distinct (map ct_Name (mg_Controllers (manager_of_main env))) \<and>
    (\<forall>g. LineageReconciler g \<in> ct_Reconciler ` set (mg_Controllers (manager_of_main env)) \<longleftrightarrow> g \<in> set RootDeclarationGVKs) \<and>
    (\<forall>g. DescendantReconciler g \<in> ct_Reconciler ` set (mg_Controllers (manager_of_main env)) \<longleftrightarrow> g \<in> set DerivedObjectGVKs) \<and>
    (\<forall>r. DSNSReconciler r \<in> ct_Reconciler ` set (mg_Controllers (manager_of_main env)) \<longleftrightarrow>
       dr_GVK r \<in> set DSNSGVKs \<and> dr_NsGlueFallbackIP r = env ''DSNS_SERVICE_IP'')"
proof -
  have "DSNSReconciler r \<in> ct_Reconciler ` set (controllers_of_main env) \<longleftrightarrow>
      dr_GVK r \<in> set DSNSGVKs \<and> dr_NsGlueFallbackIP r = env ''DSNS_SERVICE_IP''" for r
    by (cases r) (auto simp: controllers_of_main_def dsns_reconcilers_def image_Un image_image)
  moreover have "distinct (map ct_Name (controllers_of_main env))"
    by (simp only: names_of_main controller_names_distinct)
  moreover have "seam_core_main rt env fl = Served (manager_of_main env) (seed_state env)"
    using main_runs [OF assms(1,2)] assms(3) by simp
  ultimately show ?thesis
    by (auto simp: manager_of_main_def controllers_of_main_def image_Un image_image)
qed

definition sample_runtime :: runtime where
  "sample_runtime = \<lparr>rt_NewManager = (\<lambda>_. None),
     rt_Complete = (\<lambda>n m. if n \<in> ct_Name ` set (mg_Controllers m) then Some (ErrorString ''name is taken'') else None),
     rt_AddHealthzCheck = (\<lambda>_ _. None), rt_AddReadyzCheck = (\<lambda>_ _. None), rt_Start = (\<lambda>_. None)\<rparr>"

definition no_flags :: Flags where
  "no_flags = \<lparr>fl_metrics_bind_address = None, fl_health_probe_bind_address = None, fl_leader_elect = None, fl_webhook_port = None\<rparr>"

lemma sample_runtime_documented: "documented_runtime sample_runtime"
  by (simp add: documented_runtime_def sample_runtime_def)

theorem startup_registers_witness:
  "seam_core_main sample_runtime (\<lambda>_. []) no_flags = Served (manager_of_main (\<lambda>_. [])) (seed_state (\<lambda>_. []))"
  using startup_registers [OF sample_runtime_documented, of "\<lambda>_. []" no_flags] by (simp add: sample_runtime_def)

text \<open>The shared zone starts with the conductor's fingerprint and the nameserver's address exactly
  when the environment gives them, and nothing else; no record has an owner yet.\<close>

lemma startup_seeds:
  "zone_lookup (ds_zone (seed_state env)) =
     (\<lambda>k. if k = ''TXT:authority.conductor'' \<and> env ''CONDUCTOR_SIGNING_KEY_FINGERPRINT'' \<noteq> []
            then Some \<lparr>r_Name = ''authority.conductor'', r_Type = RecordTypeTXT, r_TTL = 300,
              r_Value = env ''CONDUCTOR_SIGNING_KEY_FINGERPRINT''\<rparr>
          else if k = ''A:ns'' \<and> env ''DSNS_SERVICE_IP'' \<noteq> []
            then Some \<lparr>r_Name = ''ns'', r_Type = RecordTypeA, r_TTL = 300, r_Value = env ''DSNS_SERVICE_IP''\<rparr>
          else None) \<and>
   zone_ok (ds_zone (seed_state env)) \<and> ds_owned (seed_state env) = []"
proof -
  have keys: "recordKey RecordTypeTXT ''authority.conductor'' = ''TXT:authority.conductor''" "recordKey RecordTypeA ''ns'' = ''A:ns''"
    by (simp_all add: recordKey_def ToLower_def lower_char_def)
  show ?thesis
    by (simp add: seed_state_def Let_def SetSinks_def SetStaticRecord_def NewDSNSState_def zone.lookup_add zone_ok_Add
        record_of_def keys with_ttl_def fun_eq_iff)
qed

text \<open>C40 (startup_gaps): the outcome reconciler and the domainRef webhook are never registered: no outcome is ever
  recorded by this process, requests to the domainRef path are not served, and an index with an
  unknown domain reference that the controller's account creates is admitted.\<close>

theorem startup_gaps:
  assumes "documented_runtime rt" and "seam_core_main rt env fl = Served mgr dsns"
  shows "(\<forall>g. OutcomeReconciler g \<notin> ct_Reconciler ` set (mg_Controllers mgr)) \<and>
    serve mgr DomainRefWebhookPath req = None \<and>
    (let bad = \<lparr>ar_Kind = InfrastructureLineageIndexKind, ar_Operation = OperationCreate, ar_Username = LineageControllerIdentity,
       ar_ObjectRaw = render (index_doc sample_binding ''core''), ar_OldObjectRaw = []\<rparr>
     in admitted mgr bad \<and> (\<exists>reason. DomainRefValidation_Handle bad = Denied reason))"
proof -
  let ?bad = "\<lparr>ar_Kind = InfrastructureLineageIndexKind, ar_Operation = OperationCreate, ar_Username = LineageControllerIdentity,
      ar_ObjectRaw = render (index_doc sample_binding ''core''), ar_OldObjectRaw = []\<rparr>"
  have valid: "valid_utf8 ''core''" by simp
  obtain ms where "json_of (binding_doc sample_binding) = JObject ms" using binding_doc_members [of sample_binding] by blast
  then have "extractRootBinding (ar_ObjectRaw ?bad) = Inr (Some (render (binding_doc sample_binding)))"
    using extractRootBinding_carried [OF index_doc_carries(1) [OF sample_utf8(2) valid]] by simp
  then have imm: "RootBindingImmutability_Handle ?bad = Allowed []"
    by (simp add: RootBindingImmutability_Handle_def extractRootBinding_def EvaluateRootBindingImmutability_def)
  have auth: "AuthorshipGate_Handle ?bad = Allowed []"
    by (simp add: AuthorshipGate_Handle_def EvaluateAuthorshipGate_def)
  have "extractDomainRef (ar_ObjectRaw ?bad) = Inr ''core''"
    using extractDomainRef_carried [OF index_doc_carries(2) [OF sample_utf8(2) valid]] by simp
  then have "\<exists>reason. DomainRefValidation_Handle ?bad = Denied reason"
    by (simp add: DomainRefValidation_Handle_def EvaluateDomainRefValidation_def)
  moreover have mgr: "mgr = manager_of_main env" using main_served [OF assms] by blast
  moreover have "admitted (manager_of_main env) ?bad"
    using imm auth by (auto simp: admitted_def serve_def manager_of_main_def split: if_splits)
  ultimately show ?thesis
    by (auto simp: Let_def serve_def manager_of_main_def controllers_of_main_def)
qed

theorem startup_gaps_witness:
  "\<exists>mgr dsns. seam_core_main sample_runtime (\<lambda>_. []) no_flags = Served mgr dsns \<and>
     (\<forall>g. OutcomeReconciler g \<notin> ct_Reconciler ` set (mg_Controllers mgr))"
proof -
  have "seam_core_main sample_runtime (\<lambda>_. []) no_flags = Served (manager_of_main (\<lambda>_. [])) (seed_state (\<lambda>_. []))"
    using main_runs [OF sample_runtime_documented, of "\<lambda>_. []" no_flags] by (simp add: sample_runtime_def)
  from startup_gaps [OF sample_runtime_documented this] this show ?thesis by blast
qed

end
