(* ===== verification/ConditionPoller.thy ===== *)
theory ConditionPoller
  imports Kube
begin

text \<open>
  \<^verbatim>\<open>src/pkg/e2e/poller.go\<close>: the condition poller of the test suites. The cluster, the clock,
  the ticker and the context are outside the repository: \<open>poll_env\<close> holds what the loop asks
  them. The loop has no bound of its own, so it is a partial function, whose value \<open>None\<close> would
  be a poll that never returns; \<open>Poll_returns\<close> shows that a ticker that behaves as documented
  rules that out.
\<close>

record GVR =
  gvr_Group :: string
  gvr_Version :: string
  gvr_Resource :: string

record ConditionPoller =
  cp_ClusterName :: string
  cp_gvr :: GVR
  cp_namespace :: string
  cp_name :: string
  cp_conditionType :: string
  cp_wantStatus :: string
  cp_timeout :: int
  cp_interval :: int

abbreviation (input) DefaultPollTimeout :: int where
  "DefaultPollTimeout \<equiv> 300000000000"

abbreviation (input) DefaultPollInterval :: int where
  "DefaultPollInterval \<equiv> 5000000000"

text \<open>The error of the constructor names the type and the known types.\<close>

datatype poller_error = UnknownConditionType string "string list"

definition NewConditionPoller ::
  "string \<Rightarrow> GVR \<Rightarrow> string \<Rightarrow> string \<Rightarrow> string \<Rightarrow> string \<Rightarrow> int \<Rightarrow> int \<Rightarrow> poller_error + ConditionPoller" where
  "NewConditionPoller client gvr ns name conditionType wantStatus timeout interval =
     (if ValidateCondition conditionType [] \<noteq> None \<and> conditionType \<notin> set KnownConditionTypes
      then Inl (UnknownConditionType conditionType KnownConditionTypes)
      else Inr \<lparr>cp_ClusterName = client, cp_gvr = gvr, cp_namespace = ns, cp_name = name,
        cp_conditionType = conditionType, cp_wantStatus = wantStatus,
        cp_timeout = (if timeout \<le> 0 then DefaultPollTimeout else timeout),
        cp_interval = (if interval \<le> 0 then DefaultPollInterval else interval)\<rparr>)"


section \<open>Reading the conditions\<close>

text \<open>The condition objects in order, and the first type that is a non-empty string.\<close>

fun extract_loop :: "elem list \<Rightarrow> (string, gval) gomap list \<Rightarrow> string \<Rightarrow> (string, gval) gomap list \<times> string" where
  "extract_loop [] result first = (result, first)"
| "extract_loop (EOther _ # es) result first = extract_loop es result first"
| "extract_loop (EMap c # es) result first =
     extract_loop es (result @ [c]) (if first = [] then cond_str c ''type'' else first)"

definition extractConditions :: "uobj \<Rightarrow> (string, gval) gomap list \<times> string" where
  "extractConditions obj = extract_loop (u_Conditions obj) [] []"

fun statusFor :: "(string, gval) gomap list \<Rightarrow> string \<Rightarrow> string" where
  "statusFor [] conditionType = []"
| "statusFor (c # conds) conditionType =
     (if cond_str c ''type'' = conditionType then cond_str c ''status'' else statusFor conds conditionType)"

definition format_condition :: "(string, gval) gomap \<Rightarrow> string" where
  "format_condition c = cond_str c ''type'' @ ''='' @ cond_str c ''status'' @ ''('' @ cond_str c ''reason'' @ '')''"

definition formatConditions :: "(string, gval) gomap list \<Rightarrow> string" where
  "formatConditions conds = (if length conds = 0 then ''<none>'' else Join (map format_condition conds) '', '')"


section \<open>The loop\<close>

text \<open>
  The clock; the GET of the object, an error or the object; and the wait of the \<^verbatim>\<open>select\<close>: the
  error of a cancelled context, or \<open>None\<close> for a tick.
\<close>

record 'w poll_env =
  pe_Now :: "'w \<Rightarrow> int"
  pe_Get :: "GVR \<Rightarrow> string \<Rightarrow> string \<Rightarrow> 'w \<Rightarrow> (goerror + uobj) \<times> 'w"
  pe_Wait :: "'w \<Rightarrow> goerror option \<times> 'w"

text \<open>What the loop remembers for the message of a timeout: nothing yet, an error, or conditions.\<close>

datatype observation = NothingObserved | GetError goerror | Observed string

datatype poll_result = Reached | DidNotReach observation | Cancelled goerror

definition poll_satisfied :: "ConditionPoller \<Rightarrow> uobj \<Rightarrow> bool" where
  "poll_satisfied p obj =
     (case extractConditions obj of (conds, observed) \<Rightarrow>
        if observed = cp_conditionType p \<and> cp_wantStatus p = statusFor conds (cp_conditionType p) then True
        else statusFor conds (cp_conditionType p) = cp_wantStatus p)"

definition poll_observation :: "goerror + uobj \<Rightarrow> observation" where
  "poll_observation r =
     (case r of Inl err \<Rightarrow> GetError err | Inr obj \<Rightarrow> Observed (formatConditions (fst (extractConditions obj))))"

definition poll_hit :: "ConditionPoller \<Rightarrow> goerror + uobj \<Rightarrow> bool" where
  "poll_hit p r = (case r of Inl _ \<Rightarrow> False | Inr obj \<Rightarrow> poll_satisfied p obj)"

partial_function (option) poll_loop ::
  "'w poll_env \<Rightarrow> ConditionPoller \<Rightarrow> int \<Rightarrow> observation \<Rightarrow> 'w \<Rightarrow> (poll_result \<times> 'w) option" where
  "poll_loop env p deadline lastConditions w =
     (if deadline < pe_Now env w then Some (DidNotReach lastConditions, w)
      else case pe_Get env (cp_gvr p) (cp_namespace p) (cp_name p) w of (r, w1) \<Rightarrow>
        (if poll_hit p r then Some (Reached, w1)
         else case pe_Wait env w1 of (done, w2) \<Rightarrow>
           (case done of
              Some err \<Rightarrow> Some (Cancelled err, w2)
            | None \<Rightarrow> poll_loop env p deadline (poll_observation r) w2)))"

definition Poll :: "'w poll_env \<Rightarrow> ConditionPoller \<Rightarrow> 'w \<Rightarrow> (poll_result \<times> 'w) option" where
  "Poll env p w = poll_loop env p (pe_Now env w + cp_timeout p) NothingObserved w"


section \<open>What the ticker promises\<close>

text \<open>
  \<open>ticks\<close> counts the ticks received. The ticker is created at \<open>start\<close> and delivers its \<open>k\<close>-th tick
  not before \<open>k\<close> intervals have passed; a GET or a cancelled wait delivers none.
\<close>

definition ticking :: "'w poll_env \<Rightarrow> int \<Rightarrow> int \<Rightarrow> ('w \<Rightarrow> nat) \<Rightarrow> bool" where
  "ticking env interval start ticks \<longleftrightarrow>
     (\<forall>w. start + interval * int (ticks w) \<le> pe_Now env w) \<and>
     (\<forall>g ns n w. ticks (snd (pe_Get env g ns n w)) = ticks w) \<and>
     (\<forall>w. ticks (snd (pe_Wait env w)) = (if fst (pe_Wait env w) = None then Suc (ticks w) else ticks w))"

lemma poll_satisfied_iff:
  "poll_satisfied p obj \<longleftrightarrow> statusFor (fst (extractConditions obj)) (cp_conditionType p) = cp_wantStatus p"
  by (auto simp: poll_satisfied_def split: prod.split)

text \<open>The condition the loop looks at: the first object of that type among the conditions.\<close>

lemma extract_loop_eq:
  "fst (extract_loop es result first) = result @ concat (map (\<lambda>e. case e of EMap c \<Rightarrow> [c] | EOther _ \<Rightarrow> []) es)"
  by (induction es result first rule: extract_loop.induct) auto

text \<open>Every tick brings the deadline nearer by one interval.\<close>

lemma poll_loop_returns:
  assumes "ticking env interval start ticks" and "0 < interval"
  shows "deadline < start + interval * (int (ticks w) + int n) \<Longrightarrow>
    \<exists>r w'. poll_loop env p deadline lastConditions w = Some (r, w') \<and> ticks w' \<le> ticks w + n"
proof (induction n arbitrary: w lastConditions)
  case 0
  then have "deadline < pe_Now env w" using assms(1) by (force simp: ticking_def intro: less_le_trans)
  then show ?case by (subst poll_loop.simps) simp
next
  case (Suc n)
  obtain r w1 where get: "pe_Get env (cp_gvr p) (cp_namespace p) (cp_name p) w = (r, w1)" by (cases "pe_Get env (cp_gvr p) (cp_namespace p) (cp_name p) w")
  obtain d w2 where wait: "pe_Wait env w1 = (d, w2)" by (cases "pe_Wait env w1")
  have t1: "ticks w1 = ticks w" using assms(1) get unfolding ticking_def by (metis snd_conv)
  have t2: "ticks w2 = (if d = None then Suc (ticks w) else ticks w)"
    using assms(1) wait t1 unfolding ticking_def by (metis fst_conv snd_conv)
  show ?case
  proof (cases "deadline < pe_Now env w \<or> poll_hit p r \<or> d \<noteq> None")
    case True
    with get wait t1 t2 show ?thesis by (subst poll_loop.simps) auto
  next
    case False
    with t2 have "ticks w2 = Suc (ticks w)" by simp
    with Suc.prems have "deadline < start + interval * (int (ticks w2) + int n)" by (simp add: algebra_simps)
    from Suc.IH [OF this, of "poll_observation r"] obtain r' w' where
      "poll_loop env p deadline (poll_observation r) w2 = Some (r', w')" "ticks w' \<le> ticks w2 + n" by blast
    with False get wait \<open>ticks w2 = Suc (ticks w)\<close> show ?thesis by (subst poll_loop.simps) auto
  qed
qed

text \<open>What a result of the loop means.\<close>

definition poll_meaning :: "'w poll_env \<Rightarrow> ConditionPoller \<Rightarrow> int \<Rightarrow> poll_result \<Rightarrow> 'w \<Rightarrow> bool" where
  "poll_meaning env p deadline r w' \<longleftrightarrow>
     (case r of
        Reached \<Rightarrow> \<exists>w obj. pe_Get env (cp_gvr p) (cp_namespace p) (cp_name p) w = (Inr obj, w') \<and>
          statusFor (fst (extractConditions obj)) (cp_conditionType p) = cp_wantStatus p
      | DidNotReach _ \<Rightarrow> deadline < pe_Now env w'
      | Cancelled err \<Rightarrow> \<exists>w. pe_Wait env w = (Some err, w'))"

lemma poll_loop_meaning:
  assumes "poll_loop env p deadline lastConditions w = Some rw"
  shows "poll_meaning env p deadline (fst rw) (snd rw)"
proof (rule poll_loop.raw_induct [where P = "\<lambda>env p deadline last w rw. poll_meaning env p deadline (fst rw) (snd rw)", OF _ assms])
  fix f :: "'a poll_env \<Rightarrow> ConditionPoller \<Rightarrow> int \<Rightarrow> observation \<Rightarrow> 'a \<Rightarrow> (poll_result \<times> 'a) option"
  fix env :: "'a poll_env" and p deadline lastConditions w rw
  assume IH: "\<And>env p deadline lastConditions w rw. f env p deadline lastConditions w = Some rw \<Longrightarrow>
      poll_meaning env p deadline (fst rw) (snd rw)"
    and eq: "(if deadline < pe_Now env w then Some (DidNotReach lastConditions, w)
      else case pe_Get env (cp_gvr p) (cp_namespace p) (cp_name p) w of (r, w1) \<Rightarrow>
        (if poll_hit p r then Some (Reached, w1)
         else case pe_Wait env w1 of (done, w2) \<Rightarrow>
           (case done of
              Some err \<Rightarrow> Some (Cancelled err, w2)
            | None \<Rightarrow> f env p deadline (poll_observation r) w2))) = Some rw"
  then show "poll_meaning env p deadline (fst rw) (snd rw)"
    by (auto simp: poll_meaning_def poll_hit_def poll_satisfied_iff split: if_splits prod.splits sum.splits option.splits) blast
qed


section \<open>Properties of the poller\<close>

text \<open>C36 (Poll_returns): a poll always returns: with a ticker that behaves as documented, whatever the server and
  the context do, after at most one tick more than fit in the timeout.\<close>

theorem Poll_returns:
  assumes "ticking env (cp_interval p) (pe_Now env w) ticks" and "0 < cp_interval p" and "0 \<le> cp_timeout p" and "ticks w = 0"
  shows "\<exists>r w'. Poll env p w = Some (r, w') \<and> int (ticks w') \<le> cp_timeout p div cp_interval p + 1"
proof -
  let ?n = "nat (cp_timeout p div cp_interval p + 1)"
  have n: "int ?n = cp_timeout p div cp_interval p + 1"
    using assms(2,3) by (simp add: pos_imp_zdiv_nonneg_iff)
  have "cp_timeout p < cp_interval p * (cp_timeout p div cp_interval p + 1)"
    using assms(2) by (simp add: algebra_simps) (metis add.commute add_less_cancel_left mult_div_mod_eq pos_mod_bound)
  then have "pe_Now env w + cp_timeout p < pe_Now env w + cp_interval p * (int (ticks w) + int ?n)"
    by (simp only: n assms(4)) simp
  from poll_loop_returns [OF assms(1,2) this, of p NothingObserved] obtain r w'
    where "Poll env p w = Some (r, w')" "ticks w' \<le> ?n" by (auto simp: Poll_def assms(4))
  moreover from this(2) n have "int (ticks w') \<le> cp_timeout p div cp_interval p + 1" by linarith
  ultimately show ?thesis by blast
qed

text \<open>A server that never knows the object, with a clock that advances by the interval at each tick.\<close>

definition idle_env :: "int \<Rightarrow> nat poll_env" where
  "idle_env interval = \<lparr>pe_Now = (\<lambda>w. interval * int w), pe_Get = (\<lambda>_ _ _ w. (Inl (ApiError NotFound), w)),
     pe_Wait = (\<lambda>w. (None, Suc w))\<rparr>"

definition sample_poller :: ConditionPoller where
  "sample_poller = \<lparr>cp_ClusterName = ''ccs-mgmt'', cp_gvr = \<lparr>gvr_Group = ''g'', gvr_Version = ''v1'', gvr_Resource = ''rs''\<rparr>,
     cp_namespace = ''seam-system'', cp_name = ''x'', cp_conditionType = ConditionTypeReady, cp_wantStatus = ''True'',
     cp_timeout = 12, cp_interval = 5\<rparr>"

lemma idle_ticking: "ticking (idle_env 5) 5 0 id"
  by (simp add: ticking_def idle_env_def)

theorem Poll_returns_witness:
  "\<exists>r w'. Poll (idle_env 5) sample_poller 0 = Some (r, w') \<and> int w' \<le> 3"
proof -
  have "ticking (idle_env 5) (cp_interval sample_poller) (pe_Now (idle_env 5) 0) id"
    using idle_ticking by (simp add: sample_poller_def idle_env_def)
  from Poll_returns [OF this] show ?thesis by (simp add: sample_poller_def)
qed

text \<open>What a poll returns is true: nil only after a GET whose first condition of the wanted type had
  the wanted status, a timeout only after the deadline, a cancellation only when the context was
  done; and a status that is there at the first GET is reported at once.\<close>

lemma Poll_answers:
  assumes "Poll env p w = Some (r, w')"
  shows "poll_meaning env p (pe_Now env w + cp_timeout p) r w' \<and>
    (0 \<le> cp_timeout p \<and> (\<exists>obj w1. pe_Get env (cp_gvr p) (cp_namespace p) (cp_name p) w = (Inr obj, w1) \<and>
       statusFor (fst (extractConditions obj)) (cp_conditionType p) = cp_wantStatus p) \<longrightarrow> r = Reached)"
proof
  show "poll_meaning env p (pe_Now env w + cp_timeout p) r w'"
    using poll_loop_meaning [of env p _ NothingObserved w "(r, w')"] assms by (simp add: Poll_def)
  show "0 \<le> cp_timeout p \<and> (\<exists>obj w1. pe_Get env (cp_gvr p) (cp_namespace p) (cp_name p) w = (Inr obj, w1) \<and>
       statusFor (fst (extractConditions obj)) (cp_conditionType p) = cp_wantStatus p) \<longrightarrow> r = Reached"
    using assms unfolding Poll_def by (subst (asm) poll_loop.simps) (auto simp: poll_hit_def poll_satisfied_iff)
qed

lemma Poll_answers_sample:
  "\<exists>r w'. Poll (idle_env 5) sample_poller 0 = Some (r, w') \<and> poll_meaning (idle_env 5) sample_poller 12 r w'"
proof -
  have "Poll (idle_env 5) sample_poller 0 = Some (DidNotReach (GetError (ApiError NotFound)), 3)"
    by (simp add: Poll_def poll_loop.simps idle_env_def sample_poller_def poll_hit_def poll_observation_def eval_nat_numeral)
  from Poll_answers [OF this] this show ?thesis by (simp add: idle_env_def sample_poller_def)
qed

text \<open>A poller is constructed exactly for the types of the condition vocabulary, with a
  positive timeout and interval whatever the arguments, so that every constructed poller returns.\<close>

lemma NewConditionPoller_accepts:
  "if t \<in> set KnownConditionTypes
   then \<exists>p. NewConditionPoller client gvr ns name t want timeout interval = Inr p \<and> cp_conditionType p = t \<and>
     0 < cp_timeout p \<and> 0 < cp_interval p \<and> (0 < timeout \<longrightarrow> cp_timeout p = timeout) \<and> (0 < interval \<longrightarrow> cp_interval p = interval)
   else NewConditionPoller client gvr ns name t want timeout interval = Inl (UnknownConditionType t KnownConditionTypes)"
  by (auto simp: NewConditionPoller_def ValidateCondition_def)

lemma NewConditionPoller_accepts_sample:
  "NewConditionPoller ''c'' gvr ns name ''NoSuchType'' want 0 0 = Inl (UnknownConditionType ''NoSuchType'' KnownConditionTypes)"
proof -
  have "''NoSuchType'' \<notin> set KnownConditionTypes" unfolding set_KnownConditionTypes by (simp add: vocabulary_defs)
  with NewConditionPoller_accepts [of "''NoSuchType''"] show ?thesis by simp
qed

end
