(* ===== verification/GoStruct.thy ===== *)
theory GoStruct
  imports GoJson
begin

text \<open>
  \<^verbatim>\<open>encoding/json\<close> on structs with several fields, as far as the API types and the registry client
  use it: the decoders of the field types, the \<^verbatim>\<open>omitempty\<close> option of the encoder, and the step
  lemmas with which the round trip of a struct is proved field by field.
\<close>


section \<open>Decoding\<close>

text \<open>
  \<^verbatim>\<open>json.Unmarshal\<close> into structs with several fields: the exact name first, then the name
  without regard to case; \<open>None\<close> is a type error. An integer field takes an integer literal in
  the range of 64 bits.
\<close>

definition find_field :: "(string \<times> 'f) list \<Rightarrow> string \<Rightarrow> 'f option" where
  "find_field fs k =
     (case map_of fs k of
        Some f \<Rightarrow> Some f
      | None \<Rightarrow> (case filter (\<lambda>(field, _). field_match field k) fs of [] \<Rightarrow> None | (_, f) # _ \<Rightarrow> Some f))"

fun decode_fields :: "(string \<times> (json \<Rightarrow> 'a \<Rightarrow> 'a option)) list \<Rightarrow> (string \<times> string \<times> json) list \<Rightarrow> 'a \<Rightarrow> 'a option" where
  "decode_fields fs [] x = Some x"
| "decode_fields fs ((k, raw, v) # ms) x =
     (case find_field fs k of
        None \<Rightarrow> decode_fields fs ms x
      | Some store \<Rightarrow> (case store v x of None \<Rightarrow> None | Some y \<Rightarrow> decode_fields fs ms y))"

definition decode_object :: "(string \<times> (json \<Rightarrow> 'a \<Rightarrow> 'a option)) list \<Rightarrow> json \<Rightarrow> 'a \<Rightarrow> 'a option" where
  "decode_object fs v x = (case v of JObject ms \<Rightarrow> decode_fields fs ms x | JNull \<Rightarrow> Some x | _ \<Rightarrow> None)"

definition parse_int64 :: "string \<Rightarrow> int option" where
  "parse_int64 s =
     (let neg = (case s of c # _ \<Rightarrow> c = CHR ''-'' | [] \<Rightarrow> False); ds = (if neg then tl s else s);
          n = (if neg then - digits_value ds else digits_value ds)
      in if list_all is_digit ds \<and> ds \<noteq> [] \<and> - (2 ^ 63) \<le> n \<and> n < 2 ^ 63 then Some n else None)"

definition decode_int :: "json \<Rightarrow> int \<Rightarrow> int option" where
  "decode_int v x = (case v of JNumber s \<Rightarrow> parse_int64 s | JNull \<Rightarrow> Some x | _ \<Rightarrow> None)"

definition decode_string :: "json \<Rightarrow> string \<Rightarrow> string option" where
  "decode_string v x = (case v of JString s \<Rightarrow> Some s | JNull \<Rightarrow> Some x | _ \<Rightarrow> None)"

text \<open>A slice: elements are stored over the old ones, then over zero values; null gives a nil slice.\<close>

fun decode_elems :: "(json \<Rightarrow> 'a \<Rightarrow> 'a option) \<Rightarrow> 'a \<Rightarrow> json list \<Rightarrow> 'a list \<Rightarrow> 'a list option" where
  "decode_elems store zero [] old = Some []"
| "decode_elems store zero (v # vs) old =
     (case store v (case old of x # _ \<Rightarrow> x | [] \<Rightarrow> zero) of
        None \<Rightarrow> None
      | Some y \<Rightarrow> map_option (\<lambda>ys. y # ys) (decode_elems store zero vs (tl old)))"

definition decode_slice :: "(json \<Rightarrow> 'a \<Rightarrow> 'a option) \<Rightarrow> 'a \<Rightarrow> json \<Rightarrow> 'a list \<Rightarrow> 'a list option" where
  "decode_slice store zero v old = (case v of JArray vs \<Rightarrow> decode_elems store zero vs old | JNull \<Rightarrow> Some [] | _ \<Rightarrow> None)"

definition int64 :: "int \<Rightarrow> bool" where
  "int64 i \<longleftrightarrow> - (2 ^ 63) \<le> i \<and> i < 2 ^ 63"

lemma parse_int64_dec_int:
  assumes "- (2 ^ 63) \<le> i" and "i < 2 ^ 63"
  shows "parse_int64 (dec_int i) = Some i"
proof -
  obtain c t where ct: "dec_nat (nat \<bar>i\<bar>) = c # t" "is_digit c"
    using dec_nat_head [of "nat \<bar>i\<bar>"] by blast
  then have "c \<noteq> CHR ''-''" by (auto simp: is_digit_def)
  moreover have "list_all is_digit (c # t)"
    using is_digit_dec_nat [of _ "nat \<bar>i\<bar>"] by (simp add: list_all_iff ct(1))
  moreover have "digits_value (dec_nat (nat \<bar>i\<bar>)) = \<bar>i\<bar>" by (simp add: digits_value_dec_nat)
  ultimately show ?thesis
    using ct assms by (cases "i < 0") (auto simp: parse_int64_def dec_int_def Let_def)
qed

text \<open>A field of a struct: its selector, its update and the decoder of its type.\<close>

definition field :: "('s \<Rightarrow> 'a) \<Rightarrow> (('a \<Rightarrow> 'a) \<Rightarrow> 's \<Rightarrow> 's) \<Rightarrow> (json \<Rightarrow> 'a \<Rightarrow> 'a option) \<Rightarrow> json \<Rightarrow> 's \<Rightarrow> 's option" where
  "field get upd dec v s = map_option (\<lambda>x. upd (\<lambda>_. x) s) (dec v (get s))"

text \<open>The other field types: booleans, integers of a width, pointers and maps with string keys.\<close>

definition decode_bool :: "json \<Rightarrow> bool \<Rightarrow> bool option" where
  "decode_bool v x = (case v of JBool b \<Rightarrow> Some b | JNull \<Rightarrow> Some x | _ \<Rightarrow> None)"

definition decode_word :: "json \<Rightarrow> 'n::len word \<Rightarrow> 'n word option" where
  "decode_word v x =
     (case v of
        JNumber s \<Rightarrow>
          (case parse_int64 s of
             Some i \<Rightarrow> if - (2 ^ (LENGTH('n) - 1)) \<le> i \<and> i < 2 ^ (LENGTH('n) - 1) then Some (word_of_int i) else None
           | None \<Rightarrow> None)
      | JNull \<Rightarrow> Some x
      | _ \<Rightarrow> None)"

definition decode_pointer :: "(json \<Rightarrow> 'a \<Rightarrow> 'a option) \<Rightarrow> 'a \<Rightarrow> json \<Rightarrow> 'a option \<Rightarrow> 'a option option" where
  "decode_pointer store zero v x =
     (if v = JNull then Some None else map_option Some (store v (case x of Some y \<Rightarrow> y | None \<Rightarrow> zero)))"

definition decode_strings :: "json \<Rightarrow> string list \<Rightarrow> string list option" where
  "decode_strings = decode_slice decode_string []"

fun decode_entries :: "(json \<Rightarrow> 'a \<Rightarrow> 'a option) \<Rightarrow> 'a \<Rightarrow> (string \<times> string \<times> json) list \<Rightarrow> (string, 'a) gomap \<Rightarrow> (string, 'a) gomap option" where
  "decode_entries dec zero [] m = Some m"
| "decode_entries dec zero ((k, raw, v) # ms) m =
     (case dec v zero of None \<Rightarrow> None | Some x \<Rightarrow> decode_entries dec zero ms (AList.update k x m))"

definition decode_map :: "(json \<Rightarrow> 'a \<Rightarrow> 'a option) \<Rightarrow> 'a \<Rightarrow> json \<Rightarrow> (string, 'a) gomap \<Rightarrow> (string, 'a) gomap option" where
  "decode_map dec zero v m = (case v of JObject ms \<Rightarrow> decode_entries dec zero ms m | JNull \<Rightarrow> Some [] | _ \<Rightarrow> None)"


section \<open>Encoding\<close>

text \<open>
  A member with \<^verbatim>\<open>omitempty\<close> is left out when its value is false, zero, a nil pointer, or an
  empty string, slice or map; a struct is never empty. A map is written in the order of its keys.
\<close>

definition omitempty :: "bool \<Rightarrow> string \<Rightarrow> doc \<Rightarrow> (string \<times> doc) list" where
  "omitempty zero k x = (if zero then [] else [(k, x)])"

abbreviation opt_string :: "string \<Rightarrow> string \<Rightarrow> (string \<times> doc) list" where
  "opt_string k s \<equiv> omitempty (s = []) k (DStr s)"

abbreviation opt_strings :: "string \<Rightarrow> string list \<Rightarrow> (string \<times> doc) list" where
  "opt_strings k ss \<equiv> omitempty (ss = []) k (DArray (map DStr ss))"

abbreviation opt_bool :: "string \<Rightarrow> bool \<Rightarrow> (string \<times> doc) list" where
  "opt_bool k b \<equiv> omitempty (\<not> b) k (DBool b)"

definition word_doc :: "'n::len word \<Rightarrow> doc" where
  "word_doc n = DInt (sint n)"

abbreviation opt_word :: "string \<Rightarrow> 'n::len word \<Rightarrow> (string \<times> doc) list" where
  "opt_word k n \<equiv> omitempty (n = 0) k (word_doc n)"

definition pointer_doc :: "('a \<Rightarrow> doc) \<Rightarrow> 'a option \<Rightarrow> doc" where
  "pointer_doc enc p = (case p of None \<Rightarrow> DNull | Some x \<Rightarrow> enc x)"

abbreviation opt_pointer :: "string \<Rightarrow> ('a \<Rightarrow> doc) \<Rightarrow> 'a option \<Rightarrow> (string \<times> doc) list" where
  "opt_pointer k enc p \<equiv> omitempty (p = None) k (pointer_doc enc p)"

abbreviation opt_slice :: "string \<Rightarrow> ('a \<Rightarrow> doc) \<Rightarrow> 'a list \<Rightarrow> (string \<times> doc) list" where
  "opt_slice k enc xs \<equiv> omitempty (xs = []) k (DArray (map enc xs))"

definition map_doc :: "('a \<Rightarrow> doc) \<Rightarrow> (string, 'a) gomap \<Rightarrow> doc" where
  "map_doc enc m = DObject (map (\<lambda>(k, x). (k, enc x)) (sort_key fst m))"

abbreviation opt_map :: "string \<Rightarrow> ('a \<Rightarrow> doc) \<Rightarrow> (string, 'a) gomap \<Rightarrow> (string \<times> doc) list" where
  "opt_map k enc m \<equiv> omitempty (m = []) k (map_doc enc m)"


section \<open>Round trips, field by field\<close>

named_theorems roundtrip

text \<open>The members of an object as the parser gives them.\<close>

definition members :: "(string \<times> doc) list \<Rightarrow> (string \<times> string \<times> json) list" where
  "members ms = map (\<lambda>(k, x). (k, render x, json_of x)) ms"

lemma json_of_object: "json_of (DObject ms) = JObject (members ms)"
  by (simp add: members_def)

lemma decode_object_members [simp]: "decode_object fs (JObject (members ms)) x = decode_fields fs (members ms) x"
  by (simp add: decode_object_def)

text \<open>
  A member that decodes to what it was made from is one step; an omitted member is the same step,
  since the field of the zero value is already what it would store.
\<close>

lemma decode_member_step:
  assumes "find_field fs k = Some (field get upd dec)" and "dec (json_of x) (get y) = Some a"
  shows "decode_fields fs (members ((k, x) # ms)) y = decode_fields fs (members ms) (upd (\<lambda>_. a) y)"
  using assms by (simp add: members_def field_def)

lemma decode_omitempty_step:
  assumes "find_field fs k = Some (field get upd dec)" and "dec (json_of x) (get y) = Some a" and "zero \<Longrightarrow> upd (\<lambda>_. a) y = y"
  shows "decode_fields fs (members (omitempty zero k x @ ms)) y = decode_fields fs (members ms) (upd (\<lambda>_. a) y)"
  using assms by (cases zero) (simp_all add: members_def field_def omitempty_def)

lemma decode_omitempty_last:
  assumes "find_field fs k = Some (field get upd dec)" and "dec (json_of x) (get y) = Some a" and "zero \<Longrightarrow> upd (\<lambda>_. a) y = y"
  shows "decode_fields fs (members (omitempty zero k x)) y = Some (upd (\<lambda>_. a) y)"
  using assms by (cases zero) (simp_all add: members_def field_def omitempty_def)

lemma decode_no_members: "decode_fields fs (members []) y = Some y"
  by (simp add: members_def)

lemmas struct_steps = decode_member_step decode_omitempty_step decode_omitempty_last decode_no_members json_of_object decode_object_members find_field_def

lemma decode_string_doc [roundtrip]: "decode_string (json_of (DStr s)) x = Some s"
  by (simp add: decode_string_def)

lemma decode_bool_doc [roundtrip]: "decode_bool (json_of (DBool b)) x = Some b"
  by (simp add: decode_bool_def)

lemma decode_word_doc [roundtrip]:
  fixes n :: "'n::len word"
  assumes "LENGTH('n) \<le> 64"
  shows "decode_word (json_of (word_doc n)) x = Some n"
proof -
  have range: "- (2 ^ (LENGTH('n) - 1)) \<le> sint n" "sint n < 2 ^ (LENGTH('n) - 1)"
    using sint_ge [of n] sint_lt [of n] by simp_all
  have "(2 :: int) ^ (LENGTH('n) - 1) \<le> 2 ^ 63"
    using assms by (intro power_increasing) simp_all
  with range have "parse_int64 (dec_int (sint n)) = Some (sint n)"
    by (intro parse_int64_dec_int) linarith+
  with range show ?thesis by (simp add: decode_word_def word_doc_def)
qed

lemma decode_int_doc [roundtrip]: "int64 i \<Longrightarrow> decode_int (json_of (DInt i)) x = Some i"
  by (simp add: int64_def decode_int_def parse_int64_dec_int)

lemma decode_pointer_doc [roundtrip]:
  assumes "\<And>a. p = Some a \<Longrightarrow> store (json_of (enc a)) zero = Some a \<and> json_of (enc a) \<noteq> JNull"
  shows "decode_pointer store zero (json_of (pointer_doc enc p)) None = Some p"
  using assms by (cases p) (simp_all add: decode_pointer_def pointer_doc_def)

lemma decode_slice_doc [roundtrip]:
  assumes "\<And>a. a \<in> set xs \<Longrightarrow> store (json_of (enc a)) zero = Some a"
  shows "decode_slice store zero (json_of (DArray (map enc xs))) [] = Some xs"
proof -
  have "decode_elems store zero (map (json_of \<circ> enc) xs) [] = Some xs"
    using assms by (induction xs) simp_all
  then show ?thesis by (simp add: decode_slice_def)
qed

lemma decode_strings_doc [roundtrip]: "decode_strings (json_of (DArray (map DStr ss))) [] = Some ss"
  unfolding decode_strings_def by (rule decode_slice_doc) (simp add: decode_string_def)

text \<open>A map in the order of its keys is what decoding its document gives.\<close>

lemma decode_entries_doc:
  "distinct (map fst (m @ ms)) \<Longrightarrow> (\<And>k x. (k, x) \<in> set ms \<Longrightarrow> dec (json_of (enc x)) zero = Some x) \<Longrightarrow>
     decode_entries dec zero (members (map (\<lambda>(k, x). (k, enc x)) ms)) m = Some (m @ ms)"
proof (induction ms arbitrary: m)
  case (Cons kx ms)
  obtain k x where kx: "kx = (k, x)" by (cases kx)
  have "k \<notin> fst ` set m" using Cons.prems(1) kx by auto
  then have "AList.update k x m = m @ [(k, x)]" by (induction m) auto
  moreover have "dec (json_of (enc x)) zero = Some x" by (rule Cons.prems(2) [of k]) (simp add: kx)
  moreover have "decode_entries dec zero (members (map (\<lambda>(k, x). (k, enc x)) ms)) (m @ [(k, x)]) = Some ((m @ [(k, x)]) @ ms)"
    by (rule Cons.IH) (use Cons.prems kx in auto)
  ultimately show ?case by (simp add: kx members_def)
qed (simp add: members_def)

definition sorted_map :: "(string, 'a) gomap \<Rightarrow> bool" where
  "sorted_map m \<longleftrightarrow> sorted (map fst m) \<and> distinct (map fst m)"

lemma decode_map_doc [roundtrip]:
  assumes "sorted_map m" and "\<And>k x. (k, x) \<in> set m \<Longrightarrow> dec (json_of (enc x)) zero = Some x"
  shows "decode_map dec zero (json_of (map_doc enc m)) [] = Some m"
proof -
  have "sort_key fst m = m" using assms(1) by (simp add: sorted_map_def sort_key_id_if_sorted)
  then show ?thesis
    using decode_entries_doc [of "[]" m dec enc zero] assms
    by (simp add: decode_map_def map_doc_def json_of_object sorted_map_def del: json_of.simps)
qed


section \<open>Whole values\<close>

text \<open>\<^verbatim>\<open>json.Marshal\<close> of a document and \<^verbatim>\<open>json.Unmarshal\<close> into a zero value.\<close>

definition unmarshal :: "(json \<Rightarrow> 'a \<Rightarrow> 'a option) \<Rightarrow> 'a \<Rightarrow> string \<Rightarrow> json_error + 'a" where
  "unmarshal dec zero s =
     (case json_parse s of
        None \<Rightarrow> Inl SyntaxError
      | Some v \<Rightarrow> (case dec v zero of None \<Rightarrow> Inl UnmarshalTypeError | Some x \<Rightarrow> Inr x))"

lemma unmarshal_render:
  "utf8_doc max_depth (enc x) \<Longrightarrow> dec (json_of (enc x)) zero = Some x \<Longrightarrow> unmarshal dec zero (render (enc x)) = Inr x"
  by (simp add: unmarshal_def json_parse_render)

text \<open>
  A type with its JSON form: how it is written, how it is read into a zero value, and which values
  can be written without loss. A value \<open>survives\<close> if unmarshalling the marshalled value gives it
  back whenever it can be written and its strings are valid.
\<close>

record 'a codec =
  cd_doc :: "'a \<Rightarrow> doc"
  cd_decode :: "json \<Rightarrow> 'a \<Rightarrow> 'a option"
  cd_zero :: 'a
  cd_sound :: "'a \<Rightarrow> bool"

definition marshal :: "'a codec \<Rightarrow> 'a \<Rightarrow> string" where
  "marshal c x = render (cd_doc c x)"

definition read_back :: "'a codec \<Rightarrow> 'a \<Rightarrow> bool" where
  "read_back c x \<longleftrightarrow> cd_decode c (json_of (cd_doc c x)) (cd_zero c) = Some x"

definition survives :: "'a codec \<Rightarrow> 'a \<Rightarrow> bool" where
  "survives c x \<longleftrightarrow>
     (cd_sound c x \<and> utf8_doc max_depth (cd_doc c x) \<longrightarrow> unmarshal (cd_decode c) (cd_zero c) (marshal c x) = Inr x)"

locale json_codec =
  fixes c :: "'a codec"
  assumes decodes: "cd_sound c x \<Longrightarrow> read_back c x"
begin

lemma codec_survives: "survives c x"
  unfolding survives_def marshal_def by (intro impI unmarshal_render) (use decodes in \<open>simp_all add: read_back_def\<close>)

end

end
