(* ===== verification/RegistryClient.thy ===== *)
theory RegistryClient
  imports GoStruct Sha256
begin

text \<open>
  \<^verbatim>\<open>src/pkg/e2e/registry.go\<close>: the client with which test suites push and pull OCI artifacts. The
  network and the registry are outside the repository: \<open>http_client\<close> holds the syntax check of
  \<^verbatim>\<open>http.NewRequest\<close> and the exchange of \<^verbatim>\<open>http.Client.Do\<close>. The requests, the manifest and its
  JSON, the digests and every error are the code's.
\<close>

abbreviation (input) DefaultRegistryAddr :: string where
  "DefaultRegistryAddr \<equiv> ''localhost:5000''"

definition NewRegistryClient :: "string \<Rightarrow> string" where
  "NewRegistryClient addr = (if addr = [] then DefaultRegistryAddr else addr)"

record ociDescriptor =
  od_MediaType :: string
  od_Size :: int
  od_Digest :: string

record ociManifest =
  om_SchemaVersion :: int
  om_MediaType :: string
  om_Config :: ociDescriptor
  om_Layers :: "ociDescriptor list"

definition zero_descriptor :: ociDescriptor where
  "zero_descriptor = \<lparr>od_MediaType = [], od_Size = 0, od_Digest = []\<rparr>"

definition zero_manifest :: ociManifest where
  "zero_manifest = \<lparr>om_SchemaVersion = 0, om_MediaType = [], om_Config = zero_descriptor, om_Layers = []\<rparr>"


section \<open>The JSON form of a manifest\<close>

text \<open>\<^verbatim>\<open>json.Marshal\<close>: the fields in order, under their tags.\<close>

definition descriptor_doc :: "ociDescriptor \<Rightarrow> doc" where
  "descriptor_doc d = DObject [(''mediaType'', DStr (od_MediaType d)), (''size'', DInt (od_Size d)), (''digest'', DStr (od_Digest d))]"

definition manifest_doc :: "ociManifest \<Rightarrow> doc" where
  "manifest_doc m = DObject
     [(''schemaVersion'', DInt (om_SchemaVersion m)), (''mediaType'', DStr (om_MediaType m)),
      (''config'', descriptor_doc (om_Config m)), (''layers'', DArray (map descriptor_doc (om_Layers m)))]"

text \<open>\<^verbatim>\<open>json.Unmarshal\<close> into the two structs.\<close>

definition decode_descriptor :: "json \<Rightarrow> ociDescriptor \<Rightarrow> ociDescriptor option" where
  "decode_descriptor = decode_object
     [(''mediaType'', field od_MediaType od_MediaType_update decode_string),
      (''size'', field od_Size od_Size_update decode_int),
      (''digest'', field od_Digest od_Digest_update decode_string)]"

definition decode_manifest :: "json \<Rightarrow> ociManifest \<Rightarrow> ociManifest option" where
  "decode_manifest = decode_object
     [(''schemaVersion'', field om_SchemaVersion om_SchemaVersion_update decode_int),
      (''mediaType'', field om_MediaType om_MediaType_update decode_string),
      (''config'', field om_Config om_Config_update decode_descriptor),
      (''layers'', field om_Layers om_Layers_update (decode_slice decode_descriptor zero_descriptor))]"

definition int64_descriptor :: "ociDescriptor \<Rightarrow> bool" where
  "int64_descriptor d \<longleftrightarrow> int64 (od_Size d)"

definition manifest_codec :: "ociManifest codec" where
  "manifest_codec =
     \<lparr>cd_doc = manifest_doc, cd_decode = decode_manifest, cd_zero = zero_manifest,
      cd_sound = (\<lambda>m. int64 (om_SchemaVersion m) \<and> int64_descriptor (om_Config m) \<and> list_all int64_descriptor (om_Layers m))\<rparr>"

definition marshal_manifest :: "ociManifest \<Rightarrow> string" where
  "marshal_manifest = marshal manifest_codec"

definition unmarshal_manifest :: "string \<Rightarrow> json_error + ociManifest" where
  "unmarshal_manifest = unmarshal decode_manifest zero_manifest"


section \<open>Requests\<close>

record http_request =
  rq_Method :: string
  rq_URL :: string
  rq_Header :: "(string, string) gomap"
  rq_Body :: string

record http_response =
  rs_StatusCode :: int
  rs_Location :: string
  rs_Body :: "goerror + string"  \<comment> \<open>what \<^verbatim>\<open>io.ReadAll\<close> of the body gives\<close>

record 'w http_client =
  hc_NewRequest :: "string \<Rightarrow> string \<Rightarrow> goerror option"
  hc_Do :: "http_request \<Rightarrow> 'w \<Rightarrow> (goerror + http_response) \<times> 'w"

definition Do :: "'w http_client \<Rightarrow> http_request \<Rightarrow> ('w, goerror + http_response) state" where
  "Do c req = State (hc_Do c req)"

text \<open>A request that is built, with the error of a malformed one given back as it is, and then sent.\<close>

definition new_request :: "'w http_client \<Rightarrow> string \<Rightarrow> string \<Rightarrow> ('w, goerror + 'a) state \<Rightarrow> ('w, goerror + 'a) state" where
  "new_request c meth url k = (case hc_NewRequest c meth url of Some err \<Rightarrow> ret (Inl err) | None \<Rightarrow> k)"

definition digest_of :: "string \<Rightarrow> string" where
  "digest_of content = ''sha256:'' @ EncodeToString (Sum256 content)"

definition uploads_url :: "string \<Rightarrow> string \<Rightarrow> string" where
  "uploads_url addr repository = ''http://'' @ addr @ ''/v2/'' @ repository @ ''/blobs/uploads/''"

definition blob_url :: "string \<Rightarrow> string \<Rightarrow> string \<Rightarrow> string" where
  "blob_url addr repository digest = ''http://'' @ addr @ ''/v2/'' @ repository @ ''/blobs/'' @ digest"

definition manifest_url :: "string \<Rightarrow> string \<Rightarrow> string \<Rightarrow> string" where
  "manifest_url addr repository tag = ''http://'' @ addr @ ''/v2/'' @ repository @ ''/manifests/'' @ tag"

definition absolute_url :: "string \<Rightarrow> string \<Rightarrow> string" where
  "absolute_url addr uploadURL = (if \<not> HasPrefix uploadURL ''http'' then ''http://'' @ addr @ uploadURL else uploadURL)"

definition put_url :: "string \<Rightarrow> string \<Rightarrow> string" where
  "put_url uploadURL digest = uploadURL @ (if Contains uploadURL ''?'' then ''&'' else ''?'') @ ''digest='' @ digest"

definition put_blob :: "string \<Rightarrow> string \<Rightarrow> http_request" where
  "put_blob url content =
     \<lparr>rq_Method = ''PUT'', rq_URL = url, rq_Header = [(''Content-Type'', ''application/octet-stream'')], rq_Body = content\<rparr>"

definition put_manifest :: "string \<Rightarrow> string \<Rightarrow> http_request" where
  "put_manifest url manifestJSON =
     \<lparr>rq_Method = ''PUT'', rq_URL = url, rq_Header = [(''Content-Type'', ''application/vnd.oci.image.manifest.v1+json'')],
      rq_Body = manifestJSON\<rparr>"

definition get_request :: "string \<Rightarrow> (string, string) gomap \<Rightarrow> http_request" where
  "get_request url h = \<lparr>rq_Method = ''GET'', rq_URL = url, rq_Header = h, rq_Body = []\<rparr>"

definition post_request :: "string \<Rightarrow> http_request" where
  "post_request url = \<lparr>rq_Method = ''POST'', rq_URL = url, rq_Header = [], rq_Body = []\<rparr>"

abbreviation created :: "http_response \<Rightarrow> bool" where
  "created resp \<equiv> rs_StatusCode resp = 201 \<or> rs_StatusCode resp = 200"


section \<open>Pushing and pulling\<close>

definition pushBlob :: "'w http_client \<Rightarrow> string \<Rightarrow> string \<Rightarrow> string \<Rightarrow> ('w, goerror + string) state" where
  "pushBlob c addr repository content =
     (let digest = digest_of content in
      new_request c ''POST'' (uploads_url addr repository)
        (try_state (Do c (post_request (uploads_url addr repository)))
          (\<lambda>err. ret (Inl (Errorf ''initiate blob upload: '' err)))
          (\<lambda>resp.
             if rs_StatusCode resp \<noteq> 202
             then ret (Inl (ErrorString (''initiate blob upload: unexpected status '' @ dec_int (rs_StatusCode resp))))
             else if rs_Location resp = [] then ret (Inl (ErrorString ''initiate blob upload: no Location header''))
             else (let putURL = put_url (absolute_url addr (rs_Location resp)) digest in
               new_request c ''PUT'' putURL
                 (try_state (Do c (put_blob putURL content))
                   (\<lambda>err. ret (Inl (Errorf ''complete blob upload: '' err)))
                   (\<lambda>resp.
                      if \<not> created resp
                      then ret (Inl (ErrorString (''complete blob upload: unexpected status '' @ dec_int (rs_StatusCode resp))))
                      else ret (Inr digest)))))))"

definition pullBlob :: "'w http_client \<Rightarrow> string \<Rightarrow> string \<Rightarrow> string \<Rightarrow> ('w, goerror + string) state" where
  "pullBlob c addr repository digest =
     (let url = blob_url addr repository digest in
      new_request c ''GET'' url
        (try_state (Do c (get_request url []))
          (\<lambda>err. ret (Inl err))
          (\<lambda>resp.
             if rs_StatusCode resp \<noteq> 200
             then ret (Inl (ErrorString (''pull blob '' @ digest @ '': status '' @ dec_int (rs_StatusCode resp))))
             else ret (rs_Body resp))))"

definition pushManifest :: "'w http_client \<Rightarrow> string \<Rightarrow> string \<Rightarrow> string \<Rightarrow> string \<Rightarrow> ('w, goerror + string) state" where
  "pushManifest c addr repository tag manifestJSON =
     (let url = manifest_url addr repository tag in
      new_request c ''PUT'' url
        (try_state (Do c (put_manifest url manifestJSON))
          (\<lambda>err. ret (Inl err))
          (\<lambda>resp.
             if \<not> created resp
             then ret (Inl (ErrorString (''push manifest: status '' @ dec_int (rs_StatusCode resp))))
             else ret (Inr (digest_of manifestJSON)))))"

definition pullManifest :: "'w http_client \<Rightarrow> string \<Rightarrow> string \<Rightarrow> string \<Rightarrow> ('w, goerror + string) state" where
  "pullManifest c addr repository tag =
     (let url = manifest_url addr repository tag in
      new_request c ''GET'' url
        (try_state (Do c (get_request url [(''Accept'', ''application/vnd.oci.image.manifest.v1+json'')]))
          (\<lambda>err. ret (Inl err))
          (\<lambda>resp.
             if rs_StatusCode resp \<noteq> 200
             then ret (Inl (ErrorString (''pull manifest '' @ repository @ '':'' @ tag @ '': status '' @ dec_int (rs_StatusCode resp))))
             else ret (rs_Body resp))))"

definition registry_error :: "string \<Rightarrow> string \<Rightarrow> string \<Rightarrow> string \<Rightarrow> goerror \<Rightarrow> goerror" where
  "registry_error addr what repository tag =
     Errorf (''e2e: registry '' @ Quote addr @ '': '' @ what @ repository @ '':'' @ tag @ '': '')"

definition configContent :: string where
  "configContent = ''{}''"

definition manifest_of :: "string \<Rightarrow> string \<Rightarrow> string \<Rightarrow> ociManifest" where
  "manifest_of content configDigest blobDigest =
     \<lparr>om_SchemaVersion = 2, om_MediaType = ''application/vnd.oci.image.manifest.v1+json'',
      om_Config = \<lparr>od_MediaType = ''application/vnd.oci.image.config.v1+json'', od_Size = int (length configContent), od_Digest = configDigest\<rparr>,
      om_Layers = [\<lparr>od_MediaType = ''application/octet-stream'', od_Size = int (length content), od_Digest = blobDigest\<rparr>]\<rparr>"

definition PushArtifact :: "'w http_client \<Rightarrow> string \<Rightarrow> string \<Rightarrow> string \<Rightarrow> string \<Rightarrow> ('w, goerror + string) state" where
  "PushArtifact c addr repository tag content =
     try_state (pushBlob c addr repository content)
       (\<lambda>err. ret (Inl (registry_error addr ''push blob for '' repository tag err)))
       (\<lambda>blobDigest.
          try_state (pushBlob c addr repository configContent)
            (\<lambda>err. ret (Inl (registry_error addr ''push config blob for '' repository tag err)))
            (\<lambda>configDigest.
               try_state (pushManifest c addr repository tag (marshal_manifest (manifest_of content configDigest blobDigest)))
                 (\<lambda>err. ret (Inl (registry_error addr ''push manifest for '' repository tag err)))
                 (\<lambda>manifestDigest. ret (Inr manifestDigest))))"

definition PullArtifact :: "'w http_client \<Rightarrow> string \<Rightarrow> string \<Rightarrow> string \<Rightarrow> ('w, goerror + string) state" where
  "PullArtifact c addr repository tag =
     try_state (pullManifest c addr repository tag)
       (\<lambda>err. ret (Inl (registry_error addr ''pull manifest for '' repository tag err)))
       (\<lambda>manifestJSON.
          case unmarshal_manifest manifestJSON of
            Inl err \<Rightarrow> ret (Inl (registry_error addr ''decode manifest for '' repository tag
              (ErrorString (case err of SyntaxError \<Rightarrow> ''syntax error'' | UnmarshalTypeError \<Rightarrow> ''type error''))))
          | Inr manifest \<Rightarrow>
              if length (om_Layers manifest) = 0
              then ret (Inl (ErrorString (''e2e: registry '' @ Quote addr @ '': manifest for '' @ repository @ '':'' @ tag @ '' has no layers'')))
              else try_state (pullBlob c addr repository (od_Digest (om_Layers manifest ! 0)))
                (\<lambda>err. ret (Inl (registry_error addr ''pull blob for '' repository tag err)))
                (\<lambda>blob. ret (Inr blob)))"


section \<open>The manifest survives its JSON form\<close>

lemma decode_descriptor_doc:
  "int64_descriptor d \<Longrightarrow> decode_descriptor (json_of (descriptor_doc d)) zero_descriptor = Some d"
  by (simp add: int64_descriptor_def descriptor_doc_def decode_descriptor_def struct_steps roundtrip zero_descriptor_def del: json_of.simps)

interpretation manifest: json_codec manifest_codec
  by unfold_locales
    (simp add: manifest_codec_def read_back_def manifest_doc_def decode_manifest_def struct_steps roundtrip zero_manifest_def
      decode_descriptor_doc list_all_iff del: json_of.simps)

text \<open>Manifests that can be written: sizes in range, valid strings.\<close>

definition utf8_descriptor :: "ociDescriptor \<Rightarrow> bool" where
  "utf8_descriptor d \<longleftrightarrow> valid_utf8 (od_MediaType d) \<and> valid_utf8 (od_Digest d)"

definition ok_manifest :: "ociManifest \<Rightarrow> bool" where
  "ok_manifest m \<longleftrightarrow> cd_sound manifest_codec m \<and> valid_utf8 (om_MediaType m) \<and>
     utf8_descriptor (om_Config m) \<and> list_all utf8_descriptor (om_Layers m)"

lemma manifest_roundtrip:
  assumes "ok_manifest m"
  shows "unmarshal_manifest (marshal_manifest m) = Inr m"
proof -
  have d: "utf8_descriptor d \<Longrightarrow> 0 < n \<Longrightarrow> utf8_doc n (descriptor_doc d)" for d n
    by (simp add: utf8_descriptor_def descriptor_doc_def)
  have "utf8_doc max_depth (manifest_doc m)"
    using assms d by (auto simp: ok_manifest_def manifest_doc_def max_depth_def list_all_iff)
  with manifest.codec_survives [of m] assms show ?thesis
    by (simp add: ok_manifest_def survives_def unmarshal_manifest_def marshal_manifest_def manifest_codec_def)
qed

lemma utf8_digest: "valid_utf8 (digest_of content)"
proof -
  have "\<forall>c \<in> set hex_alphabet. byte c < 128" by (simp add: hex_alphabet_def)
  with EncodeToString_alphabet [of "Sum256 content"] Sum256_bytes have "valid_utf8 (EncodeToString (Sum256 content))"
    by (intro valid_utf8_ascii) blast
  then show ?thesis by (simp add: digest_of_def)
qed

lemma ok_manifest_of: "length content < 2 ^ 63 \<Longrightarrow> ok_manifest (manifest_of content (digest_of a) (digest_of b))"
  using utf8_digest
  by (simp add: ok_manifest_def utf8_descriptor_def manifest_codec_def int64_descriptor_def manifest_of_def configContent_def int64_def)


section \<open>What a registry promises\<close>

text \<open>
  What a registry stores, by resource URL, and the uploads under way, by the URL to complete them
  at, with their repository. The OCI distribution specification: an accepted upload opens a session,
  completing it with the digest of the content stores the blob, a manifest is stored under its tag,
  and a GET gives what is stored. A request that fails says nothing about the state.
\<close>

record 'w registry_view =
  rv_Store :: "'w \<Rightarrow> string \<rightharpoonup> string"
  rv_Uploads :: "'w \<Rightarrow> string \<rightharpoonup> string"

definition posts_documented :: "'w http_client \<Rightarrow> 'w registry_view \<Rightarrow> string \<Rightarrow> bool" where
  "posts_documented c v addr \<longleftrightarrow>
     (\<forall>repository w resp w'. hc_Do c (post_request (uploads_url addr repository)) w = (Inr resp, w') \<longrightarrow>
        rs_StatusCode resp = 202 \<longrightarrow> rs_Location resp \<noteq> [] \<longrightarrow>
        rv_Uploads v w' (absolute_url addr (rs_Location resp)) = Some repository \<and> rv_Store v w' = rv_Store v w)"

definition blob_puts_documented :: "'w http_client \<Rightarrow> 'w registry_view \<Rightarrow> string \<Rightarrow> bool" where
  "blob_puts_documented c v addr \<longleftrightarrow>
     (\<forall>url repository content w resp w'. rv_Uploads v w url = Some repository \<longrightarrow>
        hc_Do c (put_blob (put_url url (digest_of content)) content) w = (Inr resp, w') \<longrightarrow> created resp \<longrightarrow>
        rv_Store v w' = (rv_Store v w)(blob_url addr repository (digest_of content) \<mapsto> content))"

definition manifest_puts_documented :: "'w http_client \<Rightarrow> 'w registry_view \<Rightarrow> string \<Rightarrow> bool" where
  "manifest_puts_documented c v addr \<longleftrightarrow>
     (\<forall>repository tag m w resp w'. hc_Do c (put_manifest (manifest_url addr repository tag) m) w = (Inr resp, w') \<longrightarrow>
        created resp \<longrightarrow> rv_Store v w' = (rv_Store v w)(manifest_url addr repository tag \<mapsto> m))"

definition gets_documented :: "'w http_client \<Rightarrow> 'w registry_view \<Rightarrow> bool" where
  "gets_documented c v \<longleftrightarrow>
     (\<forall>url h w resp w'. hc_Do c (get_request url h) w = (Inr resp, w') \<longrightarrow> rv_Store v w' = rv_Store v w \<and>
        (\<forall>body. rs_StatusCode resp = 200 \<longrightarrow> rs_Body resp = Inr body \<longrightarrow> rv_Store v w url = Some body))"

definition documented_registry :: "'w http_client \<Rightarrow> 'w registry_view \<Rightarrow> string \<Rightarrow> bool" where
  "documented_registry c v addr \<longleftrightarrow> posts_documented c v addr \<and> blob_puts_documented c v addr \<and>
     manifest_puts_documented c v addr \<and> gets_documented c v"

text \<open>A registry that answers: no exchange fails for a reason other than what is stored.\<close>

definition answering_registry :: "'w http_client \<Rightarrow> 'w registry_view \<Rightarrow> string \<Rightarrow> bool" where
  "answering_registry c v addr \<longleftrightarrow>
     (\<forall>meth url. hc_NewRequest c meth url = None) \<and>
     (\<forall>repository w. \<exists>resp. fst (hc_Do c (post_request (uploads_url addr repository)) w) = Inr resp \<and>
        rs_StatusCode resp = 202 \<and> rs_Location resp \<noteq> []) \<and>
     (\<forall>url repository content w. rv_Uploads v w url = Some repository \<longrightarrow>
        (\<exists>resp. fst (hc_Do c (put_blob (put_url url (digest_of content)) content) w) = Inr resp \<and> created resp)) \<and>
     (\<forall>repository tag m w. \<exists>resp. fst (hc_Do c (put_manifest (manifest_url addr repository tag) m) w) = Inr resp \<and> created resp) \<and>
     (\<forall>url h w body. rv_Store v w url = Some body \<longrightarrow>
        (\<exists>resp. fst (hc_Do c (get_request url h) w) = Inr resp \<and> rs_StatusCode resp = 200 \<and> rs_Body resp = Inr body))"

lemma answering_registryD:
  assumes "answering_registry c v addr"
  shows "hc_NewRequest c meth url = None"
    and "\<exists>resp. fst (hc_Do c (post_request (uploads_url addr repository)) w) = Inr resp \<and> rs_StatusCode resp = 202 \<and> rs_Location resp \<noteq> []"
    and "rv_Uploads v w url = Some repository \<Longrightarrow>
      \<exists>resp. fst (hc_Do c (put_blob (put_url url (digest_of content)) content) w) = Inr resp \<and> created resp"
    and "\<exists>resp. fst (hc_Do c (put_manifest (manifest_url addr repository tag) m) w) = Inr resp \<and> created resp"
    and "rv_Store v w url = Some body \<Longrightarrow>
      \<exists>resp. fst (hc_Do c (get_request url h) w) = Inr resp \<and> rs_StatusCode resp = 200 \<and> rs_Body resp = Inr body"
  using assms unfolding answering_registry_def by simp_all

lemma wp_Do: "wp_of (Do c req) Q w = Q (fst (hc_Do c req w)) (snd (hc_Do c req w))"
  by (simp add: Do_def wp_of_def split: prod.split)

lemma wp_new_request:
  "wp_of (new_request c meth url k) Q w =
     (case hc_NewRequest c meth url of Some err \<Rightarrow> Q (Inl err) w | None \<Rightarrow> wp_of k Q w)"
  by (simp add: new_request_def wp split: option.split)

lemma blob_not_manifest [simp]: "blob_url addr repository d \<noteq> manifest_url addr repository tag"
  by (simp add: blob_url_def manifest_url_def)

lemma blob_url_eq [simp]: "blob_url addr repository d = blob_url addr repository d' \<longleftrightarrow> d = d'"
  by (simp add: blob_url_def)

text \<open>
  The outcome of a step: \<open>P\<close> holds for what it returns, and it returns something if the registry
  answers.
\<close>

definition step_ok :: "bool \<Rightarrow> ('a \<Rightarrow> 'w \<Rightarrow> bool) \<Rightarrow> goerror + 'a \<Rightarrow> 'w \<Rightarrow> bool" where
  "step_ok answers P r w' \<longleftrightarrow> (case r of Inl _ \<Rightarrow> \<not> answers | Inr x \<Rightarrow> P x w')"

lemma step_ok_simps [simp]:
  "step_ok a P (Inl e) w \<longleftrightarrow> \<not> a" "step_ok a P (Inr x) w \<longleftrightarrow> P x w"
  by (simp_all add: step_ok_def)

text \<open>An exchange: the rest is reached with the response, and with one if the registry answers.\<close>

lemma exchange_ok:
  assumes "\<And>resp w'. hc_Do c req w = (Inr resp, w') \<Longrightarrow> wp_of (k resp) (step_ok a Q) w'"
    and "a \<Longrightarrow> hc_NewRequest c meth url = None \<and> (\<exists>resp. fst (hc_Do c req w) = Inr resp)"
  shows "wp_of (new_request c meth url (try_state (Do c req) (\<lambda>e. ret (Inl (f e))) k)) (step_ok a Q) w"
proof -
  obtain r w' where r: "hc_Do c req w = (r, w')" by fastforce
  show ?thesis
  proof (cases r)
    case (Inl e)
    with r assms(2) show ?thesis by (cases a) (simp_all add: wp_new_request wp wp_Do split: option.split)
  next
    case (Inr resp)
    with r assms(1) [of resp w'] assms(2) show ?thesis by (cases a) (simp_all add: wp_new_request wp wp_Do split: option.split)
  qed
qed

lemma pushBlob_documented:
  assumes "documented_registry c v addr"
  shows "wp_of (pushBlob c addr repository content)
    (step_ok (answering_registry c v addr) (\<lambda>d w'. d = digest_of content \<and>
       rv_Store v w' = (rv_Store v w)(blob_url addr repository (digest_of content) \<mapsto> content))) w"
  unfolding pushBlob_def Let_def
proof (rule exchange_ok, goal_cases)
  case (1 resp w1)
  have posted: "answering_registry c v addr \<Longrightarrow> rs_StatusCode resp = 202 \<and> rs_Location resp \<noteq> []"
    using answering_registryD(2) [of c v addr repository w] 1 by auto
  show ?case
  proof (cases "rs_StatusCode resp = 202 \<and> rs_Location resp \<noteq> []")
    case True
    let ?url = "absolute_url addr (rs_Location resp)"
    have open1: "rv_Uploads v w1 ?url = Some repository" "rv_Store v w1 = rv_Store v w"
      using assms 1 True unfolding documented_registry_def posts_documented_def by blast+
    have "wp_of (new_request c ''PUT'' (put_url ?url (digest_of content))
        (try_state (Do c (put_blob (put_url ?url (digest_of content)) content))
          (\<lambda>err. ret (Inl (Errorf ''complete blob upload: '' err)))
          (\<lambda>resp. if \<not> created resp
             then ret (Inl (ErrorString (''complete blob upload: unexpected status '' @ dec_int (rs_StatusCode resp))))
             else ret (Inr (digest_of content)))))
      (step_ok (answering_registry c v addr) (\<lambda>d w'. d = digest_of content \<and>
         rv_Store v w' = (rv_Store v w)(blob_url addr repository (digest_of content) \<mapsto> content))) w1"
    proof (rule exchange_ok, goal_cases)
      case (1 resp2 w2)
      have "created resp2" if answers: "answering_registry c v addr"
        using answering_registryD(3) [OF answers open1(1), of content] 1 by auto
      moreover have "created resp2 \<Longrightarrow> rv_Store v w2 = (rv_Store v w)(blob_url addr repository (digest_of content) \<mapsto> content)"
        using assms open1 1 unfolding documented_registry_def blob_puts_documented_def by metis
      ultimately show ?case by (cases "created resp2") (auto simp: wp)
    next
      case 2
      then show ?case using answering_registryD(1,3) [OF 2] open1(1) by fast
    qed
    with True show ?thesis by simp
  qed (use posted in \<open>auto simp: wp\<close>)
next
  case 2
  then show ?case using answering_registryD(1,2) [OF 2] by fast
qed

lemma pushManifest_documented:
  assumes "documented_registry c v addr"
  shows "wp_of (pushManifest c addr repository tag m)
    (step_ok (answering_registry c v addr) (\<lambda>d w'. d = digest_of m \<and>
       rv_Store v w' = (rv_Store v w)(manifest_url addr repository tag \<mapsto> m))) w"
  unfolding pushManifest_def Let_def
proof (rule exchange_ok, goal_cases)
  case (1 resp w')
  have "answering_registry c v addr \<Longrightarrow> created resp"
    using answering_registryD(4) [of c v addr repository tag m w] 1 by auto
  moreover have "created resp \<Longrightarrow> rv_Store v w' = (rv_Store v w)(manifest_url addr repository tag \<mapsto> m)"
    using assms 1 unfolding documented_registry_def manifest_puts_documented_def by blast
  ultimately show ?case by (cases "created resp") (auto simp: wp)
next
  case 2
  then show ?case using answering_registryD(1,4) [OF 2] by fast
qed

text \<open>Both pulls are a GET whose body is returned.\<close>

lemma get_documented:
  assumes "documented_registry c v addr" and "rv_Store v w url = Some body"
  shows "wp_of (new_request c ''GET'' url (try_state (Do c (get_request url h)) (\<lambda>err. ret (Inl err))
      (\<lambda>resp. if rs_StatusCode resp \<noteq> 200 then ret (Inl (f resp)) else ret (rs_Body resp))))
    (step_ok (answering_registry c v addr) (\<lambda>b w'. b = body \<and> rv_Store v w' = rv_Store v w)) w"
proof (rule exchange_ok, goal_cases)
  case (1 resp w')
  have "answering_registry c v addr \<Longrightarrow> rs_StatusCode resp = 200 \<and> rs_Body resp = Inr body"
    using answering_registryD(5) [of c v addr w url body h] assms(2) 1 by auto
  moreover have "rv_Store v w' = rv_Store v w" "rs_StatusCode resp = 200 \<Longrightarrow> rs_Body resp = Inr b \<Longrightarrow> b = body" for b
    using assms 1 unfolding documented_registry_def gets_documented_def by fastforce+
  ultimately show ?case by (cases "rs_Body resp") (auto simp: wp)
next
  case 2
  then show ?case using answering_registryD(1,5) [OF 2] assms(2) by fast
qed

lemma wp_step:
  assumes "wp_of m (step_ok a P) w" and "\<And>x w'. P x w' \<Longrightarrow> wp_of (k x) (step_ok a Q) w'"
  shows "wp_of (try_state m (\<lambda>e. ret (Inl (f e))) k) (step_ok a Q) w"
proof -
  have "wp_of m (\<lambda>r w'. case r of Inl e \<Rightarrow> wp_of (ret (Inl (f e))) (step_ok a Q) w' | Inr x \<Rightarrow> wp_of (k x) (step_ok a Q) w') w"
    by (rule wp_mono [OF assms(1)]) (auto simp: step_ok_def wp assms(2) split: sum.splits)
  then show ?thesis by (simp add: wp_try)
qed

abbreviation artifact_manifest :: "string \<Rightarrow> string" where
  "artifact_manifest content \<equiv> marshal_manifest (manifest_of content (digest_of configContent) (digest_of content))"

lemma PushArtifact_documented:
  assumes "documented_registry c v addr"
  shows "wp_of (PushArtifact c addr repository tag content)
    (step_ok (answering_registry c v addr) (\<lambda>d w'. d = digest_of (artifact_manifest content) \<and>
       rv_Store v w' = (rv_Store v w)(blob_url addr repository (digest_of content) \<mapsto> content,
         blob_url addr repository (digest_of configContent) \<mapsto> configContent,
         manifest_url addr repository tag \<mapsto> artifact_manifest content))) w"
  unfolding PushArtifact_def
proof (rule wp_step [OF pushBlob_documented [OF assms]], elim conjE, goal_cases)
  case (1 d1 w1)
  show ?case
  proof (rule wp_step [OF pushBlob_documented [OF assms]], elim conjE, goal_cases)
    case (1 d2 w2)
    show ?case
      by (rule wp_step [OF pushManifest_documented [OF assms]])
        (use 1 \<open>d1 = _\<close> \<open>rv_Store v w1 = _\<close> in \<open>simp add: wp\<close>)
  qed
qed

lemma PullArtifact_documented:
  assumes "documented_registry c v addr" and "rv_Store v w (manifest_url addr repository tag) = Some (marshal_manifest m)"
    and "ok_manifest m" and "om_Layers m = l # ls" and "rv_Store v w (blob_url addr repository (od_Digest l)) = Some content"
  shows "wp_of (PullArtifact c addr repository tag)
    (step_ok (answering_registry c v addr) (\<lambda>b w'. b = content \<and> rv_Store v w' = rv_Store v w)) w"
proof -
  have manifest: "wp_of (pullManifest c addr repository tag)
      (step_ok (answering_registry c v addr) (\<lambda>b w'. b = marshal_manifest m \<and> rv_Store v w' = rv_Store v w)) w"
    unfolding pullManifest_def Let_def by (rule get_documented [OF assms(1,2)])
  have blob: "wp_of (pullBlob c addr repository (od_Digest l))
      (step_ok (answering_registry c v addr) (\<lambda>b w'. b = content \<and> rv_Store v w' = rv_Store v w1)) w1"
    if "rv_Store v w1 = rv_Store v w" for w1
    unfolding pullBlob_def Let_def by (rule get_documented [OF assms(1)]) (simp add: that assms(5))
  show ?thesis
    unfolding PullArtifact_def
  proof (rule wp_step [OF manifest], elim conjE, goal_cases)
    case (1 json w1)
    show ?case
      using manifest_roundtrip [OF assms(3)] assms(4) \<open>json = _\<close>
      by simp (rule wp_step [OF blob], use 1 in \<open>simp_all add: wp\<close>)
  qed
qed


section \<open>Properties of the registry client\<close>

text \<open>C35 (artifact_roundtrip): what is pushed is what is pulled: against a registry that follows the distribution
  specification, whatever else it does, a pull after a successful push returns the pushed content
  or an error, and the push returns the digest of the manifest; if the registry answers every
  request, both succeed. The content must not collide with the empty configuration under SHA-256.\<close>

theorem artifact_roundtrip:
  assumes "documented_registry c v addr" and "length content < 2 ^ 63"
    and "digest_of content = digest_of configContent \<longrightarrow> content = configContent"
    and "run_state (PushArtifact c addr repository tag content) w = (r, w1)"
    and "run_state (PullArtifact c addr repository tag) w1 = (r', w2)"
  shows "(\<forall>d. r = Inr d \<longrightarrow> d = digest_of (artifact_manifest content) \<and> (\<forall>pulled. r' = Inr pulled \<longrightarrow> pulled = content)) \<and>
    (answering_registry c v addr \<longrightarrow> (\<exists>d. r = Inr d) \<and> r' = Inr content)"
proof -
  let ?m = "manifest_of content (digest_of configContent) (digest_of content)"
  note push = wp_runD [OF PushArtifact_documented [OF assms(1)] assms(4)]
  have pull: "step_ok (answering_registry c v addr) (\<lambda>b w'. b = content \<and> rv_Store v w' = rv_Store v w1) r' w2" if "r = Inr d" for d
  proof -
    have store: "rv_Store v w1 = (rv_Store v w)(blob_url addr repository (digest_of content) \<mapsto> content,
         blob_url addr repository (digest_of configContent) \<mapsto> configContent,
         manifest_url addr repository tag \<mapsto> artifact_manifest content)"
      using push that by simp
    have "om_Layers ?m = [\<lparr>od_MediaType = ''application/octet-stream'', od_Size = int (length content), od_Digest = digest_of content\<rparr>]"
      by (simp add: manifest_of_def)
    from PullArtifact_documented [OF assms(1) _ ok_manifest_of [OF assms(2)] this, where w = w1 and repository = repository and tag = tag and content = content]
    have "wp_of (PullArtifact c addr repository tag)
        (step_ok (answering_registry c v addr) (\<lambda>b w'. b = content \<and> rv_Store v w' = rv_Store v w1)) w1"
      using assms(3) by (auto simp: store)
    from wp_runD [OF this assms(5)] show ?thesis .
  qed
  show ?thesis
  proof (cases r)
    case (Inr d)
    then show ?thesis using push pull [OF Inr] by (auto simp: step_ok_def split: sum.splits)
  qed (use push in simp)
qed

text \<open>
  A registry held in memory: the state is what it stores, an upload is named by its repository, and
  every request is answered.
\<close>

definition memory_response :: "int \<Rightarrow> string \<Rightarrow> string \<Rightarrow> goerror + http_response" where
  "memory_response status loc body = Inr \<lparr>rs_StatusCode = status, rs_Location = loc, rs_Body = Inr body\<rparr>"

definition memory_upload_of :: "string \<Rightarrow> string \<Rightarrow> string option" where
  "memory_upload_of addr url =
     (let prefix = ''http://'' @ addr @ ''/upload/'' in if HasPrefix url prefix then Some (drop (length prefix) url) else None)"

definition memory_Do :: "string \<Rightarrow> http_request \<Rightarrow> (string \<rightharpoonup> string) \<Rightarrow> (goerror + http_response) \<times> (string \<rightharpoonup> string)" where
  "memory_Do addr req store =
     (let url = rq_URL req; n = length url in
      if rq_Method req = ''POST''
      then (memory_response 202 (''/upload/'' @ take (n - length (''http://'' @ addr @ ''/v2/'') - 15) (drop (length (''http://'' @ addr @ ''/v2/'')) url)) [],
        store)
      else if rq_Method req = ''GET''
      then ((case store url of Some body \<Rightarrow> memory_response 200 [] body | None \<Rightarrow> memory_response 404 [] []), store)
      else if map_of (rq_Header req) ''Content-Type'' = Some ''application/octet-stream''
      then (case memory_upload_of addr (take (n - 79) url) of
              Some repository \<Rightarrow> (memory_response 201 [] [], store(blob_url addr repository (drop (n - 71) url) \<mapsto> rq_Body req))
            | None \<Rightarrow> (memory_response 404 [] [], store))
      else (memory_response 201 [] [], store(url \<mapsto> rq_Body req)))"

definition memory_client :: "string \<Rightarrow> (string \<rightharpoonup> string) http_client" where
  "memory_client addr = \<lparr>hc_NewRequest = (\<lambda>_ _. None), hc_Do = memory_Do addr\<rparr>"

definition memory_view :: "string \<Rightarrow> (string \<rightharpoonup> string) registry_view" where
  "memory_view addr = \<lparr>rv_Store = id, rv_Uploads = \<lambda>_. memory_upload_of addr\<rparr>"

lemma length_digest [simp]: "length (digest_of content) = 71"
  by (simp add: digest_of_def)

lemma memory_post:
  "memory_Do addr (post_request (uploads_url addr repository)) w = (memory_response 202 (''/upload/'' @ repository) [], w)"
  by (simp add: memory_Do_def post_request_def uploads_url_def)

lemma put_url_parts:
  "take (length (put_url url (digest_of content)) - 79) (put_url url (digest_of content)) = url"
  "drop (length (put_url url (digest_of content)) - 71) (put_url url (digest_of content)) = digest_of content"
  by (simp_all add: put_url_def)

lemma memory_put_blob:
  "memory_Do addr (put_blob (put_url url (digest_of content)) content) w =
     (case memory_upload_of addr url of
        Some repository \<Rightarrow> (memory_response 201 [] [], w(blob_url addr repository (digest_of content) \<mapsto> content))
      | None \<Rightarrow> (memory_response 404 [] [], w))"
  by (cases "memory_upload_of addr url") (simp_all add: memory_Do_def put_blob_def Let_def put_url_parts)

lemma memory_put_manifest:
  "memory_Do addr (put_manifest url m) w = (memory_response 201 [] [], w(url \<mapsto> m))"
  by (simp add: memory_Do_def put_manifest_def Let_def)

lemma memory_get:
  "memory_Do addr (get_request url h) w =
     ((case w url of Some body \<Rightarrow> memory_response 200 [] body | None \<Rightarrow> memory_response 404 [] []), w)"
  by (simp add: memory_Do_def get_request_def Let_def)

lemma memory_upload: "memory_upload_of addr (absolute_url addr (''/upload/'' @ repository)) = Some repository"
  by (simp add: memory_upload_of_def absolute_url_def HasPrefix_def)

lemma memory_documented: "documented_registry (memory_client addr) (memory_view addr) addr"
  unfolding documented_registry_def posts_documented_def blob_puts_documented_def manifest_puts_documented_def gets_documented_def
  using memory_upload
  by (auto simp: memory_client_def memory_view_def memory_post memory_put_blob memory_put_manifest memory_get memory_response_def
      split: option.splits)

lemma memory_answers: "answering_registry (memory_client addr) (memory_view addr) addr"
  unfolding answering_registry_def
  by (simp add: memory_client_def memory_view_def memory_post memory_put_blob memory_put_manifest memory_get memory_response_def)

theorem artifact_roundtrip_witness:
  "fst (run_state (PullArtifact (memory_client ''localhost:5000'') ''localhost:5000'' ''ontai-dev/test-pack'' ''v1.0.0'')
     (snd (run_state (PushArtifact (memory_client ''localhost:5000'') ''localhost:5000'' ''ontai-dev/test-pack'' ''v1.0.0'' ''{}'') Map.empty))) =
   Inr ''{}''"
  using artifact_roundtrip [OF memory_documented, of "''{}''" "''localhost:5000''" "''ontai-dev/test-pack''" "''v1.0.0''" Map.empty, OF _ _ prod.collapse [symmetric] prod.collapse [symmetric]]
    memory_answers
  by (simp add: configContent_def)

end
