(* ===== verification/E2eHelpers.thy ===== *)
theory E2eHelpers
  imports ConditionPoller GoJson
begin

text \<open>
  The helpers of \<^verbatim>\<open>src/pkg/e2e\<close> that act on a cluster: the client bundle (client.go), the
  namespace ensurer (namespace.go) and the applier of custom resources (applier.go). The client
  libraries and the YAML parser are outside the repository: their constructors and calls are fields
  of \<open>client_libraries\<close> and \<open>ClusterClient\<close>.
\<close>

record Namespace =
  ns_Name :: string
  ns_Labels :: "(string, string) gomap"

record PatchOptions =
  po_FieldManager :: string
  po_Force :: "bool option"

text \<open>
  The typed client creates namespaces, the dynamic client patches a resource, without a namespace
  when the resource is not namespaced.
\<close>

record ('w, 'o) ClusterClient =
  cc_Name :: string
  cc_CreateNamespace :: "Namespace \<Rightarrow> 'w \<Rightarrow> (api_error + Namespace) \<times> 'w"
  cc_Patch :: "GVR \<Rightarrow> string option \<Rightarrow> string \<Rightarrow> string \<Rightarrow> string \<Rightarrow> PatchOptions \<Rightarrow> 'w \<Rightarrow> (api_error + 'o) \<times> 'w"

record ('cfg, 'w, 'o) client_libraries =
  lib_BuildConfigFromFlags :: "string \<Rightarrow> string \<Rightarrow> goerror + 'cfg"
  lib_TypedNewForConfig :: "'cfg \<Rightarrow> goerror + (Namespace \<Rightarrow> 'w \<Rightarrow> (api_error + Namespace) \<times> 'w)"
  lib_DynamicNewForConfig ::
    "'cfg \<Rightarrow> goerror + (GVR \<Rightarrow> string option \<Rightarrow> string \<Rightarrow> string \<Rightarrow> string \<Rightarrow> PatchOptions \<Rightarrow> 'w \<Rightarrow> (api_error + 'o) \<times> 'w)"

definition NewClusterClient ::
  "('cfg, 'w, 'o) client_libraries \<Rightarrow> string \<Rightarrow> string \<Rightarrow> goerror + ('w, 'o) ClusterClient" where
  "NewClusterClient libs name kubeconfigPath =
     (case lib_BuildConfigFromFlags libs [] kubeconfigPath of
        Inl err \<Rightarrow> Inl (Errorf (''e2e: cluster '' @ Quote name @ '': load kubeconfig '' @ Quote kubeconfigPath @ '': '') err)
      | Inr cfg \<Rightarrow>
          (case lib_TypedNewForConfig libs cfg of
             Inl err \<Rightarrow> Inl (Errorf (''e2e: cluster '' @ Quote name @ '': build typed client: '') err)
           | Inr typed_client \<Rightarrow>
               (case lib_DynamicNewForConfig libs cfg of
                  Inl err \<Rightarrow> Inl (Errorf (''e2e: cluster '' @ Quote name @ '': build dynamic client: '') err)
                | Inr dyn \<Rightarrow> Inr \<lparr>cc_Name = name, cc_CreateNamespace = typed_client, cc_Patch = dyn\<rparr>)))"


section \<open>The namespace ensurer\<close>

abbreviation (input) WebhookModeExempt :: string where
  "WebhookModeExempt \<equiv> ''exempt''"

abbreviation (input) WebhookModeObserve :: string where
  "WebhookModeObserve \<equiv> ''observe''"

abbreviation (input) WebhookModeEnforce :: string where
  "WebhookModeEnforce \<equiv> ''enforce''"

abbreviation (input) webhookModeLabel :: string where
  "webhookModeLabel \<equiv> ''seam.ontai.dev/webhook-mode''"

text \<open>The result is the error, as in the code; \<open>None\<close> is nil.\<close>

definition Ensure :: "('w, 'o) ClusterClient \<Rightarrow> string \<Rightarrow> string \<Rightarrow> ('w, goerror option) state" where
  "Ensure client name webhookMode =
     (let ns = \<lparr>ns_Name = name, ns_Labels = [(webhookModeLabel, webhookMode)]\<rparr> in
      try_state (State (cc_CreateNamespace client ns))
        (\<lambda>err. if IsAlreadyExists err then ret None
           else ret (Some (Errorf (''e2e: cluster '' @ Quote (cc_Name client) @ '': NamespaceEnsurer: create namespace '' @
             Quote name @ '': '') (ApiError err))))
        (\<lambda>_. ret None))"

definition EnsureSeamSystem :: "('w, 'o) ClusterClient \<Rightarrow> ('w, goerror option) state" where
  "EnsureSeamSystem client = Ensure client ''seam-system'' WebhookModeExempt"

definition EnsureOntSystem :: "('w, 'o) ClusterClient \<Rightarrow> ('w, goerror option) state" where
  "EnsureOntSystem client = Ensure client ''ont-system'' WebhookModeExempt"

definition EnsureTenantNamespace :: "('w, 'o) ClusterClient \<Rightarrow> string \<Rightarrow> ('w, goerror option) state" where
  "EnsureTenantNamespace client clusterName = Ensure client (''seam-tenant-'' @ clusterName) WebhookModeEnforce"


section \<open>The applier\<close>

text \<open>
  \<^verbatim>\<open>json.Unmarshal\<close> into a nil \<^verbatim>\<open>map[string]interface{}\<close>: null leaves it nil, which reads
  like an empty map. \<open>object_string\<close> is what \<^verbatim>\<open>GetName\<close> and \<^verbatim>\<open>GetNamespace\<close> read: a nested
  string, empty when it is absent or another type.
\<close>

definition unmarshal_object :: "string \<Rightarrow> json_error + (string, gointf) gomap" where
  "unmarshal_object s =
     (case json_parse s of
        None \<Rightarrow> Inl SyntaxError
      | Some v \<Rightarrow> (case to_interface v of Some (IMap m) \<Rightarrow> Inr m | Some INil \<Rightarrow> Inr [] | _ \<Rightarrow> Inl UnmarshalTypeError))"

definition object_string :: "(string, gointf) gomap \<Rightarrow> string \<Rightarrow> string" where
  "object_string m field =
     (case map_of m ''metadata'' of
        Some (IMap meta) \<Rightarrow> (case map_of meta field of Some (IStr s) \<Rightarrow> s | _ \<Rightarrow> [])
      | _ \<Rightarrow> [])"

definition json_error_text :: "json_error \<Rightarrow> goerror" where
  "json_error_text err = ErrorString (case err of SyntaxError \<Rightarrow> ''syntax error'' | UnmarshalTypeError \<Rightarrow> ''type error'')"

definition patchOpts :: PatchOptions where
  "patchOpts = \<lparr>po_FieldManager = ''seam-e2e'', po_Force = Some True\<rparr>"

definition applier_error :: "('w, 'o) ClusterClient \<Rightarrow> string \<Rightarrow> string" where
  "applier_error client what = ''e2e: cluster '' @ Quote (cc_Name client) @ '': CRApplier: '' @ what"

definition Apply_CR ::
  "(string \<Rightarrow> goerror + string) \<Rightarrow> ('w, 'o) ClusterClient \<Rightarrow> GVR \<Rightarrow> string \<Rightarrow> ('w, goerror + 'o) state" where
  "Apply_CR YAMLToJSON client gvr manifestYAML =
     (case YAMLToJSON manifestYAML of
        Inl err \<Rightarrow> ret (Inl (Errorf (applier_error client ''parse YAML: '') err))
      | Inr jsonBytes \<Rightarrow>
          (case unmarshal_object jsonBytes of
             Inl err \<Rightarrow> ret (Inl (Errorf (applier_error client ''decode manifest: '') (json_error_text err)))
           | Inr obj \<Rightarrow>
               (let name = object_string obj ''name'' in
                if name = [] then ret (Inl (ErrorString (applier_error client ''manifest has no metadata.name'')))
                else let namespace = object_string obj ''namespace'' in
                  try_state
                    (if namespace = []
                     then State (cc_Patch client gvr None name ''application/apply-patch+yaml'' jsonBytes patchOpts)
                     else State (cc_Patch client gvr (Some namespace) name ''application/apply-patch+yaml'' jsonBytes patchOpts))
                    (\<lambda>err. ret (Inl (Errorf (applier_error client
                       (''server-side apply '' @ gvr_Resource gvr @ ''/'' @ namespace @ ''/'' @ name @ '': '')) (ApiError err))))
                    (\<lambda>result. ret (Inr result)))))"


section \<open>What the helpers guarantee\<close>

text \<open>
  The namespaces of a cluster with their labels. A create is refused as existing exactly for a
  stored name, an error changes nothing, and a created namespace has at least the given labels.
\<close>

definition documented_namespaces :: "('w, 'o) ClusterClient \<Rightarrow> ('w \<Rightarrow> string \<rightharpoonup> (string \<rightharpoonup> string)) \<Rightarrow> bool" where
  "documented_namespaces c stored \<longleftrightarrow>
     (\<forall>ns w r w'. cc_CreateNamespace c ns w = (r, w') \<longrightarrow>
        (case r of
           Inl err \<Rightarrow> stored w' = stored w \<and> (err = AlreadyExists \<longrightarrow> stored w (ns_Name ns) \<noteq> None)
         | Inr _ \<Rightarrow> stored w (ns_Name ns) = None \<and>
             (\<exists>labels. map_of (ns_Labels ns) \<subseteq>\<^sub>m labels \<and> stored w' = (stored w)(ns_Name ns \<mapsto> labels))))"

lemma Ensure_documented:
  assumes "documented_namespaces c stored" and "run_state (Ensure c name mode) w = (r, w')"
  shows "if r = None
    then \<exists>labels. stored w' = (stored w)(name \<mapsto> labels) \<and>
      (case stored w name of None \<Rightarrow> labels webhookModeLabel = Some mode | Some old \<Rightarrow> labels = old)
    else stored w' = stored w"
proof -
  let ?ns = "\<lparr>ns_Name = name, ns_Labels = [(webhookModeLabel, mode)]\<rparr>"
  obtain r1 where call: "cc_CreateNamespace c ?ns w = (r1, w')"
    and r: "r = (case r1 of Inl err \<Rightarrow> if IsAlreadyExists err then None
        else Some (Errorf (''e2e: cluster '' @ Quote (cc_Name c) @ '': NamespaceEnsurer: create namespace '' @
             Quote name @ '': '') (ApiError err)) | Inr _ \<Rightarrow> None)"
    using assms(2) by (auto simp: Ensure_def Let_def split: prod.splits sum.splits if_splits)
  show ?thesis
  proof (cases r1)
    case (Inl err)
    with assms(1) call have "stored w' = stored w" "err = AlreadyExists \<longrightarrow> stored w name \<noteq> None"
      unfolding documented_namespaces_def by fastforce+
    with Inl r show ?thesis by (cases err) (auto simp: fun_upd_idem)
  next
    case (Inr ns)
    with assms(1) call obtain labels where "stored w name = None" "map_of (ns_Labels ?ns) \<subseteq>\<^sub>m labels"
        "stored w' = (stored w)(name \<mapsto> labels)"
      unfolding documented_namespaces_def by fastforce
    with Inr r show ?thesis by (auto simp: map_le_def)
  qed
qed

text \<open>The manifest's text decides the request: one forced apply of the whole document.\<close>

lemma Apply_CR_request:
  assumes "YAMLToJSON yaml = Inr json" and "unmarshal_object json = Inr obj" and "object_string obj ''name'' = n" and "n \<noteq> []"
    and "cc_Patch c gvr (if object_string obj ''namespace'' = [] then None else Some (object_string obj ''namespace'')) n
      ''application/apply-patch+yaml'' json patchOpts w = (r, w')"
  shows "run_state (Apply_CR YAMLToJSON c gvr yaml) w =
    ((case r of Inl err \<Rightarrow> Inl (Errorf (applier_error c (''server-side apply '' @ gvr_Resource gvr @ ''/'' @
        object_string obj ''namespace'' @ ''/'' @ n @ '': '')) (ApiError err)) | Inr x \<Rightarrow> Inr x), w')"
  using assms by (auto simp: Apply_CR_def Let_def split: sum.splits if_splits)

text \<open>Without a readable name no request is made.\<close>

lemma Apply_CR_no_request:
  assumes "\<And>json obj. YAMLToJSON yaml = Inr json \<Longrightarrow> unmarshal_object json = Inr obj \<Longrightarrow> object_string obj ''name'' = []"
  shows "\<exists>err. run_state (Apply_CR YAMLToJSON c gvr yaml) w = (Inl err, w)"
  using assms by (auto simp: Apply_CR_def Let_def split: sum.splits)

text \<open>Ensure is idempotent: after a nil result the namespace exists, with the requested webhook
  mode if it was created and with its old labels if it existed; no other namespace changed, and a
  second call with any mode, whatever it returns, changes nothing.\<close>

lemma Ensure_idempotent:
  assumes "documented_namespaces c stored"
    and "run_state (Ensure c name mode) w = (None, w1)" and "run_state (Ensure c name mode') w1 = (r, w2)"
  shows "\<exists>labels. stored w1 = (stored w)(name \<mapsto> labels) \<and>
    (case stored w name of None \<Rightarrow> labels webhookModeLabel = Some mode | Some old \<Rightarrow> labels = old) \<and>
    stored w2 = stored w1"
proof -
  obtain labels where labels: "stored w1 = (stored w)(name \<mapsto> labels)"
      "case stored w name of None \<Rightarrow> labels webhookModeLabel = Some mode | Some old \<Rightarrow> labels = old"
    using Ensure_documented [OF assms(1,2)] by auto
  have "stored w2 = stored w1"
    using Ensure_documented [OF assms(1,3)] labels(1) by (auto simp: fun_upd_idem split: if_splits)
  with labels show ?thesis by blast
qed

text \<open>A cluster that holds its namespaces in memory.\<close>

definition memory_namespaces :: "(string \<rightharpoonup> (string \<rightharpoonup> string), unit) ClusterClient" where
  "memory_namespaces =
     \<lparr>cc_Name = ''ccs-mgmt'',
      cc_CreateNamespace = (\<lambda>ns w. if w (ns_Name ns) \<noteq> None then (Inl AlreadyExists, w)
        else (Inr ns, w(ns_Name ns \<mapsto> [''kubernetes.io/metadata.name'' \<mapsto> ns_Name ns] ++ map_of (ns_Labels ns)))),
      cc_Patch = (\<lambda>gvr ns name ty body opts w. (Inl NotFound, w))\<rparr>"

lemma memory_namespaces_documented: "documented_namespaces memory_namespaces id"
  unfolding documented_namespaces_def memory_namespaces_def
proof (intro allI impI, goal_cases)
  case (1 ns w r w')
  let ?labels = "[''kubernetes.io/metadata.name'' \<mapsto> ns_Name ns] ++ map_of (ns_Labels ns)"
  have "map_of (ns_Labels ns) \<subseteq>\<^sub>m ?labels" by simp
  with 1 show ?case by (auto split: if_splits intro!: exI [of _ ?labels])
qed

lemma Ensure_idempotent_sample:
  "\<exists>labels. snd (run_state (EnsureTenantNamespace memory_namespaces ''prod'') Map.empty) ''seam-tenant-prod'' = Some labels \<and>
     labels webhookModeLabel = Some ''enforce''"
proof -
  let ?run = "run_state (EnsureTenantNamespace memory_namespaces ''prod'') Map.empty"
  have "run_state (Ensure memory_namespaces ''seam-tenant-prod'' ''enforce'') Map.empty = (None, snd ?run)"
    by (simp add: EnsureTenantNamespace_def Ensure_def memory_namespaces_def Let_def)
  from Ensure_idempotent [OF memory_namespaces_documented this prod.collapse [symmetric]]
  obtain labels where "id (snd ?run) = [''seam-tenant-prod'' \<mapsto> labels]" "labels webhookModeLabel = Some ''enforce''"
    by auto
  then have "snd ?run ''seam-tenant-prod'' = Some labels" by simp
  with \<open>labels webhookModeLabel = _\<close> show ?thesis by blast
qed

end
