(* ===== verification/ApiJson.thy ===== *)
theory ApiJson
  imports GoStruct LineagePkg
begin

text \<open>
  The JSON form of the parts the API types of \<^verbatim>\<open>src/api/v1alpha1\<close> share: a struct field, times,
  conditions, the sealed causal chain of \<^verbatim>\<open>src/pkg/lineage/chain.go\<close>. Times are nanoseconds since
  the epoch; their text is made by the API machinery and is a parameter.
\<close>


section \<open>Times\<close>

record time_text =
  tt_Format :: "int \<Rightarrow> string"
  tt_Parse :: "string \<Rightarrow> int option"

text \<open>The zero time, 0001-01-01T00:00:00Z, is written as null, and null is read as the zero time.\<close>

definition zero_time :: int where
  "zero_time = - 62135596800 * 10 ^ 9"

definition time_doc :: "time_text \<Rightarrow> int \<Rightarrow> doc" where
  "time_doc tt t = (if t = zero_time then DNull else DStr (tt_Format tt t))"

definition decode_time :: "time_text \<Rightarrow> json \<Rightarrow> int \<Rightarrow> int option" where
  "decode_time tt v x = (case v of JString s \<Rightarrow> tt_Parse tt s | JNull \<Rightarrow> Some zero_time | _ \<Rightarrow> None)"

text \<open>The text has whole seconds; such a time is read back.\<close>

definition documented_time :: "time_text \<Rightarrow> bool" where
  "documented_time tt \<longleftrightarrow> (\<forall>t. 10 ^ 9 dvd t \<longrightarrow> tt_Parse tt (tt_Format tt t) = Some t)"

definition whole_second :: "int \<Rightarrow> bool" where
  "whole_second t \<longleftrightarrow> 10 ^ 9 dvd t"

lemma decode_time_doc [roundtrip]: "documented_time tt \<Longrightarrow> whole_second t \<Longrightarrow> decode_time tt (json_of (time_doc tt t)) x = Some t"
  by (simp add: documented_time_def whole_second_def time_doc_def decode_time_def)

abbreviation decode_time_pointer :: "time_text \<Rightarrow> json \<Rightarrow> int option \<Rightarrow> int option option" where
  "decode_time_pointer tt \<equiv> decode_pointer (decode_time tt) zero_time"

text \<open>A pointer to the zero time would come back nil.\<close>

definition sound_time :: "int option \<Rightarrow> bool" where
  "sound_time p \<longleftrightarrow> (case p of None \<Rightarrow> True | Some t \<Rightarrow> whole_second t \<and> t \<noteq> zero_time)"

lemma decode_time_pointer_doc [roundtrip]:
  "documented_time tt \<Longrightarrow> sound_time p \<Longrightarrow> decode_time_pointer tt (json_of (pointer_doc (time_doc tt) p)) None = Some p"
  by (rule decode_pointer_doc) (simp add: sound_time_def decode_time_doc, simp add: time_doc_def)


section \<open>Conditions\<close>

definition Condition_doc :: "time_text \<Rightarrow> Condition \<Rightarrow> doc" where
  "Condition_doc tt c = DObject (
     (''type'', DStr (c_Type c)) #
     (''status'', DStr (c_Status c)) #
     omitempty (c_ObservedGeneration c = 0) ''observedGeneration'' (DInt (c_ObservedGeneration c)) @
     (''lastTransitionTime'', time_doc tt (c_LastTransitionTime c)) #
     (''reason'', DStr (c_Reason c)) #
     (''message'', DStr (c_Message c)) # [])"

definition zero_Condition :: Condition where
  "zero_Condition = \<lparr>c_Type = [], c_Status = [], c_Reason = [], c_Message = [], c_ObservedGeneration = 0,
     c_LastTransitionTime = zero_time\<rparr>"

definition decode_Condition :: "time_text \<Rightarrow> json \<Rightarrow> Condition \<Rightarrow> Condition option" where
  "decode_Condition tt = decode_object
     [(''type'', field c_Type c_Type_update decode_string),
      (''status'', field c_Status c_Status_update decode_string),
      (''observedGeneration'', field c_ObservedGeneration c_ObservedGeneration_update decode_int),
      (''lastTransitionTime'', field c_LastTransitionTime c_LastTransitionTime_update (decode_time tt)),
      (''reason'', field c_Reason c_Reason_update decode_string),
      (''message'', field c_Message c_Message_update decode_string)]"

definition sound_Condition :: "Condition \<Rightarrow> bool" where
  "sound_Condition c \<longleftrightarrow> int64 (c_ObservedGeneration c) \<and> whole_second (c_LastTransitionTime c)"

lemma Condition_roundtrip [roundtrip]:
  assumes "documented_time tt" and "sound_Condition c"
  shows "decode_Condition tt (json_of (Condition_doc tt c)) zero_Condition = Some c"
  using assms
  by (simp add: Condition_doc_def decode_Condition_def struct_steps roundtrip zero_Condition_def decode_time_doc sound_Condition_def del: json_of.simps)


section \<open>The sealed causal chain\<close>

definition OperatorIdentity_doc :: "OperatorIdentity \<Rightarrow> doc" where
  "OperatorIdentity_doc o1 = DObject ((''name'', DStr (oi_Name o1)) # (''version'', DStr (oi_Version o1)) # [])"

definition zero_OperatorIdentity :: OperatorIdentity where
  "zero_OperatorIdentity = \<lparr>oi_Name = [], oi_Version = []\<rparr>"

definition decode_OperatorIdentity :: "json \<Rightarrow> OperatorIdentity \<Rightarrow> OperatorIdentity option" where
  "decode_OperatorIdentity = decode_object
     [(''name'', field oi_Name oi_Name_update decode_string), (''version'', field oi_Version oi_Version_update decode_string)]"

lemma OperatorIdentity_roundtrip [roundtrip]:
  "decode_OperatorIdentity (json_of (OperatorIdentity_doc x)) zero_OperatorIdentity = Some x"
  by (simp add: OperatorIdentity_doc_def decode_OperatorIdentity_def struct_steps roundtrip zero_OperatorIdentity_def del: json_of.simps)

definition SealedCausalChain_doc :: "SealedCausalChain \<Rightarrow> doc" where
  "SealedCausalChain_doc s = DObject (
     (''rootKind'', DStr (scc_RootKind s)) #
     (''rootName'', DStr (scc_RootName s)) #
     (''rootNamespace'', DStr (scc_RootNamespace s)) #
     (''rootUID'', DStr (scc_RootUID s)) #
     (''creatingOperator'', OperatorIdentity_doc (scc_CreatingOperator s)) #
     (''creationRationale'', DStr (scc_CreationRationale s)) #
     (''rootGenerationAtCreation'', DInt (scc_RootGenerationAtCreation s)) # [])"

definition zero_SealedCausalChain :: SealedCausalChain where
  "zero_SealedCausalChain = \<lparr>scc_RootKind = [], scc_RootName = [], scc_RootNamespace = [], scc_RootUID = [],
     scc_CreatingOperator = zero_OperatorIdentity, scc_CreationRationale = [], scc_RootGenerationAtCreation = 0\<rparr>"

definition decode_SealedCausalChain :: "json \<Rightarrow> SealedCausalChain \<Rightarrow> SealedCausalChain option" where
  "decode_SealedCausalChain = decode_object
     [(''rootKind'', field scc_RootKind scc_RootKind_update decode_string),
      (''rootName'', field scc_RootName scc_RootName_update decode_string),
      (''rootNamespace'', field scc_RootNamespace scc_RootNamespace_update decode_string),
      (''rootUID'', field scc_RootUID scc_RootUID_update decode_string),
      (''creatingOperator'', field scc_CreatingOperator scc_CreatingOperator_update decode_OperatorIdentity),
      (''creationRationale'', field scc_CreationRationale scc_CreationRationale_update decode_string),
      (''rootGenerationAtCreation'', field scc_RootGenerationAtCreation scc_RootGenerationAtCreation_update decode_int)]"

definition sound_chain :: "SealedCausalChain option \<Rightarrow> bool" where
  "sound_chain p \<longleftrightarrow> (case p of None \<Rightarrow> True | Some s \<Rightarrow> int64 (scc_RootGenerationAtCreation s))"

lemma SealedCausalChain_pointer_roundtrip [roundtrip]:
  "sound_chain p \<Longrightarrow> decode_pointer decode_SealedCausalChain zero_SealedCausalChain
     (json_of (pointer_doc SealedCausalChain_doc p)) None = Some p"
  by (rule decode_pointer_doc)
    (simp add: sound_chain_def SealedCausalChain_doc_def decode_SealedCausalChain_def struct_steps roundtrip zero_SealedCausalChain_def
      del: json_of.simps)


section \<open>Objects of the API group\<close>

text \<open>
  An object of a kind: its type, its metadata, its specification and its status. The metadata is a
  type of the API machinery, with a codec of its own. A kind whose specification and status are
  read back as they were written has the same for whole objects.
\<close>

record ('m, 's, 't) api_object =
  ao_Kind :: string
  ao_APIVersion :: string
  ao_Meta :: 'm
  ao_Spec :: 's
  ao_Status :: 't

definition object_codec :: "'m codec \<Rightarrow> 's codec \<Rightarrow> 't codec \<Rightarrow> ('m, 's, 't) api_object codec" where
  "object_codec m s t =
     \<lparr>cd_doc = (\<lambda>x. DObject (
        opt_string ''kind'' (ao_Kind x) @
        opt_string ''apiVersion'' (ao_APIVersion x) @
        (''metadata'', cd_doc m (ao_Meta x)) #
        (''spec'', cd_doc s (ao_Spec x)) #
        (''status'', cd_doc t (ao_Status x)) # [])),
      cd_decode = decode_object
       [(''kind'', field ao_Kind ao_Kind_update decode_string),
        (''apiVersion'', field ao_APIVersion ao_APIVersion_update decode_string),
        (''metadata'', field ao_Meta ao_Meta_update (cd_decode m)),
        (''spec'', field ao_Spec ao_Spec_update (cd_decode s)),
        (''status'', field ao_Status ao_Status_update (cd_decode t))],
      cd_zero = \<lparr>ao_Kind = [], ao_APIVersion = [], ao_Meta = cd_zero m, ao_Spec = cd_zero s, ao_Status = cd_zero t\<rparr>,
      cd_sound = (\<lambda>x. read_back m (ao_Meta x) \<and> cd_sound s (ao_Spec x) \<and> cd_sound t (ao_Status x))\<rparr>"

locale api_kind = spec: json_codec s + status: json_codec t
  for s :: "'s codec" and t :: "'t codec"
begin

lemma object_decodes: "cd_sound (object_codec m s t) x \<Longrightarrow> read_back (object_codec m s t) x"
  using spec.decodes [of "ao_Spec x"] status.decodes [of "ao_Status x"]
  by (simp add: object_codec_def read_back_def struct_steps roundtrip del: json_of.simps)

lemma object_survives: "survives (object_codec m s t) x"
  by (rule json_codec.codec_survives, unfold_locales, rule object_decodes)

end

end
