(* ===== verification/ApiCluster.thy ===== *)
theory ApiCluster
  imports ApiJson
begin

text \<open>
  The API types of clusters and of their operation: \<^verbatim>\<open>taloscluster_types.go\<close>,
  \<^verbatim>\<open>talosclusteroperationresult_types.go\<close>, \<^verbatim>\<open>runnerconfig_types.go\<close> and
  \<^verbatim>\<open>seammembership_types.go\<close> of \<^verbatim>\<open>src/api/v1alpha1\<close>. One record per struct; its JSON form and
  decoder follow the field tags; a round trip lemma per struct.
\<close>


section \<open>TalosCluster\<close>

type_synonym InfrastructureTalosClusterMode = string

abbreviation (input) InfrastructureTalosClusterModeBootstrap :: InfrastructureTalosClusterMode where
  "InfrastructureTalosClusterModeBootstrap \<equiv> ''bootstrap''"

abbreviation (input) InfrastructureTalosClusterModeImport :: InfrastructureTalosClusterMode where
  "InfrastructureTalosClusterModeImport \<equiv> ''import''"

type_synonym InfrastructureTalosClusterRole = string

abbreviation (input) InfrastructureTalosClusterRoleManagement :: InfrastructureTalosClusterRole where
  "InfrastructureTalosClusterRoleManagement \<equiv> ''management''"

abbreviation (input) InfrastructureTalosClusterRoleTenant :: InfrastructureTalosClusterRole where
  "InfrastructureTalosClusterRoleTenant \<equiv> ''tenant''"

type_synonym InfrastructureTalosClusterOrigin = string

abbreviation (input) InfrastructureTalosClusterOriginBootstrapped :: InfrastructureTalosClusterOrigin where
  "InfrastructureTalosClusterOriginBootstrapped \<equiv> ''bootstrapped''"

abbreviation (input) InfrastructureTalosClusterOriginImported :: InfrastructureTalosClusterOrigin where
  "InfrastructureTalosClusterOriginImported \<equiv> ''imported''"

type_synonym InfrastructureProvider = string

abbreviation (input) InfrastructureProviderNative :: InfrastructureProvider where
  "InfrastructureProviderNative \<equiv> ''native''"

abbreviation (input) InfrastructureProviderCAPI :: InfrastructureProvider where
  "InfrastructureProviderCAPI \<equiv> ''capi''"

abbreviation (input) InfrastructureProviderScreen :: InfrastructureProvider where
  "InfrastructureProviderScreen \<equiv> ''screen''"

record InfrastructureLocalObjectRef =
  lor_Name :: string
  lor_Namespace :: string

definition InfrastructureLocalObjectRef_doc :: "InfrastructureLocalObjectRef \<Rightarrow> doc" where
  "InfrastructureLocalObjectRef_doc x = DObject (
     (''name'', DStr (lor_Name x)) #
     opt_string ''namespace'' (lor_Namespace x))"

definition zero_InfrastructureLocalObjectRef :: InfrastructureLocalObjectRef where
  "zero_InfrastructureLocalObjectRef =
     \<lparr>lor_Name = [], lor_Namespace = []\<rparr>"

definition decode_InfrastructureLocalObjectRef :: "json \<Rightarrow> InfrastructureLocalObjectRef \<Rightarrow> InfrastructureLocalObjectRef option" where
  "decode_InfrastructureLocalObjectRef = decode_object
     [(''name'', field lor_Name lor_Name_update decode_string),
      (''namespace'', field lor_Namespace lor_Namespace_update decode_string)]"

lemma InfrastructureLocalObjectRef_roundtrip [roundtrip]:
  "decode_InfrastructureLocalObjectRef (json_of (InfrastructureLocalObjectRef_doc x)) zero_InfrastructureLocalObjectRef = Some x"
  by (simp add: InfrastructureLocalObjectRef_doc_def decode_InfrastructureLocalObjectRef_def zero_InfrastructureLocalObjectRef_def
      struct_steps roundtrip del: json_of.simps)

lemma InfrastructureLocalObjectRef_not_null [simp]: "json_of (InfrastructureLocalObjectRef_doc x) \<noteq> JNull"
  by (simp add: InfrastructureLocalObjectRef_doc_def)

record InfrastructureCAPICiliumPackRef =
  cpr_Name :: string
  cpr_Version :: string

definition InfrastructureCAPICiliumPackRef_doc :: "InfrastructureCAPICiliumPackRef \<Rightarrow> doc" where
  "InfrastructureCAPICiliumPackRef_doc x = DObject (
     (''name'', DStr (cpr_Name x)) #
     (''version'', DStr (cpr_Version x)) # [])"

definition zero_InfrastructureCAPICiliumPackRef :: InfrastructureCAPICiliumPackRef where
  "zero_InfrastructureCAPICiliumPackRef =
     \<lparr>cpr_Name = [], cpr_Version = []\<rparr>"

definition decode_InfrastructureCAPICiliumPackRef :: "json \<Rightarrow> InfrastructureCAPICiliumPackRef \<Rightarrow> InfrastructureCAPICiliumPackRef option" where
  "decode_InfrastructureCAPICiliumPackRef = decode_object
     [(''name'', field cpr_Name cpr_Name_update decode_string),
      (''version'', field cpr_Version cpr_Version_update decode_string)]"

lemma InfrastructureCAPICiliumPackRef_roundtrip [roundtrip]:
  "decode_InfrastructureCAPICiliumPackRef (json_of (InfrastructureCAPICiliumPackRef_doc x)) zero_InfrastructureCAPICiliumPackRef = Some x"
  by (simp add: InfrastructureCAPICiliumPackRef_doc_def decode_InfrastructureCAPICiliumPackRef_def zero_InfrastructureCAPICiliumPackRef_def
      struct_steps roundtrip del: json_of.simps)

lemma InfrastructureCAPICiliumPackRef_not_null [simp]: "json_of (InfrastructureCAPICiliumPackRef_doc x) \<noteq> JNull"
  by (simp add: InfrastructureCAPICiliumPackRef_doc_def)

record InfrastructureCAPIWorkerPool =
  wp_Name :: string
  wp_Replicas :: "32 word"
  wp_SeamInfrastructureMachineNames :: "string list"

definition InfrastructureCAPIWorkerPool_doc :: "InfrastructureCAPIWorkerPool \<Rightarrow> doc" where
  "InfrastructureCAPIWorkerPool_doc x = DObject (
     (''name'', DStr (wp_Name x)) #
     opt_word ''replicas'' (wp_Replicas x) @
     opt_strings ''seamInfrastructureMachineNames'' (wp_SeamInfrastructureMachineNames x))"

definition zero_InfrastructureCAPIWorkerPool :: InfrastructureCAPIWorkerPool where
  "zero_InfrastructureCAPIWorkerPool =
     \<lparr>wp_Name = [], wp_Replicas = 0, wp_SeamInfrastructureMachineNames = []\<rparr>"

definition decode_InfrastructureCAPIWorkerPool :: "json \<Rightarrow> InfrastructureCAPIWorkerPool \<Rightarrow> InfrastructureCAPIWorkerPool option" where
  "decode_InfrastructureCAPIWorkerPool = decode_object
     [(''name'', field wp_Name wp_Name_update decode_string),
      (''replicas'', field wp_Replicas wp_Replicas_update decode_word),
      (''seamInfrastructureMachineNames'', field wp_SeamInfrastructureMachineNames wp_SeamInfrastructureMachineNames_update decode_strings)]"

lemma InfrastructureCAPIWorkerPool_roundtrip [roundtrip]:
  "decode_InfrastructureCAPIWorkerPool (json_of (InfrastructureCAPIWorkerPool_doc x)) zero_InfrastructureCAPIWorkerPool = Some x"
  by (simp add: InfrastructureCAPIWorkerPool_doc_def decode_InfrastructureCAPIWorkerPool_def zero_InfrastructureCAPIWorkerPool_def
      struct_steps roundtrip del: json_of.simps)

record InfrastructureCAPIControlPlaneConfig =
  cpc_Replicas :: "32 word"

definition InfrastructureCAPIControlPlaneConfig_doc :: "InfrastructureCAPIControlPlaneConfig \<Rightarrow> doc" where
  "InfrastructureCAPIControlPlaneConfig_doc x = DObject (
     opt_word ''replicas'' (cpc_Replicas x))"

definition zero_InfrastructureCAPIControlPlaneConfig :: InfrastructureCAPIControlPlaneConfig where
  "zero_InfrastructureCAPIControlPlaneConfig =
     \<lparr>cpc_Replicas = 0\<rparr>"

definition decode_InfrastructureCAPIControlPlaneConfig :: "json \<Rightarrow> InfrastructureCAPIControlPlaneConfig \<Rightarrow> InfrastructureCAPIControlPlaneConfig option" where
  "decode_InfrastructureCAPIControlPlaneConfig = decode_object
     [(''replicas'', field cpc_Replicas cpc_Replicas_update decode_word)]"

lemma InfrastructureCAPIControlPlaneConfig_roundtrip [roundtrip]:
  "decode_InfrastructureCAPIControlPlaneConfig (json_of (InfrastructureCAPIControlPlaneConfig_doc x)) zero_InfrastructureCAPIControlPlaneConfig = Some x"
  by (simp add: InfrastructureCAPIControlPlaneConfig_doc_def decode_InfrastructureCAPIControlPlaneConfig_def zero_InfrastructureCAPIControlPlaneConfig_def
      struct_steps roundtrip del: json_of.simps)

lemma InfrastructureCAPIControlPlaneConfig_not_null [simp]: "json_of (InfrastructureCAPIControlPlaneConfig_doc x) \<noteq> JNull"
  by (simp add: InfrastructureCAPIControlPlaneConfig_doc_def)

record InfrastructureCAPIConfig =
  capi_Enabled :: bool
  capi_TalosVersion :: string
  capi_KubernetesVersion :: string
  capi_ControlPlane :: "InfrastructureCAPIControlPlaneConfig option"
  capi_Workers :: "InfrastructureCAPIWorkerPool list"
  capi_CiliumPackRef :: "InfrastructureCAPICiliumPackRef option"

definition InfrastructureCAPIConfig_doc :: "InfrastructureCAPIConfig \<Rightarrow> doc" where
  "InfrastructureCAPIConfig_doc x = DObject (
     (''enabled'', DBool (capi_Enabled x)) #
     opt_string ''talosVersion'' (capi_TalosVersion x) @
     opt_string ''kubernetesVersion'' (capi_KubernetesVersion x) @
     opt_pointer ''controlPlane'' InfrastructureCAPIControlPlaneConfig_doc (capi_ControlPlane x) @
     opt_slice ''workers'' InfrastructureCAPIWorkerPool_doc (capi_Workers x) @
     opt_pointer ''ciliumPackRef'' InfrastructureCAPICiliumPackRef_doc (capi_CiliumPackRef x))"

definition zero_InfrastructureCAPIConfig :: InfrastructureCAPIConfig where
  "zero_InfrastructureCAPIConfig =
     \<lparr>capi_Enabled = False, capi_TalosVersion = [], capi_KubernetesVersion = [], capi_ControlPlane = None, capi_Workers = [],
     capi_CiliumPackRef = None\<rparr>"

definition decode_InfrastructureCAPIConfig :: "json \<Rightarrow> InfrastructureCAPIConfig \<Rightarrow> InfrastructureCAPIConfig option" where
  "decode_InfrastructureCAPIConfig = decode_object
     [(''enabled'', field capi_Enabled capi_Enabled_update decode_bool),
      (''talosVersion'', field capi_TalosVersion capi_TalosVersion_update decode_string),
      (''kubernetesVersion'', field capi_KubernetesVersion capi_KubernetesVersion_update decode_string),
      (''controlPlane'', field capi_ControlPlane capi_ControlPlane_update (decode_pointer decode_InfrastructureCAPIControlPlaneConfig zero_InfrastructureCAPIControlPlaneConfig)),
      (''workers'', field capi_Workers capi_Workers_update (decode_slice decode_InfrastructureCAPIWorkerPool zero_InfrastructureCAPIWorkerPool)),
      (''ciliumPackRef'', field capi_CiliumPackRef capi_CiliumPackRef_update (decode_pointer decode_InfrastructureCAPICiliumPackRef zero_InfrastructureCAPICiliumPackRef))]"

lemma InfrastructureCAPIConfig_roundtrip [roundtrip]:
  "decode_InfrastructureCAPIConfig (json_of (InfrastructureCAPIConfig_doc x)) zero_InfrastructureCAPIConfig = Some x"
  by (simp add: InfrastructureCAPIConfig_doc_def decode_InfrastructureCAPIConfig_def zero_InfrastructureCAPIConfig_def
      struct_steps roundtrip del: json_of.simps)

lemma InfrastructureCAPIConfig_not_null [simp]: "json_of (InfrastructureCAPIConfig_doc x) \<noteq> JNull"
  by (simp add: InfrastructureCAPIConfig_doc_def)

record InfrastructureTalosClusterSpec =
  tcs_Mode :: InfrastructureTalosClusterMode
  tcs_Role :: InfrastructureTalosClusterRole
  tcs_TalosVersion :: string
  tcs_KubernetesVersion :: string
  tcs_VersionUpgrade :: bool
  tcs_ClusterEndpoint :: string
  tcs_NodeAddresses :: "string list"
  tcs_CAPI :: "InfrastructureCAPIConfig option"
  tcs_InfrastructureProvider :: InfrastructureProvider
  tcs_KubeconfigSecretRef :: string
  tcs_TalosconfigSecretRef :: string
  tcs_Lineage :: "SealedCausalChain option"
  tcs_PkiRotationThresholdDays :: "32 word"
  tcs_HardeningProfileRef :: "InfrastructureLocalObjectRef option"

definition InfrastructureTalosClusterSpec_doc :: "InfrastructureTalosClusterSpec \<Rightarrow> doc" where
  "InfrastructureTalosClusterSpec_doc x = DObject (
     (''mode'', DStr (tcs_Mode x)) #
     opt_string ''role'' (tcs_Role x) @
     opt_string ''talosVersion'' (tcs_TalosVersion x) @
     opt_string ''kubernetesVersion'' (tcs_KubernetesVersion x) @
     opt_bool ''versionUpgrade'' (tcs_VersionUpgrade x) @
     opt_string ''clusterEndpoint'' (tcs_ClusterEndpoint x) @
     opt_strings ''nodeAddresses'' (tcs_NodeAddresses x) @
     opt_pointer ''capi'' InfrastructureCAPIConfig_doc (tcs_CAPI x) @
     opt_string ''infrastructureProvider'' (tcs_InfrastructureProvider x) @
     opt_string ''kubeconfigSecretRef'' (tcs_KubeconfigSecretRef x) @
     opt_string ''talosconfigSecretRef'' (tcs_TalosconfigSecretRef x) @
     opt_pointer ''lineage'' SealedCausalChain_doc (tcs_Lineage x) @
     opt_word ''pkiRotationThresholdDays'' (tcs_PkiRotationThresholdDays x) @
     opt_pointer ''hardeningProfileRef'' InfrastructureLocalObjectRef_doc (tcs_HardeningProfileRef x))"

definition zero_InfrastructureTalosClusterSpec :: InfrastructureTalosClusterSpec where
  "zero_InfrastructureTalosClusterSpec =
     \<lparr>tcs_Mode = [], tcs_Role = [], tcs_TalosVersion = [], tcs_KubernetesVersion = [], tcs_VersionUpgrade = False,
     tcs_ClusterEndpoint = [], tcs_NodeAddresses = [], tcs_CAPI = None, tcs_InfrastructureProvider = [],
     tcs_KubeconfigSecretRef = [], tcs_TalosconfigSecretRef = [], tcs_Lineage = None, tcs_PkiRotationThresholdDays = 0,
     tcs_HardeningProfileRef = None\<rparr>"

definition decode_InfrastructureTalosClusterSpec :: "json \<Rightarrow> InfrastructureTalosClusterSpec \<Rightarrow> InfrastructureTalosClusterSpec option" where
  "decode_InfrastructureTalosClusterSpec = decode_object
     [(''mode'', field tcs_Mode tcs_Mode_update decode_string),
      (''role'', field tcs_Role tcs_Role_update decode_string),
      (''talosVersion'', field tcs_TalosVersion tcs_TalosVersion_update decode_string),
      (''kubernetesVersion'', field tcs_KubernetesVersion tcs_KubernetesVersion_update decode_string),
      (''versionUpgrade'', field tcs_VersionUpgrade tcs_VersionUpgrade_update decode_bool),
      (''clusterEndpoint'', field tcs_ClusterEndpoint tcs_ClusterEndpoint_update decode_string),
      (''nodeAddresses'', field tcs_NodeAddresses tcs_NodeAddresses_update decode_strings),
      (''capi'', field tcs_CAPI tcs_CAPI_update (decode_pointer decode_InfrastructureCAPIConfig zero_InfrastructureCAPIConfig)),
      (''infrastructureProvider'', field tcs_InfrastructureProvider tcs_InfrastructureProvider_update decode_string),
      (''kubeconfigSecretRef'', field tcs_KubeconfigSecretRef tcs_KubeconfigSecretRef_update decode_string),
      (''talosconfigSecretRef'', field tcs_TalosconfigSecretRef tcs_TalosconfigSecretRef_update decode_string),
      (''lineage'', field tcs_Lineage tcs_Lineage_update (decode_pointer decode_SealedCausalChain zero_SealedCausalChain)),
      (''pkiRotationThresholdDays'', field tcs_PkiRotationThresholdDays tcs_PkiRotationThresholdDays_update decode_word),
      (''hardeningProfileRef'', field tcs_HardeningProfileRef tcs_HardeningProfileRef_update (decode_pointer decode_InfrastructureLocalObjectRef zero_InfrastructureLocalObjectRef))]"

definition sound_InfrastructureTalosClusterSpec :: "InfrastructureTalosClusterSpec \<Rightarrow> bool" where
  "sound_InfrastructureTalosClusterSpec x \<longleftrightarrow>
     sound_chain (tcs_Lineage x)"

lemma InfrastructureTalosClusterSpec_roundtrip [roundtrip]:
  "sound_InfrastructureTalosClusterSpec x \<Longrightarrow>
     decode_InfrastructureTalosClusterSpec (json_of (InfrastructureTalosClusterSpec_doc x)) zero_InfrastructureTalosClusterSpec = Some x"
  by (simp add: InfrastructureTalosClusterSpec_doc_def decode_InfrastructureTalosClusterSpec_def zero_InfrastructureTalosClusterSpec_def
      sound_InfrastructureTalosClusterSpec_def list_all_iff struct_steps roundtrip del: json_of.simps)

definition InfrastructureTalosClusterSpec_codec :: "InfrastructureTalosClusterSpec codec" where
  "InfrastructureTalosClusterSpec_codec =
     \<lparr>cd_doc = InfrastructureTalosClusterSpec_doc, cd_decode = decode_InfrastructureTalosClusterSpec, cd_zero = zero_InfrastructureTalosClusterSpec,
      cd_sound = (\<lambda>x. sound_InfrastructureTalosClusterSpec x)\<rparr>"

record InfrastructureTalosClusterStatus =
  tct_ObservedGeneration :: "64 word"
  tct_Origin :: InfrastructureTalosClusterOrigin
  tct_ObservedTalosVersion :: string
  tct_CAPIClusterRef :: "InfrastructureLocalObjectRef option"
  tct_Conditions :: "Condition list"
  tct_PkiExpiryDate :: "int option"

definition InfrastructureTalosClusterStatus_doc :: "time_text \<Rightarrow> InfrastructureTalosClusterStatus \<Rightarrow> doc" where
  "InfrastructureTalosClusterStatus_doc tt x = DObject (
     opt_word ''observedGeneration'' (tct_ObservedGeneration x) @
     opt_string ''origin'' (tct_Origin x) @
     opt_string ''observedTalosVersion'' (tct_ObservedTalosVersion x) @
     opt_pointer ''capiClusterRef'' InfrastructureLocalObjectRef_doc (tct_CAPIClusterRef x) @
     opt_slice ''conditions'' (Condition_doc tt) (tct_Conditions x) @
     opt_pointer ''pkiExpiryDate'' (time_doc tt) (tct_PkiExpiryDate x))"

definition zero_InfrastructureTalosClusterStatus :: InfrastructureTalosClusterStatus where
  "zero_InfrastructureTalosClusterStatus =
     \<lparr>tct_ObservedGeneration = 0, tct_Origin = [], tct_ObservedTalosVersion = [], tct_CAPIClusterRef = None,
     tct_Conditions = [], tct_PkiExpiryDate = None\<rparr>"

definition decode_InfrastructureTalosClusterStatus :: "time_text \<Rightarrow> json \<Rightarrow> InfrastructureTalosClusterStatus \<Rightarrow> InfrastructureTalosClusterStatus option" where
  "decode_InfrastructureTalosClusterStatus tt = decode_object
     [(''observedGeneration'', field tct_ObservedGeneration tct_ObservedGeneration_update decode_word),
      (''origin'', field tct_Origin tct_Origin_update decode_string),
      (''observedTalosVersion'', field tct_ObservedTalosVersion tct_ObservedTalosVersion_update decode_string),
      (''capiClusterRef'', field tct_CAPIClusterRef tct_CAPIClusterRef_update (decode_pointer decode_InfrastructureLocalObjectRef zero_InfrastructureLocalObjectRef)),
      (''conditions'', field tct_Conditions tct_Conditions_update (decode_slice (decode_Condition tt) zero_Condition)),
      (''pkiExpiryDate'', field tct_PkiExpiryDate tct_PkiExpiryDate_update (decode_time_pointer tt))]"

definition sound_InfrastructureTalosClusterStatus :: "InfrastructureTalosClusterStatus \<Rightarrow> bool" where
  "sound_InfrastructureTalosClusterStatus x \<longleftrightarrow>
     list_all sound_Condition (tct_Conditions x) \<and> sound_time (tct_PkiExpiryDate x)"

lemma InfrastructureTalosClusterStatus_roundtrip [roundtrip]:
  "documented_time tt \<Longrightarrow> sound_InfrastructureTalosClusterStatus x \<Longrightarrow>
     decode_InfrastructureTalosClusterStatus tt (json_of (InfrastructureTalosClusterStatus_doc tt x)) zero_InfrastructureTalosClusterStatus = Some x"
  by (simp add: InfrastructureTalosClusterStatus_doc_def decode_InfrastructureTalosClusterStatus_def zero_InfrastructureTalosClusterStatus_def
      sound_InfrastructureTalosClusterStatus_def list_all_iff struct_steps roundtrip del: json_of.simps)

definition InfrastructureTalosClusterStatus_codec :: "time_text \<Rightarrow> InfrastructureTalosClusterStatus codec" where
  "InfrastructureTalosClusterStatus_codec tt =
     \<lparr>cd_doc = InfrastructureTalosClusterStatus_doc tt, cd_decode = decode_InfrastructureTalosClusterStatus tt, cd_zero = zero_InfrastructureTalosClusterStatus,
      cd_sound = (\<lambda>x. documented_time tt \<and> sound_InfrastructureTalosClusterStatus x)\<rparr>"

interpretation TalosCluster: api_kind InfrastructureTalosClusterSpec_codec "InfrastructureTalosClusterStatus_codec tt" for tt
  by unfold_locales (simp_all add: InfrastructureTalosClusterSpec_codec_def InfrastructureTalosClusterStatus_codec_def read_back_def roundtrip)


section \<open>TalosClusterOperationResult\<close>

type_synonym TalosClusterResultStatus = string

abbreviation (input) TalosClusterResultSucceeded :: TalosClusterResultStatus where
  "TalosClusterResultSucceeded \<equiv> ''Succeeded''"

abbreviation (input) TalosClusterResultFailed :: TalosClusterResultStatus where
  "TalosClusterResultFailed \<equiv> ''Failed''"

record TalosClusterOperationFailureReason =
  tofr_Category :: string
  tofr_Reason :: string

definition TalosClusterOperationFailureReason_doc :: "TalosClusterOperationFailureReason \<Rightarrow> doc" where
  "TalosClusterOperationFailureReason_doc x = DObject (
     (''category'', DStr (tofr_Category x)) #
     (''reason'', DStr (tofr_Reason x)) # [])"

definition zero_TalosClusterOperationFailureReason :: TalosClusterOperationFailureReason where
  "zero_TalosClusterOperationFailureReason =
     \<lparr>tofr_Category = [], tofr_Reason = []\<rparr>"

definition decode_TalosClusterOperationFailureReason :: "json \<Rightarrow> TalosClusterOperationFailureReason \<Rightarrow> TalosClusterOperationFailureReason option" where
  "decode_TalosClusterOperationFailureReason = decode_object
     [(''category'', field tofr_Category tofr_Category_update decode_string),
      (''reason'', field tofr_Reason tofr_Reason_update decode_string)]"

lemma TalosClusterOperationFailureReason_roundtrip [roundtrip]:
  "decode_TalosClusterOperationFailureReason (json_of (TalosClusterOperationFailureReason_doc x)) zero_TalosClusterOperationFailureReason = Some x"
  by (simp add: TalosClusterOperationFailureReason_doc_def decode_TalosClusterOperationFailureReason_def zero_TalosClusterOperationFailureReason_def
      struct_steps roundtrip del: json_of.simps)

lemma TalosClusterOperationFailureReason_not_null [simp]: "json_of (TalosClusterOperationFailureReason_doc x) \<noteq> JNull"
  by (simp add: TalosClusterOperationFailureReason_doc_def)

record TalosClusterOperationRecord =
  tor_Capability :: string
  tor_JobRef :: string
  tor_Status :: TalosClusterResultStatus
  tor_Message :: string
  tor_StartedAt :: "int option"
  tor_CompletedAt :: "int option"
  tor_FailureReason :: "TalosClusterOperationFailureReason option"

definition TalosClusterOperationRecord_doc :: "time_text \<Rightarrow> TalosClusterOperationRecord \<Rightarrow> doc" where
  "TalosClusterOperationRecord_doc tt x = DObject (
     (''capability'', DStr (tor_Capability x)) #
     (''jobRef'', DStr (tor_JobRef x)) #
     (''status'', DStr (tor_Status x)) #
     opt_string ''message'' (tor_Message x) @
     opt_pointer ''startedAt'' (time_doc tt) (tor_StartedAt x) @
     opt_pointer ''completedAt'' (time_doc tt) (tor_CompletedAt x) @
     opt_pointer ''failureReason'' TalosClusterOperationFailureReason_doc (tor_FailureReason x))"

definition zero_TalosClusterOperationRecord :: TalosClusterOperationRecord where
  "zero_TalosClusterOperationRecord =
     \<lparr>tor_Capability = [], tor_JobRef = [], tor_Status = [], tor_Message = [], tor_StartedAt = None, tor_CompletedAt = None,
     tor_FailureReason = None\<rparr>"

definition decode_TalosClusterOperationRecord :: "time_text \<Rightarrow> json \<Rightarrow> TalosClusterOperationRecord \<Rightarrow> TalosClusterOperationRecord option" where
  "decode_TalosClusterOperationRecord tt = decode_object
     [(''capability'', field tor_Capability tor_Capability_update decode_string),
      (''jobRef'', field tor_JobRef tor_JobRef_update decode_string),
      (''status'', field tor_Status tor_Status_update decode_string),
      (''message'', field tor_Message tor_Message_update decode_string),
      (''startedAt'', field tor_StartedAt tor_StartedAt_update (decode_time_pointer tt)),
      (''completedAt'', field tor_CompletedAt tor_CompletedAt_update (decode_time_pointer tt)),
      (''failureReason'', field tor_FailureReason tor_FailureReason_update (decode_pointer decode_TalosClusterOperationFailureReason zero_TalosClusterOperationFailureReason))]"

definition sound_TalosClusterOperationRecord :: "TalosClusterOperationRecord \<Rightarrow> bool" where
  "sound_TalosClusterOperationRecord x \<longleftrightarrow>
     sound_time (tor_StartedAt x) \<and> sound_time (tor_CompletedAt x)"

lemma TalosClusterOperationRecord_roundtrip [roundtrip]:
  "documented_time tt \<Longrightarrow> sound_TalosClusterOperationRecord x \<Longrightarrow>
     decode_TalosClusterOperationRecord tt (json_of (TalosClusterOperationRecord_doc tt x)) zero_TalosClusterOperationRecord = Some x"
  by (simp add: TalosClusterOperationRecord_doc_def decode_TalosClusterOperationRecord_def zero_TalosClusterOperationRecord_def
      sound_TalosClusterOperationRecord_def list_all_iff struct_steps roundtrip del: json_of.simps)

record InfrastructureTalosClusterOperationResultSpec =
  tors_ClusterRef :: string
  tors_TalosVersion :: string
  tors_Revision :: "64 word"
  tors_Operations :: "(string, TalosClusterOperationRecord) gomap"
  tors_OperationCount :: "64 word"

definition InfrastructureTalosClusterOperationResultSpec_doc :: "time_text \<Rightarrow> InfrastructureTalosClusterOperationResultSpec \<Rightarrow> doc" where
  "InfrastructureTalosClusterOperationResultSpec_doc tt x = DObject (
     (''clusterRef'', DStr (tors_ClusterRef x)) #
     (''talosVersion'', DStr (tors_TalosVersion x)) #
     (''revision'', word_doc (tors_Revision x)) #
     opt_map ''operations'' (TalosClusterOperationRecord_doc tt) (tors_Operations x) @
     (''operationCount'', word_doc (tors_OperationCount x)) # [])"

definition zero_InfrastructureTalosClusterOperationResultSpec :: InfrastructureTalosClusterOperationResultSpec where
  "zero_InfrastructureTalosClusterOperationResultSpec =
     \<lparr>tors_ClusterRef = [], tors_TalosVersion = [], tors_Revision = 0, tors_Operations = [], tors_OperationCount = 0\<rparr>"

definition decode_InfrastructureTalosClusterOperationResultSpec :: "time_text \<Rightarrow> json \<Rightarrow> InfrastructureTalosClusterOperationResultSpec \<Rightarrow> InfrastructureTalosClusterOperationResultSpec option" where
  "decode_InfrastructureTalosClusterOperationResultSpec tt = decode_object
     [(''clusterRef'', field tors_ClusterRef tors_ClusterRef_update decode_string),
      (''talosVersion'', field tors_TalosVersion tors_TalosVersion_update decode_string),
      (''revision'', field tors_Revision tors_Revision_update decode_word),
      (''operations'', field tors_Operations tors_Operations_update (decode_map (decode_TalosClusterOperationRecord tt) zero_TalosClusterOperationRecord)),
      (''operationCount'', field tors_OperationCount tors_OperationCount_update decode_word)]"

definition sound_InfrastructureTalosClusterOperationResultSpec :: "InfrastructureTalosClusterOperationResultSpec \<Rightarrow> bool" where
  "sound_InfrastructureTalosClusterOperationResultSpec x \<longleftrightarrow>
     sorted_map (tors_Operations x) \<and> list_all (\<lambda>(_, r). sound_TalosClusterOperationRecord r) (tors_Operations x)"

lemma InfrastructureTalosClusterOperationResultSpec_roundtrip [roundtrip]:
  "documented_time tt \<Longrightarrow> sound_InfrastructureTalosClusterOperationResultSpec x \<Longrightarrow>
     decode_InfrastructureTalosClusterOperationResultSpec tt (json_of (InfrastructureTalosClusterOperationResultSpec_doc tt x)) zero_InfrastructureTalosClusterOperationResultSpec = Some x"
  by (simp add: InfrastructureTalosClusterOperationResultSpec_doc_def decode_InfrastructureTalosClusterOperationResultSpec_def zero_InfrastructureTalosClusterOperationResultSpec_def
      sound_InfrastructureTalosClusterOperationResultSpec_def list_all_iff Ball_def split_paired_All struct_steps roundtrip del: json_of.simps)

definition InfrastructureTalosClusterOperationResultSpec_codec :: "time_text \<Rightarrow> InfrastructureTalosClusterOperationResultSpec codec" where
  "InfrastructureTalosClusterOperationResultSpec_codec tt =
     \<lparr>cd_doc = InfrastructureTalosClusterOperationResultSpec_doc tt, cd_decode = decode_InfrastructureTalosClusterOperationResultSpec tt, cd_zero = zero_InfrastructureTalosClusterOperationResultSpec,
      cd_sound = (\<lambda>x. documented_time tt \<and> sound_InfrastructureTalosClusterOperationResultSpec x)\<rparr>"

record InfrastructureTalosClusterOperationResultStatus =
  tort_ObservedGeneration :: "64 word"

definition InfrastructureTalosClusterOperationResultStatus_doc :: "InfrastructureTalosClusterOperationResultStatus \<Rightarrow> doc" where
  "InfrastructureTalosClusterOperationResultStatus_doc x = DObject (
     opt_word ''observedGeneration'' (tort_ObservedGeneration x))"

definition zero_InfrastructureTalosClusterOperationResultStatus :: InfrastructureTalosClusterOperationResultStatus where
  "zero_InfrastructureTalosClusterOperationResultStatus =
     \<lparr>tort_ObservedGeneration = 0\<rparr>"

definition decode_InfrastructureTalosClusterOperationResultStatus :: "json \<Rightarrow> InfrastructureTalosClusterOperationResultStatus \<Rightarrow> InfrastructureTalosClusterOperationResultStatus option" where
  "decode_InfrastructureTalosClusterOperationResultStatus = decode_object
     [(''observedGeneration'', field tort_ObservedGeneration tort_ObservedGeneration_update decode_word)]"

lemma InfrastructureTalosClusterOperationResultStatus_roundtrip [roundtrip]:
  "decode_InfrastructureTalosClusterOperationResultStatus (json_of (InfrastructureTalosClusterOperationResultStatus_doc x)) zero_InfrastructureTalosClusterOperationResultStatus = Some x"
  by (simp add: InfrastructureTalosClusterOperationResultStatus_doc_def decode_InfrastructureTalosClusterOperationResultStatus_def zero_InfrastructureTalosClusterOperationResultStatus_def
      struct_steps roundtrip del: json_of.simps)

definition InfrastructureTalosClusterOperationResultStatus_codec :: "InfrastructureTalosClusterOperationResultStatus codec" where
  "InfrastructureTalosClusterOperationResultStatus_codec =
     \<lparr>cd_doc = InfrastructureTalosClusterOperationResultStatus_doc, cd_decode = decode_InfrastructureTalosClusterOperationResultStatus, cd_zero = zero_InfrastructureTalosClusterOperationResultStatus,
      cd_sound = (\<lambda>x. True)\<rparr>"

interpretation TalosClusterOperationResult: api_kind "InfrastructureTalosClusterOperationResultSpec_codec tt" InfrastructureTalosClusterOperationResultStatus_codec for tt
  by unfold_locales (simp_all add: InfrastructureTalosClusterOperationResultSpec_codec_def InfrastructureTalosClusterOperationResultStatus_codec_def read_back_def roundtrip)


section \<open>RunnerConfig\<close>

record RunnerPhaseConfig =
  rpc_Name :: string
  rpc_Parameters :: "(string, string) gomap"

definition RunnerPhaseConfig_doc :: "RunnerPhaseConfig \<Rightarrow> doc" where
  "RunnerPhaseConfig_doc x = DObject (
     (''name'', DStr (rpc_Name x)) #
     opt_map ''parameters'' DStr (rpc_Parameters x))"

definition zero_RunnerPhaseConfig :: RunnerPhaseConfig where
  "zero_RunnerPhaseConfig =
     \<lparr>rpc_Name = [], rpc_Parameters = []\<rparr>"

definition decode_RunnerPhaseConfig :: "json \<Rightarrow> RunnerPhaseConfig \<Rightarrow> RunnerPhaseConfig option" where
  "decode_RunnerPhaseConfig = decode_object
     [(''name'', field rpc_Name rpc_Name_update decode_string),
      (''parameters'', field rpc_Parameters rpc_Parameters_update (decode_map decode_string []))]"

definition sound_RunnerPhaseConfig :: "RunnerPhaseConfig \<Rightarrow> bool" where
  "sound_RunnerPhaseConfig x \<longleftrightarrow>
     sorted_map (rpc_Parameters x)"

lemma RunnerPhaseConfig_roundtrip [roundtrip]:
  "sound_RunnerPhaseConfig x \<Longrightarrow>
     decode_RunnerPhaseConfig (json_of (RunnerPhaseConfig_doc x)) zero_RunnerPhaseConfig = Some x"
  by (simp add: RunnerPhaseConfig_doc_def decode_RunnerPhaseConfig_def zero_RunnerPhaseConfig_def
      sound_RunnerPhaseConfig_def list_all_iff struct_steps roundtrip del: json_of.simps)

record RunnerConfigStep =
  rcs_Name :: string
  rcs_Capability :: string
  rcs_Parameters :: "(string, string) gomap"
  rcs_DependsOn :: string
  rcs_HaltOnFailure :: bool

definition RunnerConfigStep_doc :: "RunnerConfigStep \<Rightarrow> doc" where
  "RunnerConfigStep_doc x = DObject (
     (''name'', DStr (rcs_Name x)) #
     (''capability'', DStr (rcs_Capability x)) #
     opt_map ''parameters'' DStr (rcs_Parameters x) @
     opt_string ''dependsOn'' (rcs_DependsOn x) @
     opt_bool ''haltOnFailure'' (rcs_HaltOnFailure x))"

definition zero_RunnerConfigStep :: RunnerConfigStep where
  "zero_RunnerConfigStep =
     \<lparr>rcs_Name = [], rcs_Capability = [], rcs_Parameters = [], rcs_DependsOn = [], rcs_HaltOnFailure = False\<rparr>"

definition decode_RunnerConfigStep :: "json \<Rightarrow> RunnerConfigStep \<Rightarrow> RunnerConfigStep option" where
  "decode_RunnerConfigStep = decode_object
     [(''name'', field rcs_Name rcs_Name_update decode_string),
      (''capability'', field rcs_Capability rcs_Capability_update decode_string),
      (''parameters'', field rcs_Parameters rcs_Parameters_update (decode_map decode_string [])),
      (''dependsOn'', field rcs_DependsOn rcs_DependsOn_update decode_string),
      (''haltOnFailure'', field rcs_HaltOnFailure rcs_HaltOnFailure_update decode_bool)]"

definition sound_RunnerConfigStep :: "RunnerConfigStep \<Rightarrow> bool" where
  "sound_RunnerConfigStep x \<longleftrightarrow>
     sorted_map (rcs_Parameters x)"

lemma RunnerConfigStep_roundtrip [roundtrip]:
  "sound_RunnerConfigStep x \<Longrightarrow>
     decode_RunnerConfigStep (json_of (RunnerConfigStep_doc x)) zero_RunnerConfigStep = Some x"
  by (simp add: RunnerConfigStep_doc_def decode_RunnerConfigStep_def zero_RunnerConfigStep_def
      sound_RunnerConfigStep_def list_all_iff struct_steps roundtrip del: json_of.simps)

record RunnerOperationalHistoryEntry =
  rhe_AppliedAt :: int
  rhe_Concern :: string
  rhe_PreviousValue :: string
  rhe_NewValue :: string
  rhe_AppliedBy :: string

definition RunnerOperationalHistoryEntry_doc :: "time_text \<Rightarrow> RunnerOperationalHistoryEntry \<Rightarrow> doc" where
  "RunnerOperationalHistoryEntry_doc tt x = DObject (
     (''appliedAt'', time_doc tt (rhe_AppliedAt x)) #
     (''concern'', DStr (rhe_Concern x)) #
     opt_string ''previousValue'' (rhe_PreviousValue x) @
     (''newValue'', DStr (rhe_NewValue x)) #
     (''appliedBy'', DStr (rhe_AppliedBy x)) # [])"

definition zero_RunnerOperationalHistoryEntry :: RunnerOperationalHistoryEntry where
  "zero_RunnerOperationalHistoryEntry =
     \<lparr>rhe_AppliedAt = zero_time, rhe_Concern = [], rhe_PreviousValue = [], rhe_NewValue = [], rhe_AppliedBy = []\<rparr>"

definition decode_RunnerOperationalHistoryEntry :: "time_text \<Rightarrow> json \<Rightarrow> RunnerOperationalHistoryEntry \<Rightarrow> RunnerOperationalHistoryEntry option" where
  "decode_RunnerOperationalHistoryEntry tt = decode_object
     [(''appliedAt'', field rhe_AppliedAt rhe_AppliedAt_update (decode_time tt)),
      (''concern'', field rhe_Concern rhe_Concern_update decode_string),
      (''previousValue'', field rhe_PreviousValue rhe_PreviousValue_update decode_string),
      (''newValue'', field rhe_NewValue rhe_NewValue_update decode_string),
      (''appliedBy'', field rhe_AppliedBy rhe_AppliedBy_update decode_string)]"

definition sound_RunnerOperationalHistoryEntry :: "RunnerOperationalHistoryEntry \<Rightarrow> bool" where
  "sound_RunnerOperationalHistoryEntry x \<longleftrightarrow>
     whole_second (rhe_AppliedAt x)"

lemma RunnerOperationalHistoryEntry_roundtrip [roundtrip]:
  "documented_time tt \<Longrightarrow> sound_RunnerOperationalHistoryEntry x \<Longrightarrow>
     decode_RunnerOperationalHistoryEntry tt (json_of (RunnerOperationalHistoryEntry_doc tt x)) zero_RunnerOperationalHistoryEntry = Some x"
  by (simp add: RunnerOperationalHistoryEntry_doc_def decode_RunnerOperationalHistoryEntry_def zero_RunnerOperationalHistoryEntry_def
      sound_RunnerOperationalHistoryEntry_def list_all_iff struct_steps roundtrip del: json_of.simps)

record RunnerCapabilityEntry =
  rce_Name :: string
  rce_Version :: string
  rce_Description :: string

definition RunnerCapabilityEntry_doc :: "RunnerCapabilityEntry \<Rightarrow> doc" where
  "RunnerCapabilityEntry_doc x = DObject (
     (''name'', DStr (rce_Name x)) #
     (''version'', DStr (rce_Version x)) #
     opt_string ''description'' (rce_Description x))"

definition zero_RunnerCapabilityEntry :: RunnerCapabilityEntry where
  "zero_RunnerCapabilityEntry =
     \<lparr>rce_Name = [], rce_Version = [], rce_Description = []\<rparr>"

definition decode_RunnerCapabilityEntry :: "json \<Rightarrow> RunnerCapabilityEntry \<Rightarrow> RunnerCapabilityEntry option" where
  "decode_RunnerCapabilityEntry = decode_object
     [(''name'', field rce_Name rce_Name_update decode_string),
      (''version'', field rce_Version rce_Version_update decode_string),
      (''description'', field rce_Description rce_Description_update decode_string)]"

lemma RunnerCapabilityEntry_roundtrip [roundtrip]:
  "decode_RunnerCapabilityEntry (json_of (RunnerCapabilityEntry_doc x)) zero_RunnerCapabilityEntry = Some x"
  by (simp add: RunnerCapabilityEntry_doc_def decode_RunnerCapabilityEntry_def zero_RunnerCapabilityEntry_def
      struct_steps roundtrip del: json_of.simps)

type_synonym RunnerStepResultPhase = string

abbreviation (input) RunnerStepSucceeded :: string where
  "RunnerStepSucceeded \<equiv> ''Succeeded''"

abbreviation (input) RunnerStepFailed :: string where
  "RunnerStepFailed \<equiv> ''Failed''"

abbreviation (input) RunnerStepSkipped :: string where
  "RunnerStepSkipped \<equiv> ''Skipped''"

record RunnerConfigStepResult =
  rsr_Name :: string
  rsr_Status :: RunnerStepResultPhase
  rsr_StartedAt :: "int option"
  rsr_CompletedAt :: "int option"
  rsr_Message :: string

definition RunnerConfigStepResult_doc :: "time_text \<Rightarrow> RunnerConfigStepResult \<Rightarrow> doc" where
  "RunnerConfigStepResult_doc tt x = DObject (
     (''name'', DStr (rsr_Name x)) #
     (''status'', DStr (rsr_Status x)) #
     opt_pointer ''startedAt'' (time_doc tt) (rsr_StartedAt x) @
     opt_pointer ''completedAt'' (time_doc tt) (rsr_CompletedAt x) @
     opt_string ''message'' (rsr_Message x))"

definition zero_RunnerConfigStepResult :: RunnerConfigStepResult where
  "zero_RunnerConfigStepResult =
     \<lparr>rsr_Name = [], rsr_Status = [], rsr_StartedAt = None, rsr_CompletedAt = None, rsr_Message = []\<rparr>"

definition decode_RunnerConfigStepResult :: "time_text \<Rightarrow> json \<Rightarrow> RunnerConfigStepResult \<Rightarrow> RunnerConfigStepResult option" where
  "decode_RunnerConfigStepResult tt = decode_object
     [(''name'', field rsr_Name rsr_Name_update decode_string),
      (''status'', field rsr_Status rsr_Status_update decode_string),
      (''startedAt'', field rsr_StartedAt rsr_StartedAt_update (decode_time_pointer tt)),
      (''completedAt'', field rsr_CompletedAt rsr_CompletedAt_update (decode_time_pointer tt)),
      (''message'', field rsr_Message rsr_Message_update decode_string)]"

definition sound_RunnerConfigStepResult :: "RunnerConfigStepResult \<Rightarrow> bool" where
  "sound_RunnerConfigStepResult x \<longleftrightarrow>
     sound_time (rsr_StartedAt x) \<and> sound_time (rsr_CompletedAt x)"

lemma RunnerConfigStepResult_roundtrip [roundtrip]:
  "documented_time tt \<Longrightarrow> sound_RunnerConfigStepResult x \<Longrightarrow>
     decode_RunnerConfigStepResult tt (json_of (RunnerConfigStepResult_doc tt x)) zero_RunnerConfigStepResult = Some x"
  by (simp add: RunnerConfigStepResult_doc_def decode_RunnerConfigStepResult_def zero_RunnerConfigStepResult_def
      sound_RunnerConfigStepResult_def list_all_iff struct_steps roundtrip del: json_of.simps)

record InfrastructureRunnerConfigSpec =
  rcsp_ClusterRef :: string
  rcsp_RunnerImage :: string
  rcsp_Phases :: "RunnerPhaseConfig list"
  rcsp_Steps :: "RunnerConfigStep list"
  rcsp_OperationalHistory :: "RunnerOperationalHistoryEntry list"
  rcsp_MaintenanceTargetNodes :: "string list"
  rcsp_OperatorLeaderNode :: string
  rcsp_SelfOperation :: bool

definition InfrastructureRunnerConfigSpec_doc :: "time_text \<Rightarrow> InfrastructureRunnerConfigSpec \<Rightarrow> doc" where
  "InfrastructureRunnerConfigSpec_doc tt x = DObject (
     (''clusterRef'', DStr (rcsp_ClusterRef x)) #
     (''runnerImage'', DStr (rcsp_RunnerImage x)) #
     opt_slice ''phases'' RunnerPhaseConfig_doc (rcsp_Phases x) @
     opt_slice ''steps'' RunnerConfigStep_doc (rcsp_Steps x) @
     opt_slice ''operationalHistory'' (RunnerOperationalHistoryEntry_doc tt) (rcsp_OperationalHistory x) @
     opt_strings ''maintenanceTargetNodes'' (rcsp_MaintenanceTargetNodes x) @
     opt_string ''operatorLeaderNode'' (rcsp_OperatorLeaderNode x) @
     opt_bool ''selfOperation'' (rcsp_SelfOperation x))"

definition zero_InfrastructureRunnerConfigSpec :: InfrastructureRunnerConfigSpec where
  "zero_InfrastructureRunnerConfigSpec =
     \<lparr>rcsp_ClusterRef = [], rcsp_RunnerImage = [], rcsp_Phases = [], rcsp_Steps = [], rcsp_OperationalHistory = [],
     rcsp_MaintenanceTargetNodes = [], rcsp_OperatorLeaderNode = [], rcsp_SelfOperation = False\<rparr>"

definition decode_InfrastructureRunnerConfigSpec :: "time_text \<Rightarrow> json \<Rightarrow> InfrastructureRunnerConfigSpec \<Rightarrow> InfrastructureRunnerConfigSpec option" where
  "decode_InfrastructureRunnerConfigSpec tt = decode_object
     [(''clusterRef'', field rcsp_ClusterRef rcsp_ClusterRef_update decode_string),
      (''runnerImage'', field rcsp_RunnerImage rcsp_RunnerImage_update decode_string),
      (''phases'', field rcsp_Phases rcsp_Phases_update (decode_slice decode_RunnerPhaseConfig zero_RunnerPhaseConfig)),
      (''steps'', field rcsp_Steps rcsp_Steps_update (decode_slice decode_RunnerConfigStep zero_RunnerConfigStep)),
      (''operationalHistory'', field rcsp_OperationalHistory rcsp_OperationalHistory_update (decode_slice (decode_RunnerOperationalHistoryEntry tt) zero_RunnerOperationalHistoryEntry)),
      (''maintenanceTargetNodes'', field rcsp_MaintenanceTargetNodes rcsp_MaintenanceTargetNodes_update decode_strings),
      (''operatorLeaderNode'', field rcsp_OperatorLeaderNode rcsp_OperatorLeaderNode_update decode_string),
      (''selfOperation'', field rcsp_SelfOperation rcsp_SelfOperation_update decode_bool)]"

definition sound_InfrastructureRunnerConfigSpec :: "InfrastructureRunnerConfigSpec \<Rightarrow> bool" where
  "sound_InfrastructureRunnerConfigSpec x \<longleftrightarrow>
     list_all sound_RunnerPhaseConfig (rcsp_Phases x) \<and> list_all sound_RunnerConfigStep (rcsp_Steps x) \<and>
     list_all sound_RunnerOperationalHistoryEntry (rcsp_OperationalHistory x)"

lemma InfrastructureRunnerConfigSpec_roundtrip [roundtrip]:
  "documented_time tt \<Longrightarrow> sound_InfrastructureRunnerConfigSpec x \<Longrightarrow>
     decode_InfrastructureRunnerConfigSpec tt (json_of (InfrastructureRunnerConfigSpec_doc tt x)) zero_InfrastructureRunnerConfigSpec = Some x"
  by (simp add: InfrastructureRunnerConfigSpec_doc_def decode_InfrastructureRunnerConfigSpec_def zero_InfrastructureRunnerConfigSpec_def
      sound_InfrastructureRunnerConfigSpec_def list_all_iff struct_steps roundtrip del: json_of.simps)

definition InfrastructureRunnerConfigSpec_codec :: "time_text \<Rightarrow> InfrastructureRunnerConfigSpec codec" where
  "InfrastructureRunnerConfigSpec_codec tt =
     \<lparr>cd_doc = InfrastructureRunnerConfigSpec_doc tt, cd_decode = decode_InfrastructureRunnerConfigSpec tt, cd_zero = zero_InfrastructureRunnerConfigSpec,
      cd_sound = (\<lambda>x. documented_time tt \<and> sound_InfrastructureRunnerConfigSpec x)\<rparr>"

record InfrastructureRunnerConfigStatus =
  rct_Capabilities :: "RunnerCapabilityEntry list"
  rct_AgentVersion :: string
  rct_AgentLeader :: string
  rct_Phase :: string
  rct_FailedStep :: string
  rct_StepResults :: "RunnerConfigStepResult list"
  rct_Conditions :: "Condition list"

definition InfrastructureRunnerConfigStatus_doc :: "time_text \<Rightarrow> InfrastructureRunnerConfigStatus \<Rightarrow> doc" where
  "InfrastructureRunnerConfigStatus_doc tt x = DObject (
     opt_slice ''capabilities'' RunnerCapabilityEntry_doc (rct_Capabilities x) @
     opt_string ''agentVersion'' (rct_AgentVersion x) @
     opt_string ''agentLeader'' (rct_AgentLeader x) @
     opt_string ''phase'' (rct_Phase x) @
     opt_string ''failedStep'' (rct_FailedStep x) @
     opt_slice ''stepResults'' (RunnerConfigStepResult_doc tt) (rct_StepResults x) @
     opt_slice ''conditions'' (Condition_doc tt) (rct_Conditions x))"

definition zero_InfrastructureRunnerConfigStatus :: InfrastructureRunnerConfigStatus where
  "zero_InfrastructureRunnerConfigStatus =
     \<lparr>rct_Capabilities = [], rct_AgentVersion = [], rct_AgentLeader = [], rct_Phase = [], rct_FailedStep = [],
     rct_StepResults = [], rct_Conditions = []\<rparr>"

definition decode_InfrastructureRunnerConfigStatus :: "time_text \<Rightarrow> json \<Rightarrow> InfrastructureRunnerConfigStatus \<Rightarrow> InfrastructureRunnerConfigStatus option" where
  "decode_InfrastructureRunnerConfigStatus tt = decode_object
     [(''capabilities'', field rct_Capabilities rct_Capabilities_update (decode_slice decode_RunnerCapabilityEntry zero_RunnerCapabilityEntry)),
      (''agentVersion'', field rct_AgentVersion rct_AgentVersion_update decode_string),
      (''agentLeader'', field rct_AgentLeader rct_AgentLeader_update decode_string),
      (''phase'', field rct_Phase rct_Phase_update decode_string),
      (''failedStep'', field rct_FailedStep rct_FailedStep_update decode_string),
      (''stepResults'', field rct_StepResults rct_StepResults_update (decode_slice (decode_RunnerConfigStepResult tt) zero_RunnerConfigStepResult)),
      (''conditions'', field rct_Conditions rct_Conditions_update (decode_slice (decode_Condition tt) zero_Condition))]"

definition sound_InfrastructureRunnerConfigStatus :: "InfrastructureRunnerConfigStatus \<Rightarrow> bool" where
  "sound_InfrastructureRunnerConfigStatus x \<longleftrightarrow>
     list_all sound_RunnerConfigStepResult (rct_StepResults x) \<and> list_all sound_Condition (rct_Conditions x)"

lemma InfrastructureRunnerConfigStatus_roundtrip [roundtrip]:
  "documented_time tt \<Longrightarrow> sound_InfrastructureRunnerConfigStatus x \<Longrightarrow>
     decode_InfrastructureRunnerConfigStatus tt (json_of (InfrastructureRunnerConfigStatus_doc tt x)) zero_InfrastructureRunnerConfigStatus = Some x"
  by (simp add: InfrastructureRunnerConfigStatus_doc_def decode_InfrastructureRunnerConfigStatus_def zero_InfrastructureRunnerConfigStatus_def
      sound_InfrastructureRunnerConfigStatus_def list_all_iff struct_steps roundtrip del: json_of.simps)

definition InfrastructureRunnerConfigStatus_codec :: "time_text \<Rightarrow> InfrastructureRunnerConfigStatus codec" where
  "InfrastructureRunnerConfigStatus_codec tt =
     \<lparr>cd_doc = InfrastructureRunnerConfigStatus_doc tt, cd_decode = decode_InfrastructureRunnerConfigStatus tt, cd_zero = zero_InfrastructureRunnerConfigStatus,
      cd_sound = (\<lambda>x. documented_time tt \<and> sound_InfrastructureRunnerConfigStatus x)\<rparr>"

interpretation RunnerConfig: api_kind "InfrastructureRunnerConfigSpec_codec tt" "InfrastructureRunnerConfigStatus_codec tt" for tt
  by unfold_locales (simp_all add: InfrastructureRunnerConfigSpec_codec_def InfrastructureRunnerConfigStatus_codec_def read_back_def roundtrip)


section \<open>SeamMembership\<close>

abbreviation (input) ConditionTypeSeamMembershipAdmitted :: string where
  "ConditionTypeSeamMembershipAdmitted \<equiv> ''Admitted''"

abbreviation (input) ConditionTypeSeamMembershipValidated :: string where
  "ConditionTypeSeamMembershipValidated \<equiv> ''Validated''"

abbreviation (input) ReasonMembershipAdmitted :: string where
  "ReasonMembershipAdmitted \<equiv> ''MembershipAdmitted''"

abbreviation (input) ReasonDomainIdentityMismatch :: string where
  "ReasonDomainIdentityMismatch \<equiv> ''DomainIdentityMismatch''"

abbreviation (input) ReasonPrincipalMismatch :: string where
  "ReasonPrincipalMismatch \<equiv> ''PrincipalMismatch''"

abbreviation (input) ReasonRBACProfileNotProvisioned :: string where
  "ReasonRBACProfileNotProvisioned \<equiv> ''RBACProfileNotProvisioned''"

record SeamMembershipSpec =
  sms_AppIdentityRef :: string
  sms_DomainIdentityRef :: string
  sms_PrincipalRef :: string
  sms_Tier :: string

definition SeamMembershipSpec_doc :: "SeamMembershipSpec \<Rightarrow> doc" where
  "SeamMembershipSpec_doc x = DObject (
     (''appIdentityRef'', DStr (sms_AppIdentityRef x)) #
     (''domainIdentityRef'', DStr (sms_DomainIdentityRef x)) #
     (''principalRef'', DStr (sms_PrincipalRef x)) #
     (''tier'', DStr (sms_Tier x)) # [])"

definition zero_SeamMembershipSpec :: SeamMembershipSpec where
  "zero_SeamMembershipSpec =
     \<lparr>sms_AppIdentityRef = [], sms_DomainIdentityRef = [], sms_PrincipalRef = [], sms_Tier = []\<rparr>"

definition decode_SeamMembershipSpec :: "json \<Rightarrow> SeamMembershipSpec \<Rightarrow> SeamMembershipSpec option" where
  "decode_SeamMembershipSpec = decode_object
     [(''appIdentityRef'', field sms_AppIdentityRef sms_AppIdentityRef_update decode_string),
      (''domainIdentityRef'', field sms_DomainIdentityRef sms_DomainIdentityRef_update decode_string),
      (''principalRef'', field sms_PrincipalRef sms_PrincipalRef_update decode_string),
      (''tier'', field sms_Tier sms_Tier_update decode_string)]"

lemma SeamMembershipSpec_roundtrip [roundtrip]:
  "decode_SeamMembershipSpec (json_of (SeamMembershipSpec_doc x)) zero_SeamMembershipSpec = Some x"
  by (simp add: SeamMembershipSpec_doc_def decode_SeamMembershipSpec_def zero_SeamMembershipSpec_def
      struct_steps roundtrip del: json_of.simps)

definition SeamMembershipSpec_codec :: "SeamMembershipSpec codec" where
  "SeamMembershipSpec_codec =
     \<lparr>cd_doc = SeamMembershipSpec_doc, cd_decode = decode_SeamMembershipSpec, cd_zero = zero_SeamMembershipSpec,
      cd_sound = (\<lambda>x. True)\<rparr>"

record SeamMembershipStatus =
  smt_Admitted :: bool
  smt_AdmittedAt :: "int option"
  smt_PermissionSnapshotRef :: string
  smt_Conditions :: "Condition list"

definition SeamMembershipStatus_doc :: "time_text \<Rightarrow> SeamMembershipStatus \<Rightarrow> doc" where
  "SeamMembershipStatus_doc tt x = DObject (
     opt_bool ''admitted'' (smt_Admitted x) @
     opt_pointer ''admittedAt'' (time_doc tt) (smt_AdmittedAt x) @
     opt_string ''permissionSnapshotRef'' (smt_PermissionSnapshotRef x) @
     opt_slice ''conditions'' (Condition_doc tt) (smt_Conditions x))"

definition zero_SeamMembershipStatus :: SeamMembershipStatus where
  "zero_SeamMembershipStatus =
     \<lparr>smt_Admitted = False, smt_AdmittedAt = None, smt_PermissionSnapshotRef = [], smt_Conditions = []\<rparr>"

definition decode_SeamMembershipStatus :: "time_text \<Rightarrow> json \<Rightarrow> SeamMembershipStatus \<Rightarrow> SeamMembershipStatus option" where
  "decode_SeamMembershipStatus tt = decode_object
     [(''admitted'', field smt_Admitted smt_Admitted_update decode_bool),
      (''admittedAt'', field smt_AdmittedAt smt_AdmittedAt_update (decode_time_pointer tt)),
      (''permissionSnapshotRef'', field smt_PermissionSnapshotRef smt_PermissionSnapshotRef_update decode_string),
      (''conditions'', field smt_Conditions smt_Conditions_update (decode_slice (decode_Condition tt) zero_Condition))]"

definition sound_SeamMembershipStatus :: "SeamMembershipStatus \<Rightarrow> bool" where
  "sound_SeamMembershipStatus x \<longleftrightarrow>
     sound_time (smt_AdmittedAt x) \<and> list_all sound_Condition (smt_Conditions x)"

lemma SeamMembershipStatus_roundtrip [roundtrip]:
  "documented_time tt \<Longrightarrow> sound_SeamMembershipStatus x \<Longrightarrow>
     decode_SeamMembershipStatus tt (json_of (SeamMembershipStatus_doc tt x)) zero_SeamMembershipStatus = Some x"
  by (simp add: SeamMembershipStatus_doc_def decode_SeamMembershipStatus_def zero_SeamMembershipStatus_def
      sound_SeamMembershipStatus_def list_all_iff struct_steps roundtrip del: json_of.simps)

definition SeamMembershipStatus_codec :: "time_text \<Rightarrow> SeamMembershipStatus codec" where
  "SeamMembershipStatus_codec tt =
     \<lparr>cd_doc = SeamMembershipStatus_doc tt, cd_decode = decode_SeamMembershipStatus tt, cd_zero = zero_SeamMembershipStatus,
      cd_sound = (\<lambda>x. documented_time tt \<and> sound_SeamMembershipStatus x)\<rparr>"

interpretation SeamMembership: api_kind SeamMembershipSpec_codec "SeamMembershipStatus_codec tt" for tt
  by unfold_locales (simp_all add: SeamMembershipSpec_codec_def SeamMembershipStatus_codec_def read_back_def roundtrip)

end
