(* ===== verification/ApiPacks.thy ===== *)
theory ApiPacks
  imports ApiJson
begin

text \<open>
  The API types of packs and of drift: \<^verbatim>\<open>clusterpack_types.go\<close>, \<^verbatim>\<open>packbuild_types.go\<close>,
  \<^verbatim>\<open>packexecution_types.go\<close>, \<^verbatim>\<open>packinstance_types.go\<close>, \<^verbatim>\<open>packreceipt_types.go\<close>,
  \<^verbatim>\<open>packoperationresult_types.go\<close> and \<^verbatim>\<open>driftsignal_types.go\<close> of \<^verbatim>\<open>src/api/v1alpha1\<close>, in the
  form of the theory ApiCluster.
\<close>


section \<open>ClusterPack\<close>

record InfrastructureLifecyclePolicy =
  lcp_RetainOnDeletion :: bool

definition InfrastructureLifecyclePolicy_doc :: "InfrastructureLifecyclePolicy \<Rightarrow> doc" where
  "InfrastructureLifecyclePolicy_doc x = DObject (
     opt_bool ''retainOnDeletion'' (lcp_RetainOnDeletion x))"

definition zero_InfrastructureLifecyclePolicy :: InfrastructureLifecyclePolicy where
  "zero_InfrastructureLifecyclePolicy =
     \<lparr>lcp_RetainOnDeletion = False\<rparr>"

definition decode_InfrastructureLifecyclePolicy :: "json \<Rightarrow> InfrastructureLifecyclePolicy \<Rightarrow> InfrastructureLifecyclePolicy option" where
  "decode_InfrastructureLifecyclePolicy = decode_object
     [(''retainOnDeletion'', field lcp_RetainOnDeletion lcp_RetainOnDeletion_update decode_bool)]"

lemma InfrastructureLifecyclePolicy_roundtrip [roundtrip]:
  "decode_InfrastructureLifecyclePolicy (json_of (InfrastructureLifecyclePolicy_doc x)) zero_InfrastructureLifecyclePolicy = Some x"
  by (simp add: InfrastructureLifecyclePolicy_doc_def decode_InfrastructureLifecyclePolicy_def zero_InfrastructureLifecyclePolicy_def
      struct_steps roundtrip del: json_of.simps)

lemma InfrastructureLifecyclePolicy_not_null [simp]: "json_of (InfrastructureLifecyclePolicy_doc x) \<noteq> JNull"
  by (simp add: InfrastructureLifecyclePolicy_doc_def)

record InfrastructurePackRegistryRef =
  prr_URL :: string
  prr_Digest :: string

definition InfrastructurePackRegistryRef_doc :: "InfrastructurePackRegistryRef \<Rightarrow> doc" where
  "InfrastructurePackRegistryRef_doc x = DObject (
     (''url'', DStr (prr_URL x)) #
     (''digest'', DStr (prr_Digest x)) # [])"

definition zero_InfrastructurePackRegistryRef :: InfrastructurePackRegistryRef where
  "zero_InfrastructurePackRegistryRef =
     \<lparr>prr_URL = [], prr_Digest = []\<rparr>"

definition decode_InfrastructurePackRegistryRef :: "json \<Rightarrow> InfrastructurePackRegistryRef \<Rightarrow> InfrastructurePackRegistryRef option" where
  "decode_InfrastructurePackRegistryRef = decode_object
     [(''url'', field prr_URL prr_URL_update decode_string),
      (''digest'', field prr_Digest prr_Digest_update decode_string)]"

lemma InfrastructurePackRegistryRef_roundtrip [roundtrip]:
  "decode_InfrastructurePackRegistryRef (json_of (InfrastructurePackRegistryRef_doc x)) zero_InfrastructurePackRegistryRef = Some x"
  by (simp add: InfrastructurePackRegistryRef_doc_def decode_InfrastructurePackRegistryRef_def zero_InfrastructurePackRegistryRef_def
      struct_steps roundtrip del: json_of.simps)

record InfrastructurePackExecutionStage =
  pes_Name :: string
  pes_Manifests :: "string list"

definition InfrastructurePackExecutionStage_doc :: "InfrastructurePackExecutionStage \<Rightarrow> doc" where
  "InfrastructurePackExecutionStage_doc x = DObject (
     (''name'', DStr (pes_Name x)) #
     opt_strings ''manifests'' (pes_Manifests x))"

definition zero_InfrastructurePackExecutionStage :: InfrastructurePackExecutionStage where
  "zero_InfrastructurePackExecutionStage =
     \<lparr>pes_Name = [], pes_Manifests = []\<rparr>"

definition decode_InfrastructurePackExecutionStage :: "json \<Rightarrow> InfrastructurePackExecutionStage \<Rightarrow> InfrastructurePackExecutionStage option" where
  "decode_InfrastructurePackExecutionStage = decode_object
     [(''name'', field pes_Name pes_Name_update decode_string),
      (''manifests'', field pes_Manifests pes_Manifests_update decode_strings)]"

lemma InfrastructurePackExecutionStage_roundtrip [roundtrip]:
  "decode_InfrastructurePackExecutionStage (json_of (InfrastructurePackExecutionStage_doc x)) zero_InfrastructurePackExecutionStage = Some x"
  by (simp add: InfrastructurePackExecutionStage_doc_def decode_InfrastructurePackExecutionStage_def zero_InfrastructurePackExecutionStage_def
      struct_steps roundtrip del: json_of.simps)

record InfrastructurePackProvenance =
  ppv_BuildID :: string
  ppv_BuildTimestamp :: "int option"
  ppv_SourceRef :: string

definition InfrastructurePackProvenance_doc :: "time_text \<Rightarrow> InfrastructurePackProvenance \<Rightarrow> doc" where
  "InfrastructurePackProvenance_doc tt x = DObject (
     opt_string ''buildID'' (ppv_BuildID x) @
     opt_pointer ''buildTimestamp'' (time_doc tt) (ppv_BuildTimestamp x) @
     opt_string ''sourceRef'' (ppv_SourceRef x))"

definition zero_InfrastructurePackProvenance :: InfrastructurePackProvenance where
  "zero_InfrastructurePackProvenance =
     \<lparr>ppv_BuildID = [], ppv_BuildTimestamp = None, ppv_SourceRef = []\<rparr>"

definition decode_InfrastructurePackProvenance :: "time_text \<Rightarrow> json \<Rightarrow> InfrastructurePackProvenance \<Rightarrow> InfrastructurePackProvenance option" where
  "decode_InfrastructurePackProvenance tt = decode_object
     [(''buildID'', field ppv_BuildID ppv_BuildID_update decode_string),
      (''buildTimestamp'', field ppv_BuildTimestamp ppv_BuildTimestamp_update (decode_time_pointer tt)),
      (''sourceRef'', field ppv_SourceRef ppv_SourceRef_update decode_string)]"

definition sound_InfrastructurePackProvenance :: "InfrastructurePackProvenance \<Rightarrow> bool" where
  "sound_InfrastructurePackProvenance x \<longleftrightarrow>
     sound_time (ppv_BuildTimestamp x)"

lemma InfrastructurePackProvenance_roundtrip [roundtrip]:
  "documented_time tt \<Longrightarrow> sound_InfrastructurePackProvenance x \<Longrightarrow>
     decode_InfrastructurePackProvenance tt (json_of (InfrastructurePackProvenance_doc tt x)) zero_InfrastructurePackProvenance = Some x"
  by (simp add: InfrastructurePackProvenance_doc_def decode_InfrastructurePackProvenance_def zero_InfrastructurePackProvenance_def
      sound_InfrastructurePackProvenance_def list_all_iff struct_steps roundtrip del: json_of.simps)

lemma InfrastructurePackProvenance_not_null [simp]: "json_of (InfrastructurePackProvenance_doc tt x) \<noteq> JNull"
  by (simp add: InfrastructurePackProvenance_doc_def)

record InfrastructureClusterPackSpec =
  cps_Version :: string
  cps_RegistryRef :: InfrastructurePackRegistryRef
  cps_Checksum :: string
  cps_RBACDigest :: string
  cps_WorkloadDigest :: string
  cps_ClusterScopedDigest :: string
  cps_SourceBuildRef :: string
  cps_ExecutionOrder :: "InfrastructurePackExecutionStage list"
  cps_Provenance :: "InfrastructurePackProvenance option"
  cps_BasePackName :: string
  cps_TargetClusters :: "string list"
  cps_ChartVersion :: string
  cps_ChartURL :: string
  cps_ChartName :: string
  cps_HelmVersion :: string
  cps_ValuesFile :: string
  cps_LifecyclePolicies :: "InfrastructureLifecyclePolicy option"
  cps_Lineage :: "SealedCausalChain option"
  cps_RollbackToRevision :: "64 word"

definition InfrastructureClusterPackSpec_doc :: "time_text \<Rightarrow> InfrastructureClusterPackSpec \<Rightarrow> doc" where
  "InfrastructureClusterPackSpec_doc tt x = DObject (
     (''version'', DStr (cps_Version x)) #
     (''registryRef'', InfrastructurePackRegistryRef_doc (cps_RegistryRef x)) #
     opt_string ''checksum'' (cps_Checksum x) @
     opt_string ''rbacDigest'' (cps_RBACDigest x) @
     opt_string ''workloadDigest'' (cps_WorkloadDigest x) @
     opt_string ''clusterScopedDigest'' (cps_ClusterScopedDigest x) @
     opt_string ''sourceBuildRef'' (cps_SourceBuildRef x) @
     opt_slice ''executionOrder'' InfrastructurePackExecutionStage_doc (cps_ExecutionOrder x) @
     opt_pointer ''provenance'' (InfrastructurePackProvenance_doc tt) (cps_Provenance x) @
     opt_string ''basePackName'' (cps_BasePackName x) @
     opt_strings ''targetClusters'' (cps_TargetClusters x) @
     opt_string ''chartVersion'' (cps_ChartVersion x) @
     opt_string ''chartURL'' (cps_ChartURL x) @
     opt_string ''chartName'' (cps_ChartName x) @
     opt_string ''helmVersion'' (cps_HelmVersion x) @
     opt_string ''valuesFile'' (cps_ValuesFile x) @
     opt_pointer ''lifecyclePolicies'' InfrastructureLifecyclePolicy_doc (cps_LifecyclePolicies x) @
     opt_pointer ''lineage'' SealedCausalChain_doc (cps_Lineage x) @
     opt_word ''rollbackToRevision'' (cps_RollbackToRevision x))"

definition zero_InfrastructureClusterPackSpec :: InfrastructureClusterPackSpec where
  "zero_InfrastructureClusterPackSpec =
     \<lparr>cps_Version = [], cps_RegistryRef = zero_InfrastructurePackRegistryRef, cps_Checksum = [], cps_RBACDigest = [],
     cps_WorkloadDigest = [], cps_ClusterScopedDigest = [], cps_SourceBuildRef = [], cps_ExecutionOrder = [], cps_Provenance = None,
     cps_BasePackName = [], cps_TargetClusters = [], cps_ChartVersion = [], cps_ChartURL = [], cps_ChartName = [],
     cps_HelmVersion = [], cps_ValuesFile = [], cps_LifecyclePolicies = None, cps_Lineage = None, cps_RollbackToRevision = 0\<rparr>"

definition decode_InfrastructureClusterPackSpec :: "time_text \<Rightarrow> json \<Rightarrow> InfrastructureClusterPackSpec \<Rightarrow> InfrastructureClusterPackSpec option" where
  "decode_InfrastructureClusterPackSpec tt = decode_object
     [(''version'', field cps_Version cps_Version_update decode_string),
      (''registryRef'', field cps_RegistryRef cps_RegistryRef_update decode_InfrastructurePackRegistryRef),
      (''checksum'', field cps_Checksum cps_Checksum_update decode_string),
      (''rbacDigest'', field cps_RBACDigest cps_RBACDigest_update decode_string),
      (''workloadDigest'', field cps_WorkloadDigest cps_WorkloadDigest_update decode_string),
      (''clusterScopedDigest'', field cps_ClusterScopedDigest cps_ClusterScopedDigest_update decode_string),
      (''sourceBuildRef'', field cps_SourceBuildRef cps_SourceBuildRef_update decode_string),
      (''executionOrder'', field cps_ExecutionOrder cps_ExecutionOrder_update (decode_slice decode_InfrastructurePackExecutionStage zero_InfrastructurePackExecutionStage)),
      (''provenance'', field cps_Provenance cps_Provenance_update (decode_pointer (decode_InfrastructurePackProvenance tt) zero_InfrastructurePackProvenance)),
      (''basePackName'', field cps_BasePackName cps_BasePackName_update decode_string),
      (''targetClusters'', field cps_TargetClusters cps_TargetClusters_update decode_strings),
      (''chartVersion'', field cps_ChartVersion cps_ChartVersion_update decode_string),
      (''chartURL'', field cps_ChartURL cps_ChartURL_update decode_string),
      (''chartName'', field cps_ChartName cps_ChartName_update decode_string),
      (''helmVersion'', field cps_HelmVersion cps_HelmVersion_update decode_string),
      (''valuesFile'', field cps_ValuesFile cps_ValuesFile_update decode_string),
      (''lifecyclePolicies'', field cps_LifecyclePolicies cps_LifecyclePolicies_update (decode_pointer decode_InfrastructureLifecyclePolicy zero_InfrastructureLifecyclePolicy)),
      (''lineage'', field cps_Lineage cps_Lineage_update (decode_pointer decode_SealedCausalChain zero_SealedCausalChain)),
      (''rollbackToRevision'', field cps_RollbackToRevision cps_RollbackToRevision_update decode_word)]"

definition sound_InfrastructureClusterPackSpec :: "InfrastructureClusterPackSpec \<Rightarrow> bool" where
  "sound_InfrastructureClusterPackSpec x \<longleftrightarrow>
     pred_option sound_InfrastructurePackProvenance (cps_Provenance x) \<and> sound_chain (cps_Lineage x)"

lemma InfrastructureClusterPackSpec_roundtrip [roundtrip]:
  "documented_time tt \<Longrightarrow> sound_InfrastructureClusterPackSpec x \<Longrightarrow>
     decode_InfrastructureClusterPackSpec tt (json_of (InfrastructureClusterPackSpec_doc tt x)) zero_InfrastructureClusterPackSpec = Some x"
  by (simp add: InfrastructureClusterPackSpec_doc_def decode_InfrastructureClusterPackSpec_def zero_InfrastructureClusterPackSpec_def
      sound_InfrastructureClusterPackSpec_def list_all_iff option.pred_set struct_steps roundtrip del: json_of.simps)

definition InfrastructureClusterPackSpec_codec :: "time_text \<Rightarrow> InfrastructureClusterPackSpec codec" where
  "InfrastructureClusterPackSpec_codec tt =
     \<lparr>cd_doc = InfrastructureClusterPackSpec_doc tt, cd_decode = decode_InfrastructureClusterPackSpec tt, cd_zero = zero_InfrastructureClusterPackSpec,
      cd_sound = (\<lambda>x. documented_time tt \<and> sound_InfrastructureClusterPackSpec x)\<rparr>"

record InfrastructureClusterPackStatus =
  cpt_Signed :: bool
  cpt_PackSignature :: string
  cpt_ObservedGeneration :: "64 word"
  cpt_Conditions :: "Condition list"

definition InfrastructureClusterPackStatus_doc :: "time_text \<Rightarrow> InfrastructureClusterPackStatus \<Rightarrow> doc" where
  "InfrastructureClusterPackStatus_doc tt x = DObject (
     opt_bool ''signed'' (cpt_Signed x) @
     opt_string ''packSignature'' (cpt_PackSignature x) @
     opt_word ''observedGeneration'' (cpt_ObservedGeneration x) @
     opt_slice ''conditions'' (Condition_doc tt) (cpt_Conditions x))"

definition zero_InfrastructureClusterPackStatus :: InfrastructureClusterPackStatus where
  "zero_InfrastructureClusterPackStatus =
     \<lparr>cpt_Signed = False, cpt_PackSignature = [], cpt_ObservedGeneration = 0, cpt_Conditions = []\<rparr>"

definition decode_InfrastructureClusterPackStatus :: "time_text \<Rightarrow> json \<Rightarrow> InfrastructureClusterPackStatus \<Rightarrow> InfrastructureClusterPackStatus option" where
  "decode_InfrastructureClusterPackStatus tt = decode_object
     [(''signed'', field cpt_Signed cpt_Signed_update decode_bool),
      (''packSignature'', field cpt_PackSignature cpt_PackSignature_update decode_string),
      (''observedGeneration'', field cpt_ObservedGeneration cpt_ObservedGeneration_update decode_word),
      (''conditions'', field cpt_Conditions cpt_Conditions_update (decode_slice (decode_Condition tt) zero_Condition))]"

definition sound_InfrastructureClusterPackStatus :: "InfrastructureClusterPackStatus \<Rightarrow> bool" where
  "sound_InfrastructureClusterPackStatus x \<longleftrightarrow>
     list_all sound_Condition (cpt_Conditions x)"

lemma InfrastructureClusterPackStatus_roundtrip [roundtrip]:
  "documented_time tt \<Longrightarrow> sound_InfrastructureClusterPackStatus x \<Longrightarrow>
     decode_InfrastructureClusterPackStatus tt (json_of (InfrastructureClusterPackStatus_doc tt x)) zero_InfrastructureClusterPackStatus = Some x"
  by (simp add: InfrastructureClusterPackStatus_doc_def decode_InfrastructureClusterPackStatus_def zero_InfrastructureClusterPackStatus_def
      sound_InfrastructureClusterPackStatus_def list_all_iff struct_steps roundtrip del: json_of.simps)

definition InfrastructureClusterPackStatus_codec :: "time_text \<Rightarrow> InfrastructureClusterPackStatus codec" where
  "InfrastructureClusterPackStatus_codec tt =
     \<lparr>cd_doc = InfrastructureClusterPackStatus_doc tt, cd_decode = decode_InfrastructureClusterPackStatus tt, cd_zero = zero_InfrastructureClusterPackStatus,
      cd_sound = (\<lambda>x. documented_time tt \<and> sound_InfrastructureClusterPackStatus x)\<rparr>"

interpretation ClusterPack: api_kind "InfrastructureClusterPackSpec_codec tt" "InfrastructureClusterPackStatus_codec tt" for tt
  by unfold_locales (simp_all add: InfrastructureClusterPackSpec_codec_def InfrastructureClusterPackStatus_codec_def read_back_def roundtrip)


section \<open>PackBuild\<close>

type_synonym InfrastructurePackBuildCategory = string

abbreviation (input) InfrastructurePackBuildCategoryHelm :: InfrastructurePackBuildCategory where
  "InfrastructurePackBuildCategoryHelm \<equiv> ''helm''"

abbreviation (input) InfrastructurePackBuildCategoryKustomize :: InfrastructurePackBuildCategory where
  "InfrastructurePackBuildCategoryKustomize \<equiv> ''kustomize''"

abbreviation (input) InfrastructurePackBuildCategoryRaw :: InfrastructurePackBuildCategory where
  "InfrastructurePackBuildCategoryRaw \<equiv> ''raw''"

record InfrastructurePackHelmSource =
  phs_URL :: string
  phs_Chart :: string
  phs_Version :: string
  phs_ValuesFile :: string

definition InfrastructurePackHelmSource_doc :: "InfrastructurePackHelmSource \<Rightarrow> doc" where
  "InfrastructurePackHelmSource_doc x = DObject (
     (''url'', DStr (phs_URL x)) #
     (''chart'', DStr (phs_Chart x)) #
     (''version'', DStr (phs_Version x)) #
     opt_string ''valuesFile'' (phs_ValuesFile x))"

definition zero_InfrastructurePackHelmSource :: InfrastructurePackHelmSource where
  "zero_InfrastructurePackHelmSource =
     \<lparr>phs_URL = [], phs_Chart = [], phs_Version = [], phs_ValuesFile = []\<rparr>"

definition decode_InfrastructurePackHelmSource :: "json \<Rightarrow> InfrastructurePackHelmSource \<Rightarrow> InfrastructurePackHelmSource option" where
  "decode_InfrastructurePackHelmSource = decode_object
     [(''url'', field phs_URL phs_URL_update decode_string),
      (''chart'', field phs_Chart phs_Chart_update decode_string),
      (''version'', field phs_Version phs_Version_update decode_string),
      (''valuesFile'', field phs_ValuesFile phs_ValuesFile_update decode_string)]"

lemma InfrastructurePackHelmSource_roundtrip [roundtrip]:
  "decode_InfrastructurePackHelmSource (json_of (InfrastructurePackHelmSource_doc x)) zero_InfrastructurePackHelmSource = Some x"
  by (simp add: InfrastructurePackHelmSource_doc_def decode_InfrastructurePackHelmSource_def zero_InfrastructurePackHelmSource_def
      struct_steps roundtrip del: json_of.simps)

lemma InfrastructurePackHelmSource_not_null [simp]: "json_of (InfrastructurePackHelmSource_doc x) \<noteq> JNull"
  by (simp add: InfrastructurePackHelmSource_doc_def)

record InfrastructurePackKustomizeSource =
  pks_Path :: string

definition InfrastructurePackKustomizeSource_doc :: "InfrastructurePackKustomizeSource \<Rightarrow> doc" where
  "InfrastructurePackKustomizeSource_doc x = DObject (
     (''path'', DStr (pks_Path x)) # [])"

definition zero_InfrastructurePackKustomizeSource :: InfrastructurePackKustomizeSource where
  "zero_InfrastructurePackKustomizeSource =
     \<lparr>pks_Path = []\<rparr>"

definition decode_InfrastructurePackKustomizeSource :: "json \<Rightarrow> InfrastructurePackKustomizeSource \<Rightarrow> InfrastructurePackKustomizeSource option" where
  "decode_InfrastructurePackKustomizeSource = decode_object
     [(''path'', field pks_Path pks_Path_update decode_string)]"

lemma InfrastructurePackKustomizeSource_roundtrip [roundtrip]:
  "decode_InfrastructurePackKustomizeSource (json_of (InfrastructurePackKustomizeSource_doc x)) zero_InfrastructurePackKustomizeSource = Some x"
  by (simp add: InfrastructurePackKustomizeSource_doc_def decode_InfrastructurePackKustomizeSource_def zero_InfrastructurePackKustomizeSource_def
      struct_steps roundtrip del: json_of.simps)

lemma InfrastructurePackKustomizeSource_not_null [simp]: "json_of (InfrastructurePackKustomizeSource_doc x) \<noteq> JNull"
  by (simp add: InfrastructurePackKustomizeSource_doc_def)

record InfrastructurePackRawSource =
  prs_Path :: string

definition InfrastructurePackRawSource_doc :: "InfrastructurePackRawSource \<Rightarrow> doc" where
  "InfrastructurePackRawSource_doc x = DObject (
     (''path'', DStr (prs_Path x)) # [])"

definition zero_InfrastructurePackRawSource :: InfrastructurePackRawSource where
  "zero_InfrastructurePackRawSource =
     \<lparr>prs_Path = []\<rparr>"

definition decode_InfrastructurePackRawSource :: "json \<Rightarrow> InfrastructurePackRawSource \<Rightarrow> InfrastructurePackRawSource option" where
  "decode_InfrastructurePackRawSource = decode_object
     [(''path'', field prs_Path prs_Path_update decode_string)]"

lemma InfrastructurePackRawSource_roundtrip [roundtrip]:
  "decode_InfrastructurePackRawSource (json_of (InfrastructurePackRawSource_doc x)) zero_InfrastructurePackRawSource = Some x"
  by (simp add: InfrastructurePackRawSource_doc_def decode_InfrastructurePackRawSource_def zero_InfrastructurePackRawSource_def
      struct_steps roundtrip del: json_of.simps)

lemma InfrastructurePackRawSource_not_null [simp]: "json_of (InfrastructurePackRawSource_doc x) \<noteq> JNull"
  by (simp add: InfrastructurePackRawSource_doc_def)

record InfrastructurePackBuildSpec =
  pbs_ComponentName :: string
  pbs_Category :: InfrastructurePackBuildCategory
  pbs_HelmSource :: "InfrastructurePackHelmSource option"
  pbs_KustomizeSource :: "InfrastructurePackKustomizeSource option"
  pbs_RawSource :: "InfrastructurePackRawSource option"
  pbs_TargetClusters :: "string list"

definition InfrastructurePackBuildSpec_doc :: "InfrastructurePackBuildSpec \<Rightarrow> doc" where
  "InfrastructurePackBuildSpec_doc x = DObject (
     (''componentName'', DStr (pbs_ComponentName x)) #
     (''category'', DStr (pbs_Category x)) #
     opt_pointer ''helmSource'' InfrastructurePackHelmSource_doc (pbs_HelmSource x) @
     opt_pointer ''kustomizeSource'' InfrastructurePackKustomizeSource_doc (pbs_KustomizeSource x) @
     opt_pointer ''rawSource'' InfrastructurePackRawSource_doc (pbs_RawSource x) @
     opt_strings ''targetClusters'' (pbs_TargetClusters x))"

definition zero_InfrastructurePackBuildSpec :: InfrastructurePackBuildSpec where
  "zero_InfrastructurePackBuildSpec =
     \<lparr>pbs_ComponentName = [], pbs_Category = [], pbs_HelmSource = None, pbs_KustomizeSource = None, pbs_RawSource = None,
     pbs_TargetClusters = []\<rparr>"

definition decode_InfrastructurePackBuildSpec :: "json \<Rightarrow> InfrastructurePackBuildSpec \<Rightarrow> InfrastructurePackBuildSpec option" where
  "decode_InfrastructurePackBuildSpec = decode_object
     [(''componentName'', field pbs_ComponentName pbs_ComponentName_update decode_string),
      (''category'', field pbs_Category pbs_Category_update decode_string),
      (''helmSource'', field pbs_HelmSource pbs_HelmSource_update (decode_pointer decode_InfrastructurePackHelmSource zero_InfrastructurePackHelmSource)),
      (''kustomizeSource'', field pbs_KustomizeSource pbs_KustomizeSource_update (decode_pointer decode_InfrastructurePackKustomizeSource zero_InfrastructurePackKustomizeSource)),
      (''rawSource'', field pbs_RawSource pbs_RawSource_update (decode_pointer decode_InfrastructurePackRawSource zero_InfrastructurePackRawSource)),
      (''targetClusters'', field pbs_TargetClusters pbs_TargetClusters_update decode_strings)]"

lemma InfrastructurePackBuildSpec_roundtrip [roundtrip]:
  "decode_InfrastructurePackBuildSpec (json_of (InfrastructurePackBuildSpec_doc x)) zero_InfrastructurePackBuildSpec = Some x"
  by (simp add: InfrastructurePackBuildSpec_doc_def decode_InfrastructurePackBuildSpec_def zero_InfrastructurePackBuildSpec_def
      struct_steps roundtrip del: json_of.simps)

definition InfrastructurePackBuildSpec_codec :: "InfrastructurePackBuildSpec codec" where
  "InfrastructurePackBuildSpec_codec =
     \<lparr>cd_doc = InfrastructurePackBuildSpec_doc, cd_decode = decode_InfrastructurePackBuildSpec, cd_zero = zero_InfrastructurePackBuildSpec,
      cd_sound = (\<lambda>x. True)\<rparr>"

record InfrastructurePackBuildStatus =
  pbt_ObservedGeneration :: "64 word"
  pbt_Conditions :: "Condition list"

definition InfrastructurePackBuildStatus_doc :: "time_text \<Rightarrow> InfrastructurePackBuildStatus \<Rightarrow> doc" where
  "InfrastructurePackBuildStatus_doc tt x = DObject (
     opt_word ''observedGeneration'' (pbt_ObservedGeneration x) @
     opt_slice ''conditions'' (Condition_doc tt) (pbt_Conditions x))"

definition zero_InfrastructurePackBuildStatus :: InfrastructurePackBuildStatus where
  "zero_InfrastructurePackBuildStatus =
     \<lparr>pbt_ObservedGeneration = 0, pbt_Conditions = []\<rparr>"

definition decode_InfrastructurePackBuildStatus :: "time_text \<Rightarrow> json \<Rightarrow> InfrastructurePackBuildStatus \<Rightarrow> InfrastructurePackBuildStatus option" where
  "decode_InfrastructurePackBuildStatus tt = decode_object
     [(''observedGeneration'', field pbt_ObservedGeneration pbt_ObservedGeneration_update decode_word),
      (''conditions'', field pbt_Conditions pbt_Conditions_update (decode_slice (decode_Condition tt) zero_Condition))]"

definition sound_InfrastructurePackBuildStatus :: "InfrastructurePackBuildStatus \<Rightarrow> bool" where
  "sound_InfrastructurePackBuildStatus x \<longleftrightarrow>
     list_all sound_Condition (pbt_Conditions x)"

lemma InfrastructurePackBuildStatus_roundtrip [roundtrip]:
  "documented_time tt \<Longrightarrow> sound_InfrastructurePackBuildStatus x \<Longrightarrow>
     decode_InfrastructurePackBuildStatus tt (json_of (InfrastructurePackBuildStatus_doc tt x)) zero_InfrastructurePackBuildStatus = Some x"
  by (simp add: InfrastructurePackBuildStatus_doc_def decode_InfrastructurePackBuildStatus_def zero_InfrastructurePackBuildStatus_def
      sound_InfrastructurePackBuildStatus_def list_all_iff struct_steps roundtrip del: json_of.simps)

definition InfrastructurePackBuildStatus_codec :: "time_text \<Rightarrow> InfrastructurePackBuildStatus codec" where
  "InfrastructurePackBuildStatus_codec tt =
     \<lparr>cd_doc = InfrastructurePackBuildStatus_doc tt, cd_decode = decode_InfrastructurePackBuildStatus tt, cd_zero = zero_InfrastructurePackBuildStatus,
      cd_sound = (\<lambda>x. documented_time tt \<and> sound_InfrastructurePackBuildStatus x)\<rparr>"

interpretation PackBuild: api_kind InfrastructurePackBuildSpec_codec "InfrastructurePackBuildStatus_codec tt" for tt
  by unfold_locales (simp_all add: InfrastructurePackBuildSpec_codec_def InfrastructurePackBuildStatus_codec_def read_back_def roundtrip)


section \<open>PackExecution\<close>

record InfrastructureClusterPackRef =
  pref_Name :: string
  pref_Version :: string

definition InfrastructureClusterPackRef_doc :: "InfrastructureClusterPackRef \<Rightarrow> doc" where
  "InfrastructureClusterPackRef_doc x = DObject (
     (''name'', DStr (pref_Name x)) #
     (''version'', DStr (pref_Version x)) # [])"

definition zero_InfrastructureClusterPackRef :: InfrastructureClusterPackRef where
  "zero_InfrastructureClusterPackRef =
     \<lparr>pref_Name = [], pref_Version = []\<rparr>"

definition decode_InfrastructureClusterPackRef :: "json \<Rightarrow> InfrastructureClusterPackRef \<Rightarrow> InfrastructureClusterPackRef option" where
  "decode_InfrastructureClusterPackRef = decode_object
     [(''name'', field pref_Name pref_Name_update decode_string),
      (''version'', field pref_Version pref_Version_update decode_string)]"

lemma InfrastructureClusterPackRef_roundtrip [roundtrip]:
  "decode_InfrastructureClusterPackRef (json_of (InfrastructureClusterPackRef_doc x)) zero_InfrastructureClusterPackRef = Some x"
  by (simp add: InfrastructureClusterPackRef_doc_def decode_InfrastructureClusterPackRef_def zero_InfrastructureClusterPackRef_def
      struct_steps roundtrip del: json_of.simps)

record InfrastructurePackExecutionSpec =
  pxs_ClusterPackRef :: InfrastructureClusterPackRef
  pxs_TargetClusterRef :: string
  pxs_AdmissionProfileRef :: string
  pxs_ChartVersion :: string
  pxs_ChartURL :: string
  pxs_ChartName :: string
  pxs_HelmVersion :: string
  pxs_Lineage :: "SealedCausalChain option"

definition InfrastructurePackExecutionSpec_doc :: "InfrastructurePackExecutionSpec \<Rightarrow> doc" where
  "InfrastructurePackExecutionSpec_doc x = DObject (
     (''clusterPackRef'', InfrastructureClusterPackRef_doc (pxs_ClusterPackRef x)) #
     (''targetClusterRef'', DStr (pxs_TargetClusterRef x)) #
     opt_string ''admissionProfileRef'' (pxs_AdmissionProfileRef x) @
     opt_string ''chartVersion'' (pxs_ChartVersion x) @
     opt_string ''chartURL'' (pxs_ChartURL x) @
     opt_string ''chartName'' (pxs_ChartName x) @
     opt_string ''helmVersion'' (pxs_HelmVersion x) @
     opt_pointer ''lineage'' SealedCausalChain_doc (pxs_Lineage x))"

definition zero_InfrastructurePackExecutionSpec :: InfrastructurePackExecutionSpec where
  "zero_InfrastructurePackExecutionSpec =
     \<lparr>pxs_ClusterPackRef = zero_InfrastructureClusterPackRef, pxs_TargetClusterRef = [], pxs_AdmissionProfileRef = [],
     pxs_ChartVersion = [], pxs_ChartURL = [], pxs_ChartName = [], pxs_HelmVersion = [], pxs_Lineage = None\<rparr>"

definition decode_InfrastructurePackExecutionSpec :: "json \<Rightarrow> InfrastructurePackExecutionSpec \<Rightarrow> InfrastructurePackExecutionSpec option" where
  "decode_InfrastructurePackExecutionSpec = decode_object
     [(''clusterPackRef'', field pxs_ClusterPackRef pxs_ClusterPackRef_update decode_InfrastructureClusterPackRef),
      (''targetClusterRef'', field pxs_TargetClusterRef pxs_TargetClusterRef_update decode_string),
      (''admissionProfileRef'', field pxs_AdmissionProfileRef pxs_AdmissionProfileRef_update decode_string),
      (''chartVersion'', field pxs_ChartVersion pxs_ChartVersion_update decode_string),
      (''chartURL'', field pxs_ChartURL pxs_ChartURL_update decode_string),
      (''chartName'', field pxs_ChartName pxs_ChartName_update decode_string),
      (''helmVersion'', field pxs_HelmVersion pxs_HelmVersion_update decode_string),
      (''lineage'', field pxs_Lineage pxs_Lineage_update (decode_pointer decode_SealedCausalChain zero_SealedCausalChain))]"

definition sound_InfrastructurePackExecutionSpec :: "InfrastructurePackExecutionSpec \<Rightarrow> bool" where
  "sound_InfrastructurePackExecutionSpec x \<longleftrightarrow>
     sound_chain (pxs_Lineage x)"

lemma InfrastructurePackExecutionSpec_roundtrip [roundtrip]:
  "sound_InfrastructurePackExecutionSpec x \<Longrightarrow>
     decode_InfrastructurePackExecutionSpec (json_of (InfrastructurePackExecutionSpec_doc x)) zero_InfrastructurePackExecutionSpec = Some x"
  by (simp add: InfrastructurePackExecutionSpec_doc_def decode_InfrastructurePackExecutionSpec_def zero_InfrastructurePackExecutionSpec_def
      sound_InfrastructurePackExecutionSpec_def list_all_iff struct_steps roundtrip del: json_of.simps)

definition InfrastructurePackExecutionSpec_codec :: "InfrastructurePackExecutionSpec codec" where
  "InfrastructurePackExecutionSpec_codec =
     \<lparr>cd_doc = InfrastructurePackExecutionSpec_doc, cd_decode = decode_InfrastructurePackExecutionSpec, cd_zero = zero_InfrastructurePackExecutionSpec,
      cd_sound = (\<lambda>x. sound_InfrastructurePackExecutionSpec x)\<rparr>"

record InfrastructurePackExecutionStatus =
  pxt_ObservedGeneration :: "64 word"
  pxt_JobName :: string
  pxt_OperationResultRef :: string
  pxt_Conditions :: "Condition list"

definition InfrastructurePackExecutionStatus_doc :: "time_text \<Rightarrow> InfrastructurePackExecutionStatus \<Rightarrow> doc" where
  "InfrastructurePackExecutionStatus_doc tt x = DObject (
     opt_word ''observedGeneration'' (pxt_ObservedGeneration x) @
     opt_string ''jobName'' (pxt_JobName x) @
     opt_string ''operationResultRef'' (pxt_OperationResultRef x) @
     opt_slice ''conditions'' (Condition_doc tt) (pxt_Conditions x))"

definition zero_InfrastructurePackExecutionStatus :: InfrastructurePackExecutionStatus where
  "zero_InfrastructurePackExecutionStatus =
     \<lparr>pxt_ObservedGeneration = 0, pxt_JobName = [], pxt_OperationResultRef = [], pxt_Conditions = []\<rparr>"

definition decode_InfrastructurePackExecutionStatus :: "time_text \<Rightarrow> json \<Rightarrow> InfrastructurePackExecutionStatus \<Rightarrow> InfrastructurePackExecutionStatus option" where
  "decode_InfrastructurePackExecutionStatus tt = decode_object
     [(''observedGeneration'', field pxt_ObservedGeneration pxt_ObservedGeneration_update decode_word),
      (''jobName'', field pxt_JobName pxt_JobName_update decode_string),
      (''operationResultRef'', field pxt_OperationResultRef pxt_OperationResultRef_update decode_string),
      (''conditions'', field pxt_Conditions pxt_Conditions_update (decode_slice (decode_Condition tt) zero_Condition))]"

definition sound_InfrastructurePackExecutionStatus :: "InfrastructurePackExecutionStatus \<Rightarrow> bool" where
  "sound_InfrastructurePackExecutionStatus x \<longleftrightarrow>
     list_all sound_Condition (pxt_Conditions x)"

lemma InfrastructurePackExecutionStatus_roundtrip [roundtrip]:
  "documented_time tt \<Longrightarrow> sound_InfrastructurePackExecutionStatus x \<Longrightarrow>
     decode_InfrastructurePackExecutionStatus tt (json_of (InfrastructurePackExecutionStatus_doc tt x)) zero_InfrastructurePackExecutionStatus = Some x"
  by (simp add: InfrastructurePackExecutionStatus_doc_def decode_InfrastructurePackExecutionStatus_def zero_InfrastructurePackExecutionStatus_def
      sound_InfrastructurePackExecutionStatus_def list_all_iff struct_steps roundtrip del: json_of.simps)

definition InfrastructurePackExecutionStatus_codec :: "time_text \<Rightarrow> InfrastructurePackExecutionStatus codec" where
  "InfrastructurePackExecutionStatus_codec tt =
     \<lparr>cd_doc = InfrastructurePackExecutionStatus_doc tt, cd_decode = decode_InfrastructurePackExecutionStatus tt, cd_zero = zero_InfrastructurePackExecutionStatus,
      cd_sound = (\<lambda>x. documented_time tt \<and> sound_InfrastructurePackExecutionStatus x)\<rparr>"

interpretation PackExecution: api_kind InfrastructurePackExecutionSpec_codec "InfrastructurePackExecutionStatus_codec tt" for tt
  by unfold_locales (simp_all add: InfrastructurePackExecutionSpec_codec_def InfrastructurePackExecutionStatus_codec_def read_back_def roundtrip)


section \<open>PackInstance\<close>

type_synonym InfrastructureDriftPolicy = string

abbreviation (input) InfrastructureDriftPolicyBlock :: InfrastructureDriftPolicy where
  "InfrastructureDriftPolicyBlock \<equiv> ''Block''"

abbreviation (input) InfrastructureDriftPolicyWarn :: InfrastructureDriftPolicy where
  "InfrastructureDriftPolicyWarn \<equiv> ''Warn''"

abbreviation (input) InfrastructureDriftPolicyIgnore :: InfrastructureDriftPolicy where
  "InfrastructureDriftPolicyIgnore \<equiv> ''Ignore''"

record InfrastructureDependencyPolicy =
  dp_OnDrift :: InfrastructureDriftPolicy

definition InfrastructureDependencyPolicy_doc :: "InfrastructureDependencyPolicy \<Rightarrow> doc" where
  "InfrastructureDependencyPolicy_doc x = DObject (
     opt_string ''onDrift'' (dp_OnDrift x))"

definition zero_InfrastructureDependencyPolicy :: InfrastructureDependencyPolicy where
  "zero_InfrastructureDependencyPolicy =
     \<lparr>dp_OnDrift = []\<rparr>"

definition decode_InfrastructureDependencyPolicy :: "json \<Rightarrow> InfrastructureDependencyPolicy \<Rightarrow> InfrastructureDependencyPolicy option" where
  "decode_InfrastructureDependencyPolicy = decode_object
     [(''onDrift'', field dp_OnDrift dp_OnDrift_update decode_string)]"

lemma InfrastructureDependencyPolicy_roundtrip [roundtrip]:
  "decode_InfrastructureDependencyPolicy (json_of (InfrastructureDependencyPolicy_doc x)) zero_InfrastructureDependencyPolicy = Some x"
  by (simp add: InfrastructureDependencyPolicy_doc_def decode_InfrastructureDependencyPolicy_def zero_InfrastructureDependencyPolicy_def
      struct_steps roundtrip del: json_of.simps)

lemma InfrastructureDependencyPolicy_not_null [simp]: "json_of (InfrastructureDependencyPolicy_doc x) \<noteq> JNull"
  by (simp add: InfrastructureDependencyPolicy_doc_def)

record InfrastructureDeployedResourceRef =
  drr_APIVersion :: string
  drr_Kind :: string
  drr_Namespace :: string
  drr_Name :: string

definition InfrastructureDeployedResourceRef_doc :: "InfrastructureDeployedResourceRef \<Rightarrow> doc" where
  "InfrastructureDeployedResourceRef_doc x = DObject (
     (''apiVersion'', DStr (drr_APIVersion x)) #
     (''kind'', DStr (drr_Kind x)) #
     opt_string ''namespace'' (drr_Namespace x) @
     (''name'', DStr (drr_Name x)) # [])"

definition zero_InfrastructureDeployedResourceRef :: InfrastructureDeployedResourceRef where
  "zero_InfrastructureDeployedResourceRef =
     \<lparr>drr_APIVersion = [], drr_Kind = [], drr_Namespace = [], drr_Name = []\<rparr>"

definition decode_InfrastructureDeployedResourceRef :: "json \<Rightarrow> InfrastructureDeployedResourceRef \<Rightarrow> InfrastructureDeployedResourceRef option" where
  "decode_InfrastructureDeployedResourceRef = decode_object
     [(''apiVersion'', field drr_APIVersion drr_APIVersion_update decode_string),
      (''kind'', field drr_Kind drr_Kind_update decode_string),
      (''namespace'', field drr_Namespace drr_Namespace_update decode_string),
      (''name'', field drr_Name drr_Name_update decode_string)]"

lemma InfrastructureDeployedResourceRef_roundtrip [roundtrip]:
  "decode_InfrastructureDeployedResourceRef (json_of (InfrastructureDeployedResourceRef_doc x)) zero_InfrastructureDeployedResourceRef = Some x"
  by (simp add: InfrastructureDeployedResourceRef_doc_def decode_InfrastructureDeployedResourceRef_def zero_InfrastructureDeployedResourceRef_def
      struct_steps roundtrip del: json_of.simps)

record InfrastructurePackInstanceSpec =
  pis_ClusterPackRef :: string
  pis_Version :: string
  pis_TargetClusterRef :: string
  pis_DependsOn :: "string list"
  pis_DependencyPolicy :: "InfrastructureDependencyPolicy option"
  pis_ChartVersion :: string
  pis_ChartURL :: string
  pis_ChartName :: string
  pis_HelmVersion :: string

definition InfrastructurePackInstanceSpec_doc :: "InfrastructurePackInstanceSpec \<Rightarrow> doc" where
  "InfrastructurePackInstanceSpec_doc x = DObject (
     (''clusterPackRef'', DStr (pis_ClusterPackRef x)) #
     (''version'', DStr (pis_Version x)) #
     (''targetClusterRef'', DStr (pis_TargetClusterRef x)) #
     opt_strings ''dependsOn'' (pis_DependsOn x) @
     opt_pointer ''dependencyPolicy'' InfrastructureDependencyPolicy_doc (pis_DependencyPolicy x) @
     opt_string ''chartVersion'' (pis_ChartVersion x) @
     opt_string ''chartURL'' (pis_ChartURL x) @
     opt_string ''chartName'' (pis_ChartName x) @
     opt_string ''helmVersion'' (pis_HelmVersion x))"

definition zero_InfrastructurePackInstanceSpec :: InfrastructurePackInstanceSpec where
  "zero_InfrastructurePackInstanceSpec =
     \<lparr>pis_ClusterPackRef = [], pis_Version = [], pis_TargetClusterRef = [], pis_DependsOn = [], pis_DependencyPolicy = None,
     pis_ChartVersion = [], pis_ChartURL = [], pis_ChartName = [], pis_HelmVersion = []\<rparr>"

definition decode_InfrastructurePackInstanceSpec :: "json \<Rightarrow> InfrastructurePackInstanceSpec \<Rightarrow> InfrastructurePackInstanceSpec option" where
  "decode_InfrastructurePackInstanceSpec = decode_object
     [(''clusterPackRef'', field pis_ClusterPackRef pis_ClusterPackRef_update decode_string),
      (''version'', field pis_Version pis_Version_update decode_string),
      (''targetClusterRef'', field pis_TargetClusterRef pis_TargetClusterRef_update decode_string),
      (''dependsOn'', field pis_DependsOn pis_DependsOn_update decode_strings),
      (''dependencyPolicy'', field pis_DependencyPolicy pis_DependencyPolicy_update (decode_pointer decode_InfrastructureDependencyPolicy zero_InfrastructureDependencyPolicy)),
      (''chartVersion'', field pis_ChartVersion pis_ChartVersion_update decode_string),
      (''chartURL'', field pis_ChartURL pis_ChartURL_update decode_string),
      (''chartName'', field pis_ChartName pis_ChartName_update decode_string),
      (''helmVersion'', field pis_HelmVersion pis_HelmVersion_update decode_string)]"

lemma InfrastructurePackInstanceSpec_roundtrip [roundtrip]:
  "decode_InfrastructurePackInstanceSpec (json_of (InfrastructurePackInstanceSpec_doc x)) zero_InfrastructurePackInstanceSpec = Some x"
  by (simp add: InfrastructurePackInstanceSpec_doc_def decode_InfrastructurePackInstanceSpec_def zero_InfrastructurePackInstanceSpec_def
      struct_steps roundtrip del: json_of.simps)

definition InfrastructurePackInstanceSpec_codec :: "InfrastructurePackInstanceSpec codec" where
  "InfrastructurePackInstanceSpec_codec =
     \<lparr>cd_doc = InfrastructurePackInstanceSpec_doc, cd_decode = decode_InfrastructurePackInstanceSpec, cd_zero = zero_InfrastructurePackInstanceSpec,
      cd_sound = (\<lambda>x. True)\<rparr>"

record InfrastructurePackInstanceStatus =
  pit_ObservedGeneration :: "64 word"
  pit_DeliveredAt :: "int option"
  pit_DriftSummary :: string
  pit_UpgradeDirection :: string
  pit_DeployedResources :: "InfrastructureDeployedResourceRef list"
  pit_Conditions :: "Condition list"

definition InfrastructurePackInstanceStatus_doc :: "time_text \<Rightarrow> InfrastructurePackInstanceStatus \<Rightarrow> doc" where
  "InfrastructurePackInstanceStatus_doc tt x = DObject (
     opt_word ''observedGeneration'' (pit_ObservedGeneration x) @
     opt_pointer ''deliveredAt'' (time_doc tt) (pit_DeliveredAt x) @
     opt_string ''driftSummary'' (pit_DriftSummary x) @
     opt_string ''upgradeDirection'' (pit_UpgradeDirection x) @
     opt_slice ''deployedResources'' InfrastructureDeployedResourceRef_doc (pit_DeployedResources x) @
     opt_slice ''conditions'' (Condition_doc tt) (pit_Conditions x))"

definition zero_InfrastructurePackInstanceStatus :: InfrastructurePackInstanceStatus where
  "zero_InfrastructurePackInstanceStatus =
     \<lparr>pit_ObservedGeneration = 0, pit_DeliveredAt = None, pit_DriftSummary = [], pit_UpgradeDirection = [],
     pit_DeployedResources = [], pit_Conditions = []\<rparr>"

definition decode_InfrastructurePackInstanceStatus :: "time_text \<Rightarrow> json \<Rightarrow> InfrastructurePackInstanceStatus \<Rightarrow> InfrastructurePackInstanceStatus option" where
  "decode_InfrastructurePackInstanceStatus tt = decode_object
     [(''observedGeneration'', field pit_ObservedGeneration pit_ObservedGeneration_update decode_word),
      (''deliveredAt'', field pit_DeliveredAt pit_DeliveredAt_update (decode_time_pointer tt)),
      (''driftSummary'', field pit_DriftSummary pit_DriftSummary_update decode_string),
      (''upgradeDirection'', field pit_UpgradeDirection pit_UpgradeDirection_update decode_string),
      (''deployedResources'', field pit_DeployedResources pit_DeployedResources_update (decode_slice decode_InfrastructureDeployedResourceRef zero_InfrastructureDeployedResourceRef)),
      (''conditions'', field pit_Conditions pit_Conditions_update (decode_slice (decode_Condition tt) zero_Condition))]"

definition sound_InfrastructurePackInstanceStatus :: "InfrastructurePackInstanceStatus \<Rightarrow> bool" where
  "sound_InfrastructurePackInstanceStatus x \<longleftrightarrow>
     sound_time (pit_DeliveredAt x) \<and> list_all sound_Condition (pit_Conditions x)"

lemma InfrastructurePackInstanceStatus_roundtrip [roundtrip]:
  "documented_time tt \<Longrightarrow> sound_InfrastructurePackInstanceStatus x \<Longrightarrow>
     decode_InfrastructurePackInstanceStatus tt (json_of (InfrastructurePackInstanceStatus_doc tt x)) zero_InfrastructurePackInstanceStatus = Some x"
  by (simp add: InfrastructurePackInstanceStatus_doc_def decode_InfrastructurePackInstanceStatus_def zero_InfrastructurePackInstanceStatus_def
      sound_InfrastructurePackInstanceStatus_def list_all_iff struct_steps roundtrip del: json_of.simps)

definition InfrastructurePackInstanceStatus_codec :: "time_text \<Rightarrow> InfrastructurePackInstanceStatus codec" where
  "InfrastructurePackInstanceStatus_codec tt =
     \<lparr>cd_doc = InfrastructurePackInstanceStatus_doc tt, cd_decode = decode_InfrastructurePackInstanceStatus tt, cd_zero = zero_InfrastructurePackInstanceStatus,
      cd_sound = (\<lambda>x. documented_time tt \<and> sound_InfrastructurePackInstanceStatus x)\<rparr>"

interpretation PackInstance: api_kind InfrastructurePackInstanceSpec_codec "InfrastructurePackInstanceStatus_codec tt" for tt
  by unfold_locales (simp_all add: InfrastructurePackInstanceSpec_codec_def InfrastructurePackInstanceStatus_codec_def read_back_def roundtrip)


section \<open>PackReceipt\<close>

record PackReceiptDeployedResource =
  prd_APIVersion :: string
  prd_Kind :: string
  prd_Namespace :: string
  prd_Name :: string

definition PackReceiptDeployedResource_doc :: "PackReceiptDeployedResource \<Rightarrow> doc" where
  "PackReceiptDeployedResource_doc x = DObject (
     (''apiVersion'', DStr (prd_APIVersion x)) #
     (''kind'', DStr (prd_Kind x)) #
     opt_string ''namespace'' (prd_Namespace x) @
     (''name'', DStr (prd_Name x)) # [])"

definition zero_PackReceiptDeployedResource :: PackReceiptDeployedResource where
  "zero_PackReceiptDeployedResource =
     \<lparr>prd_APIVersion = [], prd_Kind = [], prd_Namespace = [], prd_Name = []\<rparr>"

definition decode_PackReceiptDeployedResource :: "json \<Rightarrow> PackReceiptDeployedResource \<Rightarrow> PackReceiptDeployedResource option" where
  "decode_PackReceiptDeployedResource = decode_object
     [(''apiVersion'', field prd_APIVersion prd_APIVersion_update decode_string),
      (''kind'', field prd_Kind prd_Kind_update decode_string),
      (''namespace'', field prd_Namespace prd_Namespace_update decode_string),
      (''name'', field prd_Name prd_Name_update decode_string)]"

lemma PackReceiptDeployedResource_roundtrip [roundtrip]:
  "decode_PackReceiptDeployedResource (json_of (PackReceiptDeployedResource_doc x)) zero_PackReceiptDeployedResource = Some x"
  by (simp add: PackReceiptDeployedResource_doc_def decode_PackReceiptDeployedResource_def zero_PackReceiptDeployedResource_def
      struct_steps roundtrip del: json_of.simps)

record InfrastructurePackReceiptSpec =
  prcs_PackInstanceRef :: string
  prcs_SignatureRef :: string
  prcs_ClusterPackRef :: string
  prcs_TargetClusterRef :: string
  prcs_RBACDigest :: string
  prcs_WorkloadDigest :: string
  prcs_ChartVersion :: string
  prcs_ChartURL :: string
  prcs_ChartName :: string
  prcs_HelmVersion :: string
  prcs_DeployedResources :: "PackReceiptDeployedResource list"

definition InfrastructurePackReceiptSpec_doc :: "InfrastructurePackReceiptSpec \<Rightarrow> doc" where
  "InfrastructurePackReceiptSpec_doc x = DObject (
     opt_string ''packInstanceRef'' (prcs_PackInstanceRef x) @
     opt_string ''signatureRef'' (prcs_SignatureRef x) @
     (''clusterPackRef'', DStr (prcs_ClusterPackRef x)) #
     (''targetClusterRef'', DStr (prcs_TargetClusterRef x)) #
     opt_string ''rbacDigest'' (prcs_RBACDigest x) @
     opt_string ''workloadDigest'' (prcs_WorkloadDigest x) @
     opt_string ''chartVersion'' (prcs_ChartVersion x) @
     opt_string ''chartURL'' (prcs_ChartURL x) @
     opt_string ''chartName'' (prcs_ChartName x) @
     opt_string ''helmVersion'' (prcs_HelmVersion x) @
     opt_slice ''deployedResources'' PackReceiptDeployedResource_doc (prcs_DeployedResources x))"

definition zero_InfrastructurePackReceiptSpec :: InfrastructurePackReceiptSpec where
  "zero_InfrastructurePackReceiptSpec =
     \<lparr>prcs_PackInstanceRef = [], prcs_SignatureRef = [], prcs_ClusterPackRef = [], prcs_TargetClusterRef = [],
     prcs_RBACDigest = [], prcs_WorkloadDigest = [], prcs_ChartVersion = [], prcs_ChartURL = [], prcs_ChartName = [],
     prcs_HelmVersion = [], prcs_DeployedResources = []\<rparr>"

definition decode_InfrastructurePackReceiptSpec :: "json \<Rightarrow> InfrastructurePackReceiptSpec \<Rightarrow> InfrastructurePackReceiptSpec option" where
  "decode_InfrastructurePackReceiptSpec = decode_object
     [(''packInstanceRef'', field prcs_PackInstanceRef prcs_PackInstanceRef_update decode_string),
      (''signatureRef'', field prcs_SignatureRef prcs_SignatureRef_update decode_string),
      (''clusterPackRef'', field prcs_ClusterPackRef prcs_ClusterPackRef_update decode_string),
      (''targetClusterRef'', field prcs_TargetClusterRef prcs_TargetClusterRef_update decode_string),
      (''rbacDigest'', field prcs_RBACDigest prcs_RBACDigest_update decode_string),
      (''workloadDigest'', field prcs_WorkloadDigest prcs_WorkloadDigest_update decode_string),
      (''chartVersion'', field prcs_ChartVersion prcs_ChartVersion_update decode_string),
      (''chartURL'', field prcs_ChartURL prcs_ChartURL_update decode_string),
      (''chartName'', field prcs_ChartName prcs_ChartName_update decode_string),
      (''helmVersion'', field prcs_HelmVersion prcs_HelmVersion_update decode_string),
      (''deployedResources'', field prcs_DeployedResources prcs_DeployedResources_update (decode_slice decode_PackReceiptDeployedResource zero_PackReceiptDeployedResource))]"

lemma InfrastructurePackReceiptSpec_roundtrip [roundtrip]:
  "decode_InfrastructurePackReceiptSpec (json_of (InfrastructurePackReceiptSpec_doc x)) zero_InfrastructurePackReceiptSpec = Some x"
  by (simp add: InfrastructurePackReceiptSpec_doc_def decode_InfrastructurePackReceiptSpec_def zero_InfrastructurePackReceiptSpec_def
      struct_steps roundtrip del: json_of.simps)

definition InfrastructurePackReceiptSpec_codec :: "InfrastructurePackReceiptSpec codec" where
  "InfrastructurePackReceiptSpec_codec =
     \<lparr>cd_doc = InfrastructurePackReceiptSpec_doc, cd_decode = decode_InfrastructurePackReceiptSpec, cd_zero = zero_InfrastructurePackReceiptSpec,
      cd_sound = (\<lambda>x. True)\<rparr>"

record InfrastructurePackReceiptStatus =
  prct_Verified :: bool
  prct_Signature :: string
  prct_VerificationFailedReason :: string
  prct_ObservedGeneration :: "64 word"
  prct_Conditions :: "Condition list"

definition InfrastructurePackReceiptStatus_doc :: "time_text \<Rightarrow> InfrastructurePackReceiptStatus \<Rightarrow> doc" where
  "InfrastructurePackReceiptStatus_doc tt x = DObject (
     opt_bool ''verified'' (prct_Verified x) @
     opt_string ''signature'' (prct_Signature x) @
     opt_string ''verificationFailedReason'' (prct_VerificationFailedReason x) @
     opt_word ''observedGeneration'' (prct_ObservedGeneration x) @
     opt_slice ''conditions'' (Condition_doc tt) (prct_Conditions x))"

definition zero_InfrastructurePackReceiptStatus :: InfrastructurePackReceiptStatus where
  "zero_InfrastructurePackReceiptStatus =
     \<lparr>prct_Verified = False, prct_Signature = [], prct_VerificationFailedReason = [], prct_ObservedGeneration = 0,
     prct_Conditions = []\<rparr>"

definition decode_InfrastructurePackReceiptStatus :: "time_text \<Rightarrow> json \<Rightarrow> InfrastructurePackReceiptStatus \<Rightarrow> InfrastructurePackReceiptStatus option" where
  "decode_InfrastructurePackReceiptStatus tt = decode_object
     [(''verified'', field prct_Verified prct_Verified_update decode_bool),
      (''signature'', field prct_Signature prct_Signature_update decode_string),
      (''verificationFailedReason'', field prct_VerificationFailedReason prct_VerificationFailedReason_update decode_string),
      (''observedGeneration'', field prct_ObservedGeneration prct_ObservedGeneration_update decode_word),
      (''conditions'', field prct_Conditions prct_Conditions_update (decode_slice (decode_Condition tt) zero_Condition))]"

definition sound_InfrastructurePackReceiptStatus :: "InfrastructurePackReceiptStatus \<Rightarrow> bool" where
  "sound_InfrastructurePackReceiptStatus x \<longleftrightarrow>
     list_all sound_Condition (prct_Conditions x)"

lemma InfrastructurePackReceiptStatus_roundtrip [roundtrip]:
  "documented_time tt \<Longrightarrow> sound_InfrastructurePackReceiptStatus x \<Longrightarrow>
     decode_InfrastructurePackReceiptStatus tt (json_of (InfrastructurePackReceiptStatus_doc tt x)) zero_InfrastructurePackReceiptStatus = Some x"
  by (simp add: InfrastructurePackReceiptStatus_doc_def decode_InfrastructurePackReceiptStatus_def zero_InfrastructurePackReceiptStatus_def
      sound_InfrastructurePackReceiptStatus_def list_all_iff struct_steps roundtrip del: json_of.simps)

definition InfrastructurePackReceiptStatus_codec :: "time_text \<Rightarrow> InfrastructurePackReceiptStatus codec" where
  "InfrastructurePackReceiptStatus_codec tt =
     \<lparr>cd_doc = InfrastructurePackReceiptStatus_doc tt, cd_decode = decode_InfrastructurePackReceiptStatus tt, cd_zero = zero_InfrastructurePackReceiptStatus,
      cd_sound = (\<lambda>x. documented_time tt \<and> sound_InfrastructurePackReceiptStatus x)\<rparr>"

interpretation PackReceipt: api_kind InfrastructurePackReceiptSpec_codec "InfrastructurePackReceiptStatus_codec tt" for tt
  by unfold_locales (simp_all add: InfrastructurePackReceiptSpec_codec_def InfrastructurePackReceiptStatus_codec_def read_back_def roundtrip)


section \<open>PackOperationResult\<close>

type_synonym PackResultStatus = string

abbreviation (input) PackResultSucceeded :: PackResultStatus where
  "PackResultSucceeded \<equiv> ''Succeeded''"

abbreviation (input) PackResultFailed :: PackResultStatus where
  "PackResultFailed \<equiv> ''Failed''"

type_synonym PackUpgradeDirection = string

abbreviation (input) PackUpgradeDirectionInitial :: PackUpgradeDirection where
  "PackUpgradeDirectionInitial \<equiv> ''Initial''"

abbreviation (input) PackUpgradeDirectionUpgrade :: PackUpgradeDirection where
  "PackUpgradeDirectionUpgrade \<equiv> ''Upgrade''"

abbreviation (input) PackUpgradeDirectionRollback :: PackUpgradeDirection where
  "PackUpgradeDirectionRollback \<equiv> ''Rollback''"

abbreviation (input) PackUpgradeDirectionRedeploy :: PackUpgradeDirection where
  "PackUpgradeDirectionRedeploy \<equiv> ''Redeploy''"

record PackOperationDeployedResource =
  pod_APIVersion :: string
  pod_Kind :: string
  pod_Namespace :: string
  pod_Name :: string

definition PackOperationDeployedResource_doc :: "PackOperationDeployedResource \<Rightarrow> doc" where
  "PackOperationDeployedResource_doc x = DObject (
     (''apiVersion'', DStr (pod_APIVersion x)) #
     (''kind'', DStr (pod_Kind x)) #
     opt_string ''namespace'' (pod_Namespace x) @
     (''name'', DStr (pod_Name x)) # [])"

definition zero_PackOperationDeployedResource :: PackOperationDeployedResource where
  "zero_PackOperationDeployedResource =
     \<lparr>pod_APIVersion = [], pod_Kind = [], pod_Namespace = [], pod_Name = []\<rparr>"

definition decode_PackOperationDeployedResource :: "json \<Rightarrow> PackOperationDeployedResource \<Rightarrow> PackOperationDeployedResource option" where
  "decode_PackOperationDeployedResource = decode_object
     [(''apiVersion'', field pod_APIVersion pod_APIVersion_update decode_string),
      (''kind'', field pod_Kind pod_Kind_update decode_string),
      (''namespace'', field pod_Namespace pod_Namespace_update decode_string),
      (''name'', field pod_Name pod_Name_update decode_string)]"

lemma PackOperationDeployedResource_roundtrip [roundtrip]:
  "decode_PackOperationDeployedResource (json_of (PackOperationDeployedResource_doc x)) zero_PackOperationDeployedResource = Some x"
  by (simp add: PackOperationDeployedResource_doc_def decode_PackOperationDeployedResource_def zero_PackOperationDeployedResource_def
      struct_steps roundtrip del: json_of.simps)

record PackOperationArtifact =
  poa_Name :: string
  poa_Kind :: string
  poa_Reference :: string
  poa_Checksum :: string

definition PackOperationArtifact_doc :: "PackOperationArtifact \<Rightarrow> doc" where
  "PackOperationArtifact_doc x = DObject (
     (''name'', DStr (poa_Name x)) #
     (''kind'', DStr (poa_Kind x)) #
     (''reference'', DStr (poa_Reference x)) #
     opt_string ''checksum'' (poa_Checksum x))"

definition zero_PackOperationArtifact :: PackOperationArtifact where
  "zero_PackOperationArtifact =
     \<lparr>poa_Name = [], poa_Kind = [], poa_Reference = [], poa_Checksum = []\<rparr>"

definition decode_PackOperationArtifact :: "json \<Rightarrow> PackOperationArtifact \<Rightarrow> PackOperationArtifact option" where
  "decode_PackOperationArtifact = decode_object
     [(''name'', field poa_Name poa_Name_update decode_string),
      (''kind'', field poa_Kind poa_Kind_update decode_string),
      (''reference'', field poa_Reference poa_Reference_update decode_string),
      (''checksum'', field poa_Checksum poa_Checksum_update decode_string)]"

lemma PackOperationArtifact_roundtrip [roundtrip]:
  "decode_PackOperationArtifact (json_of (PackOperationArtifact_doc x)) zero_PackOperationArtifact = Some x"
  by (simp add: PackOperationArtifact_doc_def decode_PackOperationArtifact_def zero_PackOperationArtifact_def
      struct_steps roundtrip del: json_of.simps)

record PackOperationStepResult =
  posr_Name :: string
  posr_Status :: PackResultStatus
  posr_StartedAt :: "int option"
  posr_CompletedAt :: "int option"
  posr_Message :: string

definition PackOperationStepResult_doc :: "time_text \<Rightarrow> PackOperationStepResult \<Rightarrow> doc" where
  "PackOperationStepResult_doc tt x = DObject (
     (''name'', DStr (posr_Name x)) #
     (''status'', DStr (posr_Status x)) #
     opt_pointer ''startedAt'' (time_doc tt) (posr_StartedAt x) @
     opt_pointer ''completedAt'' (time_doc tt) (posr_CompletedAt x) @
     opt_string ''message'' (posr_Message x))"

definition zero_PackOperationStepResult :: PackOperationStepResult where
  "zero_PackOperationStepResult =
     \<lparr>posr_Name = [], posr_Status = [], posr_StartedAt = None, posr_CompletedAt = None, posr_Message = []\<rparr>"

definition decode_PackOperationStepResult :: "time_text \<Rightarrow> json \<Rightarrow> PackOperationStepResult \<Rightarrow> PackOperationStepResult option" where
  "decode_PackOperationStepResult tt = decode_object
     [(''name'', field posr_Name posr_Name_update decode_string),
      (''status'', field posr_Status posr_Status_update decode_string),
      (''startedAt'', field posr_StartedAt posr_StartedAt_update (decode_time_pointer tt)),
      (''completedAt'', field posr_CompletedAt posr_CompletedAt_update (decode_time_pointer tt)),
      (''message'', field posr_Message posr_Message_update decode_string)]"

definition sound_PackOperationStepResult :: "PackOperationStepResult \<Rightarrow> bool" where
  "sound_PackOperationStepResult x \<longleftrightarrow>
     sound_time (posr_StartedAt x) \<and> sound_time (posr_CompletedAt x)"

lemma PackOperationStepResult_roundtrip [roundtrip]:
  "documented_time tt \<Longrightarrow> sound_PackOperationStepResult x \<Longrightarrow>
     decode_PackOperationStepResult tt (json_of (PackOperationStepResult_doc tt x)) zero_PackOperationStepResult = Some x"
  by (simp add: PackOperationStepResult_doc_def decode_PackOperationStepResult_def zero_PackOperationStepResult_def
      sound_PackOperationStepResult_def list_all_iff struct_steps roundtrip del: json_of.simps)

record PackOperationFailureReason =
  pofr_Category :: string
  pofr_Reason :: string
  pofr_FailedStep :: string

definition PackOperationFailureReason_doc :: "PackOperationFailureReason \<Rightarrow> doc" where
  "PackOperationFailureReason_doc x = DObject (
     (''category'', DStr (pofr_Category x)) #
     (''reason'', DStr (pofr_Reason x)) #
     opt_string ''failedStep'' (pofr_FailedStep x))"

definition zero_PackOperationFailureReason :: PackOperationFailureReason where
  "zero_PackOperationFailureReason =
     \<lparr>pofr_Category = [], pofr_Reason = [], pofr_FailedStep = []\<rparr>"

definition decode_PackOperationFailureReason :: "json \<Rightarrow> PackOperationFailureReason \<Rightarrow> PackOperationFailureReason option" where
  "decode_PackOperationFailureReason = decode_object
     [(''category'', field pofr_Category pofr_Category_update decode_string),
      (''reason'', field pofr_Reason pofr_Reason_update decode_string),
      (''failedStep'', field pofr_FailedStep pofr_FailedStep_update decode_string)]"

lemma PackOperationFailureReason_roundtrip [roundtrip]:
  "decode_PackOperationFailureReason (json_of (PackOperationFailureReason_doc x)) zero_PackOperationFailureReason = Some x"
  by (simp add: PackOperationFailureReason_doc_def decode_PackOperationFailureReason_def zero_PackOperationFailureReason_def
      struct_steps roundtrip del: json_of.simps)

lemma PackOperationFailureReason_not_null [simp]: "json_of (PackOperationFailureReason_doc x) \<noteq> JNull"
  by (simp add: PackOperationFailureReason_doc_def)

record PackOperationResultSpec =
  pors_Revision :: "64 word"
  pors_PreviousRevisionRef :: string
  pors_TalosClusterOperationResultRef :: string
  pors_PackExecutionRef :: string
  pors_ClusterPackRef :: string
  pors_TargetClusterRef :: string
  pors_Capability :: string
  pors_Phase :: string
  pors_Status :: PackResultStatus
  pors_StartedAt :: "int option"
  pors_CompletedAt :: "int option"
  pors_FailureReason :: "PackOperationFailureReason option"
  pors_DeployedResources :: "PackOperationDeployedResource list"
  pors_Artifacts :: "PackOperationArtifact list"
  pors_Steps :: "PackOperationStepResult list"
  pors_ClusterPackVersion :: string
  pors_RBACDigest :: string
  pors_WorkloadDigest :: string

definition PackOperationResultSpec_doc :: "time_text \<Rightarrow> PackOperationResultSpec \<Rightarrow> doc" where
  "PackOperationResultSpec_doc tt x = DObject (
     (''revision'', word_doc (pors_Revision x)) #
     opt_string ''previousRevisionRef'' (pors_PreviousRevisionRef x) @
     opt_string ''talosClusterOperationResultRef'' (pors_TalosClusterOperationResultRef x) @
     opt_string ''packExecutionRef'' (pors_PackExecutionRef x) @
     opt_string ''clusterPackRef'' (pors_ClusterPackRef x) @
     opt_string ''targetClusterRef'' (pors_TargetClusterRef x) @
     (''capability'', DStr (pors_Capability x)) #
     opt_string ''phase'' (pors_Phase x) @
     (''status'', DStr (pors_Status x)) #
     opt_pointer ''startedAt'' (time_doc tt) (pors_StartedAt x) @
     opt_pointer ''completedAt'' (time_doc tt) (pors_CompletedAt x) @
     opt_pointer ''failureReason'' PackOperationFailureReason_doc (pors_FailureReason x) @
     opt_slice ''deployedResources'' PackOperationDeployedResource_doc (pors_DeployedResources x) @
     opt_slice ''artifacts'' PackOperationArtifact_doc (pors_Artifacts x) @
     opt_slice ''steps'' (PackOperationStepResult_doc tt) (pors_Steps x) @
     opt_string ''clusterPackVersion'' (pors_ClusterPackVersion x) @
     opt_string ''rbacDigest'' (pors_RBACDigest x) @
     opt_string ''workloadDigest'' (pors_WorkloadDigest x))"

definition zero_PackOperationResultSpec :: PackOperationResultSpec where
  "zero_PackOperationResultSpec =
     \<lparr>pors_Revision = 0, pors_PreviousRevisionRef = [], pors_TalosClusterOperationResultRef = [], pors_PackExecutionRef = [],
     pors_ClusterPackRef = [], pors_TargetClusterRef = [], pors_Capability = [], pors_Phase = [], pors_Status = [],
     pors_StartedAt = None, pors_CompletedAt = None, pors_FailureReason = None, pors_DeployedResources = [], pors_Artifacts = [],
     pors_Steps = [], pors_ClusterPackVersion = [], pors_RBACDigest = [], pors_WorkloadDigest = []\<rparr>"

definition decode_PackOperationResultSpec :: "time_text \<Rightarrow> json \<Rightarrow> PackOperationResultSpec \<Rightarrow> PackOperationResultSpec option" where
  "decode_PackOperationResultSpec tt = decode_object
     [(''revision'', field pors_Revision pors_Revision_update decode_word),
      (''previousRevisionRef'', field pors_PreviousRevisionRef pors_PreviousRevisionRef_update decode_string),
      (''talosClusterOperationResultRef'', field pors_TalosClusterOperationResultRef pors_TalosClusterOperationResultRef_update decode_string),
      (''packExecutionRef'', field pors_PackExecutionRef pors_PackExecutionRef_update decode_string),
      (''clusterPackRef'', field pors_ClusterPackRef pors_ClusterPackRef_update decode_string),
      (''targetClusterRef'', field pors_TargetClusterRef pors_TargetClusterRef_update decode_string),
      (''capability'', field pors_Capability pors_Capability_update decode_string),
      (''phase'', field pors_Phase pors_Phase_update decode_string),
      (''status'', field pors_Status pors_Status_update decode_string),
      (''startedAt'', field pors_StartedAt pors_StartedAt_update (decode_time_pointer tt)),
      (''completedAt'', field pors_CompletedAt pors_CompletedAt_update (decode_time_pointer tt)),
      (''failureReason'', field pors_FailureReason pors_FailureReason_update (decode_pointer decode_PackOperationFailureReason zero_PackOperationFailureReason)),
      (''deployedResources'', field pors_DeployedResources pors_DeployedResources_update (decode_slice decode_PackOperationDeployedResource zero_PackOperationDeployedResource)),
      (''artifacts'', field pors_Artifacts pors_Artifacts_update (decode_slice decode_PackOperationArtifact zero_PackOperationArtifact)),
      (''steps'', field pors_Steps pors_Steps_update (decode_slice (decode_PackOperationStepResult tt) zero_PackOperationStepResult)),
      (''clusterPackVersion'', field pors_ClusterPackVersion pors_ClusterPackVersion_update decode_string),
      (''rbacDigest'', field pors_RBACDigest pors_RBACDigest_update decode_string),
      (''workloadDigest'', field pors_WorkloadDigest pors_WorkloadDigest_update decode_string)]"

definition sound_PackOperationResultSpec :: "PackOperationResultSpec \<Rightarrow> bool" where
  "sound_PackOperationResultSpec x \<longleftrightarrow>
     sound_time (pors_StartedAt x) \<and> sound_time (pors_CompletedAt x) \<and>
     list_all sound_PackOperationStepResult (pors_Steps x)"

lemma PackOperationResultSpec_roundtrip [roundtrip]:
  "documented_time tt \<Longrightarrow> sound_PackOperationResultSpec x \<Longrightarrow>
     decode_PackOperationResultSpec tt (json_of (PackOperationResultSpec_doc tt x)) zero_PackOperationResultSpec = Some x"
  by (simp add: PackOperationResultSpec_doc_def decode_PackOperationResultSpec_def zero_PackOperationResultSpec_def
      sound_PackOperationResultSpec_def list_all_iff struct_steps roundtrip del: json_of.simps)

definition PackOperationResultSpec_codec :: "time_text \<Rightarrow> PackOperationResultSpec codec" where
  "PackOperationResultSpec_codec tt =
     \<lparr>cd_doc = PackOperationResultSpec_doc tt, cd_decode = decode_PackOperationResultSpec tt, cd_zero = zero_PackOperationResultSpec,
      cd_sound = (\<lambda>x. documented_time tt \<and> sound_PackOperationResultSpec x)\<rparr>"

record PackOperationResultStatus =
  port_ObservedGeneration :: "64 word"

definition PackOperationResultStatus_doc :: "PackOperationResultStatus \<Rightarrow> doc" where
  "PackOperationResultStatus_doc x = DObject (
     opt_word ''observedGeneration'' (port_ObservedGeneration x))"

definition zero_PackOperationResultStatus :: PackOperationResultStatus where
  "zero_PackOperationResultStatus =
     \<lparr>port_ObservedGeneration = 0\<rparr>"

definition decode_PackOperationResultStatus :: "json \<Rightarrow> PackOperationResultStatus \<Rightarrow> PackOperationResultStatus option" where
  "decode_PackOperationResultStatus = decode_object
     [(''observedGeneration'', field port_ObservedGeneration port_ObservedGeneration_update decode_word)]"

lemma PackOperationResultStatus_roundtrip [roundtrip]:
  "decode_PackOperationResultStatus (json_of (PackOperationResultStatus_doc x)) zero_PackOperationResultStatus = Some x"
  by (simp add: PackOperationResultStatus_doc_def decode_PackOperationResultStatus_def zero_PackOperationResultStatus_def
      struct_steps roundtrip del: json_of.simps)

definition PackOperationResultStatus_codec :: "PackOperationResultStatus codec" where
  "PackOperationResultStatus_codec =
     \<lparr>cd_doc = PackOperationResultStatus_doc, cd_decode = decode_PackOperationResultStatus, cd_zero = zero_PackOperationResultStatus,
      cd_sound = (\<lambda>x. True)\<rparr>"

interpretation PackOperationResult: api_kind "PackOperationResultSpec_codec tt" PackOperationResultStatus_codec for tt
  by unfold_locales (simp_all add: PackOperationResultSpec_codec_def PackOperationResultStatus_codec_def read_back_def roundtrip)


section \<open>DriftSignal\<close>

type_synonym DriftSignalState = string

abbreviation (input) DriftSignalStatePending :: DriftSignalState where
  "DriftSignalStatePending \<equiv> ''pending''"

abbreviation (input) DriftSignalStateDelivered :: DriftSignalState where
  "DriftSignalStateDelivered \<equiv> ''delivered''"

abbreviation (input) DriftSignalStateQueued :: DriftSignalState where
  "DriftSignalStateQueued \<equiv> ''queued''"

abbreviation (input) DriftSignalStateConfirmed :: DriftSignalState where
  "DriftSignalStateConfirmed \<equiv> ''confirmed''"

record DriftAffectedCRRef =
  dar_Group :: string
  dar_Kind :: string
  dar_Namespace :: string
  dar_Name :: string

definition DriftAffectedCRRef_doc :: "DriftAffectedCRRef \<Rightarrow> doc" where
  "DriftAffectedCRRef_doc x = DObject (
     (''group'', DStr (dar_Group x)) #
     (''kind'', DStr (dar_Kind x)) #
     opt_string ''namespace'' (dar_Namespace x) @
     (''name'', DStr (dar_Name x)) # [])"

definition zero_DriftAffectedCRRef :: DriftAffectedCRRef where
  "zero_DriftAffectedCRRef =
     \<lparr>dar_Group = [], dar_Kind = [], dar_Namespace = [], dar_Name = []\<rparr>"

definition decode_DriftAffectedCRRef :: "json \<Rightarrow> DriftAffectedCRRef \<Rightarrow> DriftAffectedCRRef option" where
  "decode_DriftAffectedCRRef = decode_object
     [(''group'', field dar_Group dar_Group_update decode_string),
      (''kind'', field dar_Kind dar_Kind_update decode_string),
      (''namespace'', field dar_Namespace dar_Namespace_update decode_string),
      (''name'', field dar_Name dar_Name_update decode_string)]"

lemma DriftAffectedCRRef_roundtrip [roundtrip]:
  "decode_DriftAffectedCRRef (json_of (DriftAffectedCRRef_doc x)) zero_DriftAffectedCRRef = Some x"
  by (simp add: DriftAffectedCRRef_doc_def decode_DriftAffectedCRRef_def zero_DriftAffectedCRRef_def
      struct_steps roundtrip del: json_of.simps)

record DriftSignalSpec =
  dss_State :: DriftSignalState
  dss_CorrelationID :: string
  dss_ObservedAt :: int
  dss_AffectedCRRef :: DriftAffectedCRRef
  dss_DriftReason :: string
  dss_CorrectionJobRef :: string
  dss_EscalationCounter :: "32 word"

definition DriftSignalSpec_doc :: "time_text \<Rightarrow> DriftSignalSpec \<Rightarrow> doc" where
  "DriftSignalSpec_doc tt x = DObject (
     (''state'', DStr (dss_State x)) #
     (''correlationID'', DStr (dss_CorrelationID x)) #
     (''observedAt'', time_doc tt (dss_ObservedAt x)) #
     (''affectedCRRef'', DriftAffectedCRRef_doc (dss_AffectedCRRef x)) #
     (''driftReason'', DStr (dss_DriftReason x)) #
     opt_string ''correctionJobRef'' (dss_CorrectionJobRef x) @
     opt_word ''escalationCounter'' (dss_EscalationCounter x))"

definition zero_DriftSignalSpec :: DriftSignalSpec where
  "zero_DriftSignalSpec =
     \<lparr>dss_State = [], dss_CorrelationID = [], dss_ObservedAt = zero_time, dss_AffectedCRRef = zero_DriftAffectedCRRef,
     dss_DriftReason = [], dss_CorrectionJobRef = [], dss_EscalationCounter = 0\<rparr>"

definition decode_DriftSignalSpec :: "time_text \<Rightarrow> json \<Rightarrow> DriftSignalSpec \<Rightarrow> DriftSignalSpec option" where
  "decode_DriftSignalSpec tt = decode_object
     [(''state'', field dss_State dss_State_update decode_string),
      (''correlationID'', field dss_CorrelationID dss_CorrelationID_update decode_string),
      (''observedAt'', field dss_ObservedAt dss_ObservedAt_update (decode_time tt)),
      (''affectedCRRef'', field dss_AffectedCRRef dss_AffectedCRRef_update decode_DriftAffectedCRRef),
      (''driftReason'', field dss_DriftReason dss_DriftReason_update decode_string),
      (''correctionJobRef'', field dss_CorrectionJobRef dss_CorrectionJobRef_update decode_string),
      (''escalationCounter'', field dss_EscalationCounter dss_EscalationCounter_update decode_word)]"

definition sound_DriftSignalSpec :: "DriftSignalSpec \<Rightarrow> bool" where
  "sound_DriftSignalSpec x \<longleftrightarrow>
     whole_second (dss_ObservedAt x)"

lemma DriftSignalSpec_roundtrip [roundtrip]:
  "documented_time tt \<Longrightarrow> sound_DriftSignalSpec x \<Longrightarrow>
     decode_DriftSignalSpec tt (json_of (DriftSignalSpec_doc tt x)) zero_DriftSignalSpec = Some x"
  by (simp add: DriftSignalSpec_doc_def decode_DriftSignalSpec_def zero_DriftSignalSpec_def
      sound_DriftSignalSpec_def list_all_iff struct_steps roundtrip del: json_of.simps)

definition DriftSignalSpec_codec :: "time_text \<Rightarrow> DriftSignalSpec codec" where
  "DriftSignalSpec_codec tt =
     \<lparr>cd_doc = DriftSignalSpec_doc tt, cd_decode = decode_DriftSignalSpec tt, cd_zero = zero_DriftSignalSpec,
      cd_sound = (\<lambda>x. documented_time tt \<and> sound_DriftSignalSpec x)\<rparr>"

record DriftSignalStatus =
  dst_ObservedGeneration :: "64 word"
  dst_Conditions :: "Condition list"

definition DriftSignalStatus_doc :: "time_text \<Rightarrow> DriftSignalStatus \<Rightarrow> doc" where
  "DriftSignalStatus_doc tt x = DObject (
     opt_word ''observedGeneration'' (dst_ObservedGeneration x) @
     opt_slice ''conditions'' (Condition_doc tt) (dst_Conditions x))"

definition zero_DriftSignalStatus :: DriftSignalStatus where
  "zero_DriftSignalStatus =
     \<lparr>dst_ObservedGeneration = 0, dst_Conditions = []\<rparr>"

definition decode_DriftSignalStatus :: "time_text \<Rightarrow> json \<Rightarrow> DriftSignalStatus \<Rightarrow> DriftSignalStatus option" where
  "decode_DriftSignalStatus tt = decode_object
     [(''observedGeneration'', field dst_ObservedGeneration dst_ObservedGeneration_update decode_word),
      (''conditions'', field dst_Conditions dst_Conditions_update (decode_slice (decode_Condition tt) zero_Condition))]"

definition sound_DriftSignalStatus :: "DriftSignalStatus \<Rightarrow> bool" where
  "sound_DriftSignalStatus x \<longleftrightarrow>
     list_all sound_Condition (dst_Conditions x)"

lemma DriftSignalStatus_roundtrip [roundtrip]:
  "documented_time tt \<Longrightarrow> sound_DriftSignalStatus x \<Longrightarrow>
     decode_DriftSignalStatus tt (json_of (DriftSignalStatus_doc tt x)) zero_DriftSignalStatus = Some x"
  by (simp add: DriftSignalStatus_doc_def decode_DriftSignalStatus_def zero_DriftSignalStatus_def
      sound_DriftSignalStatus_def list_all_iff struct_steps roundtrip del: json_of.simps)

definition DriftSignalStatus_codec :: "time_text \<Rightarrow> DriftSignalStatus codec" where
  "DriftSignalStatus_codec tt =
     \<lparr>cd_doc = DriftSignalStatus_doc tt, cd_decode = decode_DriftSignalStatus tt, cd_zero = zero_DriftSignalStatus,
      cd_sound = (\<lambda>x. documented_time tt \<and> sound_DriftSignalStatus x)\<rparr>"

interpretation DriftSignal: api_kind "DriftSignalSpec_codec tt" "DriftSignalStatus_codec tt" for tt
  by unfold_locales (simp_all add: DriftSignalSpec_codec_def DriftSignalStatus_codec_def read_back_def roundtrip)

end
