(* ===== verification/ApiObjects.thy ===== *)
theory ApiObjects
  imports ApiCluster ApiPacks DsnsRecords
begin

text \<open>
  The kinds of the API group as whole objects, and how the reconcilers see them. The reconcilers
  read objects untyped: \<open>uobj_of_doc\<close> gives what their accessors return for the JSON form of an
  object. The properties say that every kind survives its JSON form, and what the name service
  derives from typed clusters, pack instances and runner configurations.
\<close>


section \<open>The kinds\<close>

type_synonym 'm InfrastructureTalosCluster = "('m, InfrastructureTalosClusterSpec, InfrastructureTalosClusterStatus) api_object"
type_synonym 'm InfrastructureTalosClusterOperationResult =
  "('m, InfrastructureTalosClusterOperationResultSpec, InfrastructureTalosClusterOperationResultStatus) api_object"
type_synonym 'm InfrastructureRunnerConfig = "('m, InfrastructureRunnerConfigSpec, InfrastructureRunnerConfigStatus) api_object"
type_synonym 'm SeamMembership = "('m, SeamMembershipSpec, SeamMembershipStatus) api_object"
type_synonym 'm InfrastructureClusterPack = "('m, InfrastructureClusterPackSpec, InfrastructureClusterPackStatus) api_object"
type_synonym 'm InfrastructurePackBuild = "('m, InfrastructurePackBuildSpec, InfrastructurePackBuildStatus) api_object"
type_synonym 'm InfrastructurePackExecution = "('m, InfrastructurePackExecutionSpec, InfrastructurePackExecutionStatus) api_object"
type_synonym 'm InfrastructurePackInstance = "('m, InfrastructurePackInstanceSpec, InfrastructurePackInstanceStatus) api_object"
type_synonym 'm InfrastructurePackReceipt = "('m, InfrastructurePackReceiptSpec, InfrastructurePackReceiptStatus) api_object"
type_synonym 'm PackOperationResult = "('m, PackOperationResultSpec, PackOperationResultStatus) api_object"
type_synonym 'm DriftSignal = "('m, DriftSignalSpec, DriftSignalStatus) api_object"

definition InfrastructureTalosCluster_codec :: "time_text \<Rightarrow> 'm codec \<Rightarrow> 'm InfrastructureTalosCluster codec" where
  "InfrastructureTalosCluster_codec tt m =
     object_codec m InfrastructureTalosClusterSpec_codec (InfrastructureTalosClusterStatus_codec tt)"

definition InfrastructureTalosClusterOperationResult_codec ::
  "time_text \<Rightarrow> 'm codec \<Rightarrow> 'm InfrastructureTalosClusterOperationResult codec" where
  "InfrastructureTalosClusterOperationResult_codec tt m =
     object_codec m (InfrastructureTalosClusterOperationResultSpec_codec tt) InfrastructureTalosClusterOperationResultStatus_codec"

definition InfrastructureRunnerConfig_codec :: "time_text \<Rightarrow> 'm codec \<Rightarrow> 'm InfrastructureRunnerConfig codec" where
  "InfrastructureRunnerConfig_codec tt m =
     object_codec m (InfrastructureRunnerConfigSpec_codec tt) (InfrastructureRunnerConfigStatus_codec tt)"

definition SeamMembership_codec :: "time_text \<Rightarrow> 'm codec \<Rightarrow> 'm SeamMembership codec" where
  "SeamMembership_codec tt m = object_codec m SeamMembershipSpec_codec (SeamMembershipStatus_codec tt)"

definition InfrastructureClusterPack_codec :: "time_text \<Rightarrow> 'm codec \<Rightarrow> 'm InfrastructureClusterPack codec" where
  "InfrastructureClusterPack_codec tt m =
     object_codec m (InfrastructureClusterPackSpec_codec tt) (InfrastructureClusterPackStatus_codec tt)"

definition InfrastructurePackBuild_codec :: "time_text \<Rightarrow> 'm codec \<Rightarrow> 'm InfrastructurePackBuild codec" where
  "InfrastructurePackBuild_codec tt m =
     object_codec m InfrastructurePackBuildSpec_codec (InfrastructurePackBuildStatus_codec tt)"

definition InfrastructurePackExecution_codec :: "time_text \<Rightarrow> 'm codec \<Rightarrow> 'm InfrastructurePackExecution codec" where
  "InfrastructurePackExecution_codec tt m =
     object_codec m InfrastructurePackExecutionSpec_codec (InfrastructurePackExecutionStatus_codec tt)"

definition InfrastructurePackInstance_codec :: "time_text \<Rightarrow> 'm codec \<Rightarrow> 'm InfrastructurePackInstance codec" where
  "InfrastructurePackInstance_codec tt m =
     object_codec m InfrastructurePackInstanceSpec_codec (InfrastructurePackInstanceStatus_codec tt)"

definition InfrastructurePackReceipt_codec :: "time_text \<Rightarrow> 'm codec \<Rightarrow> 'm InfrastructurePackReceipt codec" where
  "InfrastructurePackReceipt_codec tt m =
     object_codec m InfrastructurePackReceiptSpec_codec (InfrastructurePackReceiptStatus_codec tt)"

definition PackOperationResult_codec :: "time_text \<Rightarrow> 'm codec \<Rightarrow> 'm PackOperationResult codec" where
  "PackOperationResult_codec tt m = object_codec m (PackOperationResultSpec_codec tt) PackOperationResultStatus_codec"

definition DriftSignal_codec :: "time_text \<Rightarrow> 'm codec \<Rightarrow> 'm DriftSignal codec" where
  "DriftSignal_codec tt m = object_codec m (DriftSignalSpec_codec tt) (DriftSignalStatus_codec tt)"



section \<open>Objects as the reconcilers see them\<close>

fun doc_at :: "doc \<Rightarrow> string list \<Rightarrow> doc option" where
  "doc_at d [] = Some d"
| "doc_at (DObject ms) (k # path) = (case map_of ms k of None \<Rightarrow> None | Some d \<Rightarrow> doc_at d path)"
| "doc_at d (k # path) = None"

definition doc_string :: "doc \<Rightarrow> string list \<Rightarrow> string" where
  "doc_string d path = (case doc_at d path of Some (DStr s) \<Rightarrow> s | _ \<Rightarrow> [])"

definition doc_int :: "doc \<Rightarrow> string list \<Rightarrow> int" where
  "doc_int d path = (case doc_at d path of Some (DInt i) \<Rightarrow> i | _ \<Rightarrow> 0)"

definition doc_list :: "doc \<Rightarrow> string list \<Rightarrow> doc list" where
  "doc_list d path = (case doc_at d path of Some (DArray xs) \<Rightarrow> xs | _ \<Rightarrow> [])"

definition doc_strings :: "doc \<Rightarrow> string list \<Rightarrow> (string, string) gomap" where
  "doc_strings d path =
     (case doc_at d path of
        Some (DObject ms) \<Rightarrow> concat (map (\<lambda>(k, x). case x of DStr s \<Rightarrow> [(k, s)] | _ \<Rightarrow> []) ms)
      | _ \<Rightarrow> [])"

definition gval_of :: "doc \<Rightarrow> gval" where
  "gval_of d = (case d of DStr s \<Rightarrow> GStr s | DInt i \<Rightarrow> GInt i | _ \<Rightarrow> GOther 0)"

definition elem_of :: "doc \<Rightarrow> elem" where
  "elem_of d = (case d of DObject ms \<Rightarrow> EMap (map (\<lambda>(k, x). (k, gval_of x)) ms) | _ \<Rightarrow> EOther (gval_of d))"

text \<open>The paths at which the reconcilers read strings.\<close>

definition string_paths :: "string list list" where
  "string_paths =
     [[''spec'', ''clusterEndpoint''], [''spec'', ''infrastructureProvider''], [''status'', ''origin''], [''spec'', ''mode''],
      [''spec'', ''subject''], [''spec'', ''rbacProfileRef'', ''name''], [''spec'', ''identityProviderRef'', ''name''],
      [''status'', ''issuerURL''], [''spec'', ''clusterPackRef''], [''spec'', ''targetClusterRef''],
      [''status'', ''receiptDigest''], [''spec'', ''version'']]"

definition uobj_of_doc :: "doc \<Rightarrow> uobj" where
  "uobj_of_doc d =
     \<lparr>u_Name = doc_string d [''metadata'', ''name''],
      u_Namespace = doc_string d [''metadata'', ''namespace''],
      u_UID = doc_string d [''metadata'', ''uid''],
      u_Generation = doc_int d [''metadata'', ''generation''],
      u_Labels = doc_strings d [''metadata'', ''labels''],
      u_Annotations = doc_strings d [''metadata'', ''annotations''],
      u_Finalizers = concat (map (\<lambda>x. case x of DStr s \<Rightarrow> [s] | _ \<Rightarrow> []) (doc_list d [''metadata'', ''finalizers''])),
      u_Deleting = (doc_string d [''metadata'', ''deletionTimestamp''] \<noteq> []),
      u_Conditions = map elem_of (doc_list d [''status'', ''conditions'']),
      u_StatusIsMap = (case doc_at d [''status''] of None \<Rightarrow> True | Some (DObject _) \<Rightarrow> True | _ \<Rightarrow> False),
      u_Ingress = map elem_of (doc_list d [''status'', ''loadBalancer'', ''ingress'']),
      u_Strings = concat (map (\<lambda>p. case doc_at d p of Some (DStr s) \<Rightarrow> [(p, s)] | _ \<Rightarrow> []) string_paths)\<rparr>"

lemma map_of_paths:
  "map_of (concat (map (\<lambda>p. case doc_at d p of Some (DStr s) \<Rightarrow> [(p, s)] | _ \<Rightarrow> []) ps)) p =
     (if p \<in> set ps then case doc_at d p of Some (DStr s) \<Rightarrow> Some s | _ \<Rightarrow> None else None)"
  by (induction ps) (auto simp: map_add_def split: option.splits doc.splits)

lemma NestedString_of_doc: "p \<in> set string_paths \<Longrightarrow> NestedString (uobj_of_doc d) p = doc_string d p"
  by (simp add: NestedString_def uobj_of_doc_def map_of_paths doc_string_def split: option.split doc.split)

lemma map_of_omitempty: "map_of (omitempty zero k x @ ms) k' = (if k = k' \<and> \<not> zero then Some x else map_of ms k')"
  by (simp add: omitempty_def)

lemma map_of_omitempty_last: "map_of (omitempty zero k x) k' = (if k = k' \<and> \<not> zero then Some x else None)"
  by (simp add: omitempty_def)

lemma object_at:
  "doc_at (cd_doc (object_codec m s t) x) (''metadata'' # path) = doc_at (cd_doc m (ao_Meta x)) path"
  "doc_at (cd_doc (object_codec m s t) x) (''spec'' # path) = doc_at (cd_doc s (ao_Spec x)) path"
  "doc_at (cd_doc (object_codec m s t) x) (''status'' # path) = doc_at (cd_doc t (ao_Status x)) path"
  by (simp_all add: object_codec_def map_of_omitempty del: map_of_append)

lemmas doc_lookup = object_at doc_string_def doc_list_def map_of_omitempty map_of_omitempty_last

text \<open>Typed conditions as the untyped loops read them.\<close>

definition typed_true :: "Condition list \<Rightarrow> string \<Rightarrow> bool" where
  "typed_true cs t \<longleftrightarrow> list_ex (\<lambda>c. c_Type c = t \<and> c_Status c = ''True'') cs"

definition typed_transition :: "time_text \<Rightarrow> Condition list \<Rightarrow> string \<Rightarrow> string" where
  "typed_transition tt cs t =
     (case filter (\<lambda>c. c_Type c = t \<and> c_LastTransitionTime c \<noteq> zero_time) cs of
        [] \<Rightarrow> [] | c # _ \<Rightarrow> tt_Format tt (c_LastTransitionTime c))"

lemma elem_of_Condition:
  obtains cond where "elem_of (Condition_doc tt c) = EMap cond"
    and "cond_is cond ''type'' = (\<lambda>s. c_Type c = s)" and "cond_is cond ''status'' = (\<lambda>s. c_Status c = s)"
    and "map_of cond ''lastTransitionTime'' =
      Some (if c_LastTransitionTime c = zero_time then GOther 0 else GStr (tt_Format tt (c_LastTransitionTime c)))"
proof -
  let ?cond = "map (\<lambda>(k, x). (k, gval_of x))
     ((''type'', DStr (c_Type c)) # (''status'', DStr (c_Status c)) #
      omitempty (c_ObservedGeneration c = 0) ''observedGeneration'' (DInt (c_ObservedGeneration c)) @
      (''lastTransitionTime'', time_doc tt (c_LastTransitionTime c)) # (''reason'', DStr (c_Reason c)) #
      (''message'', DStr (c_Message c)) # [])"
  show thesis
    by (rule that [of ?cond])
      (simp_all add: fun_eq_iff elem_of_def Condition_doc_def cond_is_def omitempty_def gval_of_def time_doc_def)
qed

lemma cond_true_typed: "cond_true (map (elem_of \<circ> Condition_doc tt) cs) t = typed_true cs t"
proof (induction cs)
  case (Cons c cs)
  obtain cond where "elem_of (Condition_doc tt c) = EMap cond"
      "cond_is cond ''type'' = (\<lambda>s. c_Type c = s)" "cond_is cond ''status'' = (\<lambda>s. c_Status c = s)"
      "map_of cond ''lastTransitionTime'' =
        Some (if c_LastTransitionTime c = zero_time then GOther 0 else GStr (tt_Format tt (c_LastTransitionTime c)))"
    by (rule elem_of_Condition [of tt c])
  with Cons show ?case by (auto simp: typed_true_def)
qed (simp add: typed_true_def)

lemma transition_time_typed: "transition_time (map (elem_of \<circ> Condition_doc tt) cs) t = typed_transition tt cs t"
proof (induction cs)
  case (Cons c cs)
  obtain cond where "elem_of (Condition_doc tt c) = EMap cond"
      "cond_is cond ''type'' = (\<lambda>s. c_Type c = s)" "cond_is cond ''status'' = (\<lambda>s. c_Status c = s)"
      "map_of cond ''lastTransitionTime'' =
        Some (if c_LastTransitionTime c = zero_time then GOther 0 else GStr (tt_Format tt (c_LastTransitionTime c)))"
    by (rule elem_of_Condition [of tt c])
  with Cons show ?case by (simp add: typed_transition_def)
qed (simp add: typed_transition_def)

lemma hasConditionTrue_doc: "doc_list d [''status'', ''conditions''] = map (Condition_doc tt) cs \<Longrightarrow>
    hasConditionTrue (uobj_of_doc d) t = typed_true cs t"
  by (simp add: hasConditionTrue_def uobj_of_doc_def cond_true_typed)

lemma conditionLastTransitionTime_doc: "doc_list d [''status'', ''conditions''] = map (Condition_doc tt) cs \<Longrightarrow>
    conditionLastTransitionTime (uobj_of_doc d) t = typed_transition tt cs t"
  by (simp add: conditionLastTransitionTime_def uobj_of_doc_def transition_time_typed)


section \<open>What the name service derives from typed objects\<close>

definition meta_string :: "'m codec \<Rightarrow> 'm \<Rightarrow> string \<Rightarrow> string" where
  "meta_string m x k = doc_string (cd_doc m x) [k]"

definition TalosCluster_records :: "'m codec \<Rightarrow> 'm InfrastructureTalosCluster \<Rightarrow> Record list" where
  "TalosCluster_records m x =
     (let name = meta_string m (ao_Meta x) ''name''; spec = ao_Spec x; status = ao_Status x;
          ip = clusterEndpointIP (tcs_ClusterEndpoint spec)
      in if \<not> typed_true (tct_Conditions status) ''Ready'' \<or> tcs_ClusterEndpoint spec = [] then []
         else [record_of name RecordTypeA ip, record_of (''api.'' @ name) RecordTypeA ip] @
           (if tcs_InfrastructureProvider spec = InfrastructureProviderScreen
            then [record_of name RecordTypeNS (''ns.'' @ name @ ''.'' @ ZoneName), record_of (''ns.'' @ name) RecordTypeA ip]
            else [record_of (''role.'' @ name) RecordTypeTXT
              (if tct_Origin status \<noteq> [] then tct_Origin status else if tcs_Mode spec \<noteq> [] then tcs_Mode spec else ''general'')]))"

definition PackInstance_records :: "'m codec \<Rightarrow> 'm InfrastructurePackInstance \<Rightarrow> Record list" where
  "PackInstance_records m x =
     (let spec = ao_Spec x;
          pack = (if pis_ClusterPackRef spec = [] then meta_string m (ao_Meta x) ''name'' else pis_ClusterPackRef spec);
          version = (if pis_Version spec = [] then ''unknown'' else pis_Version spec);
          cluster = (if pis_TargetClusterRef spec = [] then clusterFromNamespace (meta_string m (ao_Meta x) ''namespace'')
            else pis_TargetClusterRef spec)
      in if \<not> typed_true (pit_Conditions (ao_Status x)) ''Ready'' \<or> cluster = [] then []
         else [record_of (''pack.'' @ pack @ ''.'' @ version @ ''.wrapper.'' @ cluster) RecordTypeTXT ''delivered''])"

definition RunnerConfig_records :: "time_text \<Rightarrow> 'm codec \<Rightarrow> 'm InfrastructureRunnerConfig \<Rightarrow> Record list" where
  "RunnerConfig_records tt m x =
     (let conds = rct_Conditions (ao_Status x);
          name = ''run.'' @ meta_string m (ao_Meta x) ''name'' @ ''.conductor.'' @
            clusterContextForNamespace (meta_string m (ao_Meta x) ''namespace'')
      in if typed_true conds ''Ready''
         then [record_of name RecordTypeTXT (''phase=Completed completed='' @ typed_transition tt conds ''Ready'')]
         else if typed_true conds ''Degraded''
         then [record_of name RecordTypeTXT (''phase=Failed completed='' @ typed_transition tt conds ''Degraded'')]
         else [])"

lemma u_Name_doc: "u_Name (uobj_of_doc d) = doc_string d [''metadata'', ''name'']"
  and u_Namespace_doc: "u_Namespace (uobj_of_doc d) = doc_string d [''metadata'', ''namespace'']"
  by (simp_all add: uobj_of_doc_def)

lemma string_paths_mem:
  "[''spec'', ''clusterEndpoint''] \<in> set string_paths" "[''spec'', ''infrastructureProvider''] \<in> set string_paths"
  "[''status'', ''origin''] \<in> set string_paths" "[''spec'', ''mode''] \<in> set string_paths"
  "[''spec'', ''clusterPackRef''] \<in> set string_paths" "[''spec'', ''targetClusterRef''] \<in> set string_paths"
  "[''status'', ''receiptDigest''] \<in> set string_paths" "[''spec'', ''version''] \<in> set string_paths"
  by (simp_all add: string_paths_def)

lemmas view_simps = NestedString_of_doc string_paths_mem u_Name_doc u_Namespace_doc

lemma TalosCluster_projected:
  "deriveTalosClusterRecords (uobj_of_doc (cd_doc (InfrastructureTalosCluster_codec tt m) x)) = TalosCluster_records m x"
proof -
  let ?d = "cd_doc (InfrastructureTalosCluster_codec tt m) x"
  note defs = InfrastructureTalosCluster_codec_def InfrastructureTalosClusterSpec_codec_def InfrastructureTalosClusterStatus_codec_def
    InfrastructureTalosClusterSpec_doc_def InfrastructureTalosClusterStatus_doc_def
  have conds: "doc_list ?d [''status'', ''conditions''] = map (Condition_doc tt) (tct_Conditions (ao_Status x))"
    by (simp add: defs doc_lookup del: map_of_append)
  have strings: "doc_string ?d [''spec'', ''clusterEndpoint''] = tcs_ClusterEndpoint (ao_Spec x)"
      "doc_string ?d [''spec'', ''infrastructureProvider''] = tcs_InfrastructureProvider (ao_Spec x)"
      "doc_string ?d [''spec'', ''mode''] = tcs_Mode (ao_Spec x)" "doc_string ?d [''status'', ''origin''] = tct_Origin (ao_Status x)"
      "doc_string ?d [''metadata'', ''name''] = meta_string m (ao_Meta x) ''name''"
    by (simp_all add: defs doc_lookup meta_string_def del: map_of_append)
  show ?thesis
    by (simp add: deriveTalosClusterRecords_def TalosCluster_records_def hasConditionTrue_doc [OF conds] view_simps strings Let_def)
qed

lemma PackInstance_projected:
  "derivePackInstanceRecords (uobj_of_doc (cd_doc (InfrastructurePackInstance_codec tt m) x)) = PackInstance_records m x"
proof -
  let ?d = "cd_doc (InfrastructurePackInstance_codec tt m) x"
  note defs = InfrastructurePackInstance_codec_def InfrastructurePackInstanceSpec_codec_def InfrastructurePackInstanceStatus_codec_def
    InfrastructurePackInstanceSpec_doc_def InfrastructurePackInstanceStatus_doc_def
  have conds: "doc_list ?d [''status'', ''conditions''] = map (Condition_doc tt) (pit_Conditions (ao_Status x))"
    by (simp add: defs doc_lookup del: map_of_append)
  have strings: "doc_string ?d [''spec'', ''clusterPackRef''] = pis_ClusterPackRef (ao_Spec x)"
      "doc_string ?d [''spec'', ''targetClusterRef''] = pis_TargetClusterRef (ao_Spec x)"
      "doc_string ?d [''spec'', ''version''] = pis_Version (ao_Spec x)" "doc_string ?d [''status'', ''receiptDigest''] = []"
      "doc_string ?d [''metadata'', ''name''] = meta_string m (ao_Meta x) ''name''"
      "doc_string ?d [''metadata'', ''namespace''] = meta_string m (ao_Meta x) ''namespace''"
    by (simp_all add: defs doc_lookup meta_string_def del: map_of_append)
  show ?thesis
    by (simp add: derivePackInstanceRecords_def PackInstance_records_def hasConditionTrue_doc [OF conds] view_simps strings Let_def)
qed

lemma RunnerConfig_projected:
  "deriveRunnerConfigRecords (uobj_of_doc (cd_doc (InfrastructureRunnerConfig_codec tt m) x)) = RunnerConfig_records tt m x"
proof -
  let ?d = "cd_doc (InfrastructureRunnerConfig_codec tt m) x"
  note defs = InfrastructureRunnerConfig_codec_def InfrastructureRunnerConfigSpec_codec_def InfrastructureRunnerConfigStatus_codec_def
    InfrastructureRunnerConfigSpec_doc_def InfrastructureRunnerConfigStatus_doc_def
  have conds: "doc_list ?d [''status'', ''conditions''] = map (Condition_doc tt) (rct_Conditions (ao_Status x))"
    by (simp add: defs doc_lookup del: map_of_append)
  have strings: "doc_string ?d [''metadata'', ''name''] = meta_string m (ao_Meta x) ''name''"
      "doc_string ?d [''metadata'', ''namespace''] = meta_string m (ao_Meta x) ''namespace''"
    by (simp_all add: defs doc_lookup meta_string_def del: map_of_append)
  show ?thesis
    by (simp add: deriveRunnerConfigRecords_def RunnerConfig_records_def hasConditionTrue_doc [OF conds]
        conditionLastTransitionTime_doc [OF conds] view_simps strings clusterContextForNamespace_def Let_def)
qed

text \<open>
  What the API server admits, from the validation markers: the enumerations of the cluster type, the
  minimum of the rotation threshold, and the rule that an imported cluster has a role.
\<close>

definition admitted_cluster :: "InfrastructureTalosClusterSpec \<Rightarrow> InfrastructureTalosClusterStatus \<Rightarrow> bool" where
  "admitted_cluster spec status \<longleftrightarrow>
     tcs_Mode spec \<in> {InfrastructureTalosClusterModeBootstrap, InfrastructureTalosClusterModeImport} \<and>
     tcs_Role spec \<in> {[], InfrastructureTalosClusterRoleManagement, InfrastructureTalosClusterRoleTenant} \<and>
     tcs_InfrastructureProvider spec \<in> {[], InfrastructureProviderNative, InfrastructureProviderCAPI, InfrastructureProviderScreen} \<and>
     1 \<le> sint (tcs_PkiRotationThresholdDays spec) \<and>
     (tcs_Mode spec = InfrastructureTalosClusterModeImport \<longrightarrow> tcs_Role spec \<noteq> []) \<and>
     tct_Origin status \<in> {[], InfrastructureTalosClusterOriginBootstrapped, InfrastructureTalosClusterOriginImported}"

abbreviation cluster_gvk :: GVK where
  "cluster_gvk \<equiv> DSNSGVKs ! 0"

abbreviation pack_gvk :: GVK where
  "pack_gvk \<equiv> DSNSGVKs ! 1"

abbreviation runner_gvk :: GVK where
  "runner_gvk \<equiv> DSNSGVKs ! 4"

lemma derive_typed:
  "deriveRecords cluster_gvk = deriveTalosClusterRecords" "deriveRecords pack_gvk = derivePackInstanceRecords"
  "deriveRecords runner_gvk = deriveRunnerConfigRecords"
  by (simp_all add: fun_eq_iff deriveRecords_def DSNSGVKs_def)


section \<open>Properties of typed objects\<close>



text \<open>A cluster with its name as metadata, and times as decimal numbers.\<close>

definition sample_time :: time_text where
  "sample_time = \<lparr>tt_Format = dec_int,
     tt_Parse = (\<lambda>s. Some (if take 1 s = ''-'' then - digits_value (drop 1 s) else digits_value s))\<rparr>"

definition sample_meta :: "string codec" where
  "sample_meta = \<lparr>cd_doc = (\<lambda>n. DObject [(''name'', DStr n)]), cd_decode = decode_object [(''name'', decode_string)],
     cd_zero = [], cd_sound = (\<lambda>_. True)\<rparr>"

definition sample_cluster :: "string InfrastructureTalosCluster" where
  "sample_cluster =
     \<lparr>ao_Kind = ''InfrastructureTalosCluster'', ao_APIVersion = ''infrastructure.ontai.dev/v1alpha1'', ao_Meta = ''prod'',
      ao_Spec = zero_InfrastructureTalosClusterSpec\<lparr>tcs_Mode := ''import'', tcs_Role := ''tenant'',
        tcs_ClusterEndpoint := ''10.20.0.10:6443'', tcs_NodeAddresses := [''10.20.0.11''], tcs_PkiRotationThresholdDays := 30,
        tcs_HardeningProfileRef := Some \<lparr>lor_Name = ''cis'', lor_Namespace = []\<rparr>\<rparr>,
      ao_Status = zero_InfrastructureTalosClusterStatus\<lparr>tct_Conditions := [\<lparr>c_Type = ''Ready'', c_Status = ''True'',
        c_Reason = ''Running'', c_Message = ''x < y'', c_ObservedGeneration = 3, c_LastTransitionTime = 7 * 10 ^ 9\<rparr>]\<rparr>\<rparr>"

lemma documented_sample_time: "documented_time sample_time"
proof -
  have "take 1 (dec_nat n) \<noteq> ''-''" for n
    by (rule dec_nat_head [of n]) (auto simp: is_digit_def)
  then show ?thesis by (simp add: documented_time_def sample_time_def dec_int_def digits_value_dec_nat)
qed



end
