(* ===== verification/ApiScheme.thy ===== *)
theory ApiScheme
  imports DeepCopySafety Startup
begin

text \<open>
  The registration of the API types: \<^verbatim>\<open>src/api/v1alpha1/groupversion_info.go\<close>, the init functions of the
  \<^verbatim>\<open>*_types.go\<close> files, and the scheme of \<^verbatim>\<open>src/cmd/seam-core/main.go\<close>. An object given to Register is
  identified by its type name. The runtime scheme and its AddKnownTypes are not part of the repository:
  \<open>documented_scheme\<close> says that a call makes exactly the types it is given known, under their names.
\<close>

record 's scheme_library =
  sl_AddKnownTypes :: "string \<times> string \<Rightarrow> string list \<Rightarrow> 's \<Rightarrow> 's"
  sl_Recognizes :: "'s \<Rightarrow> GVK \<Rightarrow> bool"

definition documented_scheme :: "'s scheme_library \<Rightarrow> bool" where
  "documented_scheme sl \<longleftrightarrow> (\<forall>g v ts s k.
     sl_Recognizes sl (sl_AddKnownTypes sl (g, v) ts s) k \<longleftrightarrow>
       sl_Recognizes sl s k \<or> (\<exists>t \<in> set ts. k = mk_gvk g v t))"

definition GroupVersion :: "string \<times> string" where
  "GroupVersion = (''infrastructure.ontai.dev'', ''v1alpha1'')"

record scheme_builder =
  sb_GroupVersion :: "string \<times> string"
  sb_Calls :: "string list list"

definition SchemeBuilder :: scheme_builder where
  "SchemeBuilder = \<lparr>sb_GroupVersion = GroupVersion, sb_Calls = []\<rparr>"

definition Register :: "string list \<Rightarrow> scheme_builder \<Rightarrow> scheme_builder" where
  "Register objects b = b\<lparr>sb_Calls := sb_Calls b @ [objects]\<rparr>"

definition AddToScheme :: "'s scheme_library \<Rightarrow> scheme_builder \<Rightarrow> 's \<Rightarrow> 's" where
  "AddToScheme sl b s = foldl (\<lambda>s ts. sl_AddKnownTypes sl (sb_GroupVersion b) ts s) s (sb_Calls b)"

definition init_clusterpack :: "scheme_builder \<Rightarrow> scheme_builder" where
  "init_clusterpack = Register [''InfrastructureClusterPack'', ''InfrastructureClusterPackList'']"

definition init_driftsignal :: "scheme_builder \<Rightarrow> scheme_builder" where
  "init_driftsignal = Register [''DriftSignal'', ''DriftSignalList'']"

definition init_infrastructurelineageindex :: "scheme_builder \<Rightarrow> scheme_builder" where
  "init_infrastructurelineageindex = Register [''InfrastructureLineageIndex'', ''InfrastructureLineageIndexList'']"

definition init_packbuild :: "scheme_builder \<Rightarrow> scheme_builder" where
  "init_packbuild = Register [''InfrastructurePackBuild'', ''InfrastructurePackBuildList'']"

definition init_packexecution :: "scheme_builder \<Rightarrow> scheme_builder" where
  "init_packexecution = Register [''InfrastructurePackExecution'', ''InfrastructurePackExecutionList'']"

definition init_packinstance :: "scheme_builder \<Rightarrow> scheme_builder" where
  "init_packinstance = Register [''InfrastructurePackInstance'', ''InfrastructurePackInstanceList'']"

definition init_packoperationresult :: "scheme_builder \<Rightarrow> scheme_builder" where
  "init_packoperationresult = Register [''PackOperationResult'', ''PackOperationResultList'']"

definition init_packreceipt :: "scheme_builder \<Rightarrow> scheme_builder" where
  "init_packreceipt = Register [''InfrastructurePackReceipt'', ''InfrastructurePackReceiptList'']"

definition init_runnerconfig :: "scheme_builder \<Rightarrow> scheme_builder" where
  "init_runnerconfig = Register [''InfrastructureRunnerConfig'', ''InfrastructureRunnerConfigList'']"

definition init_seammembership :: "scheme_builder \<Rightarrow> scheme_builder" where
  "init_seammembership = Register [''SeamMembership'', ''SeamMembershipList'']"

definition init_taloscluster :: "scheme_builder \<Rightarrow> scheme_builder" where
  "init_taloscluster = Register [''InfrastructureTalosCluster'', ''InfrastructureTalosClusterList'']"

definition init_talosclusteroperationresult :: "scheme_builder \<Rightarrow> scheme_builder" where
  "init_talosclusteroperationresult = Register [''InfrastructureTalosClusterOperationResult'', ''InfrastructureTalosClusterOperationResultList'']"

text \<open>The init functions run in the order of their files, before main.\<close>

definition initialised_builder :: scheme_builder where
  "initialised_builder = fold (\<lambda>f. f)
     [init_clusterpack, init_driftsignal, init_infrastructurelineageindex, init_packbuild, init_packexecution,
      init_packinstance, init_packoperationresult, init_packreceipt, init_runnerconfig, init_seammembership, init_taloscluster, init_talosclusteroperationresult] SchemeBuilder"

definition AddToScheme_v1alpha1 :: "'s scheme_library \<Rightarrow> 's \<Rightarrow> 's" where
  "AddToScheme_v1alpha1 sl = AddToScheme sl initialised_builder"

definition main_scheme :: "'s scheme_library \<Rightarrow> ('s \<Rightarrow> 's) \<Rightarrow> 's \<Rightarrow> 's" where
  "main_scheme sl clientgo_AddToScheme new_scheme = AddToScheme_v1alpha1 sl (clientgo_AddToScheme new_scheme)"

lemmas init_defs = init_clusterpack_def init_driftsignal_def init_infrastructurelineageindex_def init_packbuild_def init_packexecution_def init_packinstance_def
  init_packoperationresult_def init_packreceipt_def init_runnerconfig_def init_seammembership_def init_taloscluster_def init_talosclusteroperationresult_def

lemma AddToScheme_recognizes:
  assumes "documented_scheme sl"
  shows "sl_Recognizes sl (AddToScheme sl b s) k \<longleftrightarrow>
    sl_Recognizes sl s k \<or> (\<exists>t \<in> set (concat (sb_Calls b)). k = mk_gvk (fst (sb_GroupVersion b)) (snd (sb_GroupVersion b)) t)"
proof -
  obtain g v where gv: "sb_GroupVersion b = (g, v)" by fastforce
  have "sl_Recognizes sl (foldl (\<lambda>s ts. sl_AddKnownTypes sl (g, v) ts s) s tss) k \<longleftrightarrow>
    sl_Recognizes sl s k \<or> (\<exists>t \<in> set (concat tss). k = mk_gvk g v t)" for tss
    using assms by (induction tss arbitrary: s) (auto simp: documented_scheme_def)
  then show ?thesis by (simp add: AddToScheme_def gv)
qed

lemma registered_calls:
  "sb_Calls initialised_builder = [
     [''InfrastructureClusterPack'', ''InfrastructureClusterPackList''],
     [''DriftSignal'', ''DriftSignalList''],
     [''InfrastructureLineageIndex'', ''InfrastructureLineageIndexList''],
     [''InfrastructurePackBuild'', ''InfrastructurePackBuildList''],
     [''InfrastructurePackExecution'', ''InfrastructurePackExecutionList''],
     [''InfrastructurePackInstance'', ''InfrastructurePackInstanceList''],
     [''PackOperationResult'', ''PackOperationResultList''],
     [''InfrastructurePackReceipt'', ''InfrastructurePackReceiptList''],
     [''InfrastructureRunnerConfig'', ''InfrastructureRunnerConfigList''],
     [''SeamMembership'', ''SeamMembershipList''],
     [''InfrastructureTalosCluster'', ''InfrastructureTalosClusterList''],
     [''InfrastructureTalosClusterOperationResult'', ''InfrastructureTalosClusterOperationResultList'']]"
  by (simp only: initialised_builder_def SchemeBuilder_def Register_def init_defs fold_simps id_apply
      scheme_builder.select_convs scheme_builder.update_convs append.simps)

text \<open>The types the init functions register are those with a DeepCopyObject method, without the star of the pointer.\<close>

lemma registered_have_deep_copy:
  "set (concat (sb_Calls initialised_builder)) = tl ` fst ` set (deep_copy_objects L)"
  unfolding registered_calls deep_copy_objects_def concat.simps append.simps list.set image_insert image_empty fst_conv list.sel
  by (intro equalityI; simp only: insert_subset empty_subsetI simp_thms; intro conjI; (rule insertI1 | rule insertI2)+)

lemma main_scheme_recognizes:
  assumes "documented_scheme sl"
  shows "sl_Recognizes sl (main_scheme sl add s) k \<longleftrightarrow> sl_Recognizes sl (add s) k
    \<or> (\<exists>(n, t, f) \<in> set (deep_copy_objects L). k = mk_gvk ''infrastructure.ontai.dev'' ''v1alpha1'' (tl n))"
proof -
  have "sb_GroupVersion initialised_builder = GroupVersion"
    by (simp add: initialised_builder_def SchemeBuilder_def Register_def init_defs)
  then show ?thesis
    unfolding main_scheme_def AddToScheme_v1alpha1_def AddToScheme_recognizes [OF assms] registered_have_deep_copy [of L]
    by (force simp: GroupVersion_def)
qed

text \<open>Of the watched kinds of the group only the two of the CAPI provider, which are read untyped, have no type here.\<close>

lemma watched_kinds_registered:
  "set (map gvk_Kind (filter (\<lambda>g. gvk_Group g = ''infrastructure.ontai.dev'')
      (RootDeclarationGVKs @ DerivedObjectGVKs @ DSNSGVKs)))
   \<subseteq> set ([''SeamInfrastructureCluster'', ''SeamInfrastructureMachine''] @ concat (sb_Calls initialised_builder))"
proof -
  have "map gvk_Kind (filter (\<lambda>g. gvk_Group g = ''infrastructure.ontai.dev'')
      (RootDeclarationGVKs @ DerivedObjectGVKs @ DSNSGVKs)) =
    [''InfrastructureTalosCluster'', ''SeamInfrastructureCluster'', ''SeamInfrastructureMachine'',
     ''InfrastructureClusterPack'', ''InfrastructurePackExecution'', ''InfrastructurePackInstance'',
     ''InfrastructureRunnerConfig'', ''InfrastructurePackInstance'',
     ''InfrastructureTalosCluster'', ''InfrastructurePackInstance'', ''InfrastructureRunnerConfig'']"
    by (simp add: RootDeclarationGVKs_def DerivedObjectGVKs_def DSNSGVKs_def mk_gvk_def)
  then show ?thesis
    unfolding registered_calls concat.simps append.simps list.set
    by (simp only: list.set insert_subset empty_subsetI simp_thms) (intro conjI; (rule insertI1 | rule insertI2)+)
qed

end
