(* ===== verification/Spec2Isabelle.thy ===== *)
theory Spec2Isabelle
  imports DeepCopySafety DsnsConcurrency RegistryRaces Startup ConditionPoller RegistryClient E2eHelpers ApiObjects ApiScheme
begin

text \<open>
  Verification of seam-core, the schema controller of the Seam platform (\<^verbatim>\<open>src/\<close>, Go).

  THE PROGRAM. One process (\<^verbatim>\<open>cmd/seam-core/main.go\<close>) runs controllers and admission webhooks in a
  management cluster.
  (1) The lineage reconciler keeps one InfrastructureLineageIndex (the index) per root declaration: it
  creates the index, prunes stale entries, sets the owner reference, annotates the root and writes its
  LineageSynced condition. The descendant reconciler appends derived objects, which name their index by
  labels, to its descendant registry; the outcome reconciler appends terminal outcomes.
  (2) The webhooks guard indexes: only the controller's account writes them, a root binding never
  changes, a domain reference is the one of the infrastructure domain.
  (3) The name service (DSNS) projects five kinds of objects into one DNS zone held in memory under a
  mutex and published as a ConfigMap, with a mirror copy and a list of event sinks.
  (4) Shared packages: the condition vocabulary and its helpers, the lineage labels and index names, the
  API types with their JSON form and generated deep copies, and helpers for end-to-end tests.

  THE THEORIES, with the files under \<^verbatim>\<open>src/\<close> they translate. Definitions carry the Go names; a struct is a
  record whose fields keep their names behind a short prefix; a method on a pointer receiver takes and
  returns the state, or lives in the state monad over the world behind the API client; an error is
  \<open>Inl\<close> or \<open>Some\<close>. Integers are words where their width matters, bytes of strings are characters.
  \<^item> Prelude: strings, strconv, fmt and errors of the Go library. Kube, Client: conditions, keys, untyped
    objects, and the API client and clock as a parameter with a view of the store.
  \<^item> Zone (\<^verbatim>\<open>internal/dns/zone.go\<close>), ConfigMapWriter (\<^verbatim>\<open>configmap.go\<close>), DsnsState (\<^verbatim>\<open>state.go, event.go,
    sink_registry.go\<close>), DsnsConcurrency (interleaved Apply calls as a step relation).
  \<^item> Sha256, DsnsRecords, DsnsReconciler (\<^verbatim>\<open>internal/controller/dsns_reconciler.go\<close>): record derivation, then
    the control loop.
  \<^item> LineagePkg (\<^verbatim>\<open>pkg/lineage\<close>), LineageTypes (\<^verbatim>\<open>infrastructurelineageindex_types.go\<close>), LineageController
    (\<^verbatim>\<open>lineage_controller.go\<close>), Registry with DescendantReconciler and OutcomeReconciler (the files of those
    names), RegistryRaces (two concurrent registrations).
  \<^item> GoJson (text to value and back, UTF-8, float64 rounding), GoStruct (decoding into structs), Webhook
    (\<^verbatim>\<open>internal/webhook\<close>): the three decisions and their handlers on raw request bytes.
  \<^item> ConditionVocabulary, Conditions (\<^verbatim>\<open>pkg/conditions\<close>).
  \<^item> Startup (\<^verbatim>\<open>main.go\<close>, the SetupWithManager methods, webhook registration): flags, environment, order of
    registrations, every exit.
  \<^item> ApiJson, ApiCluster, ApiPacks (\<^verbatim>\<open>api/v1alpha1/*_types.go\<close>): every struct with the JSON form and the
    decoder its tags give; ApiObjects: whole objects and what the untyped accessors see of them.
  \<^item> GoMemory, GoTypes, DeepCopy, DeepCopySafety (\<^verbatim>\<open>zz_generated.deepcopy.go\<close>): an explicit memory with
    pointers, slices and maps, the struct types as descriptors, all 186 generated methods statement by
    statement. ApiScheme (\<^verbatim>\<open>groupversion_info.go\<close>, the init functions, the scheme of \<^verbatim>\<open>main.go\<close>): which
    kinds the runtime scheme recognizes.
  \<^item> ConditionPoller, RegistryClient, E2eHelpers (\<^verbatim>\<open>pkg/e2e\<close>).
  This theory composes the writers of indexes with each other, with the webhooks and with the labels.

  WHAT IS SHOWN.
  \<^item> Refinement: every reconcile against a documented server is one of the outcomes of its specification
    (\<open>DSNS_Reconcile_refines\<close>, \<open>Lineage_Reconcile_refines\<close>); the shared state is a union of contributions
    of owners (\<open>dsns_refines\<close>, \<open>population_projected\<close>).
  \<^item> Invariants and safety: what a reconcile, or any sequence of them, keeps of an index
    (\<open>index_history_kept\<close>, \<open>index_life_kept\<close>), the order of publishing and releasing finalizers, the published
    text under interleavings, that the controllers pass their own webhooks.
  \<^item> Exactness of decisions: the admission gates on all JSON texts, ValidateCondition against the vocabulary,
    the classification of outcomes, and the inputs on which documentation and code differ.
  \<^item> Convergence and termination: a second lineage reconcile changes nothing; a poll returns.
  \<^item> Round trips: rendered zones, JSON forms of all kinds, artifacts pushed and pulled.
  \<^item> Deep copies: every DeepCopy gives a value with the content of the original that shares no memory
    with it, except that of InfrastructurePackReceipt, which shares a slice, and so that of its list
    (\<open>list_write_visible\<close>).

  INTERFACES. \<open>zone_store\<close> (the zone as a map, interpreted on ZoneFile), \<open>condition_writer\<close> (SetCondition and
  the LineageSynced writer), \<open>append_registry\<close> (both registries), \<open>admission_gate\<close> (the three gates),
  \<open>json_codec\<close> and \<open>api_kind\<close> (the OCI manifest, and spec and status of each kind). The contract of a copy
  is the predicate \<open>copies\<close>, with one lemma per statement form and one per method.

  PARAMETERS AND WHAT IS ASSUMED OF THEM, always as a named hypothesis. \<open>documented\<close>: the API server stores
  what succeeds, changes nothing on an error and answers reads from the store; \<open>answers\<close>: no call
  fails without such a reason. \<open>documented_runtime\<close>: the manager of controller-runtime.
  \<open>documented_registry\<close>, \<open>answering_registry\<close>: the OCI distribution protocol. \<open>documented_namespaces\<close>: the
  namespace calls of a cluster. \<open>ticking\<close>: the ticker and the clock of a poll. \<open>documented_time\<close>: formatting and
  parsing of times. \<open>documented_library\<close>: the deep copies of the apimachinery types, and that ranging over a
  map visits each entry once, in any order. \<open>documented_scheme\<close>: AddKnownTypes of a
  runtime scheme. The codec of object metadata is a parameter of the kinds.

  FUEL AND BOUNDS. The JSON parser has fuel twice the length of the text plus one, and \<open>parse_fuel\<close> shows that
  more changes nothing. The poll loop is a partial function, with its termination proved from
  \<open>ticking\<close>. All other recursion is total: structural, or with a measure. Generations are compared
  exactly up to 2^53; above, the gate rounds (\<open>rootBinding_gate_rounds\<close>). The retention window is exact up to 106751 days. Blobs are below
  2^63 bytes, the SHA-256 message length as in the standard.

  LIMITS OF THE MODEL. Lower-casing is the one of ASCII; field names of JSON fold ASCII letters and the
  two others that fold into them. Quoting in error texts is exact for ASCII and writes every other byte as
  a hexadecimal escape. Times are integers with a format parameter. The messages of JSON errors are
  abbreviated to their kind. Slices have no capacity, and a DeepCopyInto is the value it leaves at its
  target, which no one else can see before it returns.

  NOT MODELLED. Logging and metrics, which no result depends on; the embedded CRD files
  (\<^verbatim>\<open>config/crd/embed.go\<close>), one declaration without logic; the setters of the unused webhook decoders; the YAML
  manifests, scripts and the tests.
\<close>


section \<open>The life of a lineage index\<close>

text \<open>
  The three reconcilers that write indexes, called in any order for any kinds and objects, with
  changes by others in between. Others write any object except an index: the authorship gate
  rejects their creations and updates, and deletion is left out.
\<close>

datatype index_call =
    LineageCall GVK NamespacedName
  | DescendantCall GVK NamespacedName
  | OutcomeCall GVK NamespacedName

fun run_call :: "'w client \<Rightarrow> index_call \<Rightarrow> ('w, Result \<times> goerror option) state" where
  "run_call c (LineageCall g req) = Lineage_Reconcile c g req"
| "run_call c (DescendantCall g req) = Descendant_Reconcile c g req"
| "run_call c (OutcomeCall g req) = Outcome_Reconcile c g req"

inductive index_life :: "'w client \<Rightarrow> 'w view \<Rightarrow> 'w \<Rightarrow> 'w \<Rightarrow> bool" for c v w where
  Begin: "index_life c v w w"
| Call: "index_life c v w w1 \<Longrightarrow> run_state (run_call c call) w1 = (r, w2) \<Longrightarrow> index_life c v w w2"
| Others: "index_life c v w w1 \<Longrightarrow> vw_ILI v w2 = vw_ILI v w1 \<Longrightarrow> index_life c v w w2"

text \<open>What an index keeps over its life.\<close>

definition index_kept :: "ILI \<Rightarrow> ILI \<Rightarrow> bool" where
  "index_kept ili ili' \<longleftrightarrow>
     (\<exists>ds os. ili_Spec ili' = (ili_Spec ili)\<lparr>spec_DescendantRegistry := ds, spec_OutcomeRegistry := os\<rparr>) \<and>
     prefix (ili_Outcomes ili) (ili_Outcomes ili') \<and>
     (distinct (map oe_DerivedObjectUID (ili_Outcomes ili)) \<longrightarrow> distinct (map oe_DerivedObjectUID (ili_Outcomes ili'))) \<and>
     (distinct (map de_UID (ili_Descendants ili)) \<longrightarrow> distinct (map de_UID (ili_Descendants ili')))"

lemma index_kept_refl [simp]: "index_kept ili ili"
  unfolding index_kept_def
  by (intro conjI exI [of _ "ili_Descendants ili"] exI [of _ "ili_Outcomes ili"]) simp_all

lemma index_kept_trans: "index_kept a b \<Longrightarrow> index_kept b d \<Longrightarrow> index_kept a d"
  unfolding index_kept_def by (elim conjE exE) (intro conjI; force intro: prefix_order.trans)

lemma index_keptI:
  assumes "ili_Spec ili' = (ili_Spec ili)\<lparr>spec_DescendantRegistry := ds, spec_OutcomeRegistry := os\<rparr>"
    and "prefix (ili_Outcomes ili) os"
    and "distinct (map oe_DerivedObjectUID (ili_Outcomes ili)) \<Longrightarrow> distinct (map oe_DerivedObjectUID os)"
    and "distinct (map de_UID (ili_Descendants ili)) \<Longrightarrow> distinct (map de_UID ds)"
  shows "index_kept ili ili'"
  using assms by (auto simp: index_kept_def)

lemma lineage_keeps:
  assumes "lineage_outcome v g req w err w'" and "vw_ILI v w k = Some ili"
  shows "\<exists>ili'. vw_ILI v w' k = Some ili' \<and> index_kept ili ili'"
proof -
  obtain ili' where ili': "vw_ILI v w' k = Some ili'" "ili_Spec ili' = (ili_Spec ili)\<lparr>spec_DescendantRegistry := ili_Descendants ili'\<rparr>"
    and sub: "dropped (prunable v w (retentionWindow (retentionDays ili))) (ili_Descendants ili) (ili_Descendants ili')"
    using lineage_outcome_ili [OF assms] by blast
  have "index_kept ili ili'"
    by (rule index_keptI [where ds = "ili_Descendants ili'" and os = "ili_Outcomes ili"])
      (subst ili'(2), simp, use dropped_distinct [OF sub] in simp_all)
  with ili'(1) show ?thesis by blast
qed

lemma spec_set_Descendants:
  "ili' = set_Descendants ds ili \<Longrightarrow> ili_Spec ili' = (ili_Spec ili)\<lparr>spec_DescendantRegistry := ds, spec_OutcomeRegistry := ili_Outcomes ili\<rparr>"
  by (simp add: set_Descendants_def)

lemma spec_set_Outcomes:
  "ili' = set_Outcomes os ili \<Longrightarrow> ili_Spec ili' = (ili_Spec ili)\<lparr>spec_DescendantRegistry := ili_Descendants ili, spec_OutcomeRegistry := os\<rparr>"
  by (simp add: set_Outcomes_def)

lemma call_keeps:
  assumes "documented c v" and "run_state (run_call c call) w = (r, w')" and "vw_ILI v w k = Some ili"
  shows "\<exists>ili'. vw_ILI v w' k = Some ili' \<and> index_kept ili ili'"
proof (cases call)
  case (LineageCall g req)
  with assms lineage_outcome_run [OF assms(1), of g req w "fst r" "snd r" w']
  have "lineage_outcome v g req w (snd r) w'" by simp
  from lineage_keeps [OF this assms(3)] show ?thesis .
next
  case (DescendantCall g req)
  with assms wp_runD [OF Descendant_Reconcile_documented [OF assms(1)], of g req w r w'] have "descendant_effect v g req w r w'" by simp
  from descendant_effect_ili [OF this assms(3)] show ?thesis
    by (metis index_keptI [where os = "ili_Outcomes ili"] prefix_order.refl spec_set_Descendants)
next
  case (OutcomeCall g req)
  with assms wp_runD [OF Outcome_Reconcile_documented [OF assms(1)], of g req w r w'] have "outcome_effect v g req w r w'" by simp
  from outcome_effect_ili [OF this assms(3)] show ?thesis
    by (metis index_keptI [where ds = "ili_Descendants ili"] spec_set_Outcomes)
qed

text \<open>C31 (index_life_kept): over any sequence of lineage, descendant and outcome reconciles, failing or not, an index
  that is stored stays stored with the root binding, domain reference and retention policy it was
  created with; its outcomes only grow at the end; and neither registry ever holds two entries for
  one object UID if it held none before.\<close>

theorem index_life_kept:
  assumes "documented c v" and "index_life c v w w'" and "vw_ILI v w k = Some ili"
  shows "\<exists>ili'. vw_ILI v w' k = Some ili' \<and> index_kept ili ili'"
  using assms(2)
proof (induction rule: index_life.induct)
  case Begin
  then show ?case using assms(3) by simp
next
  case (Call w1 call r w2)
  then show ?case using call_keeps [OF assms(1)] index_kept_trans by blast
next
  case (Others w1 w2)
  then show ?case by simp
qed

definition after_call :: "index_call \<Rightarrow> mem \<Rightarrow> mem" where
  "after_call call w = snd (run_state (run_call mem_client call) w)"

lemma after_call_life: "index_life mem_client mem_view w w1 \<Longrightarrow> index_life mem_client mem_view w (after_call call w1)"
  unfolding after_call_def by (rule Call [OF _ surjective_pairing])

theorem index_life_kept_witness:
  "\<exists>ili'. vw_ILI mem_view
       (after_call (OutcomeCall (DerivedObjectGVKs ! 0) (u_key sample_root))
         (after_call (LineageCall rbac_policy (u_key sample_root)) indexed_world))
       (ili_key_of rbac_policy sample_root) = Some ili' \<and>
     index_kept (buildILI rbac_policy sample_root sample_index_name) ili'"
  by (rule index_life_kept [OF mem_documented after_call_life [OF after_call_life [OF Begin]] indexed_world_ili])


section \<open>From the label helper to the registry\<close>

lemma root_ili_key_labels:
  assumes "n \<noteq> []" and "ns \<noteq> []"
  shows "root_ili_key (SetDescendantLabels obj n ns op rat actor) = Some \<lparr>nn_Namespace = ns, nn_Name = n\<rparr>"
  using assms by (simp add: root_ili_key_def ili_namespace_def mapget_def map_of_SetDescendantLabels Let_def)

lemma descendant_entry_labels:
  "de_SeamOperator (descendant_entry g (SetDescendantLabels obj n ns op rat actor) ili now) = op"
  "de_CreationRationale (descendant_entry g (SetDescendantLabels obj n ns op rat actor) ili now) = rat"
  "de_ActorRef (descendant_entry g (SetDescendantLabels obj n ns op rat actor) ili now) =
     (if rb_DeclaringPrincipal (ili_RootBinding ili) = [] then actor else rb_DeclaringPrincipal (ili_RootBinding ili))"
  "de_UID (descendant_entry g (SetDescendantLabels obj n ns op rat actor) ili now) = u_UID obj"
  by (simp_all add: descendant_entry_def mapget_def map_of_SetDescendantLabels Let_def) (simp add: SetDescendantLabels_def Let_def)


definition labelled_runner :: uobj where
  "labelled_runner = SetDescendantLabels (sample_root\<lparr>u_Name := ''rc'', u_UID := ''u2''\<rparr>)
     sample_index_name ''seam-system'' ''platform'' ConductorAssignment ''alice''"

definition labelled_world :: mem where
  "labelled_world = mem_set (DerivedObjectGVKs ! 0) (u_key labelled_runner) (Some labelled_runner) indexed_world"

lemma labelled_runner_run:
  "\<exists>w'. run_state (Descendant_Reconcile mem_client (DerivedObjectGVKs ! 0) (u_key labelled_runner)) labelled_world = ((done_result, None), w')"
proof -
  have labels: "map_of (u_Labels labelled_runner) LabelRootILI = Some sample_index_name" "ili_namespace labelled_runner = ''seam-system''"
    by (simp_all add: labelled_runner_def map_of_SetDescendantLabels ili_namespace_def mapget_def)
  have ns: "u_Namespace sample_root = ''seam-system''" by (simp add: sample_root_def)
  have ili: "visible ili_key (mem_ILI indexed_world) \<lparr>nn_Namespace = ''seam-system'', nn_Name = sample_index_name\<rparr> =
      Some (buildILI rbac_policy sample_root sample_index_name)"
    using indexed_world_ili by (simp add: mem_view_def ili_key_of_def ns)
  have "ili_Descendants (buildILI rbac_policy sample_root sample_index_name) = []" by (simp add: buildILI_def Let_def)
  then show ?thesis
    using labels ili by (simp add: Descendant_Reconcile_def mem_eval labelled_world_def ns)
qed



section \<open>The gates and the controllers\<close>

text \<open>
  The admission request for a write that the controllers' account makes: the stored index, if there
  was one, and the index to be stored, as JSON texts of any layout.
\<close>

definition index_request :: "AdmissionRequest \<Rightarrow> ILI option \<Rightarrow> ILI \<Rightarrow> bool" where
  "index_request req old ili \<longleftrightarrow>
     ar_Kind req = InfrastructureLineageIndexKind \<and> ar_Username req = LineageControllerIdentity \<and>
     carries_binding (ar_ObjectRaw req) (ili_RootBinding ili) \<and>
     (\<exists>raw. carries ''domainRef'' (ar_ObjectRaw req) raw (JString (spec_DomainRef (ili_Spec ili)))) \<and>
     (case old of
        None \<Rightarrow> ar_Operation req = OperationCreate \<and> ar_OldObjectRaw req = []
      | Some ili0 \<Rightarrow> ar_Operation req = OperationUpdate \<and> carries_binding (ar_OldObjectRaw req) (ili_RootBinding ili0))"

lemma call_creates:
  assumes "documented c v" and "run_state (run_call c call) w = (r, w')"
    and "vw_ILI v w k = None" and "vw_ILI v w' k = Some ili"
  shows "spec_DomainRef (ili_Spec ili) = ValidInfrastructureDomainRef"
proof (cases call)
  case (LineageCall g req)
  with assms lineage_outcome_run [OF assms(1), of g req w "fst r" "snd r" w']
  have "lineage_outcome v g req w (snd r) w'" by simp
  from lineage_outcome_created [OF this assms(3,4)] show ?thesis by (auto simp: buildILI_def Let_def)
next
  case (DescendantCall g req)
  with assms wp_runD [OF Descendant_Reconcile_documented [OF assms(1)], of g req w r w'] have "descendant_effect v g req w r w'" by simp
  with assms(3,4) show ?thesis
    by (auto simp: descendant_effect_def same_view_def put_ILI_def split: prod.splits option.splits if_splits)
next
  case (OutcomeCall g req)
  with assms wp_runD [OF Outcome_Reconcile_documented [OF assms(1)], of g req w r w'] have "outcome_effect v g req w r w'" by simp
  with assms(3,4) show ?thesis
    by (auto simp: outcome_effect_def same_view_def put_ILI_def split: option.splits if_splits)
qed

lemma ungated:
  "ar_Operation req \<noteq> OperationCreate \<Longrightarrow> extractDomainRef (ar_ObjectRaw req) = Inr d \<Longrightarrow> DomainRefValidation_Handle req = Allowed []"
  "ar_Operation req \<noteq> OperationUpdate \<Longrightarrow> extractRootBinding (ar_ObjectRaw req) = Inr b \<Longrightarrow> ar_OldObjectRaw req = [] \<Longrightarrow>
     RootBindingImmutability_Handle req = Allowed []"
  "ar_Username req = LineageControllerIdentity \<Longrightarrow> AuthorshipGate_Handle req = Allowed []"
  by (simp_all add: DomainRefValidation_Handle_def EvaluateDomainRefValidation_def RootBindingImmutability_Handle_def
      EvaluateRootBindingImmutability_def AuthorshipGate_Handle_def EvaluateAuthorshipGate_def extractRootBinding_def Let_def)

text \<open>C32 (controller_writes_admitted): the gates never stand in the way of the reconcilers: whatever index a lineage,
  descendant or outcome reconcile leaves behind, the request that writes it passes all three
  handlers, as long as the root's generation is at most two to the 53.\<close>

theorem controller_writes_admitted:
  assumes "documented c v" and "run_state (run_call c call) w = (r, w')"
    and "vw_ILI v w' k = Some ili" and "index_request req (vw_ILI v w k) ili"
    and "\<bar>rb_RootObservedGeneration (ili_RootBinding ili)\<bar> \<le> 2 ^ 53"
  shows "Handle h req = Allowed []"
proof -
  obtain raw where dom: "carries ''domainRef'' (ar_ObjectRaw req) raw (JString (spec_DomainRef (ili_Spec ili)))"
    and bind: "carries_binding (ar_ObjectRaw req) (ili_RootBinding ili)"
    and req: "ar_Kind req = InfrastructureLineageIndexKind" "ar_Username req = LineageControllerIdentity"
    using assms(4) by (auto simp: index_request_def)
  have auth: "AuthorshipGate_Handle req = Allowed []" using ungated(3) req(2) by blast
  have gen: "generation_value (ili_RootBinding ili) \<noteq> None"
    using assms(5) by (simp add: generation_value_def parse_float64_exact)
  show ?thesis
  proof (cases "vw_ILI v w k")
    case None
    then have create: "ar_Operation req = OperationCreate" "ar_OldObjectRaw req = []" using assms(4) by (simp_all add: index_request_def)
    obtain b where "extractRootBinding (ar_ObjectRaw req) = Inr b"
      using bind extractRootBinding_carried by (auto simp: carries_binding_def)
    with create ungated(2) have "RootBindingImmutability_Handle req = Allowed []" by simp
    moreover have "DomainRefValidation_Handle req = Allowed []"
      using extractDomainRef_carried [OF dom] call_creates [OF assms(1,2) None assms(3)]
      by (simp add: DomainRefValidation_Handle_def EvaluateDomainRefValidation_def)
    ultimately show ?thesis using auth by (cases h) simp_all
  next
    case (Some ili0)
    then have update: "ar_Operation req = OperationUpdate" "carries_binding (ar_OldObjectRaw req) (ili_RootBinding ili0)"
      using assms(4) by (simp_all add: index_request_def)
    obtain ili' where "vw_ILI v w' k = Some ili'" "index_kept ili0 ili'" using call_keeps [OF assms(1,2) Some] by blast
    with assms(3) have same: "ili_RootBinding ili = ili_RootBinding ili0" by (auto simp: index_kept_def)
    have "RootBindingImmutability_Handle req = Allowed []"
      using immutability_handle [OF update(2) bind _ gen req(1) update(1)] gen same by simp
    moreover have "DomainRefValidation_Handle req = Allowed []"
      using ungated(1) [OF _ extractDomainRef_carried [OF dom]] update(1) by simp
    ultimately show ?thesis using auth by (cases h) simp_all
  qed
qed

theorem controller_writes_admitted_witness:
  "Handle RootBindingImmutabilityHandler
     (sample_update (ili_RootBinding (buildILI rbac_policy sample_root sample_index_name))
       (ili_RootBinding (buildILI rbac_policy sample_root sample_index_name))) = Allowed []"
proof -
  let ?ili = "buildILI rbac_policy sample_root sample_index_name" and ?call = "LineageCall rbac_policy (u_key sample_root)"
  have rb: "utf8_binding (ili_RootBinding ?ili)" "\<bar>rb_RootObservedGeneration (ili_RootBinding ?ili)\<bar> \<le> 2 ^ 53"
      "spec_DomainRef (ili_Spec ?ili) = ValidInfrastructureDomainRef"
    by (simp_all add: utf8_binding_def buildILI_def Let_def sample_root_def rbac_policy_def mk_gvk_def mapget_def)
  obtain r w' where run: "run_state (run_call mem_client ?call) indexed_world = (r, w')" by (metis surj_pair)
  obtain ili' where ili': "vw_ILI mem_view w' (ili_key_of rbac_policy sample_root) = Some ili'" "index_kept ?ili ili'"
    using call_keeps [OF mem_documented run indexed_world_ili] by blast
  then have same: "ili_RootBinding ili' = ili_RootBinding ?ili" "spec_DomainRef (ili_Spec ili') = spec_DomainRef (ili_Spec ?ili)"
    by (auto simp: index_kept_def)
  have "index_request (sample_update (ili_RootBinding ?ili) (ili_RootBinding ?ili))
      (vw_ILI mem_view indexed_world (ili_key_of rbac_policy sample_root)) ili'"
    using index_doc_carries_binding [OF rb(1) sample_utf8(4)] index_doc_carries(2) [OF rb(1) sample_utf8(4)]
    by (auto simp: index_request_def sample_update_def indexed_world_ili same rb(3))
  from controller_writes_admitted [OF mem_documented run ili'(1) this] rb(2) show ?thesis by (simp only: same)
qed

end
